(* ===== verification/Prelude.thy ===== *)
theory Prelude
  imports Main "HOL-Library.Monad_Syntax" "HOL-Library.AList"
begin

text \<open>
  Shared vocabulary of the development: Python's exceptions as values, the two result types
  (\<open>'a option\<close> where only the fact that some exception escapes matters, \<open>exc + 'a\<close> where
  its kind matters), loops over lists that may raise, and rows of a keyed table.
  The theorem collections \<open>py\<close> (evaluation of Python primitives), \<open>row\<close> (keyed tables)
  and \<open>frame\<close> (what an operation leaves alone) are filled by the theories that follow.
\<close>

named_theorems py "unfolding rules of the Python primitives"
named_theorems row "lookup and update laws of the keyed tables"
named_theorems frame "state components that an operation does not touch"

section \<open>Exceptions\<close>

text \<open>
  The exception classes that the code raises or catches by name; \<open>PyError\<close> is any other
  Python exception (TypeError, AttributeError, KeyError, IndexError, AssertionError).
\<close>

datatype pf_kind = PfBase | PfAuth | PfForbidden | PfNotFound | PfResponse | PfUnavailable

datatype exc =
    HTTPException int string
  | StepAdvanceError string
  | BudgetExceededError string string
  | LoopDetectedError string
  | ProviderError string bool
  | PriceFrameError pf_kind string "int option"
  | ToolPermissionError string
  | AuthTokenError string
  | ValueError string
  | RuntimeError string
  | PyError

type_synonym 'a res = "exc + 'a"

definition ebind :: "'a res \<Rightarrow> ('a \<Rightarrow> 'b res) \<Rightarrow> 'b res" where
  "ebind m f = (case m of Inl e \<Rightarrow> Inl e | Inr x \<Rightarrow> f x)"

definition of_opt :: "'a option \<Rightarrow> 'a res" where
  "of_opt x = (case x of None \<Rightarrow> Inl PyError | Some y \<Rightarrow> Inr y)"

lemma ebind_simps [simp]:
  "ebind (Inl e) f = Inl e"
  "ebind (Inr x) f = f x"
  by (simp_all add: ebind_def)

lemma ebind_Inr_conv: "ebind m f = Inr y \<longleftrightarrow> (\<exists>x. m = Inr x \<and> f x = Inr y)"
  by (cases m) auto

lemma of_opt_simps [simp]:
  "of_opt None = Inl PyError"
  "of_opt (Some x) = Inr x"
  by (simp_all add: of_opt_def)

lemma of_opt_Inr_conv [simp]: "of_opt m = Inr x \<longleftrightarrow> m = Some x"
  by (cases m) auto

text \<open>\<open>str(exc)\<close> of the exceptions with a message.\<close>

fun exc_text :: "exc \<Rightarrow> string" where
  "exc_text (HTTPException st d) = d"
| "exc_text (StepAdvanceError m) = m"
| "exc_text (BudgetExceededError a m) = m"
| "exc_text (LoopDetectedError m) = m"
| "exc_text (ProviderError m b) = m"
| "exc_text (PriceFrameError k m st) = m"
| "exc_text (ToolPermissionError m) = m"
| "exc_text (AuthTokenError m) = m"
| "exc_text (ValueError m) = m"
| "exc_text (RuntimeError m) = m"
| "exc_text PyError = []"

section \<open>Loops that may raise\<close>

primrec ofold :: "('s \<Rightarrow> 'a \<Rightarrow> 's option) \<Rightarrow> 's \<Rightarrow> 'a list \<Rightarrow> 's option" where
  "ofold f s [] = Some s"
| "ofold f s (x # xs) = (case f s x of None \<Rightarrow> None | Some s' \<Rightarrow> ofold f s' xs)"

primrec omap :: "('a \<Rightarrow> 'b option) \<Rightarrow> 'a list \<Rightarrow> 'b list option" where
  "omap f [] = Some []"
| "omap f (x # xs) =
     (case f x of None \<Rightarrow> None
      | Some y \<Rightarrow> (case omap f xs of None \<Rightarrow> None | Some ys \<Rightarrow> Some (y # ys)))"

text \<open>The first hit of a scan (a loop with an early return), where a test may raise.\<close>

primrec ofind :: "('a \<Rightarrow> bool option) \<Rightarrow> 'a list \<Rightarrow> 'a option option" where
  "ofind p [] = Some None"
| "ofind p (x # xs) =
     (case p x of None \<Rightarrow> None | Some b \<Rightarrow> if b then Some (Some x) else ofind p xs)"

lemma ofold_append [simp]:
  "ofold f s (xs @ ys) = Option.bind (ofold f s xs) (\<lambda>t. ofold f t ys)"
  by (induction xs arbitrary: s) (auto split: option.splits)

lemma ofold_invariant:
  assumes "ofold f s xs = Some t" and "P s"
    and "\<And>s x s'. x \<in> set xs \<Longrightarrow> P s \<Longrightarrow> f s x = Some s' \<Longrightarrow> P s'"
  shows "P t"
  using assms
proof (induction xs arbitrary: s)
  case (Cons x xs)
  from Cons.prems(1) obtain s' where s': "f s x = Some s'" and rest: "ofold f s' xs = Some t"
    by (auto split: option.splits)
  have "P s'" by (rule Cons.prems(3) [OF _ Cons.prems(2) s']) simp
  from rest this show ?case
    by (rule Cons.IH) (rule Cons.prems(3), auto)
qed simp

lemma ofold_total:
  assumes "\<And>s x. x \<in> set xs \<Longrightarrow> \<exists>s'. f s x = Some s'"
  shows "\<exists>t. ofold f s xs = Some t"
  using assms
proof (induction xs arbitrary: s)
  case (Cons x xs)
  obtain s' where s': "f s x = Some s'" using Cons.prems [of x s] by auto
  have "\<exists>t. ofold f s' xs = Some t" by (rule Cons.IH) (use Cons.prems in auto)
  with s' show ?case by simp
qed simp

lemma ofold_Some_fold: "ofold (\<lambda>s x. Some (g s x)) s xs = Some (foldl g s xs)"
  by (induction xs arbitrary: s) auto

lemma omap_Some_iff: "omap f xs = Some ys \<longleftrightarrow> map f xs = map Some ys"
proof (induction xs arbitrary: ys)
  case (Cons x xs)
  show ?case
  proof (cases ys)
    case (Cons z zs)
    with Cons.IH [of zs] show ?thesis by (auto split: option.splits)
  qed (simp split: option.splits)
qed auto

lemma omap_length: "omap f xs = Some ys \<Longrightarrow> length ys = length xs"
  by (auto simp: omap_Some_iff dest: map_eq_imp_length_eq)

lemma omap_Some [simp]: "omap (\<lambda>x. Some (f x)) xs = Some (map f xs)"
  by (induction xs) auto

lemma omap_total: "(\<And>x. x \<in> set xs \<Longrightarrow> \<exists>y. f x = Some y) \<Longrightarrow> \<exists>ys. omap f xs = Some ys"
proof (induction xs)
  case (Cons x xs)
  obtain y where "f x = Some y" using Cons.prems by auto
  moreover obtain ys where "omap f xs = Some ys" using Cons.IH Cons.prems by auto
  ultimately show ?case by simp
qed simp

lemma ofind_Some_SomeD:
  assumes "ofind p xs = Some (Some x)"
  shows "x \<in> set xs \<and> p x = Some True"
  using assms by (induction xs) (auto split: option.splits if_splits)

lemma ofind_total: "(\<And>x. x \<in> set xs \<Longrightarrow> \<exists>b. p x = Some b) \<Longrightarrow> \<exists>r. ofind p xs = Some r"
proof (induction xs)
  case (Cons x xs)
  obtain b where "p x = Some b" using Cons.prems by auto
  moreover obtain r where "ofind p xs = Some r" using Cons.IH Cons.prems by auto
  ultimately show ?case by (cases b) simp_all
qed simp

lemma find_SomeD: "find P xs = Some x \<Longrightarrow> P x \<and> x \<in> set xs"
  by (induction xs) (auto split: if_splits)

lemma set_update_cases: "x \<in> set (AList.update k v al) \<Longrightarrow> x = (k, v) \<or> x \<in> set al"
  by (induction al) (auto split: if_splits)

section \<open>Rows of a keyed table\<close>

definition row_find :: "('r \<Rightarrow> 'k) \<Rightarrow> 'k \<Rightarrow> 'r list \<Rightarrow> 'r option" where
  "row_find key k rows = find (\<lambda>r. key r = k) rows"

definition row_modify :: "('r \<Rightarrow> 'k) \<Rightarrow> 'k \<Rightarrow> ('r \<Rightarrow> 'r) \<Rightarrow> 'r list \<Rightarrow> 'r list" where
  "row_modify key k f rows = map (\<lambda>r. if key r = k then f r else r) rows"

definition row_remove :: "('r \<Rightarrow> 'k) \<Rightarrow> 'k \<Rightarrow> 'r list \<Rightarrow> 'r list" where
  "row_remove key k rows = filter (\<lambda>r. key r \<noteq> k) rows"

lemma row_find_simps [simp]:
  "row_find key k [] = None"
  "row_find key k (r # rows) = (if key r = k then Some r else row_find key k rows)"
  by (simp_all add: row_find_def)

lemma row_modify_simps [simp]:
  "row_modify key k f [] = []"
  "row_modify key k f (r # rows) = (if key r = k then f r else r) # row_modify key k f rows"
  by (simp_all add: row_modify_def)

lemma row_find_append:
  "row_find key k (xs @ ys) =
     (case row_find key k xs of None \<Rightarrow> row_find key k ys | Some r \<Rightarrow> Some r)"
  by (induction xs) auto

lemma row_find_SomeD: "row_find key k rows = Some r \<Longrightarrow> r \<in> set rows \<and> key r = k"
  by (induction rows) (auto split: if_splits)

lemma row_find_None: "row_find key k rows = None \<longleftrightarrow> k \<notin> key ` set rows"
  by (induction rows) auto

lemma row_find_modify [row]:
  assumes "\<And>r. key (f r) = key r"
  shows "row_find key k' (row_modify key k f rows) =
    (if k' = k then map_option f (row_find key k rows) else row_find key k' rows)"
  using assms by (induction rows) auto

lemma row_find_remove [row]:
  "row_find key k' (row_remove key k rows) = (if k' = k then None else row_find key k' rows)"
  by (induction rows) (auto simp: row_remove_def)

lemma map_key_row_modify [row]:
  assumes "\<And>r. key (f r) = key r"
  shows "map key (row_modify key k f rows) = map key rows"
  using assms by (induction rows) auto

lemma length_row_modify [simp]: "length (row_modify key k f rows) = length rows"
  by (simp add: row_modify_def)

lemma set_row_modify:
  "r \<in> set (row_modify key k f rows) \<longleftrightarrow>
     (\<exists>r0 \<in> set rows. r = (if key r0 = k then f r0 else r0))"
  by (induction rows) auto

lemma row_modify_append [simp]:
  "row_modify key k f (xs @ ys) = row_modify key k f xs @ row_modify key k f ys"
  by (simp add: row_modify_def)

end
