(* ===== verification/PyText.thy ===== *)
theory PyText
  imports Prelude "HOL-Library.Sublist"
begin

text \<open>
  The operations of Python's \<open>str\<close> that the program uses, over HOL strings.
  A string is a list of code points below 256 (HOL's \<open>char\<close>); case mapping and white space
  follow the ASCII tables, so Latin-1 texts are exact for every operation but \<open>lower\<close>,
  \<open>upper\<close> and \<open>strip\<close>.
\<close>

abbreviation code :: "char \<Rightarrow> nat" where "code c \<equiv> of_char c"

definition lower_char :: "char \<Rightarrow> char" where
  "lower_char c = (if 65 \<le> code c \<and> code c \<le> 90 then char_of (code c + 32) else c)"

definition upper_char :: "char \<Rightarrow> char" where
  "upper_char c = (if 97 \<le> code c \<and> code c \<le> 122 then char_of (code c - 32) else c)"

definition str_lower :: "string \<Rightarrow> string" where "str_lower s = map lower_char s"
definition str_upper :: "string \<Rightarrow> string" where "str_upper s = map upper_char s"

text \<open>\<open>str.isspace\<close> on ASCII: tab to carriage return, the separators 28 to 31, blank.\<close>

definition is_ws :: "char \<Rightarrow> bool" where
  "is_ws c \<longleftrightarrow> (9 \<le> code c \<and> code c \<le> 13) \<or> (28 \<le> code c \<and> code c \<le> 32)"

definition lstrip :: "string \<Rightarrow> string" where "lstrip s = dropWhile is_ws s"
definition str_strip :: "string \<Rightarrow> string" where
  "str_strip s = rev (lstrip (rev (lstrip s)))"

text \<open>\<open>s.split()\<close>: maximal runs of characters that are not white space.\<close>

fun split_go :: "string \<Rightarrow> string \<Rightarrow> string list" where
  "split_go acc [] = (if acc = [] then [] else [rev acc])"
| "split_go acc (c # cs) =
     (if is_ws c then (if acc = [] then split_go [] cs else rev acc # split_go [] cs)
      else split_go (c # acc) cs)"

definition str_split_ws :: "string \<Rightarrow> string list" where "str_split_ws s = split_go [] s"

fun str_join :: "string \<Rightarrow> string list \<Rightarrow> string" where
  "str_join sep [] = []"
| "str_join sep [x] = x"
| "str_join sep (x # y # xs) = x @ sep @ str_join sep (y # xs)"

definition starts_with :: "string \<Rightarrow> string \<Rightarrow> bool" where
  "starts_with s p \<longleftrightarrow> prefix p s"

definition str_contains :: "string \<Rightarrow> string \<Rightarrow> bool" where
  "str_contains s p \<longleftrightarrow> sublist p s"

text \<open>\<open>s.find(p)\<close>: the first index where \<open>p\<close> occurs, -1 as \<open>None\<close>.\<close>

fun str_find :: "string \<Rightarrow> string \<Rightarrow> nat option" where
  "str_find [] p = (if p = [] then Some 0 else None)"
| "str_find (c # cs) p =
     (if prefix p (c # cs) then Some 0 else map_option Suc (str_find cs p))"

text \<open>\<open>s.split(sep)\<close> for a separator of one character: the pieces between its occurrences.\<close>

fun split_char :: "char \<Rightarrow> string \<Rightarrow> string list" where
  "split_char sep [] = [[]]"
| "split_char sep (c # cs) =
     (if c = sep then [] # split_char sep cs
      else (case split_char sep cs of [] \<Rightarrow> [[c]] | w # ws \<Rightarrow> (c # w) # ws))"

section \<open>Decimal digits\<close>

definition is_digit :: "char \<Rightarrow> bool" where
  "is_digit c \<longleftrightarrow> 48 \<le> code c \<and> code c \<le> 57"

definition str_isdecimal :: "string \<Rightarrow> bool" where
  "str_isdecimal s \<longleftrightarrow> s \<noteq> [] \<and> list_all is_digit s"

definition dec_value :: "string \<Rightarrow> nat" where
  "dec_value s = foldl (\<lambda>n c. 10 * n + (code c - 48)) 0 s"

definition digit_char :: "nat \<Rightarrow> char" where "digit_char d = char_of (48 + d)"

fun show_nat :: "nat \<Rightarrow> string" where
  "show_nat n = (if n < 10 then [digit_char n] else show_nat (n div 10) @ [digit_char (n mod 10)])"

declare show_nat.simps [simp del]

definition show_int :: "int \<Rightarrow> string" where
  "show_int i = (if i < 0 then ''-'' @ show_nat (nat (- i)) else show_nat (nat i))"

section \<open>Laws\<close>

lemma code_digit_char: "d < 10 \<Longrightarrow> code (digit_char d) = 48 + d"
  by (simp add: digit_char_def of_char_of)

lemma is_digit_digit_char: "d < 10 \<Longrightarrow> is_digit (digit_char d)"
  by (simp add: is_digit_def code_digit_char)

lemma dec_value_snoc: "dec_value (s @ [c]) = 10 * dec_value s + (code c - 48)"
  by (simp add: dec_value_def)

lemma show_nat_digits: "list_all is_digit (show_nat n) \<and> show_nat n \<noteq> []"
proof (induction n rule: show_nat.induct)
  case (1 n)
  show ?case
    by (cases "n < 10")
       (use 1 in \<open>auto simp: show_nat.simps [of n] is_digit_digit_char\<close>)
qed

lemma dec_value_show_nat: "dec_value (show_nat n) = n"
proof (induction n rule: show_nat.induct)
  case (1 n)
  show ?case
  proof (cases "n < 10")
    case True
    then show ?thesis
      by (simp add: show_nat.simps [of n] dec_value_def code_digit_char)
  next
    case False
    with 1 show ?thesis
      by (simp add: show_nat.simps [of n] dec_value_snoc code_digit_char)
  qed
qed

lemma isdecimal_show_nat: "str_isdecimal (show_nat n)"
  using show_nat_digits [of n] by (simp add: str_isdecimal_def)

lemma show_nat_inj: "show_nat m = show_nat n \<longleftrightarrow> m = n"
  by (metis dec_value_show_nat)

lemma lstrip_Nil [simp]: "lstrip [] = []"
  by (simp add: lstrip_def)

lemma str_strip_Nil [simp]: "str_strip [] = []"
  by (simp add: str_strip_def)

lemma lstrip_no_ws: "lstrip s \<noteq> [] \<Longrightarrow> \<not> is_ws (hd (lstrip s))"
  by (simp add: lstrip_def hd_dropWhile)

lemma lstrip_id: "s = [] \<or> \<not> is_ws (hd s) \<Longrightarrow> lstrip s = s"
  by (cases s) (auto simp: lstrip_def)

lemma lstrip_rev_hd:
  assumes "lstrip (rev t) \<noteq> []" and "\<not> is_ws (hd t)" and "t \<noteq> []"
  shows "hd (rev (lstrip (rev t))) = hd t"
proof -
  obtain p where p: "rev t = p @ lstrip (rev t)"
    by (metis lstrip_def takeWhile_dropWhile_id)
  then have "t = rev (lstrip (rev t)) @ rev p" by (metis rev_append rev_rev_ident)
  with assms(1) show ?thesis by (metis hd_append2 rev_is_Nil_conv)
qed

lemma lstrip_Nil_iff: "lstrip s = [] \<longleftrightarrow> list_all is_ws s"
  by (simp add: lstrip_def list_all_iff)

lemma lstrip_rev_Nil: "t \<noteq> [] \<Longrightarrow> \<not> is_ws (hd t) \<Longrightarrow> lstrip (rev t) \<noteq> []"
  by (cases t) (auto simp: lstrip_Nil_iff)

text \<open>Stripping is idempotent: a cleaned value is left alone by a second pass.\<close>

lemma str_strip_idem [simp]: "str_strip (str_strip s) = str_strip s"
proof (cases "lstrip s = []")
  case True
  then have "str_strip s = []" by (simp add: str_strip_def)
  then show ?thesis by (simp add: str_strip_def)
next
  case False
  let ?t = "lstrip s"
  have hd: "\<not> is_ws (hd ?t)" by (rule lstrip_no_ws [OF False])
  have ne: "lstrip (rev ?t) \<noteq> []" by (rule lstrip_rev_Nil [OF False hd])
  have "hd (rev (lstrip (rev ?t))) = hd ?t" by (rule lstrip_rev_hd [OF ne hd False])
  then have "lstrip (str_strip s) = str_strip s"
    using hd by (intro lstrip_id) (simp add: str_strip_def)
  moreover have "lstrip (rev (str_strip s)) = rev (str_strip s)"
    using lstrip_no_ws [OF ne] by (intro lstrip_id) (simp add: str_strip_def)
  ultimately show ?thesis by (metis rev_rev_ident str_strip_def)
qed

lemma lower_char_idem [simp]: "lower_char (lower_char c) = lower_char c"
  by (auto simp: lower_char_def of_char_of)

lemma str_lower_idem [simp]: "str_lower (str_lower s) = str_lower s"
  by (simp add: str_lower_def)

lemma upper_char_idem [simp]: "upper_char (upper_char c) = upper_char c"
  by (auto simp: upper_char_def of_char_of)

lemma str_upper_idem [simp]: "str_upper (str_upper s) = str_upper s"
  by (simp add: str_upper_def)

lemma length_str_upper [simp]: "length (str_upper s) = length s"
  by (simp add: str_upper_def)

lemma starts_with_append [simp]: "starts_with (p @ s) p"
  by (simp add: starts_with_def)

lemma split_char_ne [simp]: "split_char sep s \<noteq> []"
  by (cases s) (auto split: list.splits)

lemma split_char_none: "sep \<notin> set s \<Longrightarrow> split_char sep s = [s]"
  by (induction s) auto

end
