(* ===== verification/Ids.thy ===== *)
theory Ids
  imports PyText "HOL-Library.List_Lexorder" "HOL-Library.Char_ord"
begin

text \<open>
  \<open>ids.py\<close>: identifiers of 26 Crockford base-32 characters made of the wall clock in
  milliseconds and 80 random bits. Both are arguments.
\<close>

unbundle bit_operations_syntax

definition crockford :: string where
  "crockford = ''0123456789ABCDEFGHJKMNPQRSTVWXYZ''"

text \<open>The loop of \<open>new_id\<close>: one character per five bits, lowest first.\<close>

fun id_chars :: "nat \<Rightarrow> nat \<Rightarrow> string" where
  "id_chars 0 value = []"
| "id_chars (Suc n) value = crockford ! (value AND 31) # id_chars n (drop_bit 5 value)"

definition ulid :: "nat \<Rightarrow> nat \<Rightarrow> string" where
  "ulid ms rnd = rev (id_chars 26 (push_bit 80 ms OR rnd))"

lemma and_31: "(v::nat) AND 31 = v mod 32"
  using take_bit_eq_mask [of 5 v] by (simp add: take_bit_eq_mod mask_eq_exp_minus_1)

lemma drop_5: "drop_bit 5 (v::nat) = v div 32"
  by (simp add: drop_bit_eq_div)

lemma length_id_chars [simp]: "length (id_chars n v) = n"
  by (induction n arbitrary: v) simp_all

lemma crockford_less_below: "list_all (\<lambda>j. list_all (\<lambda>i. crockford ! i < crockford ! j) [0..<j]) [0..<32]"
  by code_simp

lemma crockford_less: "i < j \<Longrightarrow> j < 32 \<Longrightarrow> crockford ! i < crockford ! j"
  using crockford_less_below by (simp add: list_all_iff)

lemma append_less:
  fixes xs ys :: "'a::order list"
  shows "length xs = length ys \<Longrightarrow> xs < ys \<Longrightarrow> xs @ us < ys @ vs"
  unfolding list_less_def by (rule lexord_sufI) simp_all

lemma last_less:
  fixes a b :: "'a::order" shows "a < b \<Longrightarrow> xs @ [a] < xs @ [b]"
  unfolding list_less_def by (rule lexord_append_leftI) simp

lemma id_chars_mono:
  "u < v \<Longrightarrow> v < 32 ^ n \<Longrightarrow> rev (id_chars n u) < rev (id_chars n v)"
proof (induction n arbitrary: u v)
  case (Suc n)
  have vd: "v div 32 < 32 ^ n" using Suc.prems(2) by (simp add: less_mult_imp_div_less mult.commute)
  show ?case
  proof (cases "u div 32 < v div 32")
    case True
    with Suc.IH vd show ?thesis by (simp add: drop_5 append_less)
  next
    case False
    with Suc.prems(1) have eq: "u div 32 = v div 32"
      by (meson div_le_mono le_antisym less_imp_le not_le)
    then have "u mod 32 < v mod 32"
      using Suc.prems(1) by (metis div_mult_mod_eq nat_add_left_cancel_less)
    with eq show ?thesis by (simp add: drop_5 and_31 last_less crockford_less)
  qed
qed simp

lemma id_value:
  assumes "rnd < 2 ^ 80"
  shows "push_bit 80 ms OR rnd = ms * 2 ^ 80 + (rnd :: nat)"
proof -
  have r: "take_bit 80 rnd = rnd" using assms by (simp add: take_bit_nat_eq_self)
  have "push_bit 80 ms AND take_bit 80 rnd = 0"
    by (rule bit_eqI) (auto simp: bit_simps)
  then have "push_bit 80 ms + rnd = push_bit 80 ms OR rnd"
    unfolding r by (rule disjunctive_add_eq_or)
  then show ?thesis by (simp add: push_bit_eq_mult)
qed

lemma ulid_mono:
  assumes "m1 * 2 ^ 80 + r1 < m2 * 2 ^ 80 + r2" and "r1 < 2 ^ 80" and "r2 < 2 ^ 80" and "m2 < 2 ^ 50"
  shows "ulid m1 r1 < ulid m2 r2"
proof -
  have "m2 * 2 ^ 80 + r2 < (m2 + 1) * 2 ^ 80" using assms(3) by simp
  also have "\<dots> \<le> 2 ^ 50 * 2 ^ 80" using assms(4) by (intro mult_le_mono1) simp
  also have "\<dots> = (32::nat) ^ 26" by simp
  finally have "m2 * 2 ^ 80 + r2 < 32 ^ 26" .
  with assms show ?thesis unfolding ulid_def by (simp only: id_value id_chars_mono)
qed

text \<open>
  Identifiers are 26 characters long and sort by creation time: one made in a later
  millisecond is greater as a string, whatever the random bits, and two identifiers agree only
  when clock and random bits do.
\<close>

theorem new_id_sortable:
  assumes "r1 < 2 ^ 80" and "r2 < 2 ^ 80" and "m1 < 2 ^ 50" and "m2 < 2 ^ 50"
  shows "length (ulid m1 r1) = 26 \<and>
    (m1 < m2 \<longrightarrow> ulid m1 r1 < ulid m2 r2) \<and>
    (ulid m1 r1 = ulid m2 r2 \<longrightarrow> m1 = m2 \<and> r1 = r2)"
proof (intro conjI impI)
  show "length (ulid m1 r1) = 26" by (simp add: ulid_def)
next
  assume "m1 < m2"
  then have "(m1 + 1) * 2 ^ 80 \<le> m2 * 2 ^ 80" by (intro mult_le_mono1) simp
  with assms(1) have "m1 * 2 ^ 80 + r1 < m2 * 2 ^ 80 + r2" by simp
  then show "ulid m1 r1 < ulid m2 r2" using assms by (intro ulid_mono) simp_all
next
  assume eq: "ulid m1 r1 = ulid m2 r2"
  have "\<not> m1 * 2 ^ 80 + r1 < m2 * 2 ^ 80 + r2" "\<not> m2 * 2 ^ 80 + r2 < m1 * 2 ^ 80 + r1"
    using ulid_mono [of m1 r1 m2 r2] ulid_mono [of m2 r2 m1 r1] assms eq by auto
  then have s: "m1 * 2 ^ 80 + r1 = m2 * 2 ^ 80 + r2" by linarith
  have "m1 = (m1 * 2 ^ 80 + r1) div 2 ^ 80" using assms(1) by simp
  also have "\<dots> = m2" unfolding s using assms(2) by simp
  finally show "m1 = m2" .
  with s show "r1 = r2" by simp
qed

theorem new_id_sortable_witness:
  "length (ulid 1700000000000 5) = 26 \<and> ulid 1700000000000 5 < ulid 1700000000001 3"
proof -
  have "(5::nat) < 2 ^ 80" "(3::nat) < 2 ^ 80" "(1700000000000::nat) < 2 ^ 50" "(1700000000001::nat) < 2 ^ 50"
    by simp_all
  from new_id_sortable [OF this] show ?thesis by simp
qed

end
