(* ===== verification/PyFloat.thy ===== *)
theory PyFloat
  imports Prelude "HOL-Library.Log_Nat" Complex_Main
begin

text \<open>
  Python floats as IEEE 754 double-precision values: a finite float is the rational it
  denotes (the two zeros are one value), and every arithmetic operation rounds the exact
  result to the nearest representable number, ties to even. \<open>fl\<close> is that rounding, with the
  subnormal range (the last place is never below \<open>2\<^sup>-\<^sup>1\<^sup>0\<^sup>7\<^sup>4\<close>); \<open>mk_float\<close> adds the overflow
  to the infinities.
\<close>

datatype pyfloat = Fin rat | PInf | NInf | NaN

section \<open>Rounding\<close>

definition pow2 :: "int \<Rightarrow> rat" where
  "pow2 k = (if 0 \<le> k then 2 ^ nat k else 1 / 2 ^ nat (- k))"

text \<open>Round half to even.\<close>

definition rne :: "rat \<Rightarrow> int" where
  "rne x = (let f = \<lfloor>x\<rfloor>; r = x - of_int f in
     if r < 1/2 then f else if r > 1/2 then f + 1 else if even f then f else f + 1)"

text \<open>The binary exponent of a positive rational: \<open>2\<^sup>e \<le> x < 2\<^sup>e\<^sup>+\<^sup>1\<close>.\<close>

definition expo :: "rat \<Rightarrow> int" where
  "expo x = (let (n, d) = quotient_of x; e = bitlen n - bitlen d
             in if x < pow2 e then e - 1 else e)"

definition ulp_exp :: "rat \<Rightarrow> int" where
  "ulp_exp x = max (expo \<bar>x\<bar> - 52) (- 1074)"

definition fl :: "rat \<Rightarrow> rat" where
  "fl x = (if x = 0 then 0 else of_int (rne (x / pow2 (ulp_exp x))) * pow2 (ulp_exp x))"

definition mk_float :: "rat \<Rightarrow> pyfloat" where
  "mk_float x = (let y = fl x in
     if y \<ge> pow2 1024 then PInf else if y \<le> - pow2 1024 then NInf else Fin y)"

section \<open>Laws of the rounding\<close>

lemma pow2_powi: "pow2 k = 2 powi k"
  by (simp add: pow2_def power_int_def inverse_eq_divide power_one_over)

lemma pow2_pos [simp]: "0 < pow2 k"
  by (simp add: pow2_powi)

lemma pow2_nonneg [simp]: "0 \<le> pow2 k"
  using pow2_pos [of k] by (rule less_imp_le)

lemma pow2_nz [simp]: "pow2 k \<noteq> 0"
  using pow2_pos [of k] by (metis less_irrefl)

lemma pow2_add: "pow2 (a + b) = pow2 a * pow2 b"
  by (simp add: pow2_powi power_int_add)

lemma pow2_diff: "pow2 (a - b) = pow2 a / pow2 b"
  by (simp add: pow2_powi power_int_diff)

lemma pow2_mono: "a \<le> b \<Longrightarrow> pow2 a \<le> pow2 b"
  by (simp add: pow2_powi power_int_increasing)

lemma pow2_less_iff: "pow2 a < pow2 b \<longleftrightarrow> a < b"
proof
  show "a < b" if "pow2 a < pow2 b" using that pow2_mono [of b a] by linarith
  show "pow2 a < pow2 b" if "a < b"
    using that by (simp add: pow2_powi power_int_strict_increasing)
qed

lemma pow2_nat: "0 \<le> k \<Longrightarrow> pow2 k = of_int (2 ^ nat k)"
  by (simp add: pow2_def)

lemma rne_of_int [simp]: "rne (of_int z) = z"
  by (simp add: rne_def)

lemma rne_floor: "rne x = \<lfloor>x\<rfloor> \<or> rne x = \<lfloor>x\<rfloor> + 1"
  by (simp add: rne_def Let_def)

lemma rne_error: "\<bar>of_int (rne x) - x\<bar> \<le> 1/2"
proof -
  have "of_int \<lfloor>x\<rfloor> \<le> x" "x < of_int \<lfloor>x\<rfloor> + 1" by linarith+
  then show ?thesis by (simp add: rne_def Let_def abs_le_iff)
qed

lemma rne_mono: "x \<le> y \<Longrightarrow> rne x \<le> rne y"
proof -
  assume xy: "x \<le> y"
  then have f: "\<lfloor>x\<rfloor> \<le> \<lfloor>y\<rfloor>" by (rule floor_mono)
  show ?thesis
  proof (cases "\<lfloor>x\<rfloor> = \<lfloor>y\<rfloor>")
    case True
    with xy show ?thesis by (simp add: rne_def Let_def)
  next
    case False
    with f have "\<lfloor>x\<rfloor> + 1 \<le> \<lfloor>y\<rfloor>" by simp
    moreover have "rne x \<le> \<lfloor>x\<rfloor> + 1" using rne_floor [of x] by linarith
    moreover have "\<lfloor>y\<rfloor> \<le> rne y" using rne_floor [of y] by linarith
    ultimately show ?thesis by linarith
  qed
qed

lemma rne_le_int: "x \<le> of_int z \<Longrightarrow> rne x \<le> z"
  using rne_mono [of x "of_int z"] by simp

lemma rne_ge_int: "of_int z \<le> x \<Longrightarrow> z \<le> rne x"
  using rne_mono [of "of_int z" x] by simp

lemma rne_minus: "rne (- x) = - rne x"
proof (cases "x = of_int \<lfloor>x\<rfloor>")
  case True
  then show ?thesis by (metis of_int_minus rne_of_int)
next
  case False
  let ?f = "\<lfloor>x\<rfloor>"
  have f: "\<lfloor>- x\<rfloor> = - ?f - 1"
    using False by (intro floor_unique) (auto, linarith+)
  let ?r = "x - of_int ?f"
  have r: "- x - of_int \<lfloor>- x\<rfloor> = 1 - ?r" by (simp add: f)
  consider "?r < 1/2" | "?r > 1/2" | "?r = 1/2" by linarith
  then show ?thesis
  proof cases
    case 1
    then show ?thesis unfolding rne_def Let_def r f by simp
  next
    case 2
    then show ?thesis unfolding rne_def Let_def r f by simp
  next
    case 3
    then show ?thesis unfolding rne_def Let_def r f by simp
  qed
qed

lemma expo_bounds:
  assumes "0 < x"
  shows "pow2 (expo x) \<le> x" and "x < pow2 (expo x + 1)"
proof -
  obtain n d where nd: "quotient_of x = (n, d)" by (cases "quotient_of x")
  have d: "0 < d" using quotient_of_denom_pos [OF nd] .
  have x: "x = of_int n / of_int d" using quotient_of_div [OF nd] .
  have n: "0 < n" using assms d unfolding x by (simp add: zero_less_divide_iff)
  let ?bn = "bitlen n" and ?bd = "bitlen d"
  have b1: "1 \<le> ?bn" "1 \<le> ?bd" using n d by (auto simp: bitlen_alt_def)
  have N: "pow2 (?bn - 1) \<le> of_int n" "of_int n < pow2 ?bn"
    using bitlen_bounds [OF n] b1 by (simp_all add: pow2_nat)
  have D: "pow2 (?bd - 1) \<le> of_int d" "of_int d < pow2 ?bd"
    using bitlen_bounds [OF d] b1 by (simp_all add: pow2_nat)
  let ?e = "?bn - ?bd"
  have up: "x < pow2 (?e + 1)"
  proof -
    have "x < pow2 ?bn / pow2 (?bd - 1)"
      unfolding x using N(2) D(1) n by (intro frac_less) (auto simp: less_imp_le)
    also have "\<dots> = pow2 (?e + 1)" by (simp add: pow2_diff [symmetric] algebra_simps)
    finally show ?thesis .
  qed
  have lo: "pow2 (?e - 1) \<le> x"
  proof -
    have "pow2 (?e - 1) = pow2 (?bn - 1) / pow2 ?bd"
      by (simp add: pow2_diff [symmetric] algebra_simps)
    also have "\<dots> \<le> x"
      unfolding x using N(1) D(2) d n by (intro frac_le) (auto simp: less_imp_le)
    finally show ?thesis .
  qed
  have e: "expo x = (if x < pow2 ?e then ?e - 1 else ?e)"
    by (simp add: expo_def nd Let_def)
  show "pow2 (expo x) \<le> x" using lo by (simp add: e)
  show "x < pow2 (expo x + 1)" using up by (simp add: e)
qed

lemma expo_unique:
  assumes "pow2 k \<le> x" and "x < pow2 (k + 1)"
  shows "expo x = k"
proof -
  have x: "0 < x" using assms(1) pow2_pos [of k] by linarith
  note E = expo_bounds [OF x]
  have "pow2 (expo x) < pow2 (k + 1)" using E(1) assms(2) by linarith
  moreover have "pow2 k < pow2 (expo x + 1)" using E(2) assms(1) by linarith
  ultimately show ?thesis by (simp add: pow2_less_iff)
qed

lemma expo_mono: "0 < x \<Longrightarrow> x \<le> y \<Longrightarrow> expo x \<le> expo y"
proof -
  assume "0 < x" "x \<le> y"
  then have "pow2 (expo x) < pow2 (expo y + 1)"
    using expo_bounds(1) [of x] expo_bounds(2) [of y] by linarith
  then show ?thesis by (simp add: pow2_less_iff)
qed

lemma fl_0 [simp]: "fl 0 = 0"
  by (simp add: fl_def)

lemma fl_minus: "fl (- x) = - fl x"
  by (simp add: fl_def ulp_exp_def rne_minus)

lemma fl_unfold: "x \<noteq> 0 \<Longrightarrow> fl x = of_int (rne (x / pow2 (ulp_exp x))) * pow2 (ulp_exp x)"
  by (simp add: fl_def)

lemma fl_nonneg: "0 \<le> x \<Longrightarrow> 0 \<le> fl x"
proof (cases "x = 0")
  case False
  assume "0 \<le> x"
  then have "0 \<le> rne (x / pow2 (ulp_exp x))" by (intro rne_ge_int) simp
  with False show ?thesis by (simp add: fl_unfold)
qed simp

text \<open>The two ends of a binade are representable, so rounding cannot cross them.\<close>

lemma fl_le_pow2:
  assumes x: "0 < x" "x \<le> pow2 k" and k: "ulp_exp x \<le> k"
  shows "fl x \<le> pow2 k"
proof -
  let ?q = "ulp_exp x"
  have kq: "pow2 (k - ?q) = of_int (2 ^ nat (k - ?q))" using k by (simp add: pow2_nat)
  have "x / pow2 ?q \<le> pow2 (k - ?q)"
    using x(2) by (simp add: pow2_diff divide_right_mono)
  then have "rne (x / pow2 ?q) \<le> 2 ^ nat (k - ?q)"
    unfolding kq by (rule rne_le_int)
  then have "of_int (rne (x / pow2 ?q)) \<le> pow2 (k - ?q)"
    unfolding kq by (simp only: of_int_le_iff)
  then have "of_int (rne (x / pow2 ?q)) * pow2 ?q \<le> pow2 (k - ?q) * pow2 ?q"
    by (rule mult_right_mono) (simp add: less_imp_le)
  with x(1) show ?thesis by (simp add: fl_unfold pow2_diff)
qed

lemma fl_ge_pow2:
  assumes x: "pow2 k \<le> x" and k: "ulp_exp x \<le> k"
  shows "pow2 k \<le> fl x"
proof -
  let ?q = "ulp_exp x"
  have x0: "x \<noteq> 0" using x pow2_pos [of k] by linarith
  have kq: "pow2 (k - ?q) = of_int (2 ^ nat (k - ?q))" using k by (simp add: pow2_nat)
  have "pow2 (k - ?q) \<le> x / pow2 ?q"
    using x by (simp add: pow2_diff divide_right_mono)
  then have "2 ^ nat (k - ?q) \<le> rne (x / pow2 ?q)"
    unfolding kq by (rule rne_ge_int)
  then have "pow2 (k - ?q) \<le> of_int (rne (x / pow2 ?q))"
    unfolding kq by (simp only: of_int_le_iff)
  then have "pow2 (k - ?q) * pow2 ?q \<le> of_int (rne (x / pow2 ?q)) * pow2 ?q"
    by (rule mult_right_mono) (simp add: less_imp_le)
  with x0 show ?thesis by (simp add: fl_unfold pow2_diff)
qed

lemma fl_mono_pos:
  assumes x: "0 < x" and xy: "x \<le> y"
  shows "fl x \<le> fl y"
proof (cases "ulp_exp x = ulp_exp y")
  case True
  have "rne (x / pow2 (ulp_exp y)) \<le> rne (y / pow2 (ulp_exp y))"
    using xy by (intro rne_mono divide_right_mono) (simp_all add: less_imp_le)
  with True x xy show ?thesis
    by (simp add: fl_unfold mult_right_mono less_imp_le)
next
  case False
  have E: "expo x \<le> expo y" using x xy by (rule expo_mono)
  have q: "ulp_exp x = max (expo x - 52) (- 1074)" "ulp_exp y = max (expo y - 52) (- 1074)"
    using x xy by (simp_all add: ulp_exp_def)
  have lt: "expo x < expo y" using E False q by linarith
  have y52: "ulp_exp y = expo y - 52" using False E q by linarith
  have "ulp_exp x \<le> expo y" using lt q y52 False by linarith
  moreover have "x \<le> pow2 (expo y)"
    using expo_bounds(2) [OF x] pow2_mono [of "expo x + 1" "expo y"] lt by linarith
  ultimately have "fl x \<le> pow2 (expo y)" using x by (intro fl_le_pow2)
  also have "\<dots> \<le> fl y"
    using expo_bounds(1) [of y] x xy y52 by (intro fl_ge_pow2) linarith+
  finally show ?thesis .
qed

text \<open>Rounding is monotone.\<close>

lemma fl_mono:
  assumes "x \<le> y"
  shows "fl x \<le> fl y"
proof -
  consider "0 < x" | "x \<le> 0" "0 \<le> y" | "y < 0" using assms by linarith
  then show ?thesis
  proof cases
    case 1
    then show ?thesis using assms by (rule fl_mono_pos)
  next
    case 2
    have "fl x \<le> 0" using fl_nonneg [of "- x"] 2 by (simp add: fl_minus)
    then show ?thesis using fl_nonneg [OF 2(2)] by linarith
  next
    case 3
    have "fl (- y) \<le> fl (- x)" using 3 assms by (intro fl_mono_pos) auto
    then show ?thesis by (simp add: fl_minus)
  qed
qed

text \<open>
  Exactness: a dyadic number with at most 53 significant bits and no bit below
  \<open>2\<^sup>-\<^sup>1\<^sup>0\<^sup>7\<^sup>4\<close> is its own rounding; every result of rounding is such a number.
\<close>

definition representable :: "rat \<Rightarrow> bool" where
  "representable x \<longleftrightarrow> (\<exists>m k. x = of_int m * pow2 k \<and> \<bar>m\<bar> \<le> 2 ^ 53 \<and> - 1074 \<le> k)"

lemma fl_exact_pos:
  assumes "x = of_int m * pow2 k" and m: "0 < m" "m \<le> 2 ^ 53" and k: "- 1074 \<le> k"
  shows "fl x = x"
proof -
  have x: "0 < x" using assms by simp
  have qx: "ulp_exp x = max (expo x - 52) (- 1074)" using x by (simp add: ulp_exp_def)
  have "\<exists>z. x / pow2 (ulp_exp x) = of_int z"
  proof (cases "m = 2 ^ 53")
    case True
    then have xv: "x = pow2 (53 + k)" using assms(1) by (simp add: pow2_add pow2_nat)
    have "expo x = 53 + k"
      by (rule expo_unique) (simp_all add: xv pow2_less_iff)
    then have "ulp_exp x = k + 1" using k qx by simp
    then have "x / pow2 (ulp_exp x) = pow2 (53 + k) / pow2 (k + 1)" using xv by metis
    also have "\<dots> = pow2 52" by (simp add: pow2_diff [symmetric])
    also have "\<dots> = of_int (2 ^ 52)" by (simp add: pow2_def)
    finally show ?thesis by blast
  next
    case False
    with m have "(of_int m :: rat) < of_int (2 ^ 53)" by (simp only: of_int_less_iff)
    then have "x < pow2 53 * pow2 k"
      unfolding assms(1) by (intro mult_strict_right_mono) (simp_all add: pow2_nat)
    then have "pow2 (expo x) < pow2 (53 + k)"
      using expo_bounds(1) [OF x] by (simp add: pow2_add)
    then have "ulp_exp x \<le> k" using k qx by (simp add: pow2_less_iff)
    then have "pow2 (k - ulp_exp x) = of_int (2 ^ nat (k - ulp_exp x))" by (simp add: pow2_nat)
    moreover have "x / pow2 (ulp_exp x) = of_int m * pow2 (k - ulp_exp x)"
      by (simp add: assms(1) pow2_diff)
    ultimately show ?thesis by (metis of_int_mult)
  qed
  then obtain z where z: "x / pow2 (ulp_exp x) = of_int z" ..
  then have "x = of_int z * pow2 (ulp_exp x)" by (simp add: divide_eq_eq)
  then show ?thesis using x z by (simp add: fl_unfold)
qed

lemma fl_exact: "representable x \<Longrightarrow> fl x = x"
proof -
  assume "representable x"
  then obtain m k where mk: "x = of_int m * pow2 k" "\<bar>m\<bar> \<le> 2 ^ 53" "- 1074 \<le> k"
    by (auto simp: representable_def)
  consider "0 < m" | "m = 0" | "m < 0" by linarith
  then show ?thesis
  proof cases
    case 1
    then show ?thesis using mk by (intro fl_exact_pos) auto
  next
    case 2
    then show ?thesis using mk by simp
  next
    case 3
    then have "fl (- x) = - x" using mk by (intro fl_exact_pos [of _ "- m" k]) auto
    then show ?thesis by (simp add: fl_minus)
  qed
qed

lemma representable_int: "\<bar>z\<bar> \<le> 2 ^ 53 \<Longrightarrow> representable (of_int z)"
  unfolding representable_def by (intro exI [of _ z] exI [of _ 0]) (simp add: pow2_def)

lemma representable_half: "representable x \<Longrightarrow> x = of_int z \<Longrightarrow> \<bar>z\<bar> \<le> 2 ^ 53 \<Longrightarrow> representable (x / 2)"
  unfolding representable_def by (intro exI [of _ z] exI [of _ "- 1"]) (simp add: pow2_def)

lemma fl_representable: "representable (fl x)"
proof (cases "x = 0")
  case True
  then show ?thesis using representable_int [of 0] by simp
next
  case False
  let ?q = "ulp_exp x" and ?m = "rne (x / pow2 (ulp_exp x))"
  have "expo \<bar>x\<bar> + 1 \<le> ?q + 53" by (simp add: ulp_exp_def)
  moreover have "\<bar>x\<bar> < pow2 (expo \<bar>x\<bar> + 1)" using False by (intro expo_bounds(2)) simp
  ultimately have "\<bar>x\<bar> \<le> pow2 (?q + 53)" using pow2_mono [of "expo \<bar>x\<bar> + 1" "?q + 53"] by linarith
  then have "\<bar>x / pow2 ?q\<bar> \<le> of_int (2 ^ 53)"
    by (simp add: abs_divide pow2_add divide_le_eq pow2_nat mult.commute)
  then have b: "x / pow2 ?q \<le> of_int (2 ^ 53)" "of_int (- (2 ^ 53)) \<le> x / pow2 ?q"
    by linarith+
  have "?m \<le> 2 ^ 53" "- (2 ^ 53) \<le> ?m"
    using rne_le_int [OF b(1)] rne_ge_int [OF b(2)] by simp_all
  then have "\<bar>?m\<bar> \<le> 2 ^ 53" by linarith
  then show ?thesis
    unfolding representable_def fl_unfold [OF False]
    by (intro exI [of _ ?m] exI [of _ ?q]) (simp add: ulp_exp_def)
qed

lemma fl_idem [simp]: "fl (fl x) = fl x"
  by (rule fl_exact [OF fl_representable])

lemma fl_error: "\<bar>fl x - x\<bar> \<le> pow2 (ulp_exp x) / 2"
proof (cases "x = 0")
  case False
  let ?q = "ulp_exp x"
  let ?d = "of_int (rne (x / pow2 ?q)) - x / pow2 ?q"
  have "fl x - x = ?d * pow2 ?q"
    by (simp add: fl_unfold [OF False] left_diff_distrib)
  then have "\<bar>fl x - x\<bar> = \<bar>?d\<bar> * pow2 ?q" by (simp only: abs_mult abs_of_pos [OF pow2_pos])
  also have "\<dots> \<le> 1 / 2 * pow2 ?q" by (intro mult_right_mono rne_error) simp
  finally show ?thesis by simp
qed (simp add: less_imp_le)

section \<open>Operations\<close>

definition float_of_int :: "int \<Rightarrow> pyfloat option" where
  \<comment> \<open>\<open>float(i)\<close> raises OverflowError where the rounded value is out of range.\<close>
  "float_of_int i = (case mk_float (of_int i) of Fin x \<Rightarrow> Some (Fin x) | _ \<Rightarrow> None)"

fun fadd :: "pyfloat \<Rightarrow> pyfloat \<Rightarrow> pyfloat" where
  "fadd (Fin a) (Fin b) = mk_float (a + b)"
| "fadd NaN _ = NaN"
| "fadd _ NaN = NaN"
| "fadd PInf NInf = NaN"
| "fadd NInf PInf = NaN"
| "fadd PInf _ = PInf"
| "fadd _ PInf = PInf"
| "fadd NInf _ = NInf"
| "fadd _ NInf = NInf"

fun fneg :: "pyfloat \<Rightarrow> pyfloat" where
  "fneg (Fin a) = Fin (- a)"
| "fneg PInf = NInf"
| "fneg NInf = PInf"
| "fneg NaN = NaN"

definition fsub :: "pyfloat \<Rightarrow> pyfloat \<Rightarrow> pyfloat" where "fsub a b = fadd a (fneg b)"

fun fabs :: "pyfloat \<Rightarrow> pyfloat" where
  "fabs (Fin a) = Fin \<bar>a\<bar>"
| "fabs PInf = PInf"
| "fabs NInf = PInf"
| "fabs NaN = NaN"

fun fsgn :: "pyfloat \<Rightarrow> int" where
  "fsgn (Fin a) = (if 0 < a then 1 else if a < 0 then - 1 else 0)"
| "fsgn PInf = 1"
| "fsgn NInf = - 1"
| "fsgn NaN = 0"

definition finf :: "int \<Rightarrow> pyfloat" where
  "finf s = (if 0 < s then PInf else if s < 0 then NInf else NaN)"

fun fmul :: "pyfloat \<Rightarrow> pyfloat \<Rightarrow> pyfloat" where
  "fmul (Fin a) (Fin b) = mk_float (a * b)"
| "fmul NaN _ = NaN"
| "fmul _ NaN = NaN"
| "fmul x y = finf (fsgn x * fsgn y)"

text \<open>Division raises ZeroDivisionError (\<open>None\<close>) on a zero divisor.\<close>

fun fdiv :: "pyfloat \<Rightarrow> pyfloat \<Rightarrow> pyfloat option" where
  "fdiv x (Fin b) =
     (if b = 0 then None
      else Some (case x of Fin a \<Rightarrow> mk_float (a / b) | NaN \<Rightarrow> NaN | _ \<Rightarrow> finf (fsgn x * fsgn (Fin b))))"
| "fdiv NaN _ = Some NaN"
| "fdiv _ NaN = Some NaN"
| "fdiv (Fin a) _ = Some (Fin 0)"
| "fdiv _ _ = Some NaN"

text \<open>Ordered comparison: every comparison with NaN is false.\<close>

fun flt :: "pyfloat \<Rightarrow> pyfloat \<Rightarrow> bool" where
  "flt (Fin a) (Fin b) = (a < b)"
| "flt NaN _ = False"
| "flt _ NaN = False"
| "flt NInf y = (y \<noteq> NInf)"
| "flt x PInf = (x \<noteq> PInf)"
| "flt _ _ = False"

fun feq :: "pyfloat \<Rightarrow> pyfloat \<Rightarrow> bool" where
  "feq NaN _ = False"
| "feq x y = (x = y)"

definition fle :: "pyfloat \<Rightarrow> pyfloat \<Rightarrow> bool" where "fle x y \<longleftrightarrow> flt x y \<or> feq x y"

text \<open>\<open>max(a, b)\<close> and \<open>min(a, b)\<close> keep the first argument unless the second is strictly beyond.\<close>

definition fmax :: "pyfloat \<Rightarrow> pyfloat \<Rightarrow> pyfloat" where "fmax a b = (if flt a b then b else a)"
definition fmin :: "pyfloat \<Rightarrow> pyfloat \<Rightarrow> pyfloat" where "fmin a b = (if flt b a then b else a)"

text \<open>\<open>round(x, n)\<close>: the decimal with \<open>n\<close> places nearest to the exact value, as a float.\<close>

fun fround :: "nat \<Rightarrow> pyfloat \<Rightarrow> pyfloat" where
  "fround n (Fin a) = mk_float (of_int (rne (a * 10 ^ n)) / 10 ^ n)"
| "fround n x = x"

lemma fle_Fin [simp]: "fle (Fin a) (Fin b) \<longleftrightarrow> a \<le> b"
  by (auto simp: fle_def)

lemma fle_simps [simp]:
  "fle NaN x = False" "fle x NaN = False"
  "fle (Fin a) PInf" "fle NInf (Fin a)" "\<not> fle PInf (Fin a)" "\<not> fle (Fin a) NInf"
  by (cases x; simp add: fle_def)+

lemma flt_not_fle: "x \<noteq> NaN \<Longrightarrow> y \<noteq> NaN \<Longrightarrow> flt x y \<longleftrightarrow> \<not> fle y x"
  by (cases x; cases y) (auto simp: fle_def)

lemma mk_float_small: "\<bar>fl x\<bar> < pow2 1024 \<Longrightarrow> mk_float x = Fin (fl x)"
  by (auto simp: mk_float_def Let_def abs_less_iff)

lemma mk_float_cases:
  "mk_float x = Fin (fl x) \<or> mk_float x = PInf \<or> mk_float x = NInf"
  by (simp add: mk_float_def Let_def)

lemma mk_float_not_NaN [simp]: "mk_float x \<noteq> NaN"
  by (simp add: mk_float_def Let_def)

lemma pow2_1024_big: "of_int (2 ^ 53) < pow2 1024"
  by (simp add: pow2_def)

lemma mk_float_bounded:
  assumes "\<bar>x\<bar> \<le> of_int (2 ^ 53)"
  shows "mk_float x = Fin (fl x)"
proof (rule mk_float_small)
  have r: "fl (of_int (2 ^ 53)) = of_int (2 ^ 53)" "fl (of_int (- (2 ^ 53))) = of_int (- (2 ^ 53))"
    by (intro fl_exact representable_int, simp)+
  have "fl x \<le> of_int (2 ^ 53)" using fl_mono [of x "of_int (2 ^ 53)"] assms r by simp
  moreover have "of_int (- (2 ^ 53)) \<le> fl x"
    using fl_mono [of "of_int (- (2 ^ 53))" x] assms r by simp
  ultimately show "\<bar>fl x\<bar> < pow2 1024" using pow2_1024_big by linarith
qed

lemma mk_float_of_int:
  assumes "\<bar>i\<bar> \<le> 2 ^ 53" shows "mk_float (of_int i) = Fin (of_int i)"
proof -
  have "\<bar>of_int i :: rat\<bar> \<le> of_int (2 ^ 53)"
    using assms by (metis of_int_abs of_int_le_iff)
  then show ?thesis
    using fl_exact [OF representable_int [OF assms]] by (simp add: mk_float_bounded)
qed

lemma mk_float_numeral: "numeral n \<le> (2 ^ 53 :: int) \<Longrightarrow> mk_float (numeral n) = Fin (numeral n)"
  using mk_float_of_int [of "numeral n"] by simp

lemma mk_float_0 [simp]: "mk_float 0 = Fin 0" and mk_float_1 [simp]: "mk_float 1 = Fin 1"
  using mk_float_of_int [of 0] mk_float_of_int [of 1] by simp_all

lemma float_of_int_small: "\<bar>i\<bar> \<le> 2 ^ 53 \<Longrightarrow> float_of_int i = Some (Fin (of_int i))"
  by (simp add: float_of_int_def mk_float_of_int)

end
