(* ===== verification/PyJson.thy ===== *)
theory PyJson
  imports PyText PyFloat "HOL-Library.List_Lexorder" "HOL-Library.Char_ord"
begin

text \<open>
  The dynamic values the program passes around: what \<open>json.loads\<close> yields and JSON columns
  hold. A dict is an association list in insertion order (\<open>AList.update\<close> replaces in place or
  appends, as Python does). Every accessor is partial: \<open>None\<close> is a Python exception
  (TypeError, AttributeError, KeyError, ValueError, OverflowError). \<open>bool\<close> is a subclass of
  \<open>int\<close>, so \<open>isinstance(x, int)\<close> holds for both.
\<close>

datatype json =
    JNull
  | JBool bool
  | JInt int
  | JFlt pyfloat
  | JStr string
  | JArr "json list"
  | JObj "(string \<times> json) list"

type_synonym dict = "(string \<times> json) list"

section \<open>Type tests and truth\<close>

definition is_obj :: "json \<Rightarrow> bool" where "is_obj j = (case j of JObj _ \<Rightarrow> True | _ \<Rightarrow> False)"
definition is_arr :: "json \<Rightarrow> bool" where "is_arr j = (case j of JArr _ \<Rightarrow> True | _ \<Rightarrow> False)"
definition is_str :: "json \<Rightarrow> bool" where "is_str j = (case j of JStr _ \<Rightarrow> True | _ \<Rightarrow> False)"

definition py_truthy :: "json \<Rightarrow> bool" where
  "py_truthy j = (case j of
      JNull \<Rightarrow> False
    | JBool b \<Rightarrow> b
    | JInt i \<Rightarrow> i \<noteq> 0
    | JFlt f \<Rightarrow> f \<noteq> Fin 0
    | JStr s \<Rightarrow> s \<noteq> []
    | JArr xs \<Rightarrow> xs \<noteq> []
    | JObj kvs \<Rightarrow> kvs \<noteq> [])"

text \<open>Python's \<open>a or b\<close>.\<close>

definition py_or :: "json \<Rightarrow> json \<Rightarrow> json" where
  "py_or a b = (if py_truthy a then a else b)"

text \<open>Membership in \<open>(None, "", [])\<close>.\<close>

definition is_blank :: "json \<Rightarrow> bool" where
  "is_blank j \<longleftrightarrow> j = JNull \<or> j = JStr [] \<or> j = JArr []"

text \<open>\<open>isinstance(j, int)\<close> and its value.\<close>

definition int_val :: "json \<Rightarrow> int option" where
  "int_val j = (case j of JInt i \<Rightarrow> Some i | JBool b \<Rightarrow> Some (if b then 1 else 0) | _ \<Rightarrow> None)"

text \<open>\<open>isinstance(j, int | float)\<close> and its exact numeric value (an int is not rounded).\<close>

definition num_val :: "json \<Rightarrow> pyfloat option" where
  "num_val j = (case j of
      JInt i \<Rightarrow> Some (Fin (of_int i))
    | JBool b \<Rightarrow> Some (Fin (if b then 1 else 0))
    | JFlt f \<Rightarrow> Some f
    | _ \<Rightarrow> None)"

section \<open>Dictionaries\<close>

definition d_get :: "dict \<Rightarrow> string \<Rightarrow> json" where
  "d_get d k = (case map_of d k of None \<Rightarrow> JNull | Some v \<Rightarrow> v)"

definition d_has :: "dict \<Rightarrow> string \<Rightarrow> bool" where
  "d_has d k \<longleftrightarrow> map_of d k \<noteq> None"

definition d_set :: "dict \<Rightarrow> string \<Rightarrow> json \<Rightarrow> dict" where
  "d_set d k v = AList.update k v d"

text \<open>\<open>d.update(e)\<close>, \<open>{**d, **e}\<close>.\<close>

definition d_update :: "dict \<Rightarrow> dict \<Rightarrow> dict" where
  "d_update d e = foldl (\<lambda>acc kv. d_set acc (fst kv) (snd kv)) d e"

text \<open>\<open>j.get(k)\<close>, \<open>j.get(k, dflt)\<close> and \<open>j[k]\<close>.\<close>

definition jget :: "json \<Rightarrow> string \<Rightarrow> json option" where
  "jget j k = (case j of JObj d \<Rightarrow> Some (d_get d k) | _ \<Rightarrow> None)"

definition jget_or :: "json \<Rightarrow> string \<Rightarrow> json \<Rightarrow> json option" where
  "jget_or j k dflt = (case j of
      JObj d \<Rightarrow> Some (case map_of d k of None \<Rightarrow> dflt | Some v \<Rightarrow> v)
    | _ \<Rightarrow> None)"

definition jitem :: "json \<Rightarrow> string \<Rightarrow> json option" where
  "jitem j k = (case j of JObj d \<Rightarrow> map_of d k | _ \<Rightarrow> None)"

text \<open>\<open>dict(j)\<close> for a mapping.\<close>

definition as_dict :: "json \<Rightarrow> dict option" where
  "as_dict j = (case j of JObj d \<Rightarrow> Some d | _ \<Rightarrow> None)"

text \<open>Iteration: a list's items, a dict's keys, a string's characters; otherwise TypeError.\<close>

definition py_iter :: "json \<Rightarrow> json list option" where
  "py_iter j = (case j of
      JArr xs \<Rightarrow> Some xs
    | JObj d \<Rightarrow> Some (map (JStr \<circ> fst) d)
    | JStr s \<Rightarrow> Some (map (\<lambda>c. JStr [c]) s)
    | _ \<Rightarrow> None)"

section \<open>Equality\<close>

text \<open>
  \<open>==\<close> compares numbers across types by value, lists elementwise and dicts as sets of
  bindings.
\<close>

function (sequential) py_eq :: "json \<Rightarrow> json \<Rightarrow> bool" where
  "py_eq (JStr s) (JStr t) = (s = t)"
| "py_eq JNull JNull = True"
| "py_eq (JArr xs) (JArr ys) =
     (length xs = length ys \<and> list_all (\<lambda>(x, y). py_eq x y) (zip xs ys))"
| "py_eq (JObj d) (JObj e) =
     (length d = length e \<and>
      list_all (\<lambda>(k, v). case map_of e k of None \<Rightarrow> False | Some w \<Rightarrow> py_eq v w) d)"
| "py_eq x y = (case (num_val x, num_val y) of (Some a, Some b) \<Rightarrow> feq a b | _ \<Rightarrow> False)"
  by pat_completeness auto
termination
proof (relation "measure (\<lambda>(x, y). size x)", goal_cases)
  case (2 xs ys z x y)
  then have "x \<in> set xs" by (auto dest: set_zip_leftD)
  then show ?case by (auto dest: size_list_estimation' [OF _ order_refl, where f = size] simp: less_Suc_eq_le)
next
  case (3 d e z k v w)
  then have "(k, v) \<in> set d" by auto
  then have "size v \<le> size_list (size_prod (\<lambda>_. 0) size) d"
    by (intro size_list_estimation') auto
  then show ?case by simp
qed simp

definition py_in :: "json \<Rightarrow> json list \<Rightarrow> bool" where
  "py_in x xs \<longleftrightarrow> list_ex (py_eq x) xs"

section \<open>Numbers from text\<close>

text \<open>
  The literal grammar that \<open>float\<close> and \<open>Decimal\<close> share: digits with an optional fraction and
  an optional exponent. \<open>parse_signed\<close> adds the sign; the special names are handled by callers.
\<close>

definition ten_pow :: "int \<Rightarrow> rat" where
  "ten_pow k = (if 0 \<le> k then 10 ^ nat k else 1 / 10 ^ nat (- k))"

definition parse_exponent :: "string \<Rightarrow> int option" where
  "parse_exponent s = (case s of
      [] \<Rightarrow> None
    | c # t \<Rightarrow>
        if c = CHR ''-'' then (if str_isdecimal t then Some (- int (dec_value t)) else None)
        else if c = CHR ''+'' then (if str_isdecimal t then Some (int (dec_value t)) else None)
        else if str_isdecimal s then Some (int (dec_value s)) else None)"

definition split_fraction :: "string \<Rightarrow> string \<times> string" where
  "split_fraction s = (case s of
      [] \<Rightarrow> ([], [])
    | c # t \<Rightarrow> if c = CHR ''.'' then (takeWhile is_digit t, dropWhile is_digit t) else ([], s))"

definition parse_unsigned :: "string \<Rightarrow> rat option" where
  "parse_unsigned s =
     (let ip = takeWhile is_digit s;
          (fp, rest) = split_fraction (dropWhile is_digit s);
          mant = of_nat (dec_value (ip @ fp)) / 10 ^ length fp
      in if ip = [] \<and> fp = [] then None
         else case rest of
             [] \<Rightarrow> Some mant
           | e # t \<Rightarrow>
               if lower_char e = CHR ''e''
               then map_option (\<lambda>x. mant * ten_pow x) (parse_exponent t)
               else None)"

definition parse_signed :: "(string \<Rightarrow> 'a option) \<Rightarrow> ('a \<Rightarrow> 'a) \<Rightarrow> string \<Rightarrow> 'a option" where
  "parse_signed p neg s = (case s of
      [] \<Rightarrow> None
    | c # t \<Rightarrow>
        if c = CHR ''-'' then map_option neg (p t)
        else if c = CHR ''+'' then p t else p s)"

text \<open>Underscores are allowed between two digits, and then dropped.\<close>

fun ungroup :: "bool \<Rightarrow> string \<Rightarrow> string option" where
  "ungroup after_digit [] = Some []"
| "ungroup after_digit (c # s) =
     (if c = CHR ''_''
      then (if after_digit \<and> s \<noteq> [] \<and> is_digit (hd s) then ungroup False s else None)
      else map_option ((#) c) (ungroup (is_digit c) s))"

text \<open>\<open>float(text)\<close>.\<close>

definition parse_float_body :: "string \<Rightarrow> pyfloat option" where
  "parse_float_body s =
     (if str_lower s \<in> {''inf'', ''infinity''} then Some PInf
      else if str_lower s = ''nan'' then Some NaN
      else map_option mk_float (parse_unsigned s))"

definition parse_float :: "string \<Rightarrow> pyfloat option" where
  "parse_float s = Option.bind (ungroup False (str_strip s)) (parse_signed parse_float_body fneg)"

text \<open>\<open>float(j)\<close>: TypeError, ValueError and OverflowError are all \<open>None\<close>.\<close>

definition py_float :: "json \<Rightarrow> pyfloat option" where
  "py_float j = (case j of
      JInt i \<Rightarrow> float_of_int i
    | JBool b \<Rightarrow> Some (Fin (if b then 1 else 0))
    | JFlt f \<Rightarrow> Some f
    | JStr s \<Rightarrow> parse_float s
    | _ \<Rightarrow> None)"

definition parse_int_body :: "string \<Rightarrow> int option" where
  "parse_int_body s = (if str_isdecimal s then Some (int (dec_value s)) else None)"

text \<open>\<open>int(j)\<close>: a float is truncated towards zero; NaN and the infinities raise.\<close>

definition py_int :: "json \<Rightarrow> int option" where
  "py_int j = (case j of
      JInt i \<Rightarrow> Some i
    | JBool b \<Rightarrow> Some (if b then 1 else 0)
    | JFlt (Fin x) \<Rightarrow> Some (if 0 \<le> x then \<lfloor>x\<rfloor> else \<lceil>x\<rceil>)
    | JStr s \<Rightarrow> Option.bind (ungroup False (str_strip s)) (parse_signed parse_int_body uminus)
    | _ \<Rightarrow> None)"

section \<open>Serialisation\<close>

text \<open>
  \<open>json.dumps\<close> with the separators, the key order and the ASCII mode the callers choose. The
  shortest text of a finite float is the C runtime's \<open>repr\<close>, a parameter.
\<close>

record dump_cfg =
  item_sep :: string
  key_sep :: string
  sort_keys :: bool
  ensure_ascii :: bool
  float_repr :: "rat \<Rightarrow> string"

definition hex_char :: "nat \<Rightarrow> char" where
  "hex_char n = (if n < 10 then char_of (48 + n) else char_of (87 + n))"

definition json_char :: "bool \<Rightarrow> char \<Rightarrow> string" where
  "json_char ascii c =
     (if c = CHR 0x22 then [CHR 0x5C, CHR 0x22]
      else if c = CHR 0x5C then [CHR 0x5C, CHR 0x5C]
      else if code c = 8 then [CHR 0x5C, CHR ''b'']
      else if code c = 9 then [CHR 0x5C, CHR ''t'']
      else if code c = 10 then [CHR 0x5C, CHR ''n'']
      else if code c = 12 then [CHR 0x5C, CHR ''f'']
      else if code c = 13 then [CHR 0x5C, CHR ''r'']
      else if code c < 32 \<or> (ascii \<and> 126 < code c)
        then [CHR 0x5C, CHR ''u'', CHR ''0'', CHR ''0'',
              hex_char (code c div 16), hex_char (code c mod 16)]
      else [c])"

definition json_str :: "bool \<Rightarrow> string \<Rightarrow> string" where
  "json_str ascii s = [CHR 0x22] @ concat (map (json_char ascii) s) @ [CHR 0x22]"

fun json_float :: "(rat \<Rightarrow> string) \<Rightarrow> pyfloat \<Rightarrow> string" where
  "json_float r (Fin x) = r x"
| "json_float r PInf = ''Infinity''"
| "json_float r NInf = ''-Infinity''"
| "json_float r NaN = ''NaN''"

fun dumps :: "dump_cfg \<Rightarrow> json \<Rightarrow> string" where
  "dumps c JNull = ''null''"
| "dumps c (JBool b) = (if b then ''true'' else ''false'')"
| "dumps c (JInt i) = show_int i"
| "dumps c (JFlt f) = json_float (float_repr c) f"
| "dumps c (JStr s) = json_str (ensure_ascii c) s"
| "dumps c (JArr xs) = ''['' @ str_join (item_sep c) (map (dumps c) xs) @ '']''"
| "dumps c (JObj d) =
     (let kvs = map (\<lambda>(k, v). (k, dumps c v)) d;
          kvs' = (if sort_keys c then sort_key fst kvs else kvs)
      in ''{'' @ str_join (item_sep c) (map (\<lambda>(k, t). json_str (ensure_ascii c) k @ key_sep c @ t) kvs')
         @ ''}'')"

text \<open>\<open>str(j)\<close> for the scalars the program formats.\<close>

definition py_str_scalar :: "(rat \<Rightarrow> string) \<Rightarrow> json \<Rightarrow> string option" where
  "py_str_scalar r j = (case j of
      JStr s \<Rightarrow> Some s
    | JNull \<Rightarrow> Some ''None''
    | JBool b \<Rightarrow> Some (if b then ''True'' else ''False'')
    | JInt i \<Rightarrow> Some (show_int i)
    | JFlt (Fin x) \<Rightarrow> Some (r x)
    | JFlt PInf \<Rightarrow> Some ''inf''
    | JFlt NInf \<Rightarrow> Some ''-inf''
    | JFlt NaN \<Rightarrow> Some ''nan''
    | _ \<Rightarrow> None)"

text \<open>\<open>repr(j)\<close> and \<open>str(j)\<close>.\<close>

definition repr_char :: "char \<Rightarrow> char \<Rightarrow> string" where
  "repr_char q c =
     (if c = q \<or> c = CHR 0x5C then [CHR 0x5C, c]
      else if code c = 9 then [CHR 0x5C, CHR ''t'']
      else if code c = 10 then [CHR 0x5C, CHR ''n'']
      else if code c = 13 then [CHR 0x5C, CHR ''r'']
      else if code c < 32 \<or> (127 \<le> code c \<and> code c \<le> 160) \<or> code c = 173
        then [CHR 0x5C, CHR ''x'', hex_char (code c div 16), hex_char (code c mod 16)]
      else [c])"

definition repr_str :: "string \<Rightarrow> string" where
  "repr_str s =
     (let q = (if CHR 0x27 \<in> set s \<and> CHR 0x22 \<notin> set s then CHR 0x22 else CHR 0x27)
      in [q] @ concat (map (repr_char q) s) @ [q])"

fun py_repr :: "(rat \<Rightarrow> string) \<Rightarrow> json \<Rightarrow> string" where
  "py_repr r JNull = ''None''"
| "py_repr r (JBool b) = (if b then ''True'' else ''False'')"
| "py_repr r (JInt i) = show_int i"
| "py_repr r (JFlt f) = (case f of Fin x \<Rightarrow> r x | PInf \<Rightarrow> ''inf'' | NInf \<Rightarrow> ''-inf'' | NaN \<Rightarrow> ''nan'')"
| "py_repr r (JStr s) = repr_str s"
| "py_repr r (JArr xs) = ''['' @ str_join '', '' (map (py_repr r) xs) @ '']''"
| "py_repr r (JObj d) =
     ''{'' @ str_join '', '' (map (\<lambda>(k, v). repr_str k @ '': '' @ py_repr r v) d) @ ''}''"

definition py_str :: "(rat \<Rightarrow> string) \<Rightarrow> json \<Rightarrow> string" where
  "py_str r j = (case j of JStr s \<Rightarrow> s | _ \<Rightarrow> py_repr r j)"

section \<open>Containers of any kind\<close>

text \<open>\<open>len(j)\<close>, \<open>j[i]\<close> with Python's negative indices, and \<open>k in j\<close>.\<close>

definition py_len :: "json \<Rightarrow> int option" where
  "py_len j = (case j of
      JArr xs \<Rightarrow> Some (int (length xs))
    | JObj d \<Rightarrow> Some (int (length d))
    | JStr s \<Rightarrow> Some (int (length s))
    | _ \<Rightarrow> None)"

definition list_item :: "'a list \<Rightarrow> int \<Rightarrow> 'a option" where
  "list_item xs i =
     (if 0 \<le> i \<and> i < int (length xs) then Some (xs ! nat i)
      else if - int (length xs) \<le> i \<and> i < 0 then Some (xs ! nat (int (length xs) + i))
      else None)"

definition py_item :: "json \<Rightarrow> int \<Rightarrow> json option" where
  "py_item j i = (case j of
      JArr xs \<Rightarrow> list_item xs i
    | JStr s \<Rightarrow> map_option (\<lambda>c. JStr [c]) (list_item s i)
    | _ \<Rightarrow> None)"

definition py_contains :: "json \<Rightarrow> string \<Rightarrow> bool option" where
  "py_contains j k = (case j of
      JObj d \<Rightarrow> Some (d_has d k)
    | JArr xs \<Rightarrow> Some (py_in (JStr k) xs)
    | JStr s \<Rightarrow> Some (str_contains s k)
    | _ \<Rightarrow> None)"

definition py_hashable :: "json \<Rightarrow> bool" where
  "py_hashable j \<longleftrightarrow> \<not> is_arr j \<and> \<not> is_obj j"

text \<open>
  \<open>dict(j)\<close>: a mapping, or an iterable of pairs. A pair whose key is not a string has no place
  in a JSON object and counts as an error.
\<close>

definition py_pair :: "json \<Rightarrow> (string \<times> json) option" where
  "py_pair j = (case py_iter j of Some [JStr k, v] \<Rightarrow> Some (k, v) | _ \<Rightarrow> None)"

definition py_dict :: "json \<Rightarrow> dict option" where
  "py_dict j = (case j of
      JObj d \<Rightarrow> Some d
    | _ \<Rightarrow> (case py_iter j of
          None \<Rightarrow> None
        | Some xs \<Rightarrow> ofold (\<lambda>d p. map_option (\<lambda>(k, v). d_set d k v) (py_pair p)) [] xs))"

section \<open>Laws\<close>

lemma jget_JObj [py]: "jget (JObj d) k = Some (d_get d k)"
  by (simp add: jget_def)

lemma jget_or_JObj [py]:
  "jget_or (JObj d) k v = Some (case map_of d k of None \<Rightarrow> v | Some w \<Rightarrow> w)"
  by (simp add: jget_or_def)

lemma jget_Some_iff: "jget j k = Some v \<longleftrightarrow> (\<exists>d. j = JObj d \<and> v = d_get d k)"
  by (auto simp: jget_def split: json.splits)

lemma py_iter_JArr [py]: "py_iter (JArr xs) = Some xs"
  by (simp add: py_iter_def)

lemma py_truthy_simps [py]:
  "\<not> py_truthy JNull"
  "py_truthy (JBool b) \<longleftrightarrow> b"
  "py_truthy (JInt i) \<longleftrightarrow> i \<noteq> 0"
  "py_truthy (JStr s) \<longleftrightarrow> s \<noteq> []"
  "py_truthy (JArr xs) \<longleftrightarrow> xs \<noteq> []"
  "py_truthy (JObj d) \<longleftrightarrow> d \<noteq> []"
  by (simp_all add: py_truthy_def)

lemma py_or_simps [py]:
  "py_or JNull b = b"
  "py_or (JStr s) b = (if s = [] then b else JStr s)"
  "py_or (JArr xs) b = (if xs = [] then b else JArr xs)"
  "py_or (JObj d) b = (if d = [] then b else JObj d)"
  by (simp_all add: py_or_def py_truthy_def)

lemma type_tests [py]:
  "is_obj (JObj d)" "\<not> is_obj JNull" "\<not> is_obj (JStr s)" "\<not> is_obj (JArr xs)"
  "\<not> is_obj (JInt i)" "\<not> is_obj (JBool b)" "\<not> is_obj (JFlt f)"
  "is_arr (JArr xs)" "\<not> is_arr JNull" "\<not> is_arr (JStr s)" "\<not> is_arr (JObj d)"
  "is_str (JStr s)" "\<not> is_str JNull" "\<not> is_str (JArr xs)" "\<not> is_str (JObj d)"
  by (simp_all add: is_obj_def is_arr_def is_str_def)

lemma is_obj_iff: "is_obj j \<longleftrightarrow> (\<exists>d. j = JObj d)"
  by (cases j) (auto simp: is_obj_def)

lemma is_arr_iff: "is_arr j \<longleftrightarrow> (\<exists>xs. j = JArr xs)"
  by (cases j) (auto simp: is_arr_def)

lemma is_str_iff: "is_str j \<longleftrightarrow> (\<exists>s. j = JStr s)"
  by (cases j) (auto simp: is_str_def)

lemma map_of_d_set: "map_of (d_set d k v) = (map_of d)(k \<mapsto> v)"
  by (simp add: d_set_def update_conv')

lemma d_get_d_set [simp]: "d_get (d_set d k v) k' = (if k' = k then v else d_get d k')"
  by (simp add: d_get_def map_of_d_set)

lemma d_has_d_set [simp]: "d_has (d_set d k v) k' \<longleftrightarrow> k' = k \<or> d_has d k'"
  by (simp add: d_has_def map_of_d_set)

lemma d_get_Nil [simp]: "d_get [] k = JNull"
  by (simp add: d_get_def)

lemma d_set_neq_Nil [simp]: "d_set d k v \<noteq> []"
  by (cases d) (auto simp: d_set_def)

lemma distinct_d_set: "distinct (map fst d) \<Longrightarrow> distinct (map fst (d_set d k v))"
  by (simp add: d_set_def distinct_update)

lemma dom_d_set: "fst ` set (d_set d k v) = insert k (fst ` set d)"
  by (metis dom_map_of_conv_image_fst dom_fun_upd map_of_d_set option.distinct(1))

lemma d_get_d_update:
  "distinct (map fst e) \<Longrightarrow>
   d_get (d_update d e) k = (case map_of e k of None \<Rightarrow> d_get d k | Some v \<Rightarrow> v)"
proof (induction e arbitrary: d)
  case (Cons kv e)
  then have "map_of e (fst kv) = None" by (simp add: map_of_eq_None_iff)
  with Cons show ?case by (auto simp: d_update_def split: option.splits)
qed (simp add: d_update_def)

lemma is_blank_simps [py]:
  "is_blank JNull" "\<not> is_blank (JBool b)" "\<not> is_blank (JInt i)" "\<not> is_blank (JFlt f)"
  "\<not> is_blank (JObj d)" "is_blank (JStr s) \<longleftrightarrow> s = []" "is_blank (JArr xs) \<longleftrightarrow> xs = []"
  by (auto simp: is_blank_def)

lemma py_dict_JObj [py]: "py_dict (JObj d) = Some d"
  by (simp add: py_dict_def)

lemma py_item_JArr [py]: "py_item (JArr xs) i = list_item xs i"
  by (simp add: py_item_def)

lemma py_len_JArr [py]: "py_len (JArr xs) = Some (int (length xs))"
  by (simp add: py_len_def)

lemma list_item_nth [py]: "0 \<le> i \<Longrightarrow> i < int (length xs) \<Longrightarrow> list_item xs i = Some (xs ! nat i)"
  by (simp add: list_item_def)

end
