(* ===== verification/PyTime.thy ===== *)
theory PyTime
  imports PyText
begin

text \<open>
  Aware UTC \<open>datetime\<close> values as microseconds since 1970-01-01, and the text
  \<open>datetime.isoformat()\<close> gives them. Days are turned into a calendar date with the
  proleptic Gregorian arithmetic of eras of 146097 days.
\<close>

definition day_us :: int where "day_us = 86400000000"

text \<open>Year, month and day of a day number.\<close>

definition civil :: "int \<Rightarrow> int \<times> int \<times> int" where
  "civil days =
     (let z = days + 719468;
          era = z div 146097;
          doe = z mod 146097;
          yoe = (doe - doe div 1460 + doe div 36524 - doe div 146096) div 365;
          doy = doe - (365 * yoe + yoe div 4 - yoe div 100);
          mp = (5 * doy + 2) div 153;
          d = doy - (153 * mp + 2) div 5 + 1;
          m = (if mp < 10 then mp + 3 else mp - 9);
          y = yoe + era * 400 + (if m \<le> 2 then 1 else 0)
      in (y, m, d))"

definition zero_pad :: "nat \<Rightarrow> int \<Rightarrow> string" where
  "zero_pad n i = (let s = show_int i in replicate (n - length s) (CHR ''0'') @ s)"

text \<open>\<open>isoformat()\<close>: microseconds only when they are not zero, and the offset \<open>+00:00\<close>.\<close>

definition iso_utc :: "int \<Rightarrow> string" where
  "iso_utc t =
     (let (y, m, d) = civil (t div day_us);
          us = t mod day_us;
          s = us div 1000000;
          frac = us mod 1000000
      in zero_pad 4 y @ ''-'' @ zero_pad 2 m @ ''-'' @ zero_pad 2 d @ ''T'' @
         zero_pad 2 (s div 3600) @ '':'' @ zero_pad 2 (s div 60 mod 60) @ '':'' @
         zero_pad 2 (s mod 60) @ (if frac = 0 then [] else ''.'' @ zero_pad 6 frac) @ ''+00:00'')"

lemma civil_epoch: "civil 0 = (1970, 1, 1)"
  by code_simp

lemma civil_leap_day: "civil 11016 = (2000, 2, 29)"
  by code_simp

end
