(* ===== verification/Store.thy ===== *)
theory Store
  imports PyJson PyTime
begin

text \<open>
  The database rows of \<open>models/agent.py\<close>, and the session every handler works on. A session
  shows \<open>cur\<close>, its own view with the flushed changes; \<open>saved\<close> is what has been committed.
  Leaving a handler closes the session, so whatever it did not commit is gone
  (\<open>close_session\<close>). Time stamps are UTC microseconds; the clock, the id generator, the
  contract files and PriceFRAME are the environment \<open>env\<close>, read through counters of the
  state so that two readings need not agree.
\<close>

section \<open>Rows\<close>

record agent_conversation =
  cv_id :: string
  cv_user_id :: int
  cv_title :: string
  cv_kind :: "string option"
  cv_pinned :: bool
  cv_archived :: bool
  cv_deleted_at :: "int option"
  cv_created_at :: int
  cv_updated_at :: int

record agent_workflow_draft =
  dr_conversation_id :: string
  dr_contract_id :: string
  dr_contract_version :: string
  dr_current_step_id :: string
  dr_payload :: dict
  dr_step_status :: dict
  dr_created_at :: int
  dr_updated_at :: int
  dr_expires_at :: int

record agent_message =
  ms_id :: string
  ms_conversation_id :: string
  ms_user_id :: int
  ms_role :: string
  ms_content :: string
  ms_source :: string
  ms_run_id :: "string option"
  ms_created_at :: int

record agent_run =
  rn_id :: string
  rn_conversation_id :: string
  rn_user_id :: int
  rn_status :: string
  rn_input_message_id :: "string option"
  rn_output_message_id :: "string option"
  rn_error :: "string option"
  rn_created_at :: int
  rn_updated_at :: int
  rn_started_at :: "int option"
  rn_completed_at :: "int option"
  rn_cancelled_at :: "int option"

record agent_run_step =
  st_id :: int
  st_run_id :: string
  st_seq :: int
  st_kind :: string
  st_status :: string
  st_created_at :: int
  st_completed_at :: "int option"

record agent_tool_call =
  tc_id :: string
  tc_run_id :: string
  tc_step_id :: "int option"
  tc_tool_name :: string
  tc_status :: string
  tc_args :: dict
  tc_result :: "dict option"
  tc_error :: "string option"
  tc_requires_approval :: bool
  tc_audit_log_id :: "int option"
  tc_approved_at :: "int option"
  tc_rejected_at :: "int option"
  tc_created_at :: int
  tc_completed_at :: "int option"

record agent_run_event =
  ev_id :: int
  ev_run_id :: string
  ev_seq :: int
  ev_type :: string
  ev_payload :: dict
  ev_created_at :: int

record agent_idempotency_key =
  ik_user_id :: int
  ik_key :: string
  ik_resource_kind :: string
  ik_resource_id :: string
  ik_response_payload :: json
  ik_expires_at :: int
  ik_created_at :: int

record agent_audit_log =
  al_id :: int
  al_user_id :: int
  al_run_id :: "string option"
  al_action :: string
  al_payload :: dict
  al_created_at :: int

record agent_user_memory =
  um_id :: string
  um_user_id :: int
  um_key :: string
  um_value :: string
  um_source :: string
  um_metadata :: dict
  um_created_at :: int
  um_updated_at :: int

section \<open>Database, session and environment\<close>

record db =
  conversations :: "agent_conversation list"
  drafts :: "agent_workflow_draft list"
  messages :: "agent_message list"
  runs :: "agent_run list"
  run_steps :: "agent_run_step list"
  tool_calls :: "agent_tool_call list"
  run_events :: "agent_run_event list"
  idempotency_keys :: "agent_idempotency_key list"
  audit_log :: "agent_audit_log list"
  user_memory :: "agent_user_memory list"

text \<open>
  One HTTP request to PriceFRAME as the client issues it, and what comes back: a transport
  error, or a status with the decoded body (\<open>None\<close> when it is not JSON) and the raw text.
\<close>

record pf_request =
  rq_method :: string
  rq_path :: string
  rq_headers :: "(string \<times> string) list"
  rq_params :: dict
  rq_body :: "dict option"

datatype http_reply =
    TransportError string
  | Response int "json option" string

text \<open>The samples recorded on the Prometheus collectors.\<close>

datatype metric =
    StepDuration string string int
  | SuggestionSource string
  | SuggestionNoSignal string
  | DraftResume
  | RunLatency string
  | StepCount nat
  | WebResearchCost pyfloat

record world =
  cur :: db
  saved :: db
  tick :: nat
  idn :: nat
  rown :: int
  sent :: "pf_request list"
  metrics :: "metric list"

text \<open>
  The environment: time, fresh identifiers, PriceFRAME's replies (they may depend on every
  request sent before), the contract files, and the parts of the runtime that are not
  modelled (shortest float text, regular expressions, digests, the
  JWT library's signature check), with the settings the modelled
  code reads.
\<close>

record env =
  clock :: "nat \<Rightarrow> int"
  fresh_id :: "nat \<Rightarrow> string"
  respond :: "pf_request list \<Rightarrow> pf_request \<Rightarrow> http_reply"
  contract_file :: "string \<Rightarrow> json option"
  float_text :: "rat \<Rightarrow> string"
  re_match :: "string \<Rightarrow> string \<Rightarrow> bool"
  hmac_hex :: "string \<Rightarrow> string \<Rightarrow> string"
  sha256_hex :: "string \<Rightarrow> string"
  jwt_decode :: "string \<Rightarrow> json option"
  pf_max_retries :: int
  service_secret :: string

definition utc_now :: "env \<Rightarrow> world \<Rightarrow> int \<times> world" where
  "utc_now e w = (clock e (tick w), w\<lparr>tick := Suc (tick w)\<rparr>)"

definition new_id :: "env \<Rightarrow> world \<Rightarrow> string \<times> world" where
  "new_id e w = (fresh_id e (idn w), w\<lparr>idn := Suc (idn w)\<rparr>)"

definition next_row :: "world \<Rightarrow> int \<times> world" where
  "next_row w = (rown w, w\<lparr>rown := rown w + 1\<rparr>)"

definition commit :: "world \<Rightarrow> world" where "commit w = w\<lparr>saved := cur w\<rparr>"
definition close_session :: "world \<Rightarrow> world" where "close_session w = w\<lparr>cur := saved w\<rparr>"
definition in_db :: "(db \<Rightarrow> db) \<Rightarrow> world \<Rightarrow> world" where "in_db f w = w\<lparr>cur := f (cur w)\<rparr>"
definition record_metric :: "metric \<Rightarrow> world \<Rightarrow> world" where
  "record_metric m w = w\<lparr>metrics := metrics w @ [m]\<rparr>"

text \<open>One request on the wire.\<close>

definition wire :: "env \<Rightarrow> pf_request \<Rightarrow> world \<Rightarrow> http_reply \<times> world" where
  "wire e rq w = (respond e (sent w) rq, w\<lparr>sent := sent w @ [rq]\<rparr>)"

section \<open>Keyed tables of the session\<close>

text \<open>
  What the handlers rely on when they load a row by key, change attributes of the loaded
  object and add new objects: a change shows in the row it was made to and in no other, a
  new row is found under its key.
\<close>

locale row_store =
  fixes key :: "'r \<Rightarrow> 'k"
    and get :: "'k \<Rightarrow> 's \<Rightarrow> 'r option"
    and upd :: "'k \<Rightarrow> ('r \<Rightarrow> 'r) \<Rightarrow> 's \<Rightarrow> 's"
    and add :: "'r \<Rightarrow> 's \<Rightarrow> 's"
  assumes get_upd: "(\<And>r. key (f r) = key r) \<Longrightarrow>
      get k' (upd k f s) = (if k' = k then map_option f (get k s) else get k' s)"
    and get_add: "get k (add r s) =
      (case get k s of None \<Rightarrow> if key r = k then Some r else None | Some r0 \<Rightarrow> Some r0)"
    and get_key: "get k s = Some r \<Longrightarrow> key r = k"
begin

lemma get_upd_same:
  "(\<And>r. key (f r) = key r) \<Longrightarrow> get k s = Some r \<Longrightarrow> get k (upd k f s) = Some (f r)"
  by (simp add: get_upd)

lemma get_upd_other:
  "(\<And>r. key (f r) = key r) \<Longrightarrow> k' \<noteq> k \<Longrightarrow> get k' (upd k f s) = get k' s"
  by (simp add: get_upd)

lemma get_add_new: "get (key r) s = None \<Longrightarrow> get (key r) (add r s) = Some r"
  by (simp add: get_add)

lemma get_add_old: "get k s = Some r0 \<Longrightarrow> get k (add r s) = Some r0"
  by (simp add: get_add)

lemma get_upd_twice:
  "(\<And>r. key (f r) = key r) \<Longrightarrow> (\<And>r. key (g r) = key r) \<Longrightarrow>
   get k' (upd k g (upd k f s)) = get k' (upd k (g \<circ> f) s)"
  by (simp add: get_upd option.map_comp)

text \<open>A property of single rows survives an update that preserves it on the row it touches.\<close>

lemma every_row_upd:
  assumes "\<And>r. key (f r) = key r"
    and "\<And>k r. get k s = Some r \<Longrightarrow> P r"
    and "\<And>r. get k s = Some r \<Longrightarrow> P r \<Longrightarrow> P (f r)"
    and "get k' (upd k f s) = Some r"
  shows "P r"
  using assms by (auto simp: get_upd split: if_splits)

lemma every_row_add:
  assumes "\<And>k r. get k s = Some r \<Longrightarrow> P r" and "P r0" and "get k' (add r0 s) = Some r"
  shows "P r"
  using assms by (auto simp: get_add split: option.splits if_splits)

end

definition get_run :: "string \<Rightarrow> world \<Rightarrow> agent_run option" where
  "get_run k w = row_find rn_id k (runs (cur w))"
definition upd_run :: "string \<Rightarrow> (agent_run \<Rightarrow> agent_run) \<Rightarrow> world \<Rightarrow> world" where
  "upd_run k f = in_db (\<lambda>d. d\<lparr>runs := row_modify rn_id k f (runs d)\<rparr>)"
definition add_run :: "agent_run \<Rightarrow> world \<Rightarrow> world" where
  "add_run r = in_db (\<lambda>d. d\<lparr>runs := runs d @ [r]\<rparr>)"

definition get_conversation :: "string \<Rightarrow> world \<Rightarrow> agent_conversation option" where
  "get_conversation k w = row_find cv_id k (conversations (cur w))"
definition upd_conversation ::
    "string \<Rightarrow> (agent_conversation \<Rightarrow> agent_conversation) \<Rightarrow> world \<Rightarrow> world" where
  "upd_conversation k f = in_db (\<lambda>d. d\<lparr>conversations := row_modify cv_id k f (conversations d)\<rparr>)"
definition add_conversation :: "agent_conversation \<Rightarrow> world \<Rightarrow> world" where
  "add_conversation r = in_db (\<lambda>d. d\<lparr>conversations := conversations d @ [r]\<rparr>)"

definition get_draft :: "string \<Rightarrow> world \<Rightarrow> agent_workflow_draft option" where
  "get_draft k w = row_find dr_conversation_id k (drafts (cur w))"
definition upd_draft ::
    "string \<Rightarrow> (agent_workflow_draft \<Rightarrow> agent_workflow_draft) \<Rightarrow> world \<Rightarrow> world" where
  "upd_draft k f = in_db (\<lambda>d. d\<lparr>drafts := row_modify dr_conversation_id k f (drafts d)\<rparr>)"
definition add_draft :: "agent_workflow_draft \<Rightarrow> world \<Rightarrow> world" where
  "add_draft r = in_db (\<lambda>d. d\<lparr>drafts := drafts d @ [r]\<rparr>)"
definition del_draft :: "string \<Rightarrow> world \<Rightarrow> world" where
  "del_draft k = in_db (\<lambda>d. d\<lparr>drafts := row_remove dr_conversation_id k (drafts d)\<rparr>)"

definition get_message :: "string \<Rightarrow> world \<Rightarrow> agent_message option" where
  "get_message k w = row_find ms_id k (messages (cur w))"
definition upd_message :: "string \<Rightarrow> (agent_message \<Rightarrow> agent_message) \<Rightarrow> world \<Rightarrow> world" where
  "upd_message k f = in_db (\<lambda>d. d\<lparr>messages := row_modify ms_id k f (messages d)\<rparr>)"
definition add_message :: "agent_message \<Rightarrow> world \<Rightarrow> world" where
  "add_message r = in_db (\<lambda>d. d\<lparr>messages := messages d @ [r]\<rparr>)"
definition del_message :: "string \<Rightarrow> world \<Rightarrow> world" where
  "del_message k = in_db (\<lambda>d. d\<lparr>messages := row_remove ms_id k (messages d)\<rparr>)"

definition get_step_row :: "int \<Rightarrow> world \<Rightarrow> agent_run_step option" where
  "get_step_row k w = row_find st_id k (run_steps (cur w))"
definition upd_step_row :: "int \<Rightarrow> (agent_run_step \<Rightarrow> agent_run_step) \<Rightarrow> world \<Rightarrow> world" where
  "upd_step_row k f = in_db (\<lambda>d. d\<lparr>run_steps := row_modify st_id k f (run_steps d)\<rparr>)"
definition add_step_row :: "agent_run_step \<Rightarrow> world \<Rightarrow> world" where
  "add_step_row r = in_db (\<lambda>d. d\<lparr>run_steps := run_steps d @ [r]\<rparr>)"

definition get_tool_call :: "string \<Rightarrow> world \<Rightarrow> agent_tool_call option" where
  "get_tool_call k w = row_find tc_id k (tool_calls (cur w))"
definition upd_tool_call :: "string \<Rightarrow> (agent_tool_call \<Rightarrow> agent_tool_call) \<Rightarrow> world \<Rightarrow> world" where
  "upd_tool_call k f = in_db (\<lambda>d. d\<lparr>tool_calls := row_modify tc_id k f (tool_calls d)\<rparr>)"
definition add_tool_call :: "agent_tool_call \<Rightarrow> world \<Rightarrow> world" where
  "add_tool_call r = in_db (\<lambda>d. d\<lparr>tool_calls := tool_calls d @ [r]\<rparr>)"

definition get_memory :: "string \<Rightarrow> world \<Rightarrow> agent_user_memory option" where
  "get_memory k w = row_find um_id k (user_memory (cur w))"
definition add_memory :: "agent_user_memory \<Rightarrow> world \<Rightarrow> world" where
  "add_memory r = in_db (\<lambda>d. d\<lparr>user_memory := user_memory d @ [r]\<rparr>)"
definition del_memory :: "string \<Rightarrow> world \<Rightarrow> world" where
  "del_memory k = in_db (\<lambda>d. d\<lparr>user_memory := row_remove um_id k (user_memory d)\<rparr>)"

definition add_audit_row :: "agent_audit_log \<Rightarrow> world \<Rightarrow> world" where
  "add_audit_row r = in_db (\<lambda>d. d\<lparr>audit_log := audit_log d @ [r]\<rparr>)"

named_theorems table_defs "definitions of the table operations"

lemmas run_table = get_run_def upd_run_def add_run_def
lemmas conversation_table = get_conversation_def upd_conversation_def add_conversation_def
lemmas draft_table = get_draft_def upd_draft_def add_draft_def del_draft_def
lemmas message_table = get_message_def upd_message_def add_message_def del_message_def
lemmas step_table = get_step_row_def upd_step_row_def add_step_row_def
lemmas tool_call_table = get_tool_call_def upd_tool_call_def add_tool_call_def
lemmas memory_table = get_memory_def add_memory_def del_memory_def add_audit_row_def

lemmas [table_defs] = run_table conversation_table draft_table message_table step_table
  tool_call_table memory_table in_db_def

lemmas lookup_laws = row_find_modify row_find_append

interpretation run_rows: row_store rn_id get_run upd_run add_run
proof (unfold_locales, goal_cases)
  case 1 then show ?case by (simp add: run_table in_db_def lookup_laws)
next
  case 2 then show ?case by (simp add: run_table in_db_def lookup_laws split: option.split)
next
  case 3 then show ?case by (auto simp: run_table dest: row_find_SomeD)
qed

interpretation conversation_rows: row_store cv_id get_conversation upd_conversation add_conversation
proof (unfold_locales, goal_cases)
  case 1 then show ?case by (simp add: conversation_table in_db_def lookup_laws)
next
  case 2 then show ?case by (simp add: conversation_table in_db_def lookup_laws split: option.split)
next
  case 3 then show ?case by (auto simp: conversation_table dest: row_find_SomeD)
qed

interpretation draft_rows: row_store dr_conversation_id get_draft upd_draft add_draft
proof (unfold_locales, goal_cases)
  case 1 then show ?case by (simp add: draft_table in_db_def lookup_laws)
next
  case 2 then show ?case by (simp add: draft_table in_db_def lookup_laws split: option.split)
next
  case 3 then show ?case by (auto simp: draft_table dest: row_find_SomeD)
qed

interpretation message_rows: row_store ms_id get_message upd_message add_message
proof (unfold_locales, goal_cases)
  case 1 then show ?case by (simp add: message_table in_db_def lookup_laws)
next
  case 2 then show ?case by (simp add: message_table in_db_def lookup_laws split: option.split)
next
  case 3 then show ?case by (auto simp: message_table dest: row_find_SomeD)
qed

interpretation step_rows: row_store st_id get_step_row upd_step_row add_step_row
proof (unfold_locales, goal_cases)
  case 1 then show ?case by (simp add: step_table in_db_def lookup_laws)
next
  case 2 then show ?case by (simp add: step_table in_db_def lookup_laws split: option.split)
next
  case 3 then show ?case by (auto simp: step_table dest: row_find_SomeD)
qed

interpretation tool_call_rows: row_store tc_id get_tool_call upd_tool_call add_tool_call
proof (unfold_locales, goal_cases)
  case 1 then show ?case by (simp add: tool_call_table in_db_def lookup_laws)
next
  case 2 then show ?case by (simp add: tool_call_table in_db_def lookup_laws split: option.split)
next
  case 3 then show ?case by (auto simp: tool_call_table dest: row_find_SomeD)
qed

text \<open>The empty database and a session on a given database, for evaluation on concrete inputs.\<close>

definition empty_db :: db where
  "empty_db = \<lparr>conversations = [], drafts = [], messages = [], runs = [], run_steps = [],
     tool_calls = [], run_events = [], idempotency_keys = [], audit_log = [], user_memory = []\<rparr>"

definition session_on :: "db \<Rightarrow> world" where
  "session_on d = \<lparr>cur = d, saved = d, tick = 0, idn = 0, rown = 1, sent = [], metrics = []\<rparr>"

text \<open>An environment with a ticking clock and a PriceFRAME that fails twice and then answers.\<close>

definition demo_env :: env where
  "demo_env = \<lparr>clock = int, fresh_id = show_nat,
     respond = (\<lambda>sent rq. if length sent < 2 then Response 503 None ''busy''
                          else Response 200 (Some (JObj [(''id'', JInt 7)])) []),
     contract_file = Map.empty, float_text = (\<lambda>_. ''0.5''), re_match = (\<lambda>_ _. True),
     hmac_hex = (\<lambda>_ _. []), sha256_hex = id, jwt_decode = Map.empty,
     pf_max_retries = 2, service_secret = []\<rparr>"

end
