(* ===== verification/RunEvents.thy ===== *)
theory RunEvents
  imports Store
begin

text \<open>
  The event log of a run (\<open>agent/events.py\<close>) and the stream that replays it
  (\<open>stream_run\<close> and \<open>_parse_cursor\<close> of \<open>api/v1/runs.py\<close>). An event gets the next
  sequence number of its run; the stream polls the log from a cursor and closes on a
  terminal event or a finished run.
\<close>

section \<open>Appending and listing\<close>

definition event_step_proposed :: string where
  "event_step_proposed = ''v1.workflow.step.proposed''"
definition event_proposal_accepted :: string where
  "event_proposal_accepted = ''v1.workflow.step.proposal_accepted''"
definition event_proposal_dismissed :: string where
  "event_proposal_dismissed = ''v1.workflow.step.proposal_dismissed''"

text \<open>The events of one run, oldest first, and \<open>coalesce(max(seq), 0) + 1\<close> over them.\<close>

definition run_log :: "string \<Rightarrow> db \<Rightarrow> agent_run_event list" where
  "run_log r d = filter (\<lambda>ev. ev_run_id ev = r) (run_events d)"

definition next_seq :: "string \<Rightarrow> db \<Rightarrow> int" where
  "next_seq r d =
     (let seqs = map ev_seq (run_log r d) in (if seqs = [] then 0 else Max (set seqs)) + 1)"

definition append_run_event ::
    "env \<Rightarrow> string \<Rightarrow> string \<Rightarrow> dict \<Rightarrow> world \<Rightarrow> agent_run_event \<times> world" where
  "append_run_event e run_id event_type payload w =
     (let seq = next_seq run_id (cur w);
          (i, w1) = next_row w;
          (t, w2) = utc_now e w1;
          ev = \<lparr>ev_id = i, ev_run_id = run_id, ev_seq = seq, ev_type = event_type,
                ev_payload = payload, ev_created_at = t\<rparr>
      in (ev, in_db (\<lambda>d. d\<lparr>run_events := run_events d @ [ev]\<rparr>) w2))"

text \<open>The world after an append, for callers that drop the returned row.\<close>

abbreviation emit :: "env \<Rightarrow> string \<Rightarrow> string \<Rightarrow> dict \<Rightarrow> world \<Rightarrow> world" where
  "emit e r ty p w \<equiv> snd (append_run_event e r ty p w)"

definition list_run_events :: "string \<Rightarrow> int \<Rightarrow> nat \<Rightarrow> db \<Rightarrow> agent_run_event list" where
  "list_run_events run_id after_seq limit d =
     take limit (sort_key ev_seq (filter (\<lambda>ev. ev_seq ev > after_seq) (run_log run_id d)))"

definition event_payload :: "agent_run_event \<Rightarrow> dict" where
  "event_payload ev =
     d_update [(''run_id'', JStr (ev_run_id ev)), (''seq'', JInt (ev_seq ev)),
               (''ts'', JStr (iso_utc (ev_created_at ev)))] (ev_payload ev)"

section \<open>Step durations\<close>

text \<open>\<open>observability/metrics.py\<close>: four outcome labels, everything else is \<open>abandoned\<close>.\<close>

definition valid_step_outcomes :: "string list" where
  "valid_step_outcomes = [''approved'', ''blocked'', ''rejected'', ''abandoned'']"

definition observe_workflow_step_duration :: "string \<Rightarrow> string \<Rightarrow> int \<Rightarrow> world \<Rightarrow> world" where
  "observe_workflow_step_duration step_id outcome seconds =
     (let safe_outcome = (if outcome \<in> set valid_step_outcomes then outcome else ''abandoned'');
          seconds' = (if seconds < 0 then 0 else seconds)
      in record_metric (StepDuration step_id safe_outcome seconds'))"

text \<open>The newest eight \<open>step.entered\<close> events, by time and then by sequence number.\<close>

definition entered_events :: "string \<Rightarrow> db \<Rightarrow> agent_run_event list" where
  "entered_events run_id d =
     take 8 (rev (sort_key (\<lambda>ev. [ev_created_at ev, ev_seq ev])
       (filter (\<lambda>ev. ev_type ev = ''v1.workflow.step.entered'') (run_log run_id d))))"

definition record_step_duration_from_events ::
    "env \<Rightarrow> string \<Rightarrow> string \<Rightarrow> string \<Rightarrow> world \<Rightarrow> int option \<times> world" where
  "record_step_duration_from_events e run_id step_id outcome w =
     (case find (\<lambda>ev. d_get (ev_payload ev) ''step_id'' = JStr step_id)
             (entered_events run_id (cur w)) of
        None \<Rightarrow> (None, w)
      | Some ev \<Rightarrow>
          let (now, w1) = utc_now e w;
              seconds = max 0 (now - ev_created_at ev)
          in (Some seconds, observe_workflow_step_duration step_id outcome seconds w1))"

section \<open>The stream\<close>

record sse_frame =
  fr_id :: "string option"
  fr_event :: string
  fr_data :: string

definition compact :: "env \<Rightarrow> dump_cfg" where
  "compact e = \<lparr>item_sep = '','', key_sep = '':'', sort_keys = False, ensure_ascii = True,
                float_repr = float_text e\<rparr>"

definition event_frame :: "env \<Rightarrow> agent_run_event \<Rightarrow> sse_frame" where
  "event_frame e ev =
     \<lparr>fr_id = Some (show_int (ev_seq ev)), fr_event = ev_type ev,
      fr_data = dumps (compact e) (JObj (event_payload ev))\<rparr>"

definition heartbeat_frame :: "env \<Rightarrow> string \<Rightarrow> int \<Rightarrow> sse_frame" where
  "heartbeat_frame e run_id cursor =
     \<lparr>fr_id = None, fr_event = ''v1.heartbeat'',
      fr_data = dumps (compact e) (JObj [(''run_id'', JStr run_id), (''seq'', JInt cursor)])\<rparr>"

definition parse_cursor :: "string option \<Rightarrow> int" where
  "parse_cursor v = (case v of
      None \<Rightarrow> 0
    | Some s \<Rightarrow> if s \<noteq> [] \<and> str_isdecimal s then int (dec_value s) else 0)"

definition terminal_events :: "string list" where
  "terminal_events = [''v1.run.awaiting_decision'', ''v1.run.completed'', ''v1.run.error'']"

definition stream_closing_statuses :: "string list" where
  "stream_closing_statuses = [''awaiting_decision'', ''completed'', ''error'', ''cancelled'']"

text \<open>
  One turn of the generator's loop against the state \<open>d\<close> it reads: the events it yields,
  the new cursor, and whether it leaves the loop.
\<close>

definition stream_poll ::
    "nat \<Rightarrow> string \<Rightarrow> int \<Rightarrow> db \<Rightarrow> agent_run_event list \<times> int \<times> bool" where
  "stream_poll limit run_id cursor d =
     (let evs = list_run_events run_id cursor limit d;
          cursor' = foldl (\<lambda>_ ev. ev_seq ev) cursor evs;
          emitted_terminal = list_ex (\<lambda>ev. ev_type ev \<in> set terminal_events) evs;
          closed = (case row_find rn_id run_id (runs d) of
              None \<Rightarrow> False | Some run \<Rightarrow> rn_status run \<in> set stream_closing_statuses)
      in (evs, cursor', emitted_terminal \<or> closed))"

text \<open>
  The generator over the successive database states it polls, for as long as the client
  stays connected: the events delivered, and the frames as sent.
\<close>

fun stream_events :: "nat \<Rightarrow> string \<Rightarrow> int \<Rightarrow> db list \<Rightarrow> agent_run_event list" where
  "stream_events limit run_id cursor [] = []"
| "stream_events limit run_id cursor (d # ds) =
     (case stream_poll limit run_id cursor d of
        (evs, cursor', stop) \<Rightarrow>
          evs @ (if stop then [] else stream_events limit run_id cursor' ds))"

fun stream_run :: "env \<Rightarrow> nat \<Rightarrow> string \<Rightarrow> int \<Rightarrow> db list \<Rightarrow> sse_frame list" where
  "stream_run e limit run_id cursor [] = []"
| "stream_run e limit run_id cursor (d # ds) =
     (case stream_poll limit run_id cursor d of
        (evs, cursor', stop) \<Rightarrow>
          map (event_frame e) evs @
          (if stop then []
           else heartbeat_frame e run_id cursor' # stream_run e limit run_id cursor' ds))"

section \<open>The numbering of a log\<close>

definition numbered :: "int list \<Rightarrow> bool" where
  "numbered xs \<longleftrightarrow> xs = map int [1..<Suc (length xs)]"

definition log_wf :: "db \<Rightarrow> bool" where
  "log_wf d \<longleftrightarrow> (\<forall>r. numbered (map ev_seq (run_log r d)))"

lemma numbered_Nil [simp]: "numbered []"
  by (simp add: numbered_def)

lemma numbered_set: "numbered xs \<Longrightarrow> set xs = int ` {1..length xs}"
  by (metis atLeastLessThanSuc_atLeastAtMost image_set numbered_def set_upt)

lemma numbered_top:
  assumes "numbered xs"
  shows "(if xs = [] then 0 else Max (set xs)) = int (length xs)"
proof (cases "xs = []")
  case False
  have "Max (int ` {1..length xs}) = int (length xs)"
    using False by (intro Max_eqI) (auto simp: Suc_le_eq)
  with False assms show ?thesis by (simp add: numbered_set)
qed simp

lemma numbered_snoc: "numbered xs \<Longrightarrow> numbered (xs @ [int (length xs) + 1])"
  by (simp add: numbered_def)

lemma numbered_nth: "numbered xs \<Longrightarrow> i < length xs \<Longrightarrow> xs ! i = int i + 1"
  by (metis add.commute length_map length_upt nth_map_upt numbered_def of_nat_Suc One_nat_def diff_Suc_1
      plus_1_eq_Suc)

lemma numbered_distinct: "numbered xs \<Longrightarrow> distinct xs"
  by (metis distinct_map distinct_upt inj_on_of_nat numbered_def)

text \<open>
  What the clients of an event log rely on: appending extends the log of that key by the
  successor of its greatest number, and no other log.
\<close>

locale event_log =
  fixes log :: "'r \<Rightarrow> 's \<Rightarrow> int list"
    and append :: "'r \<Rightarrow> 'm \<Rightarrow> 's \<Rightarrow> 's"
  assumes log_append_same: "log r (append r m s) =
      log r s @ [(if log r s = [] then 0 else Max (set (log r s))) + 1]"
    and log_append_other: "r' \<noteq> r \<Longrightarrow> log r' (append r m s) = log r' s"
begin

lemma log_append:
  "numbered (log r s) \<Longrightarrow>
   log r' (append r m s) = (if r' = r then log r s @ [int (length (log r s)) + 1] else log r' s)"
  by (simp add: log_append_same log_append_other numbered_top del: of_nat_Suc)

lemma numbered_append:
  assumes "\<And>k. numbered (log k s)"
  shows "numbered (log k (append r m s))"
  using assms by (simp add: log_append numbered_snoc)

lemma numbered_appends:
  assumes "\<And>k. numbered (log k s)"
  shows "numbered (log k (foldl (\<lambda>t (r, m). append r m t) s ms))"
  using assms
proof (induction ms arbitrary: s)
  case (Cons rm ms)
  obtain r m where rm: "rm = (r, m)" by (cases rm)
  have "numbered (log k' (append r m s))" for k' by (rule numbered_append) (rule Cons.prems)
  from Cons.IH [OF this] show ?case by (simp add: rm)
qed simp

lemma length_appends:
  "length (log k (foldl (\<lambda>t (r, m). append r m t) s ms)) =
   length (log k s) + length (filter (\<lambda>(r, m). r = k) ms)"
proof (induction ms arbitrary: s)
  case (Cons rm ms)
  obtain r m where rm: "rm = (r, m)" by (cases rm)
  have "length (log k (append r m s)) = length (log k s) + (if r = k then 1 else 0)"
    by (cases "r = k") (simp_all add: log_append_same log_append_other)
  with Cons.IH [of "append r m s"] show ?case by (simp add: rm)
qed simp

end

text \<open>What an append does to the whole state: one event more, and nothing else but the counters.\<close>

definition new_event :: "env \<Rightarrow> string \<Rightarrow> string \<Rightarrow> dict \<Rightarrow> world \<Rightarrow> agent_run_event" where
  "new_event e r ty p w = \<lparr>ev_id = rown w, ev_run_id = r, ev_seq = next_seq r (cur w),
     ev_type = ty, ev_payload = p, ev_created_at = clock e (tick w)\<rparr>"

lemma new_event_fields [simp]:
  "ev_run_id (new_event e r ty p w) = r" "ev_type (new_event e r ty p w) = ty"
  "ev_payload (new_event e r ty p w) = p" "ev_seq (new_event e r ty p w) = next_seq r (cur w)"
  by (simp_all add: new_event_def)

lemma append_run_event_eq:
  "append_run_event e r ty p w =
    (new_event e r ty p w,
     w\<lparr>rown := rown w + 1, tick := Suc (tick w),
       cur := (cur w)\<lparr>run_events := run_events (cur w) @ [new_event e r ty p w]\<rparr>\<rparr>)"
  by (simp add: append_run_event_def next_row_def utc_now_def in_db_def new_event_def Let_def)

lemma emit_frame [frame]:
  "saved (emit e r ty p w) = saved w"
  "sent (emit e r ty p w) = sent w"
  "metrics (emit e r ty p w) = metrics w"
  "idn (emit e r ty p w) = idn w"
  "runs (cur (emit e r ty p w)) = runs (cur w)"
  "tool_calls (cur (emit e r ty p w)) = tool_calls (cur w)"
  "drafts (cur (emit e r ty p w)) = drafts (cur w)"
  "conversations (cur (emit e r ty p w)) = conversations (cur w)"
  "messages (cur (emit e r ty p w)) = messages (cur w)"
  "run_steps (cur (emit e r ty p w)) = run_steps (cur w)"
  "audit_log (cur (emit e r ty p w)) = audit_log (cur w)"
  "get_run k (emit e r ty p w) = get_run k w"
  "get_tool_call k (emit e r ty p w) = get_tool_call k w"
  "get_draft k (emit e r ty p w) = get_draft k w"
  "get_step_row i (emit e r ty p w) = get_step_row i w"
  "get_conversation k (emit e r ty p w) = get_conversation k w"
  by (simp_all add: append_run_event_eq table_defs)

lemma run_events_emit: "run_events (cur (emit e r ty p w)) = run_events (cur w) @ [new_event e r ty p w]"
  by (simp add: append_run_event_eq)

lemma run_log_emit: "run_log k (cur (emit e r ty p w)) =
    run_log k (cur w) @ (if k = r then [new_event e r ty p w] else [])"
  by (simp add: append_run_event_eq run_log_def new_event_def)

abbreviation seqs :: "string \<Rightarrow> world \<Rightarrow> int list" where
  "seqs r w \<equiv> map ev_seq (run_log r (cur w))"

interpretation run_event_log: event_log seqs "\<lambda>r (ty, p) w. emit e r ty p w" for e
proof (unfold_locales, goal_cases)
  case (1 r m s)
  then show ?case
    by (cases m) (simp add: run_log_emit new_event_def next_seq_def Let_def)
next
  case (2 r' r m s)
  then show ?case by (cases m) (simp add: run_log_emit)
qed

lemma log_wf_emit: "log_wf (cur w) \<Longrightarrow> log_wf (cur (emit e r ty p w))"
  using run_event_log.numbered_append [where m = "(ty, p)" and s = w and r = r and e = e]
  by (simp add: log_wf_def)

text \<open>An operation that leaves the event table alone keeps every log as it is.\<close>

lemma log_wf_cong: "run_events d' = run_events d \<Longrightarrow> log_wf d' = log_wf d"
  by (simp add: log_wf_def run_log_def)

section \<open>What the stream delivers\<close>

lemma sorted_numbered_drop:
  assumes "numbered (map ev_seq evs)" and "0 \<le> c"
  shows "sort_key ev_seq (filter (\<lambda>ev. ev_seq ev > c) evs) = drop (nat c) evs"
proof -
  have nth: "ev_seq (evs ! i) = int i + 1" if "i < length evs" for i
    using numbered_nth [OF assms(1)] that by simp
  have "filter (\<lambda>ev. ev_seq ev > c) (take (nat c) evs) = []"
    using assms(2) by (auto simp: filter_empty_conv in_set_conv_nth nth)
  moreover have "filter (\<lambda>ev. ev_seq ev > c) (drop (nat c) evs) = drop (nat c) evs"
    using assms(2) by (auto simp: filter_id_conv in_set_conv_nth nth)
  ultimately have f: "filter (\<lambda>ev. ev_seq ev > c) evs = drop (nat c) evs"
    by (metis append_Nil append_take_drop_id filter_append)
  have "sorted (map ev_seq (drop (nat c) evs))"
    by (auto simp: sorted_iff_nth_mono nth)
  with f show ?thesis by (simp add: sort_key_id_if_sorted)
qed

lemma list_run_events_numbered:
  assumes "log_wf d" and "0 \<le> c"
  shows "list_run_events r c limit d = take limit (drop (nat c) (run_log r d))"
  using assms by (simp add: list_run_events_def log_wf_def sorted_numbered_drop)

lemma poll_cursor:
  assumes "log_wf d" and "0 \<le> c" and "evs = list_run_events r c limit d"
  shows "foldl (\<lambda>_ ev. ev_seq ev) c evs = c + int (length evs)"
proof (cases "evs = []")
  case False
  have n: "numbered (map ev_seq (run_log r d))" using assms(1) by (simp add: log_wf_def)
  have evs: "evs = take limit (drop (nat c) (run_log r d))"
    using assms by (simp add: list_run_events_numbered)
  have last: "foldl (\<lambda>_ ev. ev_seq ev) c evs = ev_seq (last evs)"
    using False by (cases evs rule: rev_cases) auto
  have len: "nat c + (length evs - 1) < length (run_log r d)" using False evs by auto
  have "evs ! j = run_log r d ! (nat c + j)" if "j < length evs" for j
    using that unfolding evs by (auto intro!: nth_drop)
  then have "last evs = run_log r d ! (nat c + (length evs - 1))"
    using False by (simp add: last_conv_nth)
  moreover have "ev_seq (run_log r d ! (nat c + (length evs - 1))) = c + int (length evs)"
    using numbered_nth [OF n, of "nat c + (length evs - 1)"] len False assms(2)
    by (simp add: of_nat_diff Suc_le_eq)
  ultimately show ?thesis by (simp add: last)
qed simp

text \<open>States a stream may see one after the other: the log of the run only grows.\<close>

definition views_ok :: "string \<Rightarrow> db list \<Rightarrow> bool" where
  "views_ok r ds \<longleftrightarrow> (\<forall>d \<in> set ds. log_wf d) \<and>
     sorted_wrt (\<lambda>d d'. prefix (run_log r d) (run_log r d')) ds"

lemma views_ok_last:
  assumes "views_ok r (d # ds)" shows "prefix (run_log r d) (run_log r (last (d # ds)))"
  using assms by (cases ds rule: rev_cases) (auto simp: views_ok_def)

lemma stream_events_take:
  assumes "views_ok r ds" and "ds \<noteq> []" and "0 \<le> c"
  shows "\<exists>k. stream_events limit r c ds = take k (drop (nat c) (run_log r (last ds)))"
  using assms
proof (induction ds arbitrary: c)
  case (Cons d ds)
  let ?L = "run_log r (last (d # ds))"
  let ?evs = "list_run_events r c limit d"
  let ?n = "length ?evs"
  have wf: "log_wf d" using Cons.prems(1) by (simp add: views_ok_def)
  note cursor = poll_cursor [OF wf Cons.prems(3) refl]
  obtain zs where zs: "?L = run_log r d @ zs"
    using views_ok_last [OF Cons.prems(1)] by (auto elim: prefixE)
  have evs: "?evs = take ?n (drop (nat c) ?L)"
  proof -
    have "?evs = take limit (drop (nat c) (run_log r d))"
      by (rule list_run_events_numbered [OF wf Cons.prems(3)])
    then show ?thesis unfolding zs drop_append by (simp add: min_def)
  qed
  define stop where "stop = snd (snd (stream_poll limit r c d))"
  have poll: "stream_poll limit r c d = (?evs, c + int ?n, stop)"
    by (simp add: stream_poll_def Let_def cursor stop_def)
  show ?case
  proof (cases "stop \<or> ds = []")
    case True
    then have "stream_events limit r c (d # ds) = ?evs" using poll by auto
    with evs show ?thesis by metis
  next
    case False
    have "views_ok r ds" using Cons.prems(1) by (simp add: views_ok_def)
    then obtain k where k: "stream_events limit r (c + int ?n) ds =
        take k (drop (nat (c + int ?n)) (run_log r (last ds)))"
      using Cons.IH [of "c + int ?n"] Cons.prems(3) False by auto
    have "drop (nat (c + int ?n)) ?L = drop ?n (drop (nat c) ?L)"
      using Cons.prems(3) by (simp add: nat_add_distrib add.commute)
    with k False poll have "stream_events limit r c (d # ds) =
        take ?n (drop (nat c) ?L) @ take k (drop ?n (drop (nat c) ?L))"
      using evs by auto
    then show ?thesis by (metis take_add)
  qed
qed simp

lemma parse_cursor_show: "0 \<le> n \<Longrightarrow> parse_cursor (Some (show_int n)) = n"
  using isdecimal_show_nat [of "nat n"] dec_value_show_nat [of "nat n"]
  by (auto simp: parse_cursor_def show_int_def str_isdecimal_def)

lemma seq_last_take:
  assumes "log_wf d" and "evs = take k (drop m (run_log r d))" and "evs \<noteq> []"
  shows "ev_seq (last evs) = int (m + length evs)"
proof -
  have n: "numbered (map ev_seq (run_log r d))" using assms(1) by (simp add: log_wf_def)
  have at: "evs ! j = run_log r d ! (m + j)" if "j < length evs" for j
    using that unfolding assms(2) by (auto intro!: nth_drop)
  have len: "m + (length evs - 1) < length (run_log r d)" using assms(2,3) by auto
  have "last evs = run_log r d ! (m + (length evs - 1))"
    using at assms(3) by (simp add: last_conv_nth)
  then show ?thesis
    using numbered_nth [OF n, of "m + (length evs - 1)"] len assms(3)
    by (simp add: of_nat_diff Suc_le_eq)
qed

section \<open>Properties\<close>

text \<open>
  C29: the stream delivers the events of its run in order of sequence number, starting right
  after the cursor, without a gap and without a repetition, whatever is appended between the
  polls and whatever page size is configured.
\<close>

theorem stream_in_order:
  assumes "views_ok r ds" and "ds \<noteq> []" and "0 \<le> c"
  shows "\<exists>k. map ev_seq (stream_events limit r c ds) = map (\<lambda>i. c + int i) [1..<Suc k] \<and>
      stream_events limit r c ds = take k (drop (nat c) (run_log r (last ds)))"
proof -
  obtain k where k: "stream_events limit r c ds = take k (drop (nat c) (run_log r (last ds)))"
    using stream_events_take [OF assms] by blast
  let ?evs = "take k (drop (nat c) (run_log r (last ds)))"
  have "log_wf (last ds)" using assms(1,2) by (simp add: views_ok_def)
  then have n: "numbered (map ev_seq (run_log r (last ds)))" by (simp add: log_wf_def)
  have "map ev_seq ?evs = map (\<lambda>i. c + int i) [1..<Suc (length ?evs)]"
  proof (rule nth_equalityI)
    fix i assume "i < length (map ev_seq ?evs)"
    then have i: "i < length ?evs" by simp
    then have "?evs ! i = run_log r (last ds) ! (nat c + i)" by (auto intro!: nth_drop)
    moreover have "ev_seq (run_log r (last ds) ! (nat c + i)) = c + int i + 1"
    proof -
      have "nat c + i < length (run_log r (last ds))" using i by auto
      then show ?thesis using numbered_nth [OF n, of "nat c + i"] assms(3) by simp
    qed
    ultimately show "map ev_seq ?evs ! i = map (\<lambda>i. c + int i) [1..<Suc (length ?evs)] ! i"
      using i by (simp del: upt_Suc)
  qed auto
  moreover have "?evs = take (length ?evs) (drop (nat c) (run_log r (last ds)))"
    by (simp add: min_def)
  ultimately show ?thesis using k by metis
qed

definition demo_run_event :: "int \<Rightarrow> string \<Rightarrow> agent_run_event" where
  "demo_run_event n ty = \<lparr>ev_id = n, ev_run_id = ''r'', ev_seq = n, ev_type = ty,
     ev_payload = [], ev_created_at = 0\<rparr>"

definition demo_log :: "int list \<Rightarrow> db" where
  "demo_log ns = empty_db\<lparr>run_events := map (\<lambda>n. demo_run_event n ''v1.step'') ns\<rparr>"

lemma demo_views: "views_ok ''r'' [demo_log [1], demo_log [1, 2], demo_log [1, 2, 3]]"
proof -
  have "run_log k (demo_log ns) = (if k = ''r'' then map (\<lambda>n. demo_run_event n ''v1.step'') ns else [])"
    for k ns by (induction ns) (auto simp: run_log_def demo_log_def demo_run_event_def)
  then show ?thesis
    by (simp add: views_ok_def log_wf_def numbered_def demo_run_event_def)
qed

theorem stream_in_order_witness:
  "\<exists>k. map ev_seq (stream_events 1 ''r'' 1 [demo_log [1], demo_log [1, 2], demo_log [1, 2, 3]]) =
      map (\<lambda>i. 1 + int i) [1..<Suc k] \<and>
    stream_events 1 ''r'' 1 [demo_log [1], demo_log [1, 2], demo_log [1, 2, 3]] =
      take k (drop (nat 1) (run_log ''r'' (last [demo_log [1], demo_log [1, 2], demo_log [1, 2, 3]])))"
  by (rule stream_in_order [OF demo_views]) simp_all

text \<open>
  A client that reconnects with the id of the last frame it received as Last-Event-ID gets
  exactly the events it has not seen: the two deliveries together are again an unbroken piece
  of the log.
\<close>

theorem stream_resume:
  assumes "views_ok r (ds1 @ ds2)" and "ds1 \<noteq> []" and "ds2 \<noteq> []" and "0 \<le> c"
    and "stream_events limit r c ds1 = evs1" and "evs1 \<noteq> []"
  shows "\<exists>k. evs1 @ stream_events limit' r (parse_cursor (fr_id (event_frame e (last evs1)))) ds2 =
      take k (drop (nat c) (run_log r (last ds2)))"
proof -
  have v1: "views_ok r ds1" and v2: "views_ok r ds2"
    using assms(1) by (auto simp: views_ok_def sorted_wrt_append)
  have wf1: "log_wf (last ds1)" using v1 assms(2) by (simp add: views_ok_def)
  obtain zs where zs: "run_log r (last ds2) = run_log r (last ds1) @ zs"
  proof -
    have "prefix (run_log r (last ds1)) (run_log r (last ds2))"
      using assms(1,2,3) by (simp add: views_ok_def sorted_wrt_append)
    then show ?thesis using that by (auto elim: prefixE)
  qed
  obtain k1 where k1: "evs1 = take k1 (drop (nat c) (run_log r (last ds1)))"
    using stream_events_take [OF v1 assms(2,4)] assms(5) by metis
  have "ev_seq (last evs1) = int (nat c + length evs1)"
    by (rule seq_last_take [OF wf1 k1 assms(6)])
  then have cur: "parse_cursor (fr_id (event_frame e (last evs1))) = c + int (length evs1)"
    using assms(4) by (simp add: event_frame_def parse_cursor_show)
  obtain k2 where k2: "stream_events limit' r (c + int (length evs1)) ds2 =
      take k2 (drop (nat (c + int (length evs1))) (run_log r (last ds2)))"
    using stream_events_take [OF v2 assms(3), of "c + int (length evs1)"] assms(4) by auto
  let ?X = "drop (nat c) (run_log r (last ds2))"
  have "evs1 = take (length evs1) ?X"
    unfolding zs drop_append using k1 by (simp add: min_def)
  moreover have "drop (nat (c + int (length evs1))) (run_log r (last ds2)) = drop (length evs1) ?X"
    using assms(4) by (simp add: nat_add_distrib add.commute)
  ultimately have "evs1 @ stream_events limit' r (c + int (length evs1)) ds2 =
      take (length evs1) ?X @ take k2 (drop (length evs1) ?X)"
    using k2 by metis
  then show ?thesis by (metis cur take_add)
qed

theorem stream_resume_witness:
  "\<exists>k. [demo_run_event 1 ''v1.step''] @
      stream_events 5 ''r'' (parse_cursor (fr_id (event_frame demo_env
        (last [demo_run_event 1 ''v1.step''])))) [demo_log [1, 2], demo_log [1, 2, 3]] =
    take k (drop (nat 0) (run_log ''r'' (last [demo_log [1, 2], demo_log [1, 2, 3]])))"
proof (rule stream_resume [where r = "''r''" and c = 0 and limit = 5 and ?ds1.0 = "[demo_log [1]]"])
  show "views_ok ''r'' ([demo_log [1]] @ [demo_log [1, 2], demo_log [1, 2, 3]])"
    using demo_views by simp
  show "stream_events 5 ''r'' 0 [demo_log [1]] = [demo_run_event 1 ''v1.step'']"
    by code_simp
qed simp_all

end
