(* ===== verification/PriceFrame.thy ===== *)
theory PriceFrame
  imports RunEvents
begin

text \<open>
  The PriceFRAME client (\<open>priceframe/client.py\<close>, \<open>priceframe/errors.py\<close>): one retry loop
  under every verb, the mapping of status codes to error classes, and the signed audit
  callback. The record \<open>pf_client\<close> holds what the constructor keeps.
\<close>

record pf_client =
  max_retries :: int
  default_headers :: "(string \<times> string) list"

definition from_settings :: "env \<Rightarrow> (string \<times> string) list \<Rightarrow> pf_client" where
  "from_settings e hs = \<lparr>max_retries = pf_max_retries e, default_headers = hs\<rparr>"

section \<open>Errors\<close>

definition response_message :: "int \<Rightarrow> json option \<Rightarrow> string \<Rightarrow> string" where
  "response_message status body txt =
     (let dflt = ''PriceFRAME returned HTTP '' @ show_int status
      in case body of
           None \<Rightarrow> if txt \<noteq> [] then txt else dflt
         | Some payload \<Rightarrow>
             (case payload of
                JObj d \<Rightarrow> (case py_or (d_get d ''message'') (d_get d ''error'') of
                    JStr m \<Rightarrow> m | _ \<Rightarrow> dflt)
              | _ \<Rightarrow> dflt))"

definition raise_for_status :: "int \<Rightarrow> json option \<Rightarrow> string \<Rightarrow> unit res" where
  "raise_for_status status body txt =
     (if status < 400 then Inr ()
      else let m = response_message status body txt;
               kind = (if status = 401 then PfAuth else if status = 403 then PfForbidden
                       else if status = 404 then PfNotFound else PfResponse)
           in Inl (PriceFrameError kind m (Some status)))"

definition unavailable :: exc where
  "unavailable = PriceFrameError PfUnavailable ''PriceFRAME request failed'' None"

section \<open>Requests\<close>

text \<open>
  \<open>_request\<close>, with the attempts that are left and the error to raise when none is. A reply
  below 500 ends the loop, with an error from 400 on; everything else is tried again.
\<close>

fun request_loop ::
    "env \<Rightarrow> nat \<Rightarrow> pf_request \<Rightarrow> exc \<Rightarrow> world \<Rightarrow> (json option \<times> string) res \<times> world" where
  "request_loop e 0 rq last_error w = (Inl last_error, w)"
| "request_loop e (Suc attempts) rq last_error w =
     (case wire e rq w of
        (TransportError m, w') \<Rightarrow>
          request_loop e attempts rq (PriceFrameError PfUnavailable m None) w'
      | (Response status body txt, w') \<Rightarrow>
          if status < 500
          then (ebind (raise_for_status status body txt) (\<lambda>_. Inr (body, txt)), w')
          else request_loop e attempts rq
                 (PriceFrameError PfUnavailable (response_message status body txt) (Some status)) w')"

definition request :: "env \<Rightarrow> pf_client \<Rightarrow> pf_request \<Rightarrow> world \<Rightarrow> (json option \<times> string) res \<times> world" where
  "request e c rq w = request_loop e (nat (max_retries c + 1)) rq unavailable w"

text \<open>\<open>response.json()\<close>: a body that is not JSON is a \<open>JSONDecodeError\<close>, a \<open>ValueError\<close>.\<close>

definition response_json :: "(json option \<times> string) res \<Rightarrow> json res" where
  "response_json r = ebind r (\<lambda>(body, txt).
     case body of None \<Rightarrow> Inl (ValueError txt) | Some j \<Rightarrow> Inr j)"

definition bearer :: "string \<Rightarrow> string \<times> string" where
  "bearer jwt = (''Authorization'', ''Bearer '' @ jwt)"

definition get_json ::
    "env \<Rightarrow> pf_client \<Rightarrow> string \<Rightarrow> string \<Rightarrow> dict \<Rightarrow> world \<Rightarrow> json res \<times> world" where
  "get_json e c path jwt params w =
     (case request e c \<lparr>rq_method = ''GET'', rq_path = path, rq_headers = [bearer jwt],
                        rq_params = params, rq_body = None\<rparr> w of
        (r, w') \<Rightarrow> (response_json r, w'))"

text \<open>Headers in the order default, bearer, extra; a later one replaces an earlier one.\<close>

definition merge_headers :: "(string \<times> string) list \<Rightarrow> (string \<times> string) list \<Rightarrow> (string \<times> string) list" where
  "merge_headers hs hs' = foldl (\<lambda>acc (k, v). AList.update k v acc) hs hs'"

definition send_json ::
    "env \<Rightarrow> pf_client \<Rightarrow> string \<Rightarrow> string \<Rightarrow> string option \<Rightarrow> dict option \<Rightarrow>
     (string \<times> string) list \<Rightarrow> world \<Rightarrow> json res \<times> world" where
  "send_json e c method path jwt body extra w =
     (let hs = merge_headers (default_headers c)
                 ((case jwt of None \<Rightarrow> [] | Some t \<Rightarrow> [bearer t]) @ extra)
      in case request e c \<lparr>rq_method = method, rq_path = path, rq_headers = hs,
                           rq_params = [], rq_body = body\<rparr> w of
           (r, w') \<Rightarrow> (response_json r, w'))"

definition post_json ::
    "env \<Rightarrow> pf_client \<Rightarrow> string \<Rightarrow> string \<Rightarrow> dict option \<Rightarrow> (string \<times> string) list \<Rightarrow> world \<Rightarrow>
     json res \<times> world" where
  "post_json e c path jwt body extra = send_json e c ''POST'' path (Some jwt) body extra"

definition post_public_json ::
    "env \<Rightarrow> pf_client \<Rightarrow> string \<Rightarrow> dict option \<Rightarrow> (string \<times> string) list \<Rightarrow> world \<Rightarrow>
     json res \<times> world" where
  "post_public_json e c path body extra = send_json e c ''POST'' path None body extra"

definition put_json ::
    "env \<Rightarrow> pf_client \<Rightarrow> string \<Rightarrow> string \<Rightarrow> dict option \<Rightarrow> (string \<times> string) list \<Rightarrow> world \<Rightarrow>
     json res \<times> world" where
  "put_json e c path jwt body extra = send_json e c ''PUT'' path (Some jwt) body extra"

definition get_profile :: "env \<Rightarrow> pf_client \<Rightarrow> string \<Rightarrow> world \<Rightarrow> dict res \<times> world" where
  "get_profile e c jwt w =
     (case get_json e c ''/api/auth/profile'' jwt [] w of
        (r, w') \<Rightarrow> (ebind r (\<lambda>payload. case payload of
            JObj d \<Rightarrow> Inr d
          | _ \<Rightarrow> Inl (PriceFrameError PfResponse
                ''PriceFRAME profile response was not a JSON object'' None)), w'))"

definition post_agent_audit_callback ::
    "env \<Rightarrow> pf_client \<Rightarrow> string \<Rightarrow> string \<Rightarrow> dict \<Rightarrow> world \<Rightarrow> int res \<times> world" where
  "post_agent_audit_callback e c jwt secret payload w =
     (let (now, w1) = utc_now e w;
          timestamp = show_int (now div 1000);
          signature = hmac_hex e secret (timestamp @ ''.'' @ dumps (compact e) (JObj payload))
      in case post_json e c ''/api/v1/agent-audit-callbacks'' jwt (Some payload)
                [(''X-Agent-Timestamp'', timestamp), (''X-Agent-Service-Signature'', signature)] w1 of
           (r, w2) \<Rightarrow> (ebind r (\<lambda>response.
              let missing = Inl (PriceFrameError PfResponse
                    ''PriceFRAME audit callback response missing audit_log_id'' None)
              in case response of
                   JObj d \<Rightarrow> (case int_val (d_get d ''audit_log_id'') of
                       None \<Rightarrow> missing | Some i \<Rightarrow> Inr i)
                 | _ \<Rightarrow> missing), w2))"

text \<open>\<open>_priceframe_error_status\<close> of \<open>api/v1/runs.py\<close>.\<close>

definition priceframe_error_status :: "pf_kind \<Rightarrow> int option \<Rightarrow> int" where
  "priceframe_error_status kind status =
     (case kind of PfAuth \<Rightarrow> 401 | PfForbidden \<Rightarrow> 403 | PfNotFound \<Rightarrow> 404
      | _ \<Rightarrow> (case status of Some s \<Rightarrow> if s < 500 then s else 502 | None \<Rightarrow> 502))"

section \<open>Laws\<close>

text \<open>
  A call reaches PriceFRAME only: it appends its requests to \<open>sent\<close> and may read the clock,
  and leaves the database, the metrics and the identifiers alone.
\<close>

definition only_sends :: "world \<Rightarrow> world \<Rightarrow> bool" where
  "only_sends w w' \<longleftrightarrow> cur w' = cur w \<and> saved w' = saved w \<and> idn w' = idn w \<and> rown w' = rown w \<and>
     metrics w' = metrics w \<and> prefix (sent w) (sent w')"

lemma only_sends_refl [simp]: "only_sends w w"
  by (simp add: only_sends_def)

lemma only_sends_trans [trans]: "only_sends w v \<Longrightarrow> only_sends v u \<Longrightarrow> only_sends w u"
  by (auto simp: only_sends_def)

lemma only_sends_tick [simp]: "only_sends w (w\<lparr>tick := t\<rparr>)"
  by (simp add: only_sends_def)

lemma only_sends_from_tick: "only_sends (w\<lparr>tick := t\<rparr>) v \<Longrightarrow> only_sends w v"
  by (simp add: only_sends_def)

lemma request_loop_sends:
  "request_loop e n rq err w = (r, w') \<Longrightarrow>
   \<exists>k\<le>n. w' = w\<lparr>sent := sent w @ replicate k rq\<rparr>"
proof (induction n arbitrary: err w)
  case (Suc n)
  let ?w1 = "w\<lparr>sent := sent w @ [rq]\<rparr>"
  have again: "\<exists>k\<le>Suc n. w' = w\<lparr>sent := sent w @ replicate k rq\<rparr>"
    if h: "request_loop e n rq err' ?w1 = (r, w')" for err'
  proof -
    obtain k where "k \<le> n" and "w' = ?w1\<lparr>sent := sent ?w1 @ replicate k rq\<rparr>"
      using Suc.IH [OF h] by blast
    then have "w' = w\<lparr>sent := sent w @ replicate (Suc k) rq\<rparr>" by simp
    with \<open>k \<le> n\<close> show ?thesis by (metis Suc_le_mono)
  qed
  have once: "\<exists>k\<le>Suc n. ?w1 = w\<lparr>sent := sent w @ replicate k rq\<rparr>"
    by (rule exI [of _ 1]) simp
  show ?case
  proof (cases "respond e (sent w) rq")
    case (TransportError m)
    with Suc.prems show ?thesis by (auto simp: wire_def intro: again)
  next
    case (Response s b t)
    with Suc.prems once show ?thesis by (auto simp: wire_def split: if_splits intro: again)
  qed
qed (auto intro: exI [of _ 0])

lemma request_sends:
  "request e c rq w = (r, w') \<Longrightarrow>
   \<exists>k\<le>nat (max_retries c + 1). w' = w\<lparr>sent := sent w @ replicate k rq\<rparr>"
  unfolding request_def by (rule request_loop_sends)

lemma request_only_sends: "only_sends w (snd (request e c rq w))"
  using request_sends [of e c rq w] by (cases "request e c rq w") (auto simp: only_sends_def)

lemma get_json_only_sends: "only_sends w (snd (get_json e c p t ps w))"
  using request_only_sends by (simp add: get_json_def split_def)

lemma send_json_only_sends: "only_sends w (snd (send_json e c m p t b h w))"
  using request_only_sends by (simp add: send_json_def split_def Let_def)

lemma post_json_only_sends: "only_sends w (snd (post_json e c p t b h w))"
  by (simp add: post_json_def send_json_only_sends)

lemma put_json_only_sends: "only_sends w (snd (put_json e c p t b h w))"
  by (simp add: put_json_def send_json_only_sends)

lemma audit_only_sends: "only_sends w (snd (post_agent_audit_callback e c t s p w))"
  by (simp add: post_agent_audit_callback_def utc_now_def Let_def split_def del: dumps.simps)
    (rule only_sends_from_tick [OF post_json_only_sends])

lemmas sends = get_json_only_sends post_json_only_sends put_json_only_sends audit_only_sends

lemma only_sendsD [frame]:
  assumes "only_sends w w'"
  shows "cur w' = cur w" "saved w' = saved w" "idn w' = idn w" "rown w' = rown w"
    "metrics w' = metrics w"
  using assms by (simp_all add: only_sends_def)

section \<open>Properties\<close>

text \<open>A reply after which the client tries again.\<close>

fun transient :: "http_reply \<Rightarrow> bool" where
  "transient (TransportError m) \<longleftrightarrow> True"
| "transient (Response status body txt) \<longleftrightarrow> 500 \<le> status"

text \<open>The reply to the attempt after \<open>i\<close> repetitions of the request.\<close>

abbreviation reply_after :: "env \<Rightarrow> world \<Rightarrow> pf_request \<Rightarrow> nat \<Rightarrow> http_reply" where
  "reply_after e w rq i \<equiv> respond e (sent w @ replicate i rq) rq"

definition attempts_ok ::
    "env \<Rightarrow> world \<Rightarrow> pf_request \<Rightarrow> nat \<Rightarrow> nat \<Rightarrow> (json option \<times> string) res \<Rightarrow> bool" where
  "attempts_ok e w rq n k r \<longleftrightarrow>
     1 \<le> k \<and> k \<le> n \<and> (\<forall>i < k - 1. transient (reply_after e w rq i)) \<and>
     (if transient (reply_after e w rq (k - 1))
      then k = n \<and> (\<exists>m s. r = Inl (PriceFrameError PfUnavailable m s))
      else \<exists>s body txt. reply_after e w rq (k - 1) = Response s body txt \<and>
             r = ebind (raise_for_status s body txt) (\<lambda>_. Inr (body, txt)))"

lemma reply_after_Suc:
  "respond e (sent w @ rq # replicate i rq) rq = reply_after e w rq (Suc i)"
  by simp

lemma request_loop_attempts:
  assumes "request_loop e (Suc n) rq err w = (r, w')"
  shows "\<exists>k. sent w' = sent w @ replicate k rq \<and> attempts_ok e w rq (Suc n) k r"
  using assms
proof (induction n arbitrary: err w)
  case 0
  then show ?case
    by (cases "respond e (sent w) rq")
      (auto simp: wire_def attempts_ok_def intro!: exI [of _ "1::nat"] split: if_splits)
next
  case (Suc n)
  let ?w1 = "w\<lparr>sent := sent w @ [rq]\<rparr>"
  show ?case
  proof (cases "transient (respond e (sent w) rq)")
    case False
    with Suc.prems show ?thesis
      by (cases "respond e (sent w) rq")
        (auto simp: wire_def attempts_ok_def intro!: exI [of _ "1::nat"] split: if_splits)
  next
    case True
    define m where "m = Suc n"
    have "request_loop e (Suc m) rq err w = (r, w')" using Suc.prems by (simp only: m_def)
    with True have "\<exists>err'. request_loop e m rq err' ?w1 = (r, w')"
      by (cases "respond e (sent w) rq") (auto simp: wire_def)
    then obtain err' where "request_loop e (Suc n) rq err' ?w1 = (r, w')" by (auto simp: m_def)
    from Suc.IH [OF this] obtain k where k: "sent w' = sent ?w1 @ replicate k rq"
      and ok: "attempts_ok e ?w1 rq (Suc n) k r" by blast
    have "attempts_ok e w rq (Suc (Suc n)) (Suc k) r"
    proof -
      have sh: "reply_after e ?w1 rq i = reply_after e w rq (Suc i)" for i by simp
      have k1: "1 \<le> k" "Suc (k - 1) = k" using ok by (auto simp: attempts_ok_def)
      have "transient (reply_after e w rq i)" if "i < k" for i
        using ok True that k1 unfolding attempts_ok_def sh by (cases i) auto
      with ok k1 show ?thesis unfolding attempts_ok_def sh by auto
    qed
    with k show ?thesis by (intro exI [of _ "Suc k"]) simp
  qed
qed

lemma request_attempts:
  assumes "0 \<le> max_retries c" and "request e c rq w = (r, w')"
  shows "\<exists>k. sent w' = sent w @ replicate k rq \<and> attempts_ok e w rq (nat (max_retries c + 1)) k r"
proof -
  obtain n where n: "nat (max_retries c + 1) = Suc n"
    using assms(1) by (metis Suc_nat_eq_nat_zadd1 add.commute)
  show ?thesis using assms(2) unfolding request_def n by (rule request_loop_attempts)
qed

lemma request_sends_once:
  assumes "0 \<le> max_retries c" shows "sent (snd (request e c rq w)) \<noteq> sent w"
  using request_attempts [OF assms prod.collapse [symmetric], of e rq w]
  by (auto simp: attempts_ok_def)

text \<open>
  C40: a PriceFRAME call sends its request at least once and at most \<open>max_retries + 1\<close> times; it
  repeats only after a transport error or a 5xx reply, gives up with an unavailability error
  only when every attempt is used, and otherwise answers from the first other reply, with an
  error exactly when that reply is 4xx.
\<close>

theorem request_retries:
  assumes "0 \<le> max_retries c" and "request e c rq w = (r, w')"
  shows "\<exists>k. sent w' = sent w @ replicate k rq \<and> attempts_ok e w rq (nat (max_retries c + 1)) k r"
  using assms by (rule request_attempts)

definition demo_request :: pf_request where
  "demo_request = \<lparr>rq_method = ''GET'', rq_path = ''/api/quotes'', rq_headers = [],
     rq_params = [], rq_body = None\<rparr>"

theorem request_retries_witness:
  "\<exists>k. sent ((session_on empty_db)\<lparr>sent := replicate 3 demo_request\<rparr>) =
      sent (session_on empty_db) @ replicate k demo_request \<and>
    attempts_ok demo_env (session_on empty_db) demo_request
      (nat (max_retries (from_settings demo_env []) + 1)) k (Inr (Some (JObj [(''id'', JInt 7)]), []))"
proof (rule request_retries)
  show "0 \<le> max_retries (from_settings demo_env [])" by (simp add: from_settings_def demo_env_def)
  show "request demo_env (from_settings demo_env []) demo_request (session_on empty_db) =
      (Inr (Some (JObj [(''id'', JInt 7)]), []),
       (session_on empty_db)\<lparr>sent := replicate 3 demo_request\<rparr>)"
    by (simp add: request_def from_settings_def demo_env_def wire_def session_on_def
        raise_for_status_def numeral_eq_Suc)
qed

end
