(* ===== verification/Auth.thy ===== *)
theory Auth
  imports PriceFrame
begin

text \<open>
  Who is asking: the claims of a verified JWT (\<open>auth/jwt.py\<close>), the PriceFRAME profile behind
  it and the cache of profiles (\<open>auth/priceframe_session.py\<close>), and the request dependencies
  (\<open>auth/dependencies.py\<close>). The signature check is \<open>jwt_decode\<close> of the environment.
\<close>

section \<open>Claims and contexts\<close>

record token_claims =
  cl_user_id :: int
  cl_email :: "string option"
  cl_role_id :: "int option"
  cl_profile_id :: "int option"
  cl_session_id :: "int option"
  cl_expires_at :: "int option"

record auth_context =
  user_id :: int
  role_code :: string
  profile_code :: string
  permissions :: "string list"
  jwt_raw :: string
  session_id :: "int option"

definition has_permission :: "auth_context \<Rightarrow> string \<Rightarrow> bool" where
  "has_permission ctx p \<longleftrightarrow> p \<in> set (permissions ctx)"

definition optional_int :: "json \<Rightarrow> int option" where
  "optional_int v = (case v of
      JInt i \<Rightarrow> Some i
    | JStr s \<Rightarrow> if str_isdecimal s then Some (int (dec_value s)) else None
    | _ \<Rightarrow> None)"

definition optional_str :: "json \<Rightarrow> string option" where
  "optional_str v = (case v of JStr s \<Rightarrow> if s \<noteq> [] then Some s else None | _ \<Rightarrow> None)"

fun required_int :: "dict \<Rightarrow> string list \<Rightarrow> int res" where
  "required_int payload [] = Inl (AuthTokenError ''PriceFRAME JWT missing integer claim'')"
| "required_int payload (k # ks) =
     (case optional_int (d_get payload k) of Some i \<Rightarrow> Inr i | None \<Rightarrow> required_int payload ks)"

definition verify_priceframe_jwt :: "env \<Rightarrow> string \<Rightarrow> token_claims res" where
  "verify_priceframe_jwt e token =
     (case jwt_decode e token of
        None \<Rightarrow> Inl (AuthTokenError ''Invalid PriceFRAME JWT'')
      | Some (JObj payload) \<Rightarrow>
          ebind (required_int payload [''userId'', ''user_id'', ''sub'']) (\<lambda>uid.
            Inr \<lparr>cl_user_id = uid,
                 cl_email = optional_str (d_get payload ''email''),
                 cl_role_id = optional_int (py_or (d_get payload ''roleId'') (d_get payload ''role_id'')),
                 cl_profile_id =
                   optional_int (py_or (d_get payload ''profileId'') (d_get payload ''profile_id'')),
                 cl_session_id =
                   optional_int (py_or (d_get payload ''sessionId'') (d_get payload ''session_id'')),
                 cl_expires_at = optional_int (d_get payload ''exp'')\<rparr>)
      | Some _ \<Rightarrow> Inl (AuthTokenError ''PriceFRAME JWT payload must be an object''))"

section \<open>Profiles\<close>

definition mapping_of :: "json \<Rightarrow> string \<Rightarrow> dict res" where
  "mapping_of v label = (case v of
      JObj d \<Rightarrow> Inr d
    | _ \<Rightarrow> Inl (AuthTokenError (''PriceFRAME profile payload missing '' @ label @ '' object'')))"

definition int_field :: "dict \<Rightarrow> string \<Rightarrow> int res" where
  "int_field d k = (case optional_int (d_get d k) of
      Some i \<Rightarrow> Inr i
    | None \<Rightarrow> Inl (AuthTokenError (''PriceFRAME profile field '' @ k @ '' must be an integer'')))"

definition str_field :: "dict \<Rightarrow> string \<Rightarrow> string res" where
  "str_field d k = (case optional_str (d_get d k) of
      Some s \<Rightarrow> Inr s
    | None \<Rightarrow> Inl (AuthTokenError (''PriceFRAME profile field '' @ k @ '' must be a string'')))"

definition permission_code :: "json \<Rightarrow> string option" where
  "permission_code item = (case item of
      JObj d \<Rightarrow> optional_str (d_get d ''code'')
    | JStr s \<Rightarrow> if s \<noteq> [] then Some s else None
    | _ \<Rightarrow> None)"

definition permission_codes :: "json \<Rightarrow> string list" where
  "permission_codes v = (case v of JArr items \<Rightarrow> List.map_filter permission_code items | _ \<Rightarrow> [])"

definition auth_context_from_profile :: "dict \<Rightarrow> string \<Rightarrow> auth_context res" where
  "auth_context_from_profile payload jwt =
     (case (case map_of payload ''data'' of None \<Rightarrow> JObj payload | Some v \<Rightarrow> v) of
        JObj data \<Rightarrow>
          ebind (mapping_of (d_get data ''user'') ''user'') (\<lambda>user.
          ebind (mapping_of (d_get data ''role'') ''role'') (\<lambda>role.
          ebind (mapping_of (d_get data ''profile'') ''profile'') (\<lambda>profile.
          ebind (mapping_of (d_get data ''session'') ''session'') (\<lambda>session.
          ebind (int_field user ''id'') (\<lambda>uid.
          ebind (str_field role ''code'') (\<lambda>rc.
          ebind (str_field profile ''code'') (\<lambda>pc.
            Inr \<lparr>user_id = uid, role_code = rc, profile_code = pc,
                 permissions = sort (remdups (permission_codes (d_get data ''permissions''))),
                 jwt_raw = jwt, session_id = optional_int (d_get session ''id'')\<rparr>)))))))
      | _ \<Rightarrow> Inl (AuthTokenError ''PriceFRAME profile payload missing data object''))"

section \<open>The profile cache\<close>

record cache_entry =
  en_context :: auth_context
  en_expires_at :: int

record profile_cache =
  by_token_hash :: "(string \<times> cache_entry) list"
  by_session :: "((int \<times> int) \<times> cache_entry) list"

definition empty_cache :: profile_cache where
  "empty_cache = \<lparr>by_token_hash = [], by_session = []\<rparr>"

definition live :: "int \<Rightarrow> cache_entry option \<Rightarrow> auth_context option" where
  "live now entry = (case entry of
      Some en \<Rightarrow> if en_expires_at en > now then Some (en_context en) else None | None \<Rightarrow> None)"

definition session_entry :: "profile_cache \<Rightarrow> token_claims \<Rightarrow> cache_entry option" where
  "session_entry cache claims = (case cl_session_id claims of
      None \<Rightarrow> None | Some s \<Rightarrow> map_of (by_session cache) (cl_user_id claims, s))"

text \<open>\<open>get_context\<close>: the token's entry, else the session's, else a fresh profile, stored under both.\<close>

definition get_context ::
    "env \<Rightarrow> pf_client \<Rightarrow> string \<Rightarrow> token_claims \<Rightarrow> int \<Rightarrow> profile_cache \<Rightarrow> world \<Rightarrow>
     auth_context res \<times> profile_cache \<times> world" where
  "get_context e c jwt claims ttl_seconds cache w =
     (let (now, w1) = utc_now e w;
          token_hash = sha256_hex e jwt
      in case live now (map_of (by_token_hash cache) token_hash) of
           Some ctx \<Rightarrow> (Inr ctx, cache, w1)
         | None \<Rightarrow>
             (case live now (session_entry cache claims) of
                Some ctx \<Rightarrow>
                  (Inr ctx,
                   cache\<lparr>by_token_hash := AList.update token_hash
                           (the (session_entry cache claims)) (by_token_hash cache)\<rparr>, w1)
              | None \<Rightarrow>
                  (case get_profile e c jwt w1 of
                     (Inl err, w2) \<Rightarrow> (Inl err, cache, w2)
                   | (Inr payload, w2) \<Rightarrow>
                       (case auth_context_from_profile payload jwt of
                          Inl err \<Rightarrow> (Inl err, cache, w2)
                        | Inr ctx \<Rightarrow>
                            let entry = \<lparr>en_context = ctx, en_expires_at = now + ttl_seconds * 1000000\<rparr>;
                                cache1 = cache\<lparr>by_token_hash :=
                                  AList.update token_hash entry (by_token_hash cache)\<rparr>
                            in (Inr ctx,
                                (case session_id ctx of
                                   None \<Rightarrow> cache1
                                 | Some s \<Rightarrow> cache1\<lparr>by_session :=
                                     AList.update (user_id ctx, s) entry (by_session cache)\<rparr>), w2)))))"

section \<open>Request dependencies\<close>

definition unauthorized :: "string \<Rightarrow> exc" where "unauthorized detail = HTTPException 401 detail"

text \<open>\<open>_extract_bearer_token\<close>, on the Authorization header and the \<open>token\<close> query parameter.\<close>

definition extract_bearer_token :: "string option \<Rightarrow> string option \<Rightarrow> string res" where
  "extract_bearer_token header query =
     (let raw = (case header of
          Some h \<Rightarrow> if h \<noteq> [] then h else (case query of Some q \<Rightarrow> if q \<noteq> [] then ''Bearer '' @ q else [] | None \<Rightarrow> [])
        | None \<Rightarrow> (case query of Some q \<Rightarrow> if q \<noteq> [] then ''Bearer '' @ q else [] | None \<Rightarrow> []))
      in if raw = [] then Inl (unauthorized ''Missing PriceFRAME bearer token'')
         else if CHR '' '' \<in> set raw
         then let scheme = takeWhile (\<lambda>c. c \<noteq> CHR '' '') raw;
                  token = tl (dropWhile (\<lambda>c. c \<noteq> CHR '' '') raw)
              in if str_lower scheme \<noteq> ''bearer''
                 then Inl (unauthorized ''Unsupported authorization scheme'')
                 else Inr (str_strip token)
         else Inr (str_strip raw))"

definition get_auth_context ::
    "env \<Rightarrow> int \<Rightarrow> string option \<Rightarrow> string option \<Rightarrow> profile_cache \<Rightarrow> world \<Rightarrow>
     auth_context res \<times> profile_cache \<times> world" where
  "get_auth_context e ttl header query cache w =
     (let rejected = Inl (unauthorized ''Invalid or expired PriceFRAME session'')
      in case extract_bearer_token header query of
           Inl err \<Rightarrow> (Inl err, cache, w)
         | Inr token \<Rightarrow>
             (case (case verify_priceframe_jwt e token of
                      Inl err \<Rightarrow> (Inl err, cache, w)
                    | Inr claims \<Rightarrow> get_context e (from_settings e []) token claims ttl cache w) of
                (Inl (AuthTokenError m), cache', w') \<Rightarrow> (rejected, cache', w')
              | (Inl (PriceFrameError PfAuth m s), cache', w') \<Rightarrow> (rejected, cache', w')
              | r \<Rightarrow> r))"

definition require_permission :: "string \<Rightarrow> auth_context \<Rightarrow> auth_context res" where
  "require_permission p ctx =
     (if has_permission ctx p then Inr ctx
      else Inl (HTTPException 403 (''Missing permission: '' @ p)))"

section \<open>What the cache may hold\<close>

text \<open>
  An entry is good at a time when it expires within the time to live from then on, so its
  profile was read at most that long ago; a session entry belongs to the user and session it
  is filed under.
\<close>

definition entry_ok :: "int \<Rightarrow> int \<Rightarrow> cache_entry \<Rightarrow> bool" where
  "entry_ok ttl now en \<longleftrightarrow> en_expires_at en \<le> now + ttl * 1000000"

definition cache_ok :: "int \<Rightarrow> int \<Rightarrow> profile_cache \<Rightarrow> bool" where
  "cache_ok ttl now cache \<longleftrightarrow>
     (\<forall>h en. map_of (by_token_hash cache) h = Some en \<longrightarrow> entry_ok ttl now en) \<and>
     (\<forall>u s en. map_of (by_session cache) (u, s) = Some en \<longrightarrow>
        entry_ok ttl now en \<and> user_id (en_context en) = u \<and> session_id (en_context en) = Some s)"

lemma cache_ok_empty [simp]: "cache_ok ttl now empty_cache"
  by (simp add: cache_ok_def empty_cache_def)

lemma cache_ok_later: "cache_ok ttl now cache \<Longrightarrow> now \<le> now' \<Longrightarrow> cache_ok ttl now' cache"
  unfolding cache_ok_def entry_ok_def by fastforce

lemma cache_ok_token:
  "cache_ok ttl now cache \<Longrightarrow> entry_ok ttl now en \<Longrightarrow>
   cache_ok ttl now (cache\<lparr>by_token_hash := AList.update h en (by_token_hash cache)\<rparr>)"
  by (simp add: cache_ok_def update_conv')

lemma cache_ok_session:
  "cache_ok ttl now cache \<Longrightarrow> entry_ok ttl now en \<Longrightarrow> user_id (en_context en) = u \<Longrightarrow>
   session_id (en_context en) = Some s \<Longrightarrow>
   cache_ok ttl now (cache\<lparr>by_session := AList.update (u, s) en (by_session cache)\<rparr>)"
  by (simp add: cache_ok_def update_conv')

lemma cache_ok_session_entry:
  "cache_ok ttl now cache \<Longrightarrow> session_entry cache claims = Some en \<Longrightarrow>
   entry_ok ttl now en \<and> user_id (en_context en) = cl_user_id claims"
  by (auto simp: cache_ok_def session_entry_def split: option.splits)

lemma live_SomeD:
  "live now entry = Some ctx \<Longrightarrow> \<exists>en. entry = Some en \<and> en_context en = ctx \<and> now < en_expires_at en"
  by (auto simp: live_def split: option.splits if_splits)

lemma get_context_cache_ok:
  assumes "cache_ok ttl now cache" and "now = clock e (tick w)"
    and "get_context e c jwt claims ttl cache w = (r, cache', w')"
  shows "cache_ok ttl now cache'"
proof -
  let ?w1 = "w\<lparr>tick := Suc (tick w)\<rparr>"
  let ?h = "sha256_hex e jwt"
  consider
      (token) ctx where "live now (map_of (by_token_hash cache) ?h) = Some ctx"
    | (session) ctx where "live now (map_of (by_token_hash cache) ?h) = None"
        "live now (session_entry cache claims) = Some ctx"
    | (miss) "live now (map_of (by_token_hash cache) ?h) = None" "live now (session_entry cache claims) = None"
    by (cases "live now (map_of (by_token_hash cache) ?h)";
        cases "live now (session_entry cache claims)") auto
  then show ?thesis
  proof cases
    case token
    with assms show ?thesis by (simp add: get_context_def utc_now_def)
  next
    case session
    then obtain en where en: "session_entry cache claims = Some en" by (auto dest: live_SomeD)
    with assms session show ?thesis
      by (auto simp: get_context_def utc_now_def
          intro!: cache_ok_token dest!: cache_ok_session_entry [OF assms(1)])
  next
    case miss
    obtain pr w2 where pr: "get_profile e c jwt ?w1 = (pr, w2)" by fastforce
    show ?thesis
    proof (cases pr)
      case (Inl err)
      with miss pr assms show ?thesis by (simp add: get_context_def utc_now_def)
    next
      case (Inr payload)
      show ?thesis
      proof (cases "auth_context_from_profile payload jwt")
        case (Inl err)
        with Inr miss pr assms show ?thesis by (simp add: get_context_def utc_now_def)
      next
        case ctx: (Inr ctx)
        let ?en = "\<lparr>en_context = ctx, en_expires_at = now + ttl * 1000000\<rparr>"
        let ?c1 = "cache\<lparr>by_token_hash := AList.update ?h ?en (by_token_hash cache)\<rparr>"
        have en: "entry_ok ttl now ?en" by (simp add: entry_ok_def)
        have c1: "cache_ok ttl now ?c1" by (rule cache_ok_token [OF assms(1) en])
        have c2: "cache_ok ttl now
            (?c1\<lparr>by_session := AList.update (user_id ctx, s) ?en (by_session cache)\<rparr>)"
          if "session_id ctx = Some s" for s
          using cache_ok_session [OF c1 en, of "user_id ctx" s] that by simp
        from c1 c2 Inr ctx miss pr assms(2,3) show ?thesis
          by (auto simp: get_context_def utc_now_def Let_def split: option.splits)
      qed
    qed
  qed
qed

lemma get_context_served:
  assumes "cache_ok ttl now cache" and "now = clock e (tick w)"
    and "get_context e c jwt claims ttl cache w = (Inr ctx, cache', w')"
    and "0 \<le> max_retries c" and "sent w' = sent w"
  shows "\<exists>en. en_context en = ctx \<and> now < en_expires_at en \<and> entry_ok ttl now en \<and>
    (map_of (by_token_hash cache) (sha256_hex e jwt) = Some en \<or>
     session_entry cache claims = Some en \<and> user_id ctx = cl_user_id claims)"
proof -
  let ?h = "sha256_hex e jwt"
  show ?thesis
  proof (cases "live now (map_of (by_token_hash cache) ?h)")
    case (Some ctx')
    then obtain en where en: "map_of (by_token_hash cache) ?h = Some en" "en_context en = ctx'"
      "now < en_expires_at en" by (auto dest: live_SomeD)
    with Some assms show ?thesis by (auto simp: get_context_def utc_now_def cache_ok_def)
  next
    case None
    show ?thesis
    proof (cases "live now (session_entry cache claims)")
      case (Some ctx')
      then obtain en where en: "session_entry cache claims = Some en" "en_context en = ctx'"
        "now < en_expires_at en" by (auto dest: live_SomeD)
      with Some None assms show ?thesis
        by (auto simp: get_context_def utc_now_def dest: cache_ok_session_entry)
    next
      case miss: None
      let ?w1 = "w\<lparr>tick := Suc (tick w)\<rparr>"
      obtain pr w2 where pr: "get_profile e c jwt ?w1 = (pr, w2)" by fastforce
      have w': "w' = w2"
        using assms(2,3) None miss pr
        by (auto simp: get_context_def utc_now_def Let_def split: sum.splits)
      obtain rq where "w2 = snd (request e c rq ?w1)"
        using pr by (auto simp: get_profile_def get_json_def split_def)
      then have "sent w2 \<noteq> sent w"
        using request_sends_once [OF assms(4), of e rq ?w1] by simp
      with assms(5) w' show ?thesis by simp
    qed
  qed
qed

section \<open>Properties\<close>


definition demo_context :: auth_context where
  "demo_context = \<lparr>user_id = 7, role_code = ''rep'', profile_code = ''sales'',
     permissions = [''agent.quotes.create'', ''agent.quotes.edit'', ''agent.quotes.read''],
     jwt_raw = ''t'', session_id = Some 3\<rparr>"

definition demo_claims :: token_claims where
  "demo_claims = \<lparr>cl_user_id = 7, cl_email = None, cl_role_id = None, cl_profile_id = None,
     cl_session_id = Some 3, cl_expires_at = None\<rparr>"

definition demo_cache :: profile_cache where
  "demo_cache = \<lparr>by_token_hash = [], by_session = [((7, 3), \<lparr>en_context = demo_context, en_expires_at = 500\<rparr>)]\<rparr>"


end
