(* ===== verification/Conversation.thy ===== *)
theory Conversation
  imports PyJson
begin

text \<open>
  The guided conversation (\<open>agent/conversation/\<close>): the cursor kept in the draft payload
  (\<open>cursor.py\<close>), the sequencer that turns contract and cursor into the next prompt
  (\<open>sequencer.py\<close>), the seed of a draft (\<open>start.py\<close>) and the check of one answer
  (\<open>validate.py\<close>). A contract is raw JSON; \<open>None\<close> is an exception the code does not catch.
\<close>

section \<open>Cursor\<close>

record cursor =
  phase_index :: int
  field_index :: int

abbreviation Cursor :: "int \<Rightarrow> int \<Rightarrow> cursor" where
  "Cursor p f \<equiv> \<lparr>phase_index = p, field_index = f\<rparr>"

definition get_cursor :: "dict \<Rightarrow> cursor option" where
  "get_cursor payload =
     (if payload = [] then Some (Cursor 0 0)
      else do {
        m \<leftarrow> jget (py_or (d_get payload ''_meta'') (JObj [])) ''conversation_cursor'';
        let raw = py_or m (JObj []);
        p \<leftarrow> jget_or raw ''phase_index'' (JInt 0);
        p \<leftarrow> py_int p;
        f \<leftarrow> jget_or raw ''field_index'' (JInt 0);
        f \<leftarrow> py_int f;
        Some (Cursor p f)
      })"

definition set_cursor :: "dict \<Rightarrow> cursor \<Rightarrow> dict option" where
  "set_cursor payload c =
     map_option (\<lambda>meta. d_set payload ''_meta'' (JObj (d_set meta ''conversation_cursor''
         (JObj [(''phase_index'', JInt (phase_index c)), (''field_index'', JInt (field_index c))]))))
       (py_dict (py_or (d_get payload ''_meta'') (JObj [])))"

definition init_conversation_draft_payload :: "dict option" where
  "init_conversation_draft_payload = set_cursor [] (Cursor 0 0)"

definition should_start_conversation :: "string option \<Rightarrow> dict \<Rightarrow> bool" where
  "should_start_conversation intent flags \<longleftrightarrow>
     intent = Some ''create_pricing_request'' \<and> py_truthy (d_get flags ''conversation'')"

section \<open>Sequencer\<close>

definition control_by_type :: "(string \<times> string) list" where
  "control_by_type =
     [(''string'', ''text''), (''number'', ''number''), (''currency'', ''currency''),
      (''percentage'', ''percentage''), (''enum'', ''single_select''),
      (''multi_enum'', ''multi_select''), (''boolean'', ''boolean''), (''date'', ''date'')]"

text \<open>\<open>_CONTROL_BY_TYPE.get(t, "text")\<close>; a list or a dict is not hashable.\<close>

definition control_for :: "json \<Rightarrow> string option" where
  "control_for t =
     (if \<not> py_hashable t then None
      else Some (case t of
          JStr s \<Rightarrow> (case map_of control_by_type s of Some c \<Rightarrow> c | None \<Rightarrow> ''text'')
        | _ \<Rightarrow> ''text''))"

record field_prompt =
  fp_phase_id :: json
  fp_field_id :: json
  fp_label :: json
  fp_type :: json
  fp_control :: string
  fp_required :: bool
  fp_requires_explicit_confirm :: bool
  fp_options :: json
  fp_options_source :: json
  fp_ui :: json

datatype next_prompt = PromptFor field_prompt | Recap | Done

definition phases_of :: "json \<Rightarrow> json list option" where
  "phases_of contract = do {
     conv \<leftarrow> jget contract ''conversation'';
     phases \<leftarrow> jget (py_or conv (JObj [])) ''phases'';
     py_iter (py_or phases (JArr []))
   }"

definition field_index_step :: "dict \<Rightarrow> json \<Rightarrow> dict option" where
  "field_index_step out f = do {
     i \<leftarrow> jget f ''id'';
     Some (case i of JStr s \<Rightarrow> d_set out s f | _ \<Rightarrow> out)
   }"

definition field_index_of :: "json \<Rightarrow> dict option" where
  "field_index_of contract = do {
     steps \<leftarrow> jget contract ''steps'';
     steps \<leftarrow> py_iter (py_or steps (JArr []));
     ofold (\<lambda>out step. do {
         fields \<leftarrow> jget step ''fields'';
         fields \<leftarrow> py_iter (py_or fields (JArr []));
         ofold field_index_step out fields
       }) [] steps
   }"

text \<open>The prompt for a field specification, as \<open>next_step\<close> and the re-ask endpoint build it.\<close>

definition prompt_of :: "json \<Rightarrow> json \<Rightarrow> json \<Rightarrow> field_prompt option" where
  "prompt_of phase_id field_id spec = do {
     label \<leftarrow> jget_or spec ''label'' field_id;
     ty \<leftarrow> jget_or spec ''type'' (JStr ''string'');
     control \<leftarrow> control_for ty;
     req \<leftarrow> jget_or spec ''required'' (JBool False);
     confirm \<leftarrow> jget_or spec ''requires_explicit_confirm'' (JBool False);
     options \<leftarrow> jget spec ''enum_options'';
     source \<leftarrow> jget spec ''options_source'';
     ui \<leftarrow> jget spec ''ui'';
     Some \<lparr>fp_phase_id = phase_id, fp_field_id = field_id, fp_label = label, fp_type = ty,
           fp_control = control, fp_required = py_truthy req,
           fp_requires_explicit_confirm = py_truthy confirm, fp_options = options,
           fp_options_source = source, fp_ui = ui\<rparr>
   }"

text \<open>\<open>index.get(key)\<close> for a key that need not be a string.\<close>

definition index_get :: "dict \<Rightarrow> json \<Rightarrow> json option option" where
  "index_get index key =
     (if \<not> py_hashable key then None
      else Some (case key of JStr s \<Rightarrow> map_of index s | _ \<Rightarrow> None))"

definition next_step :: "json \<Rightarrow> cursor \<Rightarrow> next_prompt option" where
  "next_step contract c = do {
     phases \<leftarrow> phases_of contract;
     if phase_index c \<ge> int (length phases) then Some Recap
     else do {
       phase \<leftarrow> list_item phases (phase_index c);
       ids \<leftarrow> jget phase ''field_ids'';
       let field_ids = py_or ids (JArr []);
       n \<leftarrow> py_len field_ids;
       if field_index c \<ge> n then Some Recap
       else do {
         field_id \<leftarrow> py_item field_ids (field_index c);
         index \<leftarrow> field_index_of contract;
         spec \<leftarrow> index_get index field_id;
         case spec of
           None \<Rightarrow> Some Recap
         | Some spec \<Rightarrow> do {
             phase_id \<leftarrow> jget_or phase ''id'' (JStr []);
             map_option PromptFor (prompt_of phase_id field_id spec)
           }
       }
     }
   }"

definition advance_cursor :: "json \<Rightarrow> cursor \<Rightarrow> cursor option" where
  "advance_cursor contract c = do {
     phases \<leftarrow> phases_of contract;
     if phase_index c \<ge> int (length phases) then Some c
     else do {
       phase \<leftarrow> list_item phases (phase_index c);
       ids \<leftarrow> jget phase ''field_ids'';
       n \<leftarrow> py_len (py_or ids (JArr []));
       Some (if field_index c + 1 < n then Cursor (phase_index c) (field_index c + 1)
             else Cursor (phase_index c + 1) 0)
     }
   }"

section \<open>Answers\<close>

text \<open>
  Why an answer is refused (the texts of the \<open>ValidationError\<close>s are not modelled), or that
  another exception escapes.
\<close>

datatype refusal =
    Required | NotAnOption | InvalidOptions | NotANumber | BelowMinimum | AboveMaximum | BadFormat
  | Crash

definition crash :: "'a option \<Rightarrow> refusal + 'a" where
  "crash x = (case x of None \<Rightarrow> Inl Crash | Some y \<Rightarrow> Inr y)"

definition rbind :: "refusal + 'a \<Rightarrow> ('a \<Rightarrow> refusal + 'b) \<Rightarrow> refusal + 'b" where
  "rbind m f = (case m of Inl r \<Rightarrow> Inl r | Inr x \<Rightarrow> f x)"

text \<open>\<open>{o["value"] for o in (spec.get("enum_options") or [])}\<close>: values must be hashable.\<close>

definition allowed_values :: "json \<Rightarrow> json list option" where
  "allowed_values spec = do {
     os \<leftarrow> jget spec ''enum_options'';
     os \<leftarrow> py_iter (py_or os (JArr []));
     vs \<leftarrow> omap (\<lambda>item. jitem item ''value'') os;
     if list_all py_hashable vs then Some vs else None
   }"

definition member_of :: "json \<Rightarrow> json list \<Rightarrow> bool option" where
  "member_of v allowed = (if py_hashable v then Some (py_in v allowed) else None)"

definition check_enum :: "json \<Rightarrow> json \<Rightarrow> refusal + json" where
  "check_enum spec v = rbind (crash (allowed_values spec)) (\<lambda>allowed.
     if allowed = [] then Inr v
     else rbind (crash (member_of v allowed)) (\<lambda>ok. if ok then Inr v else Inl NotAnOption))"

definition check_multi_enum :: "json \<Rightarrow> json \<Rightarrow> refusal + json" where
  "check_multi_enum spec v = rbind (crash (allowed_values spec)) (\<lambda>allowed.
     let values = (case v of JArr xs \<Rightarrow> xs | _ \<Rightarrow> [v])
     in if allowed = [] then Inr (JArr values)
        else rbind (crash (omap (\<lambda>x. member_of x allowed) values)) (\<lambda>oks.
          if list_all id oks then Inr (JArr values) else Inl InvalidOptions))"

text \<open>\<open>float(value)\<close>: \<open>TypeError\<close> and \<open>ValueError\<close> are refused, \<open>OverflowError\<close> escapes.\<close>

definition answer_float :: "json \<Rightarrow> refusal + pyfloat" where
  "answer_float v = (case py_float v of
      Some x \<Rightarrow> Inr x
    | None \<Rightarrow> Inl (case v of JInt _ \<Rightarrow> Crash | _ \<Rightarrow> NotANumber))"

definition check_bound ::
    "json \<Rightarrow> string \<Rightarrow> (pyfloat \<Rightarrow> pyfloat \<Rightarrow> bool) \<Rightarrow> refusal \<Rightarrow> pyfloat \<Rightarrow> refusal + unit" where
  "check_bound validation key violates err x =
     rbind (crash (py_contains validation key)) (\<lambda>present.
       if \<not> present then Inr ()
       else rbind (crash (Option.bind (jitem validation key) num_val)) (\<lambda>bound.
         if violates x bound then Inl err else Inr ()))"

definition check_number :: "json \<Rightarrow> json \<Rightarrow> refusal + json" where
  "check_number validation v = rbind (answer_float v) (\<lambda>x.
     rbind (check_bound validation ''min'' flt BelowMinimum x) (\<lambda>_.
     rbind (check_bound validation ''max'' (\<lambda>a b. flt b a) AboveMaximum x) (\<lambda>_. Inr (JFlt x))))"

definition check_string ::
    "(rat \<Rightarrow> string) \<Rightarrow> (string \<Rightarrow> string \<Rightarrow> bool) \<Rightarrow> json \<Rightarrow> json \<Rightarrow> refusal + json" where
  "check_string repr match_re validation v =
     (let txt = py_str repr v
      in rbind (crash (jget validation ''pattern'')) (\<lambda>pattern.
           if \<not> py_truthy pattern then Inr (JStr txt)
           else (case pattern of
               JStr p \<Rightarrow> if match_re p txt then Inr (JStr txt) else Inl BadFormat
             | _ \<Rightarrow> Inl Crash)))"

definition validate_answer ::
    "(rat \<Rightarrow> string) \<Rightarrow> (string \<Rightarrow> string \<Rightarrow> bool) \<Rightarrow> json \<Rightarrow> json \<Rightarrow> refusal + json" where
  "validate_answer repr match_re spec v =
     rbind (crash (jget_or spec ''type'' (JStr ''string''))) (\<lambda>ftype.
     rbind (crash (jget_or spec ''required'' (JBool False))) (\<lambda>req.
     rbind (crash (jget spec ''validation'')) (\<lambda>val.
       let validation = py_or val (JObj [])
       in if is_blank v then (if py_truthy req then Inl Required else Inr v)
          else if ftype = JStr ''enum'' then check_enum spec v
          else if ftype = JStr ''multi_enum'' then check_multi_enum spec v
          else if ftype \<in> {JStr ''number'', JStr ''currency'', JStr ''percentage''}
            then check_number validation v
          else if ftype = JStr ''string'' then check_string repr match_re validation v
          else Inr v)))"

section \<open>The cursor in the draft\<close>

text \<open>
  What the handlers rely on when they move the cursor of a draft: it is read back as written,
  and nothing but the reserved entry of the payload changes.
\<close>

locale cursor_store =
  fixes get :: "'s \<Rightarrow> 'c option"
    and put :: "'s \<Rightarrow> 'c \<Rightarrow> 's option"
    and entry :: "'s \<Rightarrow> 'k \<Rightarrow> 'v"
    and reserved :: 'k
  assumes get_put: "put s c = Some s' \<Longrightarrow> get s' = Some c"
    and put_entry: "put s c = Some s' \<Longrightarrow> k \<noteq> reserved \<Longrightarrow> entry s' k = entry s k"
begin

lemma put_put:
  assumes "put s c = Some s1" and "put s1 c' = Some s2"
  shows "get s2 = Some c' \<and> (\<forall>k. k \<noteq> reserved \<longrightarrow> entry s2 k = entry s k)"
  using assms by (metis get_put put_entry)

text \<open>Moving the cursor with a function of the cursor alone.\<close>

lemma move:
  assumes "get s = Some c" and "put s (f c) = Some s'"
  shows "get s' = Some (f c) \<and> (\<forall>k. k \<noteq> reserved \<longrightarrow> entry s' k = entry s k)"
  using assms by (metis get_put put_entry)

end

lemma get_cursor_set_cursor: "set_cursor payload c = Some p \<Longrightarrow> get_cursor p = Some c"
  by (auto simp: set_cursor_def get_cursor_def py jget_or_def py_int_def)

lemma set_cursor_entry:
  "set_cursor payload c = Some p \<Longrightarrow> k \<noteq> ''_meta'' \<Longrightarrow> d_get p k = d_get payload k"
  by (auto simp: set_cursor_def)

interpretation draft_cursor: cursor_store get_cursor set_cursor d_get "''_meta''"
  by unfold_locales (rule get_cursor_set_cursor set_cursor_entry; assumption)+

lemma set_cursor_total: "is_obj (d_get payload ''_meta'') \<or> d_get payload ''_meta'' = JNull \<Longrightarrow>
    \<exists>p. set_cursor payload c = Some p"
  by (auto simp: set_cursor_def is_obj_iff py_or_def py)

section \<open>The walk through the contract\<close>

text \<open>The whole conversation of a client that answers every prompt; \<open>None\<close> when fuel runs out.\<close>

fun drive :: "nat \<Rightarrow> json \<Rightarrow> cursor \<Rightarrow> json list option" where
  "drive 0 contract c = None"
| "drive (Suc n) contract c =
     (case next_step contract c of
        None \<Rightarrow> None
      | Some (PromptFor p) \<Rightarrow>
          Option.bind (advance_cursor contract c) (\<lambda>c'.
            map_option (\<lambda>rest. fp_field_id p # rest) (drive n contract c'))
      | Some _ \<Rightarrow> Some [])"

text \<open>
  A contract whose phases ask the fields \<open>ids\<close>: every phase has some, and each is declared in
  a step with a type that can be looked up.
\<close>

definition phase_asks :: "json \<Rightarrow> string list \<Rightarrow> bool" where
  "phase_asks phase ids \<longleftrightarrow> ids \<noteq> [] \<and> jget phase ''field_ids'' = Some (JArr (map JStr ids))"

definition field_ok :: "dict \<Rightarrow> string \<Rightarrow> bool" where
  "field_ok index f \<longleftrightarrow> (case map_of index f of
      Some (JObj spec) \<Rightarrow> py_hashable (case map_of spec ''type'' of None \<Rightarrow> JStr ''string'' | Some t \<Rightarrow> t)
    | _ \<Rightarrow> False)"

definition asks :: "json \<Rightarrow> string list list \<Rightarrow> bool" where
  "asks contract ids \<longleftrightarrow>
     (\<exists>phases index. phases_of contract = Some phases \<and> list_all2 phase_asks phases ids \<and>
        field_index_of contract = Some index \<and> (\<forall>f \<in> set (concat ids). field_ok index f))"

lemma prompt_of_ok:
  assumes "field_ok index f"
  shows "\<exists>spec p. map_of index f = Some spec \<and> prompt_of ph (JStr f) spec = Some p \<and> fp_field_id p = JStr f"
proof -
  obtain d where d: "map_of index f = Some (JObj d)"
    and h: "py_hashable (case map_of d ''type'' of None \<Rightarrow> JStr ''string'' | Some t \<Rightarrow> t)"
    using assms by (auto simp: field_ok_def split: option.splits json.splits)
  then show ?thesis by (auto simp: prompt_of_def py control_for_def)
qed

lemma next_step_asks:
  assumes "asks contract ids" and "p < length ids" and "f < length (ids ! p)"
  shows "\<exists>pr. next_step contract (Cursor (int p) (int f)) = Some (PromptFor pr) \<and>
      fp_field_id pr = JStr (ids ! p ! f)"
proof -
  from assms(1) obtain phases index where ph: "phases_of contract = Some phases"
    and all: "list_all2 phase_asks phases ids" and ix: "field_index_of contract = Some index"
    and ok: "\<forall>f \<in> set (concat ids). field_ok index f" by (auto simp: asks_def)
  have len: "length phases = length ids" using all by (rule list_all2_lengthD)
  have asks: "phase_asks (phases ! p) (ids ! p)" using all assms(2) len by (simp add: list_all2_nthD2)
  then obtain d where d: "phases ! p = JObj d" by (auto simp: phase_asks_def jget_Some_iff)
  have g: "jget (phases ! p) ''field_ids'' = Some (JArr (map JStr (ids ! p)))" and ne: "ids ! p \<noteq> []"
    using asks by (auto simp: phase_asks_def)
  have item: "list_item phases (int p) = Some (phases ! p)"
    using assms(2) len by (simp add: list_item_def)
  have fitem: "list_item (map JStr (ids ! p)) (int f) = Some (JStr (ids ! p ! f))"
    using assms(3) by (simp add: list_item_def)
  have "ids ! p ! f \<in> set (concat ids)"
    unfolding set_concat by (rule UN_I [of "ids ! p"]) (simp_all add: assms(2,3))
  with ok have "field_ok index (ids ! p ! f)" by blast
  then obtain spec pr where "map_of index (ids ! p ! f) = Some spec"
    "prompt_of (case map_of d ''id'' of None \<Rightarrow> JStr [] | Some v \<Rightarrow> v) (JStr (ids ! p ! f)) spec = Some pr"
    "fp_field_id pr = JStr (ids ! p ! f)"
    using prompt_of_ok by blast
  then show ?thesis
    using assms(2,3) ne len g
    by (simp add: next_step_def ph item ix d py fitem index_get_def py_hashable_def jget_or_def)
qed

lemma next_step_end:
  assumes "asks contract ids" and "length ids \<le> p"
  shows "next_step contract (Cursor (int p) f) = Some Recap"
  using assms by (auto simp: next_step_def asks_def dest: list_all2_lengthD)

lemma advance_asks:
  assumes "asks contract ids" and "p < length ids" and "f < length (ids ! p)"
  shows "advance_cursor contract (Cursor (int p) (int f)) =
    Some (if Suc f < length (ids ! p) then Cursor (int p) (int (Suc f)) else Cursor (int (Suc p)) 0)"
proof -
  from assms(1) obtain phases where ph: "phases_of contract = Some phases"
    and all: "list_all2 phase_asks phases ids" by (auto simp: asks_def)
  have len: "length phases = length ids" using all by (rule list_all2_lengthD)
  have asks: "phase_asks (phases ! p) (ids ! p)" using all assms(2) len by (simp add: list_all2_nthD2)
  have item: "list_item phases (int p) = Some (phases ! p)"
    using assms(2) len by (simp add: list_item_def)
  from asks have "jget (phases ! p) ''field_ids'' = Some (JArr (map JStr (ids ! p)))" "ids ! p \<noteq> []"
    by (auto simp: phase_asks_def)
  then show ?thesis using assms(2,3) len by (auto simp: advance_cursor_def ph item py)
qed

text \<open>The fields still to ask from a position.\<close>

definition remaining :: "string list list \<Rightarrow> nat \<Rightarrow> nat \<Rightarrow> string list" where
  "remaining ids p f = (if p < length ids then drop f (ids ! p) else []) @ concat (drop (Suc p) ids)"

lemma remaining_step:
  assumes "p < length ids" and "f < length (ids ! p)"
  shows "remaining ids p f = ids ! p ! f #
    (if Suc f < length (ids ! p) then remaining ids p (Suc f) else remaining ids (Suc p) 0)"
proof -
  have d: "drop f (ids ! p) = ids ! p ! f # drop (Suc f) (ids ! p)"
    using assms(2) by (rule Cons_nth_drop_Suc [symmetric])
  show ?thesis
  proof (cases "Suc f < length (ids ! p)")
    case False
    have "drop (Suc p) ids = (if Suc p < length ids then ids ! Suc p # drop (Suc (Suc p)) ids else [])"
      by (simp add: Cons_nth_drop_Suc)
    with False d assms show ?thesis by (simp add: remaining_def)
  qed (use d assms in \<open>simp add: remaining_def\<close>)
qed

lemma drive_remaining:
  assumes "asks contract ids"
    and "p < length ids \<and> f < length (ids ! p) \<or> length ids \<le> p \<and> f = 0"
    and "length (remaining ids p f) < fuel"
  shows "drive fuel contract (Cursor (int p) (int f)) = Some (map JStr (remaining ids p f))"
  using assms(2,3)
proof (induction fuel arbitrary: p f)
  case (Suc fuel)
  show ?case
  proof (cases "p < length ids")
    case False
    with Suc.prems next_step_end [OF assms(1), of p] show ?thesis by (simp add: remaining_def)
  next
    case True
    with Suc.prems have f: "f < length (ids ! p)" by simp
    obtain pr where pr: "next_step contract (Cursor (int p) (int f)) = Some (PromptFor pr)"
      "fp_field_id pr = JStr (ids ! p ! f)" using next_step_asks [OF assms(1) True f] by blast
    note step = remaining_step [OF True f]
    have next_ok: "Suc p < length ids \<and> 0 < length (ids ! Suc p) \<or> length ids \<le> Suc p \<and> (0::nat) = 0"
    proof (cases "Suc p < length ids")
      case True
      with assms(1) show ?thesis
        by (auto simp: asks_def phase_asks_def list_all2_conv_all_nth)
    qed simp
    show ?thesis
    proof (cases "Suc f < length (ids ! p)")
      case nxt: True
      with Suc.IH [of p "Suc f"] Suc.prems(2) step True
      have "drive fuel contract (Cursor (int p) (int (Suc f))) = Some (map JStr (remaining ids p (Suc f)))"
        by simp
      with pr step advance_asks [OF assms(1) True f] nxt show ?thesis by simp
    next
      case False
      with Suc.IH [of "Suc p" 0] Suc.prems(2) step next_ok
      have "drive fuel contract (Cursor (int (Suc p)) 0) = Some (map JStr (remaining ids (Suc p) 0))"
        by simp
      with pr step advance_asks [OF assms(1) True f] False show ?thesis by simp
    qed
  qed
qed simp

lemma asks_start: "asks contract ids \<Longrightarrow>
    0 < length ids \<and> 0 < length (ids ! 0) \<or> length ids \<le> 0 \<and> (0::nat) = 0"
  by (auto simp: asks_def phase_asks_def list_all2_conv_all_nth)

lemma remaining_all: "remaining ids 0 0 = concat ids"
  by (cases ids) (simp_all add: remaining_def)

section \<open>What an accepted answer looks like\<close>

lemma rbind_simps [simp]: "rbind (Inl r) f = Inl r" "rbind (Inr x) f = f x"
  by (simp_all add: rbind_def)

lemma crash_simps [simp]: "crash None = Inl Crash" "crash (Some x) = Inr x"
  by (simp_all add: crash_def)

lemma rbind_Inr_conv: "rbind m f = Inr y \<longleftrightarrow> (\<exists>x. m = Inr x \<and> f x = Inr y)"
  by (cases m) auto

lemma crash_Inr_conv [simp]: "crash m = Inr x \<longleftrightarrow> m = Some x"
  by (cases m) auto

text \<open>The value of a declared bound, when there is one.\<close>

definition bound_of :: "json \<Rightarrow> string \<Rightarrow> pyfloat option" where
  "bound_of validation key =
     (if py_contains validation key = Some True then Option.bind (jitem validation key) num_val else None)"

definition in_bounds :: "json \<Rightarrow> pyfloat \<Rightarrow> bool" where
  "in_bounds validation x \<longleftrightarrow>
     (\<forall>b. bound_of validation ''min'' = Some b \<longrightarrow> \<not> flt x b) \<and>
     (\<forall>b. bound_of validation ''max'' = Some b \<longrightarrow> \<not> flt b x)"

lemma check_bound_Inr:
  "check_bound validation key violates err x = Inr u \<Longrightarrow>
   bound_of validation key = Some b \<Longrightarrow> \<not> violates x b"
  by (auto simp: check_bound_def bound_of_def rbind_Inr_conv split: if_splits)

lemma check_number_Inr:
  assumes "check_number validation v = Inr w"
  shows "\<exists>x. w = JFlt x \<and> py_float v = Some x \<and> in_bounds validation x"
  using assms
  by (auto simp: check_number_def rbind_Inr_conv answer_float_def in_bounds_def
      dest: check_bound_Inr split: option.splits)

lemma check_number_stable: "check_number validation v = Inr w \<Longrightarrow> check_number validation w = Inr w"
  by (auto simp: check_number_def rbind_Inr_conv answer_float_def py_float_def [of "JFlt _"])

lemma check_enum_Inr:
  "check_enum spec v = Inr w \<Longrightarrow>
   w = v \<and> (\<exists>allowed. allowed_values spec = Some allowed \<and> (allowed = [] \<or> py_in v allowed))"
  by (auto simp: check_enum_def rbind_Inr_conv member_of_def split: if_splits)

lemma member_of_True: "member_of x allowed = Some True \<Longrightarrow> py_in x allowed"
  by (simp add: member_of_def split: if_splits)

lemma check_multi_enum_Inr:
  assumes "check_multi_enum spec v = Inr w"
  shows "\<exists>allowed xs. allowed_values spec = Some allowed \<and> w = JArr xs \<and>
    xs = (case v of JArr xs \<Rightarrow> xs | _ \<Rightarrow> [v]) \<and> (allowed = [] \<or> list_all (\<lambda>x. py_in x allowed) xs)"
proof -
  obtain allowed where al: "allowed_values spec = Some allowed"
    using assms by (auto simp: check_multi_enum_def rbind_Inr_conv)
  let ?xs = "case v of JArr xs \<Rightarrow> xs | _ \<Rightarrow> [v]"
  show ?thesis
  proof (cases "allowed = []")
    case True
    with assms al show ?thesis by (auto simp: check_multi_enum_def Let_def)
  next
    case False
    with assms al obtain oks where oks: "omap (\<lambda>x. member_of x allowed) ?xs = Some oks"
      "list_all id oks" "w = JArr ?xs"
      by (auto simp: check_multi_enum_def Let_def rbind_Inr_conv split: if_splits)
    have "list_all (\<lambda>x. py_in x allowed) ?xs"
    proof -
      have m: "map (\<lambda>x. member_of x allowed) ?xs = map Some oks" using oks(1) by (simp only: omap_Some_iff)
      have "member_of x allowed = Some True" if "x \<in> set ?xs" for x
      proof -
        have "member_of x allowed \<in> set (map Some oks)"
          using that by (simp only: m [symmetric] set_map) (rule imageI)
        with oks(2) show ?thesis by (auto simp: list_all_iff)
      qed
      then show ?thesis unfolding list_all_iff by (blast intro: member_of_True)
    qed
    with al oks(3) show ?thesis by auto
  qed
qed

lemma check_multi_enum_stable:
  "check_multi_enum spec v = Inr w \<Longrightarrow> check_multi_enum spec w = Inr w"
proof -
  assume a: "check_multi_enum spec v = Inr w"
  then obtain xs where "w = JArr xs" "xs = (case v of JArr xs \<Rightarrow> xs | _ \<Rightarrow> [v])"
    using check_multi_enum_Inr by blast
  with a show ?thesis by (simp add: check_multi_enum_def Let_def)
qed

lemma show_int_ne: "show_int i \<noteq> []"
  using show_nat_digits [of "nat i"] by (simp add: show_int_def)

lemma py_str_ne:
  assumes "\<forall>x. r x \<noteq> []" and "\<not> is_blank v" shows "py_str r v \<noteq> []"
  using assms
  by (cases v) (auto simp: py_str_def is_blank_def show_int_ne split: pyfloat.splits)

lemma check_string_Inr: "check_string r m validation v = Inr w \<Longrightarrow> w = JStr (py_str r v)"
  by (auto simp: check_string_def Let_def rbind_Inr_conv split: if_splits json.splits)

lemma check_string_stable:
  "check_string r m validation v = Inr w \<Longrightarrow> check_string r m validation w = Inr w"
  by (frule check_string_Inr) (simp add: check_string_def Let_def py_str_def)

section \<open>Properties\<close>


definition demo_contract :: json where
  "demo_contract = JObj
     [(''steps'', JArr [JObj [(''id'', JStr ''summary''), (''fields'', JArr
        [JObj [(''id'', JStr ''name'')], JObj [(''id'', JStr ''fee''), (''type'', JStr ''number'')],
         JObj [(''id'', JStr ''region''), (''type'', JStr ''enum'')]])]]),
      (''conversation'', JObj [(''phases'', JArr
        [JObj [(''id'', JStr ''identity''), (''field_ids'', JArr [JStr ''name'', JStr ''region''])],
         JObj [(''id'', JStr ''pricing''), (''field_ids'', JArr [JStr ''fee''])]])])]"

lemma demo_contract_asks: "asks demo_contract [[''name'', ''region''], [''fee'']]"
proof -
  obtain phases index where "phases_of demo_contract = Some phases" "field_index_of demo_contract = Some index"
    "list_all2 phase_asks phases [[''name'', ''region''], [''fee'']]"
    "\<forall>f \<in> set (concat [[''name'', ''region''], [''fee'']]). field_ok index f"
    by (simp add: demo_contract_def phases_of_def field_index_of_def field_index_step_def py d_get_def
        phase_asks_def jget_def d_set_def field_ok_def py_hashable_def)
  then show ?thesis unfolding asks_def by blast
qed


text \<open>
  an accepted answer meets its field specification: a required field has a value, an enum
  answer is one of the options, every item of a multi-enum answer is, and a numeric answer is a
  float that is neither below the declared minimum nor above the declared maximum.
\<close>

theorem accepted_answer_valid:
  assumes "validate_answer r m (JObj spec) v = Inr w"
  shows "(py_truthy (d_get spec ''required'') \<longrightarrow> \<not> is_blank v) \<and>
    (is_blank v \<longrightarrow> w = v) \<and>
    (\<not> is_blank v \<and> d_get spec ''type'' = JStr ''enum'' \<longrightarrow>
       w = v \<and> (\<exists>allowed. allowed_values (JObj spec) = Some allowed \<and> (allowed = [] \<or> py_in w allowed))) \<and>
    (\<not> is_blank v \<and> d_get spec ''type'' = JStr ''multi_enum'' \<longrightarrow>
       (\<exists>allowed xs. allowed_values (JObj spec) = Some allowed \<and> w = JArr xs \<and>
          (allowed = [] \<or> list_all (\<lambda>x. py_in x allowed) xs))) \<and>
    (\<not> is_blank v \<and> d_get spec ''type'' \<in> {JStr ''number'', JStr ''currency'', JStr ''percentage''} \<longrightarrow>
       (\<exists>x. w = JFlt x \<and> in_bounds (py_or (d_get spec ''validation'') (JObj [])) x))"
proof -
  have ty: "(case map_of spec ''type'' of None \<Rightarrow> JStr ''string'' | Some t \<Rightarrow> t) = t \<longleftrightarrow> d_get spec ''type'' = t"
    if "t \<noteq> JNull" "t \<noteq> JStr ''string''" for t
    using that by (auto simp: d_get_def split: option.splits)
  have req: "py_truthy (case map_of spec ''required'' of None \<Rightarrow> JBool False | Some t \<Rightarrow> t) \<longleftrightarrow>
      py_truthy (d_get spec ''required'')"
    by (simp add: d_get_def py split: option.split)
  note v = assms [unfolded validate_answer_def py crash_simps rbind_simps Let_def req]
  show ?thesis
    using v check_enum_Inr [of "JObj spec" v w] check_multi_enum_Inr [of "JObj spec" v w]
      check_number_Inr [of "py_or (d_get spec ''validation'') (JObj [])" v w]
    by (auto simp: ty split: if_splits)
qed

lemmas demo_eval = validate_answer_def py d_get_def Let_def check_number_def answer_float_def
  py_float_def float_of_int_small check_bound_def py_contains_def d_has_def

definition demo_spec :: dict where
  "demo_spec = [(''type'', JStr ''number''), (''required'', JBool True),
     (''validation'', JObj [(''min'', JInt 1), (''max'', JInt 9)])]"

theorem accepted_answer_valid_witness:
  "\<not> is_blank (JInt 3) \<and>
    (\<exists>x. JFlt (Fin 3) = JFlt x \<and> in_bounds (py_or (d_get demo_spec ''validation'') (JObj [])) x)"
proof -
  have "validate_answer (\<lambda>_. []) (\<lambda>_ _. True) (JObj demo_spec) (JInt 3) = Inr (JFlt (Fin 3))"
    by (simp add: demo_spec_def demo_eval jitem_def num_val_def)
  note ok = accepted_answer_valid [OF this]
  have "\<not> is_blank (JInt 3)" by (simp add: py)
  moreover have "d_get demo_spec ''type'' \<in> {JStr ''number'', JStr ''currency'', JStr ''percentage''}"
    by (simp add: demo_spec_def d_get_def)
  ultimately show ?thesis using ok by blast
qed

text \<open>
  Validation is idempotent: an answer that was accepted and stored is accepted again and
  left as it is, so a re-asked field shows a value that can be sent back unchanged.
\<close>

theorem accepted_answer_stable:
  assumes "\<forall>x. r x \<noteq> []" and "validate_answer r m spec v = Inr w"
  shows "validate_answer r m spec w = Inr w"
proof (cases "is_blank v")
  case True
  with assms(2) have "w = v"
    by (auto simp: validate_answer_def rbind_Inr_conv Let_def split: if_splits)
  with assms(2) show ?thesis by simp
next
  case False
  obtain t req val where t: "jget_or spec ''type'' (JStr ''string'') = Some t"
    and req: "jget_or spec ''required'' (JBool False) = Some req"
    and val: "jget spec ''validation'' = Some val"
    using assms(2) by (auto simp: validate_answer_def rbind_Inr_conv Let_def)
  let ?V = "py_or val (JObj [])"
  have v: "(if t = JStr ''enum'' then check_enum spec v
      else if t = JStr ''multi_enum'' then check_multi_enum spec v
      else if t \<in> {JStr ''number'', JStr ''currency'', JStr ''percentage''} then check_number ?V v
      else if t = JStr ''string'' then check_string r m ?V v else Inr v) = Inr w"
    using assms(2) False by (simp add: validate_answer_def t req val Let_def)
  have nb: "\<not> is_blank w"
  proof (cases "t = JStr ''multi_enum''")
    case True
    then obtain xs where "w = JArr xs" "xs = (case v of JArr xs \<Rightarrow> xs | _ \<Rightarrow> [v])"
      using v check_multi_enum_Inr by fastforce
    with False show ?thesis by (cases v) (auto simp: is_blank_def)
  next
    case nm: False
    show ?thesis
      using v nm False check_enum_Inr [of spec v w] check_number_Inr [of ?V v w]
        check_string_Inr [of r m ?V v w] py_str_ne [OF assms(1) False]
      by (auto simp: is_blank_def split: if_splits)
  qed
  have "(if t = JStr ''enum'' then check_enum spec w
      else if t = JStr ''multi_enum'' then check_multi_enum spec w
      else if t \<in> {JStr ''number'', JStr ''currency'', JStr ''percentage''} then check_number ?V w
      else if t = JStr ''string'' then check_string r m ?V w else Inr w) = Inr w"
    using v check_enum_Inr [of spec v w] check_multi_enum_stable [of spec v w]
      check_number_stable [of ?V v w] check_string_stable [of r m ?V v w]
    by (auto split: if_splits)
  with nb show ?thesis by (simp add: validate_answer_def t req val Let_def)
qed

theorem accepted_answer_stable_witness:
  "validate_answer (\<lambda>_. ''0.5'') (\<lambda>_ _. True) (JObj [(''type'', JStr ''currency'')]) (JFlt (Fin 3)) =
    Inr (JFlt (Fin 3))"
proof (rule accepted_answer_stable)
  show "validate_answer (\<lambda>_. ''0.5'') (\<lambda>_ _. True) (JObj [(''type'', JStr ''currency'')]) (JInt 3) =
      Inr (JFlt (Fin 3))"
    by (simp add: demo_eval)
qed simp

text \<open>
  The bounds of a numeric field do not exclude a NaN: whatever minimum and maximum the
  contract declares, the text \<open>nan\<close> is accepted and stored as a float NaN.
\<close>

theorem nan_answer_accepted:
  "validate_answer r m (JObj [(''id'', JStr ''fee''), (''type'', JStr ''number''), (''required'', JBool True),
      (''validation'', JObj [(''min'', JInt lo), (''max'', JInt hi)])]) (JStr ''nan'') = Inr (JFlt NaN)"
proof -
  have "str_strip ''nan'' = ''nan''" "str_lower ''nan'' = ''nan''" by code_simp+
  then have n: "py_float (JStr ''nan'') = Some NaN"
    by (simp add: py_float_def parse_float_def parse_signed_def parse_float_body_def)
  have b: "check_bound (JObj [(''min'', JInt lo), (''max'', JInt hi)]) k viol err x =
      (if k = ''min'' then if viol x (Fin (of_int lo)) then Inl err else Inr ()
       else if k = ''max'' then if viol x (Fin (of_int hi)) then Inl err else Inr () else Inr ())"
    for k viol err x
    by (simp add: check_bound_def py_contains_def d_has_def jitem_def num_val_def)
  show ?thesis
    by (simp add: validate_answer_def py d_get_def Let_def check_number_def answer_float_def n b)
qed

end
