(* ===== verification/Tools.thy ===== *)
theory Tools
  imports Auth
begin

text \<open>
  The tools the agent may call (\<open>tools/base.py\<close>, \<open>tools/registry.py\<close>, \<open>tools/priceframe_read.py\<close>,
  \<open>tools/priceframe_write.py\<close>): permission and risk of each, its input model with the
  constraints the code declares, and the request it sends. Pydantic's coercion of single values
  is the parameter \<open>pydantic\<close>.
\<close>

section \<open>Definitions of tools\<close>

datatype risk = READ | LOW_RISK_WRITE | HIGH_RISK_WRITE

record tool =
  tl_name :: string
  tl_permission :: string
  tl_risk :: risk
  tl_always_automatic :: bool

abbreviation mk_tool :: "string \<Rightarrow> string \<Rightarrow> risk \<Rightarrow> tool" where
  "mk_tool n p r \<equiv> \<lparr>tl_name = n, tl_permission = p, tl_risk = r, tl_always_automatic = False\<rparr>"

definition registered_tools :: "tool list" where
  "registered_tools =
     [mk_tool ''list_my_quotations'' ''agent.quotes.read'' READ,
      mk_tool ''get_quotation'' ''agent.quotes.read'' READ,
      mk_tool ''list_corridors_available'' ''agent.quotes.read'' READ,
      mk_tool ''get_currency_rate'' ''agent.quotes.read'' READ,
      mk_tool ''lookup_salesforce_pr'' ''agent.salesforce.read'' READ,
      \<lparr>tl_name = ''recalculate_quote_aggregates'', tl_permission = ''agent.quotes.recalc'',
       tl_risk = LOW_RISK_WRITE, tl_always_automatic = True\<rparr>,
      mk_tool ''get_field_suggestions'' ''agent.suggestions.read'' READ,
      mk_tool ''get_approval_guidelines'' ''agent.approvals.submit'' READ,
      mk_tool ''web_research'' ''agent.suggestions.read'' READ,
      mk_tool ''preview_pricing_change'' ''agent.quotes.recalc'' READ,
      mk_tool ''create_quotation'' ''agent.quotes.create'' LOW_RISK_WRITE,
      mk_tool ''bulk_add_corridors'' ''agent.quotes.edit'' LOW_RISK_WRITE,
      mk_tool ''update_corridor_pricing'' ''agent.quotes.edit'' LOW_RISK_WRITE,
      mk_tool ''set_fx_spread'' ''agent.quotes.edit'' LOW_RISK_WRITE,
      mk_tool ''submit_for_approval'' ''agent.approvals.submit'' HIGH_RISK_WRITE]"

definition registry_get :: "string \<Rightarrow> tool option" where
  "registry_get n = find (\<lambda>t. tl_name t = n) registered_tools"

definition available_for :: "auth_context \<Rightarrow> tool list" where
  "available_for ctx = filter (\<lambda>t. has_permission ctx (tl_permission t)) registered_tools"

definition requires_approval :: "tool \<Rightarrow> bool" where
  "requires_approval t \<longleftrightarrow> (if tl_always_automatic t then False else tl_risk t \<noteq> READ)"

section \<open>Inputs\<close>

record corridor_draft =
  cd_corridor_id :: int
  cd_volume :: "string option"
  cd_term_months :: "int option"
  cd_applied_rate :: "string option"
  cd_fx_spread :: "string option"

record quotation_input =
  qi_name :: string
  qi_title :: "string option"
  qi_opportunity_type :: string
  qi_customer_id :: "int option"
  qi_currency :: string
  qi_partner_name :: "string option"
  qi_salesforce_pr_id :: "string option"
  qi_regions :: "string list"
  qi_countries :: "string list"
  qi_notes :: "string option"

datatype tool_input =
    EmptyInput
  | QuoteListInput "string option" int
  | IdInput int
  | CurrencyInput string
  | SalesforceLookupInput string
  | FieldSuggestionsInput string dict
  | ApprovalGuidelinesInput "string option" "string option"
  | WebResearchInput string dict "int option"
  | QuoteScopedPayloadInput dict int
  | CreateQuotationInput quotation_input
  | BulkAddCorridorsInput int "corridor_draft list"
  | UpdateCorridorPricingInput corridor_draft
  | FxSpreadInput int string string
  | ApprovalInput int "string option"

text \<open>Pydantic's reading of one value as an int, a str, a Decimal (its canonical text) or a dict.\<close>

record pydantic =
  co_int :: "json \<Rightarrow> int option"
  co_str :: "json \<Rightarrow> string option"
  co_decimal :: "json \<Rightarrow> string option"
  co_dict :: "json \<Rightarrow> dict option"
  co_list :: "json \<Rightarrow> json list option"

text \<open>A field that must be there, one with a default, and one that may be null.\<close>

definition fld :: "(json \<Rightarrow> 'a option) \<Rightarrow> dict \<Rightarrow> string \<Rightarrow> 'a option" where
  "fld co d k = Option.bind (map_of d k) co"

definition fld_or :: "(json \<Rightarrow> 'a option) \<Rightarrow> 'a \<Rightarrow> dict \<Rightarrow> string \<Rightarrow> 'a option" where
  "fld_or co dflt d k = (case map_of d k of None \<Rightarrow> Some dflt | Some v \<Rightarrow> co v)"

definition nullable :: "(json \<Rightarrow> 'a option) \<Rightarrow> json \<Rightarrow> 'a option option" where
  "nullable co v = (if v = JNull then Some None else map_option Some (co v))"

definition fld_opt :: "(json \<Rightarrow> 'a option) \<Rightarrow> dict \<Rightarrow> string \<Rightarrow> 'a option option" where
  "fld_opt co d k = fld_or (nullable co) None d k"

text \<open>A constraint on a value; on a nullable one it holds of null.\<close>

definition guard :: "bool \<Rightarrow> unit option" where "guard b = (if b then Some () else None)"

definition opt_all :: "('a \<Rightarrow> bool) \<Rightarrow> 'a option \<Rightarrow> bool" where
  "opt_all P x = (case x of None \<Rightarrow> True | Some y \<Rightarrow> P y)"

definition str_list :: "pydantic \<Rightarrow> json \<Rightarrow> string list option" where
  "str_list pyd v = Option.bind (co_list pyd v) (omap (co_str pyd))"

definition validate_corridor :: "pydantic \<Rightarrow> dict \<Rightarrow> corridor_draft option" where
  "validate_corridor pyd d = do {
     i \<leftarrow> fld (co_int pyd) d ''corridor_id''; guard (0 < i);
     v \<leftarrow> fld_opt (co_decimal pyd) d ''volume'';
     t \<leftarrow> fld_opt (co_int pyd) d ''term_months''; guard (opt_all (\<lambda>n. 1 \<le> n) t);
     r \<leftarrow> fld_opt (co_decimal pyd) d ''applied_rate'';
     f \<leftarrow> fld_opt (co_decimal pyd) d ''fx_spread'';
     Some \<lparr>cd_corridor_id = i, cd_volume = v, cd_term_months = t, cd_applied_rate = r, cd_fx_spread = f\<rparr>
   }"

text \<open>The input model with its \<open>normalize_name_and_currency\<close> validator.\<close>

definition validate_quotation :: "pydantic \<Rightarrow> dict \<Rightarrow> quotation_input option" where
  "validate_quotation pyd d = do {
     name \<leftarrow> fld_opt (co_str pyd) d ''name''; guard (opt_all (\<lambda>s. s \<noteq> []) name);
     title \<leftarrow> fld_opt (co_str pyd) d ''title''; guard (opt_all (\<lambda>s. s \<noteq> []) title);
     opp \<leftarrow> fld_or (co_str pyd) ''New partner'' d ''opportunity_type''; guard (opp \<noteq> []);
     cust \<leftarrow> fld_opt (co_int pyd) d ''customer_id''; guard (opt_all (\<lambda>i. 0 < i) cust);
     cur \<leftarrow> fld_or (co_str pyd) ''USD'' d ''currency''; guard (length cur = 3);
     partner \<leftarrow> fld_opt (co_str pyd) d ''partner_name'';
     sf \<leftarrow> fld_opt (co_str pyd) d ''salesforce_pr_id'';
     regions \<leftarrow> fld_or (str_list pyd) [] d ''regions'';
     countries \<leftarrow> fld_or (str_list pyd) [] d ''countries'';
     notes \<leftarrow> fld_opt (co_str pyd) d ''notes'';
     let name = (if name = None then title else name);
     name \<leftarrow> name; guard (str_strip name \<noteq> []);
     Some \<lparr>qi_name = str_strip name, qi_title = title, qi_opportunity_type = opp, qi_customer_id = cust,
           qi_currency = str_upper cur, qi_partner_name = partner, qi_salesforce_pr_id = sf,
           qi_regions = regions, qi_countries = countries, qi_notes = notes\<rparr>
   }"

definition validate_args :: "pydantic \<Rightarrow> string \<Rightarrow> dict \<Rightarrow> tool_input option" where
  "validate_args pyd n d =
     (if n = ''list_my_quotations'' then do {
        s \<leftarrow> fld_opt (co_str pyd) d ''status'';
        l \<leftarrow> fld_or (co_int pyd) 20 d ''limit''; guard (1 \<le> l \<and> l \<le> 100);
        Some (QuoteListInput s l) }
      else if n \<in> {''get_quotation'', ''recalculate_quote_aggregates''} then do {
        i \<leftarrow> fld (co_int pyd) d ''id''; guard (0 < i); Some (IdInput i) }
      else if n = ''list_corridors_available'' then Some EmptyInput
      else if n = ''get_currency_rate'' then do {
        c \<leftarrow> fld (co_str pyd) d ''currency''; guard (length c = 3); Some (CurrencyInput c) }
      else if n = ''lookup_salesforce_pr'' then do {
        q \<leftarrow> fld (co_str pyd) d ''query''; guard (q \<noteq> []); Some (SalesforceLookupInput q) }
      else if n = ''get_field_suggestions'' then do {
        f \<leftarrow> fld (co_str pyd) d ''field''; guard (f \<noteq> []);
        c \<leftarrow> fld_or (co_dict pyd) [] d ''ctx'';
        Some (FieldSuggestionsInput f c) }
      else if n = ''get_approval_guidelines'' then do {
        c \<leftarrow> fld_opt (co_str pyd) d ''category''; guard (opt_all (\<lambda>s. length s \<le> 60) c);
        u \<leftarrow> fld_opt (co_str pyd) d ''currency''; guard (opt_all (\<lambda>s. 3 \<le> length s \<and> length s \<le> 8) u);
        Some (ApprovalGuidelinesInput c u) }
      else if n = ''web_research'' then do {
        q \<leftarrow> fld (co_str pyd) d ''query''; guard (q \<noteq> []);
        c \<leftarrow> fld_or (co_dict pyd) [] d ''context'';
        m \<leftarrow> fld_opt (co_int pyd) d ''max_age_seconds''; guard (opt_all (\<lambda>i. 1 \<le> i) m);
        Some (WebResearchInput q c m) }
      else if n = ''preview_pricing_change'' then do {
        p \<leftarrow> fld_or (co_dict pyd) [] d ''payload'';
        i \<leftarrow> fld (co_int pyd) d ''quote_id''; guard (0 < i); Some (QuoteScopedPayloadInput p i) }
      else if n = ''create_quotation'' then map_option CreateQuotationInput (validate_quotation pyd d)
      else if n = ''bulk_add_corridors'' then do {
        i \<leftarrow> fld (co_int pyd) d ''quote_id''; guard (0 < i);
        cs \<leftarrow> fld (co_list pyd) d ''corridors'';
        cs \<leftarrow> omap (\<lambda>c. Option.bind (co_dict pyd c) (validate_corridor pyd)) cs; guard (cs \<noteq> []);
        Some (BulkAddCorridorsInput i cs) }
      else if n = ''update_corridor_pricing'' then
        map_option UpdateCorridorPricingInput (validate_corridor pyd d)
      else if n = ''set_fx_spread'' then do {
        i \<leftarrow> fld (co_int pyd) d ''corridor_id''; guard (0 < i);
        a \<leftarrow> fld (co_str pyd) d ''applied_fx_spread'';
        m \<leftarrow> fld (co_str pyd) d ''minimum_spread'';
        Some (FxSpreadInput i a m) }
      else if n = ''submit_for_approval'' then do {
        i \<leftarrow> fld (co_int pyd) d ''quote_id''; guard (0 < i);
        c \<leftarrow> fld_opt (co_str pyd) d ''comment'';
        Some (ApprovalInput i c) }
      else None)"

section \<open>Dumps\<close>

text \<open>\<open>model_dump(mode="json")\<close>: every field, in declaration order.\<close>

definition jopt :: "('a \<Rightarrow> json) \<Rightarrow> 'a option \<Rightarrow> json" where
  "jopt f x = (case x of None \<Rightarrow> JNull | Some y \<Rightarrow> f y)"

definition dump_corridor :: "corridor_draft \<Rightarrow> dict" where
  "dump_corridor c =
     [(''corridor_id'', JInt (cd_corridor_id c)), (''volume'', jopt JStr (cd_volume c)),
      (''term_months'', jopt JInt (cd_term_months c)), (''applied_rate'', jopt JStr (cd_applied_rate c)),
      (''fx_spread'', jopt JStr (cd_fx_spread c))]"

definition dump_update :: "corridor_draft \<Rightarrow> dict" where
  "dump_update c =
     [(''corridor_id'', JInt (cd_corridor_id c)), (''applied_rate'', jopt JStr (cd_applied_rate c)),
      (''fx_spread'', jopt JStr (cd_fx_spread c)), (''volume'', jopt JStr (cd_volume c)),
      (''term_months'', jopt JInt (cd_term_months c))]"

definition jstrs :: "string list \<Rightarrow> json" where "jstrs xs = JArr (map JStr xs)"

definition dump_quotation :: "quotation_input \<Rightarrow> dict" where
  "dump_quotation q =
     [(''name'', JStr (qi_name q)), (''title'', jopt JStr (qi_title q)),
      (''opportunity_type'', JStr (qi_opportunity_type q)), (''customer_id'', jopt JInt (qi_customer_id q)),
      (''currency'', JStr (qi_currency q)), (''partner_name'', jopt JStr (qi_partner_name q)),
      (''salesforce_pr_id'', jopt JStr (qi_salesforce_pr_id q)), (''regions'', jstrs (qi_regions q)),
      (''countries'', jstrs (qi_countries q)), (''notes'', jopt JStr (qi_notes q))]"

fun dump_args :: "tool_input \<Rightarrow> dict" where
  "dump_args EmptyInput = []"
| "dump_args (QuoteListInput s l) = [(''status'', jopt JStr s), (''limit'', JInt l)]"
| "dump_args (IdInput i) = [(''id'', JInt i)]"
| "dump_args (CurrencyInput c) = [(''currency'', JStr c)]"
| "dump_args (SalesforceLookupInput q) = [(''query'', JStr q)]"
| "dump_args (FieldSuggestionsInput f c) = [(''field'', JStr f), (''ctx'', JObj c)]"
| "dump_args (ApprovalGuidelinesInput c u) = [(''category'', jopt JStr c), (''currency'', jopt JStr u)]"
| "dump_args (WebResearchInput q c m) =
     [(''query'', JStr q), (''context'', JObj c), (''max_age_seconds'', jopt JInt m)]"
| "dump_args (QuoteScopedPayloadInput p i) = [(''payload'', JObj p), (''quote_id'', JInt i)]"
| "dump_args (CreateQuotationInput q) = dump_quotation q"
| "dump_args (BulkAddCorridorsInput i cs) =
     [(''quote_id'', JInt i), (''corridors'', JArr (map (JObj \<circ> dump_corridor) cs))]"
| "dump_args (UpdateCorridorPricingInput c) = dump_update c"
| "dump_args (FxSpreadInput i a m) =
     [(''corridor_id'', JInt i), (''applied_fx_spread'', JStr a), (''minimum_spread'', JStr m)]"
| "dump_args (ApprovalInput i c) = [(''quote_id'', JInt i), (''comment'', jopt JStr c)]"

section \<open>Decimals and base 64\<close>

datatype decimal = DFin rat | DPosInf | DNegInf | DNaN

definition parse_decimal_body :: "string \<Rightarrow> decimal option" where
  "parse_decimal_body s =
     (let l = str_lower s
      in if l \<in> {''inf'', ''infinity''} then Some DPosInf
         else if (starts_with l ''nan'' \<and> list_all is_digit (drop 3 l)) \<or>
                 (starts_with l ''snan'' \<and> list_all is_digit (drop 4 l)) then Some DNaN
         else map_option DFin (parse_unsigned s))"

fun dneg :: "decimal \<Rightarrow> decimal" where
  "dneg (DFin x) = DFin (- x)"
| "dneg DPosInf = DNegInf"
| "dneg DNegInf = DPosInf"
| "dneg DNaN = DNaN"

text \<open>\<open>Decimal(s)\<close>: surrounding white space and all underscores are dropped; \<open>None\<close> is \<open>InvalidOperation\<close>.\<close>

definition parse_decimal :: "string \<Rightarrow> decimal option" where
  "parse_decimal s = parse_signed parse_decimal_body dneg (filter (\<lambda>c. c \<noteq> CHR ''_'') (str_strip s))"

text \<open>\<open>a < b\<close>; comparing with a NaN raises \<open>InvalidOperation\<close>, which is no \<open>ValueError\<close>.\<close>

fun decimal_less :: "decimal \<Rightarrow> decimal \<Rightarrow> bool option" where
  "decimal_less DNaN _ = None"
| "decimal_less _ DNaN = None"
| "decimal_less (DFin a) (DFin b) = Some (a < b)"
| "decimal_less DNegInf b = Some (b \<noteq> DNegInf)"
| "decimal_less a DPosInf = Some (a \<noteq> DPosInf)"
| "decimal_less _ _ = Some False"

definition b64_alphabet :: string where
  "b64_alphabet = ''ABCDEFGHIJKLMNOPQRSTUVWXYZabcdefghijklmnopqrstuvwxyz0123456789+/''"

definition b64c :: "nat \<Rightarrow> char" where "b64c n = b64_alphabet ! (n mod 64)"

fun b64encode :: "string \<Rightarrow> string" where
  "b64encode [] = []"
| "b64encode [a] = [b64c (code a div 4), b64c (code a * 16), CHR ''='', CHR ''='']"
| "b64encode [a, b] =
     [b64c (code a div 4), b64c (code a * 16 + code b div 16), b64c (code b * 4), CHR ''='']"
| "b64encode (a # b # c # s) =
     b64c (code a div 4) # b64c (code a * 16 + code b div 16) #
     b64c (code b * 4 + code c div 64) # b64c (code c) # b64encode s"

section \<open>Execution\<close>

text \<open>Optional members of a payload, in the order the code adds them.\<close>

definition member_if :: "bool \<Rightarrow> (string \<times> json) \<Rightarrow> dict" where "member_if b kv = (if b then [kv] else [])"

definition opt_member :: "string \<Rightarrow> ('a \<Rightarrow> json) \<Rightarrow> 'a option \<Rightarrow> dict" where
  "opt_member k f x = (case x of None \<Rightarrow> [] | Some y \<Rightarrow> [(k, f y)])"

text \<open>A string member that is left out when it is missing or empty.\<close>

definition str_member :: "string \<Rightarrow> string option \<Rightarrow> dict" where
  "str_member k x = (case x of Some s \<Rightarrow> member_if (s \<noteq> []) (k, JStr s) | None \<Rightarrow> [])"

definition quotation_payload :: "quotation_input \<Rightarrow> dict" where
  "quotation_payload q =
     (let currency = JStr (str_upper (qi_currency q));
          details = str_member ''partnerName'' (qi_partner_name q) @
                    opt_member ''customerId'' JInt (qi_customer_id q)
      in [(''name'', JStr (qi_name q)), (''opportunityType'', JStr (qi_opportunity_type q)),
          (''regions'', jstrs (qi_regions q)), (''countries'', jstrs (qi_countries q)),
          (''fundingCurrency'', currency), (''fundingCurrencies'', JArr [currency]),
          (''sourceCurrency'', currency), (''defaultFeeCurrency'', currency)] @
         member_if (details \<noteq> []) (''quotingDetailsSnapshot'', JObj details) @
         str_member ''salesforcePrId'' (qi_salesforce_pr_id q) @ str_member ''notes'' (qi_notes q))"

definition corridor_payload :: "corridor_draft \<Rightarrow> dict" where
  "corridor_payload c =
     (''corridorId'', JInt (cd_corridor_id c)) # opt_member ''volume'' JStr (cd_volume c) @
     opt_member ''termMonths'' JInt (cd_term_months c) @
     opt_member ''appliedRate'' JStr (cd_applied_rate c) @ opt_member ''fxSpread'' JStr (cd_fx_spread c)"

definition update_payload :: "corridor_draft \<Rightarrow> dict" where
  "update_payload c =
     opt_member ''appliedRate'' JStr (cd_applied_rate c) @ opt_member ''fxSpread'' JStr (cd_fx_spread c) @
     opt_member ''volume'' JStr (cd_volume c) @ opt_member ''termMonths'' JInt (cd_term_months c)"

definition approval_payload :: "string option \<Rightarrow> dict" where
  "approval_payload comment =
     [(''policy'', JStr ''quote_pricing''),
      (''approvers'', JObj [(''type'', JStr ''group''), (''codes'', JArr [JStr ''pricing_team''])]),
      (''reasons'', JObj [(''source'', JStr ''agent'')])] @ str_member ''initiatorComment'' comment"

text \<open>\<open>{"data": ...}\<close>, the dump of \<open>JsonOutput\<close>.\<close>

definition json_output :: "json res \<times> world \<Rightarrow> dict res \<times> world" where
  "json_output r = apfst (\<lambda>r. ebind r (\<lambda>j. Inr [(''data'', j)])) r"

definition sorted_compact :: "env \<Rightarrow> dump_cfg" where
  "sorted_compact e = (compact e)\<lparr>sort_keys := True\<rparr>"

definition quote_path :: "string \<Rightarrow> int \<Rightarrow> string \<Rightarrow> string" where
  "quote_path pre i post = pre @ show_int i @ post"

text \<open>The empty payload of \<open>web_research\<close>: the registered instance has no Gemini client.\<close>

definition empty_research :: dict where
  "empty_research = [(''value'', JNull), (''confidence'', JFlt (Fin 0)),
     (''summary'', JStr ''research unavailable''), (''citations'', JArr []), (''cache_hit'', JBool False)]"

definition set_fx_spread ::
    "env \<Rightarrow> pf_client \<Rightarrow> auth_context \<Rightarrow> int \<Rightarrow> string \<Rightarrow> string \<Rightarrow> world \<Rightarrow> dict res \<times> world" where
  "set_fx_spread e c ctx i applied_text minimum_text w =
     (case (parse_decimal applied_text, parse_decimal minimum_text) of
        (Some applied, Some minimum) \<Rightarrow>
          (case decimal_less applied minimum of
             None \<Rightarrow> (Inl PyError, w)
           | Some below \<Rightarrow>
               if below then (Inl (ValueError ''Applied FX spread is below the minimum spread''), w)
               else json_output (put_json e c (quote_path ''/api/quote-corridors/'' i []) (jwt_raw ctx)
                      (Some [(''appliedFxSpread'', JStr applied_text), (''minimumSpread'', JStr minimum_text)])
                      [] w))
      | _ \<Rightarrow> (Inl (ValueError ''FX spread values must be decimal strings''), w))"

text \<open>The \<open>_execute\<close> methods of the tools, in the order of the registry.\<close>

definition list_my_quotations ::
    "env \<Rightarrow> pf_client \<Rightarrow> auth_context \<Rightarrow> string option \<Rightarrow> int \<Rightarrow> world \<Rightarrow> dict res \<times> world" where
  [simp]: "list_my_quotations e c ctx st limit w =
     json_output (get_json e c ''/api/quotes'' (jwt_raw ctx)
       ([(''owner_id'', JStr ''me''), (''limit'', JInt limit)] @ str_member ''status'' st) w)"

definition get_quotation ::
    "env \<Rightarrow> pf_client \<Rightarrow> auth_context \<Rightarrow> int \<Rightarrow> world \<Rightarrow> dict res \<times> world" where
  [simp]: "get_quotation e c ctx i w =
     json_output (get_json e c (quote_path ''/api/v1/quotes/'' i ''/pricing-context'') (jwt_raw ctx) [] w)"

definition list_corridors_available ::
    "env \<Rightarrow> pf_client \<Rightarrow> auth_context \<Rightarrow> world \<Rightarrow> dict res \<times> world" where
  [simp]: "list_corridors_available e c ctx w =
     json_output (get_json e c ''/api/corridors/active'' (jwt_raw ctx) [] w)"

definition get_currency_rate ::
    "env \<Rightarrow> pf_client \<Rightarrow> auth_context \<Rightarrow> string \<Rightarrow> world \<Rightarrow> dict res \<times> world" where
  [simp]: "get_currency_rate e c ctx cy w =
     json_output (get_json e c ''/api/app-config/currency-rates'' (jwt_raw ctx)
       [(''currency'', JStr (str_upper cy))] w)"

definition lookup_salesforce_pr ::
    "env \<Rightarrow> pf_client \<Rightarrow> auth_context \<Rightarrow> string \<Rightarrow> world \<Rightarrow> dict res \<times> world" where
  [simp]: "lookup_salesforce_pr e c ctx q w =
     json_output (get_json e c ''/api/quotes/salesforce/search'' (jwt_raw ctx) [(''q'', JStr q)] w)"

definition get_field_suggestions ::
    "env \<Rightarrow> pf_client \<Rightarrow> auth_context \<Rightarrow> string \<Rightarrow> dict \<Rightarrow> world \<Rightarrow> dict res \<times> world" where
  [simp]: "get_field_suggestions e c ctx f sctx w =
     json_output (get_json e c ''/api/v1/agent/suggestions'' (jwt_raw ctx)
       [(''field'', JStr f), (''ctx'', JStr (b64encode (dumps (sorted_compact e) (JObj sctx))))] w)"

definition get_approval_guidelines ::
    "env \<Rightarrow> pf_client \<Rightarrow> auth_context \<Rightarrow> string option \<Rightarrow> string option \<Rightarrow> world \<Rightarrow> dict res \<times> world" where
  [simp]: "get_approval_guidelines e c ctx cat cy w =
     json_output (get_json e c ''/api/v1/agent/approval-guidelines'' (jwt_raw ctx)
       (str_member ''category'' cat @ str_member ''currency'' (map_option str_upper cy)) w)"

definition recalculate_quote_aggregates ::
    "env \<Rightarrow> pf_client \<Rightarrow> auth_context \<Rightarrow> int \<Rightarrow> world \<Rightarrow> dict res \<times> world" where
  [simp]: "recalculate_quote_aggregates e c ctx i w =
     json_output (post_json e c (quote_path ''/api/quotes/'' i ''/recalculate-aggregates'') (jwt_raw ctx) None [] w)"

definition preview_pricing_change ::
    "env \<Rightarrow> pf_client \<Rightarrow> auth_context \<Rightarrow> dict \<Rightarrow> int \<Rightarrow> world \<Rightarrow> dict res \<times> world" where
  [simp]: "preview_pricing_change e c ctx p i w =
     json_output (post_json e c (quote_path ''/api/v1/quotes/'' i ''/pricing/preview'') (jwt_raw ctx) (Some p) [] w)"

definition create_quotation ::
    "env \<Rightarrow> pf_client \<Rightarrow> auth_context \<Rightarrow> quotation_input \<Rightarrow> world \<Rightarrow> dict res \<times> world" where
  [simp]: "create_quotation e c ctx q w =
     json_output (post_json e c ''/api/quotes'' (jwt_raw ctx) (Some (quotation_payload q)) [] w)"

definition bulk_add_corridors ::
    "env \<Rightarrow> pf_client \<Rightarrow> auth_context \<Rightarrow> int \<Rightarrow> corridor_draft list \<Rightarrow> world \<Rightarrow> dict res \<times> world" where
  [simp]: "bulk_add_corridors e c ctx i cs w =
     json_output (post_json e c (quote_path ''/api/quotes/'' i ''/corridors/bulk'') (jwt_raw ctx)
       (Some [(''quoteId'', JInt i), (''corridors'', JArr (map (JObj \<circ> corridor_payload) cs))]) [] w)"

definition update_corridor_pricing ::
    "env \<Rightarrow> pf_client \<Rightarrow> auth_context \<Rightarrow> corridor_draft \<Rightarrow> world \<Rightarrow> dict res \<times> world" where
  [simp]: "update_corridor_pricing e c ctx d w =
     json_output (put_json e c (quote_path ''/api/quote-corridors/'' (cd_corridor_id d) []) (jwt_raw ctx)
       (Some (update_payload d)) [] w)"

definition submit_for_approval ::
    "env \<Rightarrow> pf_client \<Rightarrow> auth_context \<Rightarrow> int \<Rightarrow> string option \<Rightarrow> world \<Rightarrow> dict res \<times> world" where
  [simp]: "submit_for_approval e c ctx i comment w =
     json_output (post_json e c (quote_path ''/api/quotes/'' i ''/approvals'') (jwt_raw ctx)
       (Some (approval_payload comment)) [] w)"

fun execute_body ::
    "env \<Rightarrow> pf_client \<Rightarrow> auth_context \<Rightarrow> string \<Rightarrow> tool_input \<Rightarrow> world \<Rightarrow> dict res \<times> world" where
  "execute_body e c ctx n EmptyInput w = list_corridors_available e c ctx w"
| "execute_body e c ctx n (QuoteListInput st limit) w = list_my_quotations e c ctx st limit w"
| "execute_body e c ctx n (IdInput i) w =
     (if n = ''recalculate_quote_aggregates'' then recalculate_quote_aggregates e c ctx i w
      else get_quotation e c ctx i w)"
| "execute_body e c ctx n (CurrencyInput cy) w = get_currency_rate e c ctx cy w"
| "execute_body e c ctx n (SalesforceLookupInput q) w = lookup_salesforce_pr e c ctx q w"
| "execute_body e c ctx n (FieldSuggestionsInput f sctx) w = get_field_suggestions e c ctx f sctx w"
| "execute_body e c ctx n (ApprovalGuidelinesInput cat cy) w = get_approval_guidelines e c ctx cat cy w"
| "execute_body e c ctx n (WebResearchInput q wctx age) w = (Inr empty_research, w)"
| "execute_body e c ctx n (QuoteScopedPayloadInput p i) w = preview_pricing_change e c ctx p i w"
| "execute_body e c ctx n (CreateQuotationInput q) w = create_quotation e c ctx q w"
| "execute_body e c ctx n (BulkAddCorridorsInput i cs) w = bulk_add_corridors e c ctx i cs w"
| "execute_body e c ctx n (UpdateCorridorPricingInput d) w = update_corridor_pricing e c ctx d w"
| "execute_body e c ctx n (FxSpreadInput i a m) w = set_fx_spread e c ctx i a m w"
| "execute_body e c ctx n (ApprovalInput i comment) w = submit_for_approval e c ctx i comment w"

text \<open>\<open>ToolDefinition.execute\<close>.\<close>

definition execute ::
    "env \<Rightarrow> pf_client \<Rightarrow> auth_context \<Rightarrow> tool \<Rightarrow> tool_input \<Rightarrow> world \<Rightarrow> dict res \<times> world" where
  "execute e c ctx t args w =
     (if \<not> has_permission ctx (tl_permission t)
      then (Inl (ToolPermissionError (''Missing permission: '' @ tl_permission t)), w)
      else execute_body e c ctx (tl_name t) args w)"

text \<open>\<open>project_for_model\<close>: the one tool with an allow-list forwards \<open>data\<close> only.\<close>

definition project_for_model :: "string \<Rightarrow> dict \<Rightarrow> dict" where
  "project_for_model n dumped =
     (if n = ''get_quotation'' then filter (\<lambda>kv. fst kv = ''data'') dumped else dumped)"

section \<open>The tool interface\<close>

text \<open>
  What the callers of a tool rely on: without the permission nothing happens, and with it the
  database of the agent is out of the tool's reach.
\<close>

locale tool_runner =
  fixes run :: "auth_context \<Rightarrow> 't \<Rightarrow> 'i \<Rightarrow> world \<Rightarrow> 'r res \<times> world"
    and allowed :: "auth_context \<Rightarrow> 't \<Rightarrow> bool"
  assumes denied: "\<not> allowed ctx t \<Longrightarrow> \<exists>m. run ctx t a w = (Inl (ToolPermissionError m), w)"
    and reach: "only_sends w (snd (run ctx t a w))"
begin

lemma run_frame:
  "cur (snd (run ctx t a w)) = cur w"
  "saved (snd (run ctx t a w)) = saved w"
  "idn (snd (run ctx t a w)) = idn w"
  "rown (snd (run ctx t a w)) = rown w"
  "metrics (snd (run ctx t a w)) = metrics w"
  by (rule only_sendsD [OF reach])+

lemma success_allowed: "run ctx t a w = (Inr r, w') \<Longrightarrow> allowed ctx t"
  by (metis denied Inl_Inr_False prod.inject)

lemma sent_allowed: "sent (snd (run ctx t a w)) \<noteq> sent w \<Longrightarrow> allowed ctx t"
  by (metis denied snd_conv)

end

lemma snd_json_output [simp]: "snd (json_output r) = snd r"
  by (simp add: json_output_def)

lemma execute_body_reach: "only_sends w (snd (execute_body e c ctx n a w))"
  by (cases a)
    (auto simp: set_fx_spread_def sends split: option.split)

interpretation priceframe_tools: tool_runner "execute e c"
    "\<lambda>ctx t. has_permission ctx (tl_permission t)" for e c
  by unfold_locales (simp_all add: execute_def execute_body_reach)

section \<open>One request per call\<close>

definition calls_once :: "(pf_request \<Rightarrow> bool) \<Rightarrow> world \<Rightarrow> world \<Rightarrow> bool" where
  "calls_once P w w' \<longleftrightarrow> sent w' = sent w \<or> (\<exists>rq k. sent w' = sent w @ replicate k rq \<and> P rq)"

lemma calls_once_refl [simp]: "calls_once P w w"
  by (simp add: calls_once_def)

lemma calls_once_mono: "calls_once P w w' \<Longrightarrow> (\<And>rq. P rq \<Longrightarrow> Q rq) \<Longrightarrow> calls_once Q w w'"
  by (auto simp: calls_once_def)

text \<open>Any number of calls, every request of them allowed by \<open>P\<close>.\<close>

definition only_requests :: "(pf_request \<Rightarrow> bool) \<Rightarrow> world \<Rightarrow> world \<Rightarrow> bool" where
  "only_requests P w w' \<longleftrightarrow> (\<exists>rqs. sent w' = sent w @ rqs \<and> list_all P rqs)"

lemma only_requests_refl [simp]: "only_requests P w w"
  by (simp add: only_requests_def)

lemma only_requests_trans: "only_requests P w v \<Longrightarrow> only_requests P v u \<Longrightarrow> only_requests P w u"
  by (auto simp: only_requests_def)

lemma calls_once_requests: "calls_once P w w' \<Longrightarrow> only_requests P w w'"
  unfolding calls_once_def only_requests_def
  by (metis append_Nil2 in_set_replicate list.pred_inject(1) list_all_iff)

lemma request_snd:
  "\<exists>k. snd (request e c rq w) = w\<lparr>sent := sent w @ replicate k rq\<rparr>"
  by (cases "request e c rq w") (auto dest: request_sends)

lemma get_json_once: "calls_once (\<lambda>rq. rq_method rq = ''GET'' \<and> rq_path rq = p) w (snd (get_json e c p t ps w))"
  using request_snd [of e c
      "\<lparr>rq_method = ''GET'', rq_path = p, rq_headers = [bearer t], rq_params = ps, rq_body = None\<rparr>" w]
  by (force simp: get_json_def split_def calls_once_def)

lemma send_json_once:
  "calls_once (\<lambda>rq. rq_method rq = m \<and> rq_path rq = p \<and> rq_body rq = b) w (snd (send_json e c m p t b h w))"
  using request_snd [of e c
      "\<lparr>rq_method = m, rq_path = p, rq_headers = merge_headers (default_headers c)
          ((case t of None \<Rightarrow> [] | Some t \<Rightarrow> [bearer t]) @ h), rq_params = [], rq_body = b\<rparr>" w]
  by (force simp: send_json_def split_def Let_def calls_once_def)

lemma post_json_once:
  "calls_once (\<lambda>rq. rq_method rq = ''POST'' \<and> rq_path rq = p \<and> rq_body rq = b) w (snd (post_json e c p t b h w))"
  unfolding post_json_def by (rule send_json_once)

lemma put_json_once:
  "calls_once (\<lambda>rq. rq_method rq = ''PUT'' \<and> rq_path rq = p \<and> rq_body rq = b) w (snd (put_json e c p t b h w))"
  unfolding put_json_def by (rule send_json_once)

section \<open>Which arguments a tool gets\<close>

text \<open>The shape of the parsed arguments, by tool.\<close>

fun shape :: "tool_input \<Rightarrow> string list" where
  "shape EmptyInput = [''list_corridors_available'']"
| "shape (QuoteListInput _ _) = [''list_my_quotations'']"
| "shape (IdInput _) = [''get_quotation'', ''recalculate_quote_aggregates'']"
| "shape (CurrencyInput _) = [''get_currency_rate'']"
| "shape (SalesforceLookupInput _) = [''lookup_salesforce_pr'']"
| "shape (FieldSuggestionsInput _ _) = [''get_field_suggestions'']"
| "shape (ApprovalGuidelinesInput _ _) = [''get_approval_guidelines'']"
| "shape (WebResearchInput _ _ _) = [''web_research'']"
| "shape (QuoteScopedPayloadInput _ _) = [''preview_pricing_change'']"
| "shape (CreateQuotationInput _) = [''create_quotation'']"
| "shape (BulkAddCorridorsInput _ _) = [''bulk_add_corridors'']"
| "shape (UpdateCorridorPricingInput _) = [''update_corridor_pricing'']"
| "shape (FxSpreadInput _ _ _) = [''set_fx_spread'']"
| "shape (ApprovalInput _ _) = [''submit_for_approval'']"

text \<open>The validation of each tool by itself.\<close>

lemmas validate_tool =
  validate_args_def [of _ "''list_my_quotations''", simplified]
  validate_args_def [of _ "''get_quotation''", simplified]
  validate_args_def [of _ "''list_corridors_available''", simplified]
  validate_args_def [of _ "''get_currency_rate''", simplified]
  validate_args_def [of _ "''lookup_salesforce_pr''", simplified]
  validate_args_def [of _ "''recalculate_quote_aggregates''", simplified]
  validate_args_def [of _ "''get_field_suggestions''", simplified]
  validate_args_def [of _ "''get_approval_guidelines''", simplified]
  validate_args_def [of _ "''web_research''", simplified]
  validate_args_def [of _ "''preview_pricing_change''", simplified]
  validate_args_def [of _ "''create_quotation''", simplified]
  validate_args_def [of _ "''bulk_add_corridors''", simplified]
  validate_args_def [of _ "''update_corridor_pricing''", simplified]
  validate_args_def [of _ "''set_fx_spread''", simplified]
  validate_args_def [of _ "''submit_for_approval''", simplified]

lemma validate_args_shape: "validate_args pyd n d = Some a \<Longrightarrow> n \<in> set (shape a)"
  by (auto simp: validate_args_def split: if_splits Option.bind_splits)

lemma registry_get_SomeD: "registry_get n = Some t \<Longrightarrow> t \<in> set registered_tools \<and> tl_name t = n"
  by (auto simp: registry_get_def find_Some_iff)

text \<open>The tools that run without a decision of the user.\<close>

definition automatic_tools :: "string list" where
  "automatic_tools = [''list_my_quotations'', ''get_quotation'', ''list_corridors_available'',
     ''get_currency_rate'', ''lookup_salesforce_pr'', ''recalculate_quote_aggregates'',
     ''get_field_suggestions'', ''get_approval_guidelines'', ''web_research'', ''preview_pricing_change'']"

lemma automatic_tools: "registry_get n = Some t \<Longrightarrow> \<not> requires_approval t \<Longrightarrow> n \<in> set automatic_tools"
  by (drule registry_get_SomeD)
    (auto simp: registered_tools_def automatic_tools_def requires_approval_def)

definition harmless :: "pf_request \<Rightarrow> bool" where
  "harmless rq \<longleftrightarrow> rq_method rq = ''GET'' \<or>
     rq_method rq = ''POST'' \<and> (suffix ''/pricing/preview'' (rq_path rq) \<or>
       suffix ''/recalculate-aggregates'' (rq_path rq))"

lemma suffix_quote_path: "suffix post (quote_path pre i post)"
  by (simp add: quote_path_def suffix_def)

lemma automatic_body_harmless:
  assumes "n \<in> set (shape a)" and "n \<in> set automatic_tools"
  shows "calls_once harmless w (snd (execute_body e c ctx n a w))"
  using assms
  by (cases a)
    (auto simp: automatic_tools_def harmless_def suffix_quote_path
      intro!: calls_once_mono [OF get_json_once] calls_once_mono [OF post_json_once])

section \<open>Reading back a dump\<close>

text \<open>
  What the code relies on in pydantic when it stores \<open>model_dump(mode="json")\<close> and validates
  it again before executing: values of the right JSON type are taken as they are, null is none
  of them, and the text of a Decimal reads as that Decimal.
\<close>

definition pydantic_ok :: "pydantic \<Rightarrow> bool" where
  "pydantic_ok pyd \<longleftrightarrow>
     (\<forall>i. co_int pyd (JInt i) = Some i) \<and> (\<forall>s. co_str pyd (JStr s) = Some s) \<and>
     (\<forall>v s. co_decimal pyd v = Some s \<longrightarrow> co_decimal pyd (JStr s) = Some s) \<and>
     (\<forall>d. co_dict pyd (JObj d) = Some d) \<and> (\<forall>xs. co_list pyd (JArr xs) = Some xs)"

lemma pydantic_okD:
  assumes "pydantic_ok pyd"
  shows "co_int pyd (JInt i) = Some i" "co_str pyd (JStr s) = Some s"
    "co_decimal pyd v = Some s \<Longrightarrow> co_decimal pyd (JStr s) = Some s"
    "co_dict pyd (JObj d) = Some d" "co_list pyd (JArr xs) = Some xs"
  using assms by (auto simp: pydantic_ok_def)

lemma fld_simps [simp]:
  "fld co ((k, v) # d) k' = (if k' = k then co v else fld co d k')"
  "fld_or co x ((k, v) # d) k' = (if k' = k then co v else fld_or co x d k')"
  "fld_or co x [] k' = Some x"
  "fld_opt co ((k, v) # d) k' = (if k' = k then nullable co v else fld_opt co d k')"
  "fld_opt co [] k' = Some None"
  by (simp_all add: fld_def fld_or_def fld_opt_def)

lemma guard_simps [simp]: "guard True = Some ()" "guard b = Some u \<longleftrightarrow> b"
  by (simp_all add: guard_def)

lemma jopt_simps [simp]: "jopt f None = JNull" "jopt f (Some x) = f x"
  by (simp_all add: jopt_def)

lemma nullable_jopt:
  assumes "pydantic_ok pyd"
  shows "nullable (co_str pyd) (jopt JStr s) = Some s" "nullable (co_int pyd) (jopt JInt i) = Some i"
    "nullable (co_str pyd) (JStr t) = Some (Some t)"
proof -
  show "nullable (co_str pyd) (jopt JStr s) = Some s"
    by (cases s) (simp_all add: nullable_def pydantic_okD [OF assms])
  show "nullable (co_int pyd) (jopt JInt i) = Some i"
    by (cases i) (simp_all add: nullable_def pydantic_okD [OF assms])
  show "nullable (co_str pyd) (JStr t) = Some (Some t)"
    by (simp add: nullable_def pydantic_okD [OF assms])
qed

lemma opt_all_Some: "opt_all P (Some x) = P x" "opt_all P None"
  by (simp_all add: opt_all_def)

lemma fld_opt_range:
  "fld_opt co d k = Some (Some s) \<Longrightarrow> \<exists>v. co v = Some s"
  by (auto simp: fld_opt_def fld_or_def nullable_def split: option.splits if_splits)

lemma nullable_decimal:
  assumes "pydantic_ok pyd" and "fld_opt (co_decimal pyd) d k = Some s"
  shows "nullable (co_decimal pyd) (jopt JStr s) = Some s"
  using assms by (cases s) (auto simp: nullable_def dest: fld_opt_range pydantic_okD(3))

lemma str_list_jstrs: "pydantic_ok pyd \<Longrightarrow> str_list pyd (jstrs xs) = Some xs"
  by (simp add: str_list_def jstrs_def pydantic_okD omap_Some_iff)

lemma validate_corridor_dump:
  assumes "pydantic_ok pyd" and "validate_corridor pyd d = Some c"
  shows "validate_corridor pyd (dump_corridor c) = Some c" "validate_corridor pyd (dump_update c) = Some c"
proof -
  have "nullable (co_decimal pyd) (jopt JStr (cd_volume c)) = Some (cd_volume c)"
    "nullable (co_decimal pyd) (jopt JStr (cd_applied_rate c)) = Some (cd_applied_rate c)"
    "nullable (co_decimal pyd) (jopt JStr (cd_fx_spread c)) = Some (cd_fx_spread c)"
    and "0 < cd_corridor_id c" "opt_all (\<lambda>n. 1 \<le> n) (cd_term_months c)"
    using assms(2) nullable_decimal [OF assms(1)]
    by (auto simp: validate_corridor_def split: Option.bind_splits)
  then show "validate_corridor pyd (dump_corridor c) = Some c"
    "validate_corridor pyd (dump_update c) = Some c"
    using assms(1)
    by (simp_all add: validate_corridor_def dump_corridor_def dump_update_def pydantic_okD nullable_jopt)
qed

lemma validate_quotation_dump:
  assumes "pydantic_ok pyd" and "validate_quotation pyd d = Some q"
  shows "validate_quotation pyd (dump_quotation q) = Some q"
proof -
  have "qi_name q \<noteq> []" "str_strip (qi_name q) = qi_name q" "opt_all (\<lambda>s. s \<noteq> []) (qi_title q)"
    "qi_opportunity_type q \<noteq> []" "opt_all (\<lambda>i. 0 < i) (qi_customer_id q)"
    "length (qi_currency q) = 3" "str_upper (qi_currency q) = qi_currency q"
    using assms(2) by (auto simp: validate_quotation_def Let_def split: Option.bind_splits)
  then show ?thesis using assms(1)
    by (simp add: validate_quotation_def dump_quotation_def pydantic_okD nullable_jopt
        str_list_jstrs opt_all_Some)
qed

lemma omap_corridors_dump:
  assumes "pydantic_ok pyd" and "omap (\<lambda>c. Option.bind (co_dict pyd c) (validate_corridor pyd)) xs = Some cs"
  shows "omap (\<lambda>c. Option.bind (co_dict pyd c) (validate_corridor pyd)) (map (JObj \<circ> dump_corridor) cs) = Some cs"
  using assms(2)
proof (induction xs arbitrary: cs)
  case (Cons x xs)
  then obtain c cs' where "Option.bind (co_dict pyd x) (validate_corridor pyd) = Some c" "cs = c # cs'"
    "omap (\<lambda>c. Option.bind (co_dict pyd c) (validate_corridor pyd)) xs = Some cs'"
    by (auto split: option.splits)
  with Cons.IH [of cs'] show ?case
    using validate_corridor_dump(1) [OF assms(1)]
    by (auto simp: pydantic_okD(4) [OF assms(1)] split: Option.bind_splits)
qed simp

section \<open>Properties\<close>


definition denied_call :: "dict res \<times> world" where
  "denied_call = execute demo_env (from_settings demo_env []) demo_context
     (mk_tool ''submit_for_approval'' ''agent.approvals.submit'' HIGH_RISK_WRITE) (ApprovalInput 3 None)
     (session_on empty_db)"


text \<open>
  a registered tool that runs without the user's approval sends at most one request, repeated
  by the retry policy only, and it is a GET, a pricing preview or a recalculation of aggregates:
  no quote, corridor or approval is created or changed without a decision.
\<close>

theorem automatic_tools_do_not_write:
  assumes "registry_get n = Some t" and "\<not> requires_approval t"
    and "validate_args pyd n d = Some a" and "execute e c ctx t a w = (r, w')"
  shows "sent w' = sent w \<or> (\<exists>rq k. sent w' = sent w @ replicate k rq \<and> harmless rq)"
proof -
  have "tl_name t = n" using registry_get_SomeD [OF assms(1)] by simp
  then have "calls_once harmless w (snd (execute e c ctx t a w))"
    using automatic_body_harmless [OF validate_args_shape [OF assms(3)] automatic_tools [OF assms(1,2)]]
    by (simp add: execute_def)
  then show ?thesis using assms(4) by (simp add: calls_once_def)
qed

definition demo_pydantic :: pydantic where
  "demo_pydantic = \<lparr>co_int = int_val,
     co_str = (\<lambda>v. case v of JStr s \<Rightarrow> Some s | _ \<Rightarrow> None),
     co_decimal = (\<lambda>v. case v of JStr s \<Rightarrow> if parse_decimal s \<noteq> None then Some s else None | _ \<Rightarrow> None),
     co_dict = as_dict, co_list = (\<lambda>v. case v of JArr xs \<Rightarrow> Some xs | _ \<Rightarrow> None)\<rparr>"

theorem automatic_tools_do_not_write_witness:
  "sent (snd (execute demo_env (from_settings demo_env []) demo_context
      (mk_tool ''get_quotation'' ''agent.quotes.read'' READ) (IdInput 7) (session_on empty_db))) =
      sent (session_on empty_db) \<or>
    (\<exists>rq k. sent (snd (execute demo_env (from_settings demo_env []) demo_context
      (mk_tool ''get_quotation'' ''agent.quotes.read'' READ) (IdInput 7) (session_on empty_db))) =
      sent (session_on empty_db) @ replicate k rq \<and> harmless rq)"
proof (rule automatic_tools_do_not_write [OF _ _ _ prod.collapse [symmetric]])
  show "registry_get ''get_quotation'' = Some (mk_tool ''get_quotation'' ''agent.quotes.read'' READ)"
    by (simp add: registry_get_def registered_tools_def)
  show "validate_args demo_pydantic ''get_quotation'' [(''id'', JInt 7)] = Some (IdInput 7)"
    by (simp add: validate_args_def fld_def guard_def demo_pydantic_def int_val_def)
qed (simp add: requires_approval_def)

text \<open>
  the FX spread tool never sends a spread below the minimum: a request leaves only when both
  texts are decimals that compare, and the applied one is not the smaller.
\<close>

theorem fx_spread_not_below_minimum:
  assumes "set_fx_spread e c ctx i applied minimum w = (r, w')" and "sent w' \<noteq> sent w"
  shows "\<exists>a m. parse_decimal applied = Some a \<and> parse_decimal minimum = Some m \<and>
    decimal_less a m = Some False"
  using assms by (auto simp: set_fx_spread_def split: option.splits if_splits)

theorem fx_spread_not_below_minimum_witness:
  "\<exists>a m. parse_decimal ''2'' = Some a \<and> parse_decimal ''1'' = Some m \<and> decimal_less a m = Some False"
proof (rule fx_spread_not_below_minimum [OF prod.collapse [symmetric]])
  have d: "parse_decimal ''2'' = Some (DFin 2)" "parse_decimal ''1'' = Some (DFin 1)"
    by (code_simp)+
  show "sent (snd (set_fx_spread demo_env (from_settings demo_env []) demo_context 4 ''2'' ''1''
      (session_on empty_db))) \<noteq> sent (session_on empty_db)"
    using request_sends_once [of "from_settings demo_env []" demo_env]
    by (simp add: set_fx_spread_def d put_json_def send_json_def split_def Let_def from_settings_def
        demo_env_def)
qed

text \<open>
  A NaN gets past the parsing of the FX spread tool and raises there an exception that is
  neither the documented \<open>ValueError\<close> nor a PriceFRAME error.
\<close>

theorem fx_spread_nan_raises:
  assumes "parse_decimal minimum \<noteq> None"
  shows "set_fx_spread e c ctx i ''nan'' minimum w = (Inl PyError, w)"
proof -
  have "parse_decimal ''nan'' = Some DNaN" by code_simp
  with assms show ?thesis by (auto simp: set_fx_spread_def)
qed

theorem fx_spread_nan_raises_witness:
  "set_fx_spread demo_env (from_settings demo_env []) demo_context 7 ''nan'' ''1'' (session_on empty_db) =
    (Inl PyError, session_on empty_db)"
proof (rule fx_spread_nan_raises)
  show "parse_decimal ''1'' \<noteq> None" by code_simp
qed

lemma validate_dump_args:
  assumes "pydantic_ok pyd" and "validate_args pyd n d = Some a"
  shows "validate_args pyd n (dump_args a) = Some a"
proof -
  note n = validate_args_shape [OF assms(2)]
  note rules = validate_tool pydantic_okD [OF assms(1)] nullable_jopt [OF assms(1)]
  show ?thesis
  proof (cases a)
    case (IdInput i)
    with n assms(2) show ?thesis by (auto simp: rules split: Option.bind_splits)
  next
    case (CreateQuotationInput q)
    with assms n show ?thesis by (auto simp: validate_tool validate_quotation_dump)
  next
    case (BulkAddCorridorsInput i cs)
    with assms n obtain xs where "0 < i" "cs \<noteq> []"
      "omap (\<lambda>c. Option.bind (co_dict pyd c) (validate_corridor pyd)) xs = Some cs"
      by (auto simp: validate_tool split: Option.bind_splits)
    with BulkAddCorridorsInput n show ?thesis
      by (simp add: rules omap_corridors_dump [OF assms(1)] del: map_map)
  next
    case (UpdateCorridorPricingInput c)
    with assms n show ?thesis by (auto simp: validate_tool validate_corridor_dump(2))
  qed (use assms(2) n in \<open>auto simp: rules split: Option.bind_splits\<close>)
qed

text \<open>
  arguments survive storage: what \<open>model_dump\<close> stores for a validated tool call validates again
  to the very same arguments, for every registered tool, so the call that is executed after an
  approval is the one that was approved.
\<close>

theorem stored_args_validate_again:
  assumes "pydantic_ok pyd" and "validate_args pyd n d = Some a"
  shows "validate_args pyd n (dump_args a) = Some a"
  by (rule validate_dump_args [OF assms])

lemma demo_pydantic_ok: "pydantic_ok demo_pydantic"
  by (auto simp: pydantic_ok_def demo_pydantic_def int_val_def as_dict_def split: json.splits if_splits)

theorem stored_args_validate_again_witness:
  "validate_args demo_pydantic ''submit_for_approval'' (dump_args (ApprovalInput 12 None)) =
    Some (ApprovalInput 12 None)"
proof (rule stored_args_validate_again [OF demo_pydantic_ok])
  show "validate_args demo_pydantic ''submit_for_approval'' [(''quote_id'', JInt 12)] =
      Some (ApprovalInput 12 None)"
    by (simp add: validate_args_def demo_pydantic_def int_val_def)
qed

end
