(* ===== verification/Recap.thy ===== *)
theory Recap
  imports Tools Conversation
begin

text \<open>
  The end of a guided conversation (\<open>agent/conversation/recap.py\<close>): the recap of the answers, the
  quote payload built from them, the resolution of the selected corridors, and the one write
  batch that creates the quote. \<open>None\<close> is an exception that escapes.
\<close>

section \<open>Recap\<close>

definition asked_ids :: "json \<Rightarrow> json list option" where
  "asked_ids contract = do {
     conv \<leftarrow> jget contract ''conversation'';
     phases \<leftarrow> jget_or (py_or conv (JObj [])) ''phases'' (JArr []);
     phases \<leftarrow> py_iter phases;
     groups \<leftarrow> omap (\<lambda>phase. do {
         ids \<leftarrow> jget_or phase ''field_ids'' (JArr []);
         ids \<leftarrow> py_iter ids;
         if list_all py_hashable ids then Some ids else None
       }) phases;
     Some (concat groups)
   }"

definition hidden :: "string \<Rightarrow> bool" where "hidden k \<longleftrightarrow> starts_with k ''_''"

definition flat :: "dict \<Rightarrow> dict" where
  "flat payload = foldl (\<lambda>acc (k, sect). case sect of
       JObj d \<Rightarrow> if hidden k then acc else d_update acc d | _ \<Rightarrow> acc) [] payload"

definition recap_flat :: "dict \<Rightarrow> dict" where
  "recap_flat payload = foldl (\<lambda>acc (k, sect). case sect of
       JObj d \<Rightarrow> if hidden k then acc else d_update acc (filter (\<lambda>(fk, fv). \<not> hidden fk) d)
     | _ \<Rightarrow> acc) [] payload"

definition build_recap :: "json \<Rightarrow> dict \<Rightarrow> (dict \<times> dict) option" where
  "build_recap contract payload = map_option (\<lambda>asked.
     let answers = recap_flat payload
     in (filter (\<lambda>(k, v). py_in (JStr k) asked) answers,
         filter (\<lambda>(k, v). \<not> py_in (JStr k) asked) answers)) (asked_ids contract)"

section \<open>Corridors\<close>

definition filter_fields :: "(string \<times> string) list" where
  "filter_fields =
     [(''corridor_regions'', ''region''), (''corridor_countries'', ''country''),
      (''corridor_services'', ''service''), (''transaction_types'', ''transactionType''),
      (''payout_currencies'', ''payoutCurrency''), (''payers'', ''payer'')]"

definition as_list :: "json \<Rightarrow> json list" where
  "as_list v = (case v of JNull \<Rightarrow> [] | JArr xs \<Rightarrow> xs | _ \<Rightarrow> [v])"

definition corridor_records :: "json \<Rightarrow> dict list" where
  "corridor_records data =
     (let objs = List.map_filter as_dict
      in case data of
           JArr xs \<Rightarrow> objs xs
         | JObj d \<Rightarrow>
             (case filter is_arr (map (d_get d) [''corridors'', ''data'', ''items'', ''results'']) of
                JArr xs # _ \<Rightarrow> objs xs | _ \<Rightarrow> [])
         | _ \<Rightarrow> [])"

definition identity_value :: "dict \<Rightarrow> string \<Rightarrow> json" where
  "identity_value corridor k = (case d_get corridor ''identity'' of
      JObj d \<Rightarrow> if d_has d k then d_get d k else d_get corridor k
    | _ \<Rightarrow> d_get corridor k)"

text \<open>\<open>_corridor_id\<close>: no id when \<open>int\<close> raises \<open>TypeError\<close> or \<open>ValueError\<close>; an infinite float raises.\<close>

definition corridor_id_of :: "dict \<Rightarrow> int option option" where
  "corridor_id_of corridor =
     (let raw = (if d_get corridor ''id'' = JNull
                 then py_or (d_get corridor ''corridorId'') (d_get corridor ''corridor_id'')
                 else d_get corridor ''id'')
      in if raw = JFlt PInf \<or> raw = JFlt NInf then None else Some (py_int raw))"

text \<open>The selected values of each identity key the user filtered on; they end up in sets.\<close>

definition selector :: "dict \<Rightarrow> string \<times> string \<Rightarrow> (string \<times> json list) option option" where
  "selector vals fk =
     (let selected = as_list (d_get vals (fst fk));
          wanted = filter (\<lambda>s. s \<noteq> JNull \<and> s \<noteq> JStr []) selected
      in if selected = [] then Some None
         else if list_all py_hashable wanted then Some (Some (snd fk, wanted)) else None)"

definition selectors_of :: "dict \<Rightarrow> (string \<times> json list) list option" where
  "selectors_of vals = map_option (List.map_filter id) (omap (selector vals) filter_fields)"

fun corridor_matches :: "dict \<Rightarrow> (string \<times> json list) list \<Rightarrow> bool option" where
  "corridor_matches corridor [] = Some True"
| "corridor_matches corridor ((k, wanted) # sels) =
     (let v = identity_value corridor k
      in if \<not> py_hashable v then None
         else if py_in v wanted then corridor_matches corridor sels else Some False)"

definition match_step :: "(string \<times> json list) list \<Rightarrow> int list \<Rightarrow> dict \<Rightarrow> int list option" where
  "match_step sels matched corridor = do {
     hit \<leftarrow> corridor_matches corridor sels;
     if \<not> hit then Some matched
     else do {
       cid \<leftarrow> corridor_id_of corridor;
       Some (case cid of
           None \<Rightarrow> matched
         | Some c \<Rightarrow> if c \<in> set matched then matched else matched @ [c])
     }
   }"

definition resolve_corridor_ids ::
    "env \<Rightarrow> pf_client \<Rightarrow> auth_context \<Rightarrow> dict \<Rightarrow> world \<Rightarrow> int list res \<times> world" where
  "resolve_corridor_ids e c ctx vals w =
     (case selectors_of vals of
        None \<Rightarrow> (Inl PyError, w)
      | Some sels \<Rightarrow>
          if sels = [] then (Inr [], w)
          else (case get_json e c ''/api/corridors/active'' (jwt_raw ctx) [(''format'', JStr ''json'')] w of
                  (r, w') \<Rightarrow> (ebind r (\<lambda>data. of_opt (ofold (match_step sels) [] (corridor_records data))), w')))"

section \<open>The quote payload\<close>

definition nonempty :: "json \<Rightarrow> bool" where
  "nonempty v = (case v of
      JNull \<Rightarrow> False | JStr s \<Rightarrow> s \<noteq> [] | JArr xs \<Rightarrow> xs \<noteq> [] | JObj d \<Rightarrow> d \<noteq> [] | _ \<Rightarrow> True)"

definition map_fee_type :: "(rat \<Rightarrow> string) \<Rightarrow> json \<Rightarrow> json" where
  "map_fee_type r raw =
     (if str_contains (str_lower (py_str r (py_or raw (JStr [])))) ''network''
      then JStr ''network'' else JStr ''setup'')"

definition map_payment_schedule :: "(rat \<Rightarrow> string) \<Rightarrow> json \<Rightarrow> json" where
  "map_payment_schedule r raw =
     (let label = str_strip (py_str r (py_or raw (JStr [])))
      in if starts_with label ''50'' then JStr ''50''
         else if str_lower label = ''custom'' then JStr ''custom'' else JStr ''100'')"

text \<open>A value converted with \<open>int\<close> or \<open>float\<close> when it is there, else a default.\<close>

definition conv_or :: "(json \<Rightarrow> 'a option) \<Rightarrow> ('a \<Rightarrow> json) \<Rightarrow> json \<Rightarrow> json \<Rightarrow> json option" where
  "conv_or co f v dflt = (if v = JNull then Some dflt else map_option f (co v))"

text \<open>A conversion that adds a member only when the value is there.\<close>

definition conv_member :: "(json \<Rightarrow> 'a option) \<Rightarrow> ('a \<Rightarrow> json) \<Rightarrow> string \<Rightarrow> json \<Rightarrow> dict option" where
  "conv_member co f k v = (if v = JNull then Some [] else map_option (\<lambda>x. [(k, f x)]) (co v))"

definition listed :: "json \<Rightarrow> json" where
  "listed v = (case v of JArr _ \<Rightarrow> v | _ \<Rightarrow> JArr [v])"

definition other_fee :: "dict \<Rightarrow> string \<Rightarrow> string \<Rightarrow> string \<Rightarrow> json list option" where
  "other_fee vals k concept ty =
     (if d_get vals k = JNull then Some []
      else map_option (\<lambda>x. [JObj [(''concept'', JStr concept), (''fee'', JFlt x), (''type'', JStr ty)]])
             (py_float (d_get vals k)))"

definition pricing_tool_snapshot :: "(rat \<Rightarrow> string) \<Rightarrow> dict \<Rightarrow> dict option" where
  "pricing_tool_snapshot r vals = do {
     let price = d_get vals ''quoted_setup_price'';
     joining \<leftarrow> conv_or py_float JFlt price (JInt 0);
     commitment \<leftarrow> conv_or py_float JFlt (d_get vals ''standard_commitment_fee'') (JInt 0);
     waived \<leftarrow> conv_or py_int JInt (d_get vals ''waived_months'') (JInt 0);
     fee1 \<leftarrow> other_fee vals ''emergency_funding_fee'' ''Emergency Funding Fee'' ''emergency_funding'';
     fee2 \<leftarrow> other_fee vals ''service_request_fee_reversal'' ''Service Request Fee (Reversal)''
       ''service_request_reversal'';
     Some ([(''feeType'', map_fee_type r (d_get vals ''fee_type'')),
            (''paymentSchedule'', map_payment_schedule r (d_get vals ''payment_schedule'')),
            (''salesRepQuotedPrice'', JStr (if price = JNull then [] else py_str r price)),
            (''networkJoiningFee'', joining), (''standardCommitmentFee'', commitment),
            (''waivedMonths'', waived), (''mcfType'', JStr ''standard''), (''commitmentFeeDiscount'', JInt 0)] @
           member_if (fee1 @ fee2 \<noteq> []) (''otherFees'', JArr (fee1 @ fee2)))
   }"

definition pnl_snapshot :: "dict \<Rightarrow> dict option" where
  "pnl_snapshot vals = do {
     m \<leftarrow> conv_member py_float JFlt ''targetMarginPercent'' (d_get vals ''target_margin_percent'');
     g \<leftarrow> conv_member py_float JFlt ''targetGmPercent'' (d_get vals ''target_gm_percent'');
     d \<leftarrow> conv_member Some id ''discountType'' (d_get vals ''pl_discount_type'');
     Some (m @ g @ d)
   }"

definition build_quote_payload :: "(rat \<Rightarrow> string) \<Rightarrow> dict \<Rightarrow> dict option" where
  "build_quote_payload r vals = do {
     let fee_currency = py_or (d_get vals ''default_fee_currency'') (JStr ''USD'');
     let funding = listed (py_or (d_get vals ''funding_currencies'') (JArr [fee_currency]));
     let source = py_or (d_get vals ''source_currency'') fee_currency;
     let fx = py_or (d_get vals ''fx_pricing'') (JStr ''FX Spread'');
     let lst = (\<lambda>k. py_or (d_get vals k) (JArr []));
     let name = py_or (d_get vals ''sending_partner_name'') (JStr []);
     len \<leftarrow> conv_member py_int JInt ''contractLength'' (d_get vals ''contract_length_years'');
     waived \<leftarrow> conv_member py_int JInt ''waivedMonths'' (d_get vals ''waived_months'');
     qlen \<leftarrow> conv_or py_int JInt (d_get vals ''contract_length_years'') JNull;
     qwaived \<leftarrow> conv_or py_int JInt (d_get vals ''waived_months'') JNull;
     let quoting = filter (\<lambda>(k, v). nonempty v)
       [(''sendingPartnerName'', name), (''sendingPartnerRegion'', d_get vals ''sending_partner_region''),
        (''sendingPartnerCountry'', d_get vals ''sending_partner_country''),
        (''opportunityOwner'', d_get vals ''opportunity_owner''), (''prCode'', d_get vals ''pr_code''),
        (''showFXSource'', d_get vals ''show_fx_source_in_contract''),
        (''showFXSpread'', d_get vals ''show_fx_spread_in_contract''),
        (''contractLength'', qlen), (''waivedMonths'', qwaived), (''useCases'', lst ''use_cases'')];
     let tech =
       [(''selectedPricingStrategy'', JStr ''Corridor Pricing''), (''selectedFxPricing'', fx),
        (''fundingCurrency'', fee_currency), (''fundingCurrencies'', funding), (''sourceCurrency'', source),
        (''defaultFeeCurrency'', fee_currency), (''feeDebitedFrom'', fee_currency)];
     tool \<leftarrow> pricing_tool_snapshot r vals;
     pnl \<leftarrow> pnl_snapshot vals;
     Some (filter (\<lambda>(k, v). nonempty v)
       ([(''name'', name), (''opportunityType'', py_or (d_get vals ''opportunity_type'') (JStr ''New partner'')),
         (''regions'', lst ''corridor_regions''), (''countries'', lst ''corridor_countries''),
         (''services'', lst ''corridor_services''), (''transactionTypes'', lst ''transaction_types''),
         (''payoutCurrencies'', lst ''payout_currencies''), (''payers'', lst ''payers''),
         (''fundingCurrency'', fee_currency), (''fundingCurrencies'', funding), (''sourceCurrency'', source),
         (''defaultFeeCurrency'', fee_currency), (''useCases'', lst ''use_cases''),
         (''selectedFxPricing'', fx), (''selectedPricingStrategy'', JStr ''Corridor Pricing'')] @
        len @ waived @
        [(''quotingDetailsSnapshot'', JObj quoting), (''technicalDetailsSnapshot'', JObj tech),
         (''pricingToolSnapshot'', JObj tool)] @
        member_if (pnl \<noteq> []) (''pricingProjectionsSnapshot'', JObj [(''plData'', JObj pnl)])))
   }"

section \<open>The write batch\<close>

record commit_result =
  cr_quote_id :: json
  cr_applied :: "string list"
  cr_failed :: "(string \<times> string) list"

definition commit_result_dict :: "commit_result \<Rightarrow> dict" where
  "commit_result_dict r = [(''quote_id'', cr_quote_id r), (''applied'', jstrs (cr_applied r)),
     (''failed'', JArr (map (\<lambda>(st, err). JObj [(''step'', JStr st), (''error'', JStr err)]) (cr_failed r)))]"

definition created_quote_id :: "dict \<Rightarrow> json" where
  "created_quote_id raw =
     (let nested = (case d_get raw ''data'' of JObj d \<Rightarrow> d | _ \<Rightarrow> [])
      in py_or (d_get nested ''id'') (py_or (d_get raw ''quote_id'') (d_get raw ''id'')))"

definition bulk_tool :: tool where
  "bulk_tool = mk_tool ''bulk_add_corridors'' ''agent.quotes.edit'' LOW_RISK_WRITE"

definition plain_corridor :: "int \<Rightarrow> corridor_draft" where
  "plain_corridor i = \<lparr>cd_corridor_id = i, cd_volume = None, cd_term_months = None,
     cd_applied_rate = None, cd_fx_spread = None\<rparr>"

text \<open>\<open>BulkAddCorridorsInput(quote_id=int(quote_id), corridors=_corridor_rows(ids))\<close>.\<close>

definition bulk_input :: "pydantic \<Rightarrow> json \<Rightarrow> json \<Rightarrow> tool_input option" where
  "bulk_input pyd quote_id corridor_ids = do {
     raw_id \<leftarrow> py_int quote_id;
     ids \<leftarrow> py_iter corridor_ids;
     cs \<leftarrow> omap (co_int pyd) ids;
     guard (list_all (\<lambda>i. 0 < i) cs);
     guard (0 < raw_id \<and> cs \<noteq> []);
     Some (BulkAddCorridorsInput raw_id (map plain_corridor cs))
   }"

text \<open>The corridors to add: given directly, or resolved from the selected geography.\<close>

definition commit_corridors ::
    "env \<Rightarrow> pf_client \<Rightarrow> auth_context \<Rightarrow> dict \<Rightarrow> world \<Rightarrow> (json \<times> (string \<times> string) list) \<times> world" where
  "commit_corridors e c ctx vals w =
     (let given = py_or (d_get vals ''corridor_corridor_ids'') (JArr [])
      in if \<not> py_truthy given \<and>
            (py_truthy (d_get vals ''corridor_countries'') \<or> py_truthy (d_get vals ''corridor_regions''))
         then (case resolve_corridor_ids e c ctx vals w of
                 (Inl err, w') \<Rightarrow> ((JArr [], [(''resolve_corridor_ids'', exc_text err)]), w')
               | (Inr ids, w') \<Rightarrow> ((JArr (map JInt ids), []), w'))
         else ((given, []), w))"

definition commit_draft ::
    "env \<Rightarrow> pydantic \<Rightarrow> pf_client \<Rightarrow> auth_context \<Rightarrow> dict \<Rightarrow> world \<Rightarrow> commit_result res \<times> world" where
  "commit_draft e pyd c ctx payload w =
     (let vals = flat payload
      in case build_quote_payload (float_text e) vals of
           None \<Rightarrow> (Inl PyError, w)
         | Some quote_payload \<Rightarrow>
             (case post_json e c ''/api/quotes'' (jwt_raw ctx) (Some quote_payload) [] w of
                (Inl err, w1) \<Rightarrow> (Inl err, w1)
              | (Inr (JObj raw), w1) \<Rightarrow>
                  let quote_id = created_quote_id raw
                  in (case commit_corridors e c ctx vals w1 of
                        ((ids, failed), w2) \<Rightarrow>
                          if py_truthy quote_id \<and> py_truthy ids
                          then (case bulk_input pyd quote_id ids of
                                  None \<Rightarrow> (Inr \<lparr>cr_quote_id = quote_id, cr_applied = [''create_quotation''],
                                      cr_failed = failed @ [(''bulk_add_corridors'', [])]\<rparr>, w2)
                                | Some args \<Rightarrow>
                                    (case execute e c ctx bulk_tool args w2 of
                                       (Inl err, w3) \<Rightarrow>
                                         (Inr \<lparr>cr_quote_id = quote_id, cr_applied = [''create_quotation''],
                                            cr_failed = failed @ [(''bulk_add_corridors'', exc_text err)]\<rparr>, w3)
                                     | (Inr out, w3) \<Rightarrow>
                                         (Inr \<lparr>cr_quote_id = quote_id,
                                            cr_applied = [''create_quotation'', ''bulk_add_corridors''],
                                            cr_failed = failed\<rparr>, w3)))
                          else (Inr \<lparr>cr_quote_id = quote_id, cr_applied = [''create_quotation''],
                                     cr_failed = failed\<rparr>, w2))
              | (Inr _, w1) \<Rightarrow> (Inl PyError, w1)))"

section \<open>Laws\<close>

text \<open>The requests a commit may send.\<close>

definition commit_request :: "pf_request \<Rightarrow> bool" where
  "commit_request rq \<longleftrightarrow>
     rq_method rq = ''POST'' \<and> rq_path rq = ''/api/quotes'' \<or>
     rq_method rq = ''GET'' \<and> rq_path rq = ''/api/corridors/active'' \<or>
     rq_method rq = ''POST'' \<and> (\<exists>i. rq_path rq = quote_path ''/api/quotes/'' i ''/corridors/bulk'')"

lemma post_quote_requests: "only_requests commit_request w (snd (post_json e c ''/api/quotes'' t b h w))"
  by (rule calls_once_requests, rule calls_once_mono [OF post_json_once]) (simp add: commit_request_def)

lemma get_corridors_requests:
  "only_requests commit_request w (snd (get_json e c ''/api/corridors/active'' t ps w))"
  by (rule calls_once_requests, rule calls_once_mono [OF get_json_once]) (simp add: commit_request_def)

lemma bulk_requests:
  "only_requests commit_request w (snd (execute e c ctx bulk_tool (BulkAddCorridorsInput i cs) w))"
  unfolding execute_def
  by (auto simp: commit_request_def intro!: calls_once_requests calls_once_mono [OF post_json_once])

lemma commit_corridors_requests: "only_requests commit_request w (snd (commit_corridors e c ctx vals w))"
proof -
  have "only_requests commit_request w (snd (resolve_corridor_ids e c ctx vals w))"
    using get_corridors_requests
    by (auto simp: resolve_corridor_ids_def split_def split: option.split)
  then show ?thesis
    by (auto simp: commit_corridors_def Let_def split: prod.split sum.split)
qed

lemma bulk_input_SomeD: "bulk_input pyd q ids = Some a \<Longrightarrow> \<exists>i cs. a = BulkAddCorridorsInput i cs"
  by (auto simp: bulk_input_def split: Option.bind_splits)

lemma commit_draft_requests: "only_requests commit_request w (snd (commit_draft e pyd c ctx payload w))"
proof (cases "build_quote_payload (float_text e) (flat payload)")
  case (Some body)
  obtain r w1 where post: "post_json e c ''/api/quotes'' (jwt_raw ctx) (Some body) [] w = (r, w1)"
    by fastforce
  have w1: "only_requests commit_request w w1" using post_quote_requests post by (metis snd_conv)
  obtain ids failed w2 where cc: "commit_corridors e c ctx (flat payload) w1 = ((ids, failed), w2)"
    by (metis surj_pair)
  have w2: "only_requests commit_request w w2"
    using commit_corridors_requests [of w1] cc w1 by (metis only_requests_trans snd_conv)
  have w3: "only_requests commit_request w w'"
    if h: "bulk_input pyd q ids = Some args" "execute e c ctx bulk_tool args w2 = (r', w')" for q args r' w'
  proof -
    obtain i cs where "args = BulkAddCorridorsInput i cs" using bulk_input_SomeD [OF h(1)] by blast
    then show ?thesis
      using bulk_requests [of w2 e c ctx i cs] h(2) w2 by (metis only_requests_trans snd_conv)
  qed
  show ?thesis
    using Some post w1 w2 w3 cc
    by (auto simp: commit_draft_def Let_def split: sum.split json.split option.split prod.split)
qed (simp add: commit_draft_def)

lemma match_step_distinct: "match_step sels m c = Some m' \<Longrightarrow> distinct m \<Longrightarrow> distinct m'"
  by (auto simp: match_step_def split: Option.bind_splits if_splits option.splits)

lemma not_approval: "commit_request rq \<Longrightarrow> \<not> suffix ''/approvals'' (rq_path rq)"
proof
  assume c: "commit_request rq" and "suffix ''/approvals'' (rq_path rq)"
  then obtain zs where zs: "rq_path rq = zs @ ''/approvals''" by (auto simp: suffix_def)
  have l: "last (rq_path rq) = CHR ''s''" "rq_path rq ! (length (rq_path rq) - 2) = CHR ''l''"
    by (simp_all add: zs nth_append)
  have "last (quote_path ''/api/quotes/'' i ''/corridors/bulk'') = CHR ''k''" for i
    by (simp add: quote_path_def)
  with c l show False by (auto simp: commit_request_def)
qed

lemma commit_draft_frame: "only_sends w (snd (commit_draft e pyd c ctx payload w))"
proof (cases "build_quote_payload (float_text e) (flat payload)")
  case (Some body)
  obtain r w1 where post: "post_json e c ''/api/quotes'' (jwt_raw ctx) (Some body) [] w = (r, w1)"
    by fastforce
  have w1: "only_sends w w1" using post_json_only_sends post by (metis snd_conv)
  obtain ids failed w2 where cc: "commit_corridors e c ctx (flat payload) w1 = ((ids, failed), w2)"
    by (metis surj_pair)
  have "only_sends w1 (snd (resolve_corridor_ids e c ctx (flat payload) w1))"
    using get_json_only_sends by (auto simp: resolve_corridor_ids_def split_def split: option.split)
  then have "only_sends w1 w2"
    using cc by (auto simp: commit_corridors_def Let_def split: if_splits prod.splits sum.splits)
  with w1 have w2: "only_sends w w2" by (rule only_sends_trans)
  have w3: "only_sends w w'" if "execute e c ctx bulk_tool args w2 = (r', w')" for args r' w'
    using priceframe_tools.reach [where e = e and c = c and ctx = ctx and t = bulk_tool and a = args and w = w2]
      that w2 by (metis only_sends_trans snd_conv)
  show ?thesis
    using Some post w1 w2 w3 cc
    by (auto simp: commit_draft_def Let_def split: sum.split json.split option.split prod.split)
qed (simp add: commit_draft_def)

text \<open>The request that creates the quote; the conversation endpoints set no default header.\<close>

definition quote_post :: "auth_context \<Rightarrow> dict \<Rightarrow> pf_request" where
  "quote_post ctx body = \<lparr>rq_method = ''POST'', rq_path = ''/api/quotes'',
     rq_headers = [bearer (jwt_raw ctx)], rq_params = [], rq_body = Some body\<rparr>"

lemma post_json_request:
  "post_json e (from_settings e []) ''/api/quotes'' (jwt_raw ctx) (Some body) [] w =
    (case request e (from_settings e []) (quote_post ctx body) w of (r, w') \<Rightarrow> (response_json r, w'))"
  by (simp add: post_json_def send_json_def quote_post_def from_settings_def merge_headers_def bearer_def
      Let_def)

lemma commit_draft_prefix:
  assumes "build_quote_payload (float_text e) (flat payload) = Some body"
  shows "prefix (sent (snd (post_json e c ''/api/quotes'' (jwt_raw ctx) (Some body) [] w)))
    (sent (snd (commit_draft e pyd c ctx payload w)))"
proof -
  obtain r w1 where post: "post_json e c ''/api/quotes'' (jwt_raw ctx) (Some body) [] w = (r, w1)"
    by fastforce
  obtain ids failed w2 where cc: "commit_corridors e c ctx (flat payload) w1 = ((ids, failed), w2)"
    by (metis surj_pair)
  have p2: "prefix (sent w1) (sent w2)"
    using commit_corridors_requests [of w1 e c ctx "flat payload"] cc by (auto simp: only_requests_def)
  have p3: "prefix (sent w1) (sent w')" if "execute e c ctx bulk_tool args w2 = (r', w')" for args r' w'
    using priceframe_tools.reach [where e = e and c = c and ctx = ctx and t = bulk_tool and a = args and w = w2]
      that p2 by (auto simp: only_sends_def)
  show ?thesis
    using assms post p2 p3 cc
    by (auto simp: commit_draft_def Let_def split: sum.split json.split option.split prod.split)
qed

section \<open>Properties\<close>

text \<open>
  Committing a conversation never submits for approval: whatever the answers are and however
  PriceFRAME replies, the only requests are the creation of a quote, the listing of active
  corridors and the bulk addition of corridors, and the agent's own database is not touched.
\<close>

theorem commit_never_submits:
  assumes "commit_draft e pyd c ctx payload w = (r, w')"
  shows "cur w' = cur w \<and> (\<exists>rqs. sent w' = sent w @ rqs \<and>
    list_all (\<lambda>rq. commit_request rq \<and> \<not> suffix ''/approvals'' (rq_path rq)) rqs)"
proof -
  have "only_requests commit_request w w'" using commit_draft_requests assms by (metis snd_conv)
  then obtain rqs where "sent w' = sent w @ rqs" "list_all commit_request rqs"
    by (auto simp: only_requests_def)
  moreover from this(2) have "list_all (\<lambda>rq. commit_request rq \<and> \<not> suffix ''/approvals'' (rq_path rq)) rqs"
    using not_approval by (auto simp: list_all_iff)
  moreover have "cur w' = cur w"
    using commit_draft_frame [of w e pyd c ctx payload] assms by (simp add: only_sends_def)
  ultimately show ?thesis by blast
qed

text \<open>The payload of an empty conversation, and a PriceFRAME that is busy twice.\<close>

definition demo_quote :: dict where
  "demo_quote = the (build_quote_payload (\<lambda>_. ''0.5'') (flat []))"

lemma demo_quote: "build_quote_payload (\<lambda>_. ''0.5'') (flat []) = Some demo_quote"
proof -
  have "\<exists>q. build_quote_payload (\<lambda>_. ''0.5'') (flat []) = Some q"
    by (simp add: build_quote_payload_def flat_def pricing_tool_snapshot_def pnl_snapshot_def conv_member_def
        conv_or_def other_fee_def Let_def)
  then show ?thesis by (auto simp: demo_quote_def)
qed

lemma demo_float_text: "float_text demo_env = (\<lambda>_. ''0.5'')"
  by (simp add: demo_env_def)

lemma demo_post:
  "post_json demo_env (from_settings demo_env []) ''/api/quotes'' (jwt_raw demo_context) (Some demo_quote) []
      (session_on empty_db) =
    (Inr (JObj [(''id'', JInt 7)]), (session_on empty_db)\<lparr>sent := replicate 3 (quote_post demo_context demo_quote)\<rparr>)"
proof -
  have "request demo_env (from_settings demo_env []) (quote_post demo_context demo_quote) (session_on empty_db) =
      (Inr (Some (JObj [(''id'', JInt 7)]), []),
       (session_on empty_db)\<lparr>sent := replicate 3 (quote_post demo_context demo_quote)\<rparr>)"
    by (simp add: request_def from_settings_def demo_env_def wire_def session_on_def
        raise_for_status_def numeral_eq_Suc)
  then show ?thesis by (simp add: post_json_request response_json_def)
qed

lemma demo_commit:
  "commit_draft demo_env demo_pydantic (from_settings demo_env []) demo_context [] (session_on empty_db) =
    (Inr \<lparr>cr_quote_id = JInt 7, cr_applied = [''create_quotation''], cr_failed = []\<rparr>,
     (session_on empty_db)\<lparr>sent := replicate 3 (quote_post demo_context demo_quote)\<rparr>)"
  using demo_quote demo_post
  by (simp add: commit_draft_def demo_float_text Let_def commit_corridors_def flat_def created_quote_id_def
      d_get_def py)

theorem commit_never_submits_witness:
  "cur ((session_on empty_db)\<lparr>sent := replicate 3 (quote_post demo_context demo_quote)\<rparr>) = cur (session_on empty_db) \<and>
    (\<exists>rqs. sent ((session_on empty_db)\<lparr>sent := replicate 3 (quote_post demo_context demo_quote)\<rparr>) =
        sent (session_on empty_db) @ rqs \<and>
      list_all (\<lambda>rq. commit_request rq \<and> \<not> suffix ''/approvals'' (rq_path rq)) rqs)"
  by (rule commit_never_submits [OF demo_commit])



text \<open>
  The commit may create the quote twice: when the first reply to the creation is a 5xx or is
  lost, the same POST is sent again, and neither request carries an idempotency key.
\<close>

theorem commit_repeats_creation:
  assumes "build_quote_payload (float_text e) (flat payload) = Some body" and "0 < pf_max_retries e"
    and "transient (respond e (sent w) (quote_post ctx body))"
  shows "\<exists>rqs. sent (snd (commit_draft e pyd (from_settings e []) ctx payload w)) =
      sent w @ [quote_post ctx body, quote_post ctx body] @ rqs \<and>
    map_of (rq_headers (quote_post ctx body)) ''Idempotency-Key'' = None"
proof -
  let ?q = "quote_post ctx body" and ?c = "from_settings e []"
  obtain r w1 where rq: "request e ?c ?q w = (r, w1)" by fastforce
  have nn: "0 \<le> max_retries ?c" using assms(2) by (simp add: from_settings_def)
  obtain k where k: "sent w1 = sent w @ replicate k ?q" and ok: "attempts_ok e w ?q (nat (max_retries ?c + 1)) k r"
    using request_attempts [OF nn rq] by blast
  have "k \<noteq> 1"
    using ok assms(2,3) by (auto simp: attempts_ok_def from_settings_def)
  then have "2 \<le> k" using ok by (simp add: attempts_ok_def)
  then obtain j where j: "k = Suc (Suc j)" by (metis Suc_le_D numeral_2_eq_2 Suc_le_mono)
  have "snd (post_json e ?c ''/api/quotes'' (jwt_raw ctx) (Some body) [] w) = w1"
    by (simp add: post_json_request rq)
  then have "prefix (sent w @ [?q, ?q] @ replicate j ?q) (sent (snd (commit_draft e pyd ?c ctx payload w)))"
    using commit_draft_prefix [OF assms(1), of ?c ctx w pyd] k j by simp
  then show ?thesis by (auto simp: prefix_def quote_post_def bearer_def)
qed

theorem commit_repeats_creation_witness:
  "\<exists>rqs. sent (snd (commit_draft demo_env demo_pydantic (from_settings demo_env []) demo_context [] (session_on empty_db))) =
      sent (session_on empty_db) @ [quote_post demo_context demo_quote, quote_post demo_context demo_quote] @ rqs \<and>
    map_of (rq_headers (quote_post demo_context demo_quote)) ''Idempotency-Key'' = None"
  by (rule commit_repeats_creation)
    (use demo_quote in \<open>simp_all add: demo_float_text demo_env_def session_on_def\<close>)

text \<open>
  the recap shows every answer once: the collected and the defaulted part are disjoint, together
  they are the answers of the visible sections, and a field is collected exactly when the
  contract asks it.
\<close>

theorem recap_partitions_answers:
  assumes "build_recap contract payload = Some (collected, defaulted)" and "asked_ids contract = Some asked"
  shows "set collected \<union> set defaulted = set (recap_flat payload) \<and>
    length collected + length defaulted = length (recap_flat payload) \<and>
    (\<forall>(k, v) \<in> set collected. py_in (JStr k) asked) \<and> (\<forall>(k, v) \<in> set defaulted. \<not> py_in (JStr k) asked)"
proof -
  have "collected = filter (\<lambda>(k, v). py_in (JStr k) asked) (recap_flat payload)"
    "defaulted = filter (\<lambda>(k, v). \<not> py_in (JStr k) asked) (recap_flat payload)"
    using assms by (auto simp: build_recap_def Let_def)
  moreover have "length (filter (\<lambda>(k, v). P k) xs) + length (filter (\<lambda>(k, v). \<not> P k) xs) = length xs"
    for P and xs :: dict by (induction xs) auto
  ultimately show ?thesis by auto
qed

theorem recap_partitions_answers_witness:
  "set [(''name'', JStr ''n'')] \<union> set [(''x'', JInt 1)] =
      set (recap_flat [(''summary'', JObj [(''name'', JStr ''n''), (''x'', JInt 1), (''_y'', JInt 2)])]) \<and>
    py_in (JStr ''name'') [JStr ''name'', JStr ''region'', JStr ''fee''] \<and>
    \<not> py_in (JStr ''x'') [JStr ''name'', JStr ''region'', JStr ''fee'']"
proof -
  have asked: "asked_ids demo_contract = Some [JStr ''name'', JStr ''region'', JStr ''fee'']" by code_simp
  then have "build_recap demo_contract [(''summary'', JObj [(''name'', JStr ''n''), (''x'', JInt 1), (''_y'', JInt 2)])] =
      Some ([(''name'', JStr ''n'')], [(''x'', JInt 1)])"
    by (simp add: build_recap_def recap_flat_def hidden_def starts_with_def d_update_def d_set_def py_in_def Let_def)
  from recap_partitions_answers [OF this asked] show ?thesis by simp
qed

end
