(* ===== verification/JsonParse.thy ===== *)
theory JsonParse
  imports PyJson
begin

text \<open>
  \<open>json.loads\<close> on text: the decoder the program runs on model output. Recursion is on fuel; two
  units per character are enough, since no two calls in a row leave the text unread. A \<open>\u\<close>
  escape above U+00FF has no character here and reads as a question mark.
\<close>

definition js_ws :: "char \<Rightarrow> bool" where
  "js_ws c \<longleftrightarrow> code c \<in> {32, 9, 10, 13}"

definition skip_ws :: "string \<Rightarrow> string" where "skip_ws s = dropWhile js_ws s"

section \<open>Strings\<close>

definition hex_digit :: "char \<Rightarrow> nat option" where
  "hex_digit c =
     (if is_digit c then Some (code c - 48)
      else if 97 \<le> code c \<and> code c \<le> 102 then Some (code c - 87)
      else if 65 \<le> code c \<and> code c \<le> 70 then Some (code c - 55)
      else None)"

fun hex4 :: "string \<Rightarrow> (nat \<times> string) option" where
  "hex4 (a # b # c # d # s) = do {
     a \<leftarrow> hex_digit a; b \<leftarrow> hex_digit b; c \<leftarrow> hex_digit c; d \<leftarrow> hex_digit d;
     Some (((a * 16 + b) * 16 + c) * 16 + d, s)
   }"
| "hex4 _ = None"

definition escape_char :: "char \<Rightarrow> char option" where
  "escape_char c =
     (if c \<in> {CHR 0x22, CHR 0x5C, CHR ''/''} then Some c
      else if c = CHR ''b'' then Some (char_of (8::nat))
      else if c = CHR ''f'' then Some (char_of (12::nat))
      else if c = CHR ''n'' then Some (char_of (10::nat))
      else if c = CHR ''r'' then Some (char_of (13::nat))
      else if c = CHR ''t'' then Some (char_of (9::nat)) else None)"

lemma hex4_shorter: "hex4 s = Some (v, t) \<Longrightarrow> length t < length s"
  by (cases s rule: hex4.cases) (auto split: Option.bind_splits)

text \<open>The characters of a string after its opening quote.\<close>

function (sequential) string_body :: "string \<Rightarrow> (string \<times> string) option" where
  "string_body [] = None"
| "string_body (c # s) =
     (if c = CHR 0x22 then Some ([], s)
      else if c = CHR 0x5C then
        (case s of
           [] \<Rightarrow> None
         | k # t \<Rightarrow>
             if k = CHR ''u'' then
               (case hex4 t of
                  None \<Rightarrow> None
                | Some (v, t') \<Rightarrow>
                    map_option (apfst ((#) (if v < 256 then char_of v else CHR ''?''))) (string_body t'))
             else (case escape_char k of
                None \<Rightarrow> None | Some k' \<Rightarrow> map_option (apfst ((#) k')) (string_body t)))
      else if code c < 32 then None
      else map_option (apfst ((#) c)) (string_body s))"
  by pat_completeness auto
termination
  by (relation "measure length") (auto dest: hex4_shorter)

section \<open>Numbers\<close>

text \<open>The longest literal of the number grammar at the front: integer part, fraction, exponent.\<close>

definition digits :: "string \<Rightarrow> string \<times> string" where
  "digits s = (takeWhile is_digit s, dropWhile is_digit s)"

definition int_part :: "string \<Rightarrow> (string \<times> string) option" where
  "int_part s = (case s of
      c # t \<Rightarrow> if c = CHR ''0'' then Some (''0'', t)
              else if is_digit c then Some (digits s) else None
    | [] \<Rightarrow> None)"

definition frac_part :: "string \<Rightarrow> string \<times> string" where
  "frac_part s = (case s of
      c # t \<Rightarrow> if c = CHR ''.'' \<and> fst (digits t) \<noteq> [] then apfst ((#) c) (digits t) else ([], s)
    | [] \<Rightarrow> ([], s))"

definition exp_part :: "string \<Rightarrow> string \<times> string" where
  "exp_part s = (case s of
      c # t \<Rightarrow>
        if lower_char c = CHR ''e'' then
          (let (sg, u) = (case t of
                 x # u \<Rightarrow> if x = CHR ''+'' \<or> x = CHR ''-'' then ([x], u) else ([], t) | [] \<Rightarrow> ([], t))
           in if fst (digits u) \<noteq> [] then apfst (\<lambda>ds. c # sg @ ds) (digits u) else ([], s))
        else ([], s)
    | [] \<Rightarrow> ([], s))"

definition parse_number :: "string \<Rightarrow> (json \<times> string) option" where
  "parse_number s =
     (let (neg, t) = (case s of c # t \<Rightarrow> if c = CHR ''-'' then (True, t) else (False, s) | [] \<Rightarrow> (False, s))
      in case int_part t of
           None \<Rightarrow> None
         | Some (ip, u) \<Rightarrow>
             let (fp, v) = frac_part u; (ep, rest) = exp_part v
             in if fp = [] \<and> ep = []
                then Some (JInt (if neg then - int (dec_value ip) else int (dec_value ip)), rest)
                else map_option (\<lambda>q. (JFlt (if neg then fneg (mk_float q) else mk_float q), rest))
                       (parse_unsigned (ip @ fp @ ep)))"

section \<open>Values\<close>

definition strip_prefix :: "string \<Rightarrow> string \<Rightarrow> string option" where
  "strip_prefix p s = (if prefix p s then Some (drop (length p) s) else None)"

definition constants :: "(string \<times> json) list" where
  "constants = [(''null'', JNull), (''true'', JBool True), (''false'', JBool False),
     (''NaN'', JFlt NaN), (''Infinity'', JFlt PInf), (''-Infinity'', JFlt NInf)]"

definition parse_constant :: "string \<Rightarrow> (json \<times> string) option" where
  "parse_constant s =
     (case List.map_filter (\<lambda>(p, j). map_option (Pair j) (strip_prefix p s)) constants of
        [] \<Rightarrow> None | r # _ \<Rightarrow> Some r)"

text \<open>
  \<open>parse_value\<close> at the first character of a value; \<open>parse_items\<close> and \<open>parse_members\<close> after the
  opening bracket or a comma, with what has been read so far.
\<close>

fun parse_value :: "nat \<Rightarrow> string \<Rightarrow> (json \<times> string) option"
  and parse_items :: "nat \<Rightarrow> json list \<Rightarrow> string \<Rightarrow> (json \<times> string) option"
  and parse_members :: "nat \<Rightarrow> dict \<Rightarrow> string \<Rightarrow> (json \<times> string) option" where
  "parse_value 0 s = None"
| "parse_value (Suc n) s =
     (case s of
        [] \<Rightarrow> None
      | c # t \<Rightarrow>
          if c = CHR 0x22 then map_option (apfst JStr) (string_body t)
          else if c = CHR ''['' then
            (case skip_ws t of
               x # u \<Rightarrow> if x = CHR '']'' then Some (JArr [], u) else parse_items n [] (x # u)
             | [] \<Rightarrow> None)
          else if c = CHR ''{'' then
            (case skip_ws t of
               x # u \<Rightarrow> if x = CHR ''}'' then Some (JObj [], u) else parse_members n [] (x # u)
             | [] \<Rightarrow> None)
          else (case parse_constant s of Some r \<Rightarrow> Some r | None \<Rightarrow> parse_number s))"
| "parse_items 0 acc s = None"
| "parse_items (Suc n) acc s =
     (case parse_value n s of
        None \<Rightarrow> None
      | Some (v, t) \<Rightarrow>
          (case skip_ws t of
             x # u \<Rightarrow>
               if x = CHR '','' then parse_items n (acc @ [v]) (skip_ws u)
               else if x = CHR '']'' then Some (JArr (acc @ [v]), u) else None
           | [] \<Rightarrow> None))"
| "parse_members 0 acc s = None"
| "parse_members (Suc n) acc s =
     (case s of
        [] \<Rightarrow> None
      | q # t \<Rightarrow>
          if q \<noteq> CHR 0x22 then None
          else (case string_body t of
             None \<Rightarrow> None
           | Some (k, u) \<Rightarrow>
               (case skip_ws u of
                  [] \<Rightarrow> None
                | x # u' \<Rightarrow>
                    if x \<noteq> CHR '':'' then None
                    else (case parse_value n (skip_ws u') of
                       None \<Rightarrow> None
                     | Some (v, w) \<Rightarrow>
                         (case skip_ws w of
                            y # w' \<Rightarrow>
                              if y = CHR '','' then parse_members n (d_set acc k v) (skip_ws w')
                              else if y = CHR ''}'' then Some (JObj (d_set acc k v), w') else None
                          | [] \<Rightarrow> None)))))"

definition json_loads :: "string \<Rightarrow> json option" where
  "json_loads s =
     (case parse_value (2 * length s + 2) (skip_ws s) of
        Some (j, rest) \<Rightarrow> if skip_ws rest = [] then Some j else None
      | None \<Rightarrow> None)"

text \<open>The matches of \<open>\{[^{}]*\}\<close>, left to right: the innermost brace groups.\<close>

function brace_groups :: "string \<Rightarrow> string list" where
  "brace_groups s =
     (case s of
        [] \<Rightarrow> []
      | c # t \<Rightarrow>
          if c = CHR ''{'' then
            (let body = takeWhile (\<lambda>x. x \<noteq> CHR ''{'' \<and> x \<noteq> CHR ''}'') t;
                 rest = dropWhile (\<lambda>x. x \<noteq> CHR ''{'' \<and> x \<noteq> CHR ''}'') t
             in case rest of
                  [] \<Rightarrow> []
                | x # u \<Rightarrow> if x = CHR ''}'' then (c # body @ [x]) # brace_groups u else brace_groups rest)
          else brace_groups t)"
  by pat_completeness auto
termination
proof (relation "measure length", goal_cases)
  case (2 s c t body rest x u)
  then have "Suc (length u) = length (dropWhile (\<lambda>x. x \<noteq> CHR ''{'' \<and> x \<noteq> CHR ''}'') t)"
    by (metis length_Cons)
  also have "\<dots> \<le> length t" by (rule length_dropWhile_le)
  finally show ?case using 2 by simp
next
  case (3 s c t body rest x u)
  then show ?case using length_dropWhile_le [of "\<lambda>x. x \<noteq> CHR ''{'' \<and> x \<noteq> CHR ''}''" t] by simp
qed auto

declare brace_groups.simps [simp del]

text \<open>The last group that decodes to an object with the wanted shape.\<close>

definition last_object :: "(dict \<Rightarrow> bool) \<Rightarrow> string \<Rightarrow> dict option" where
  "last_object ok s =
     (case filter (\<lambda>g. case json_loads g of Some (JObj d) \<Rightarrow> ok d | _ \<Rightarrow> False) (rev (brace_groups s)) of
        [] \<Rightarrow> None
      | g # _ \<Rightarrow> (case json_loads g of Some (JObj d) \<Rightarrow> Some d | _ \<Rightarrow> None))"

lemma last_object_ok: "last_object ok s = Some d \<Longrightarrow> ok d"
  by (auto simp: last_object_def filter_eq_Cons_iff split: list.splits option.splits json.splits)


end
