(* ===== verification/Blend.thy ===== *)
theory Blend
  imports JsonParse
begin

text \<open>
  Suggested values: the per-run budget for paid research (\<open>agent/suggestions_budget.py\<close>) and the
  blending of a historical band with a market band (\<open>agent/suggestions_blend.py\<close>). Floats are
  the rounded doubles of \<open>PyFloat\<close>; an outer \<open>None\<close> is an exception that escapes. The em dash
  in the rationale texts is written as a hyphen.
\<close>

section \<open>Budget\<close>

record run_budget =
  max_calls :: int
  max_cost_usd :: pyfloat
  calls :: int
  cost_usd :: pyfloat

definition new_budget :: "int \<Rightarrow> pyfloat \<Rightarrow> run_budget" where
  "new_budget mc mu = \<lparr>max_calls = mc, max_cost_usd = mu, calls = 0, cost_usd = Fin 0\<rparr>"

definition default_budget :: run_budget where
  "default_budget = new_budget 5 (mk_float (5 / 100))"

text \<open>\<open>None\<close> is the \<open>ValueError\<close> for a negative cost.\<close>

definition can_spend :: "run_budget \<Rightarrow> pyfloat \<Rightarrow> bool option" where
  "can_spend b c =
     (if flt c (Fin 0) then None
      else Some (if calls b \<ge> max_calls b then False else fle (fadd (cost_usd b) c) (max_cost_usd b)))"

definition record_spend :: "run_budget \<Rightarrow> pyfloat \<Rightarrow> run_budget option" where
  "record_spend b c =
     (if flt c (Fin 0) then None else Some (b\<lparr>calls := calls b + 1, cost_usd := fadd (cost_usd b) c\<rparr>))"

definition exhausted :: "run_budget \<Rightarrow> bool" where
  "exhausted b \<longleftrightarrow> calls b \<ge> max_calls b \<or> fle (max_cost_usd b) (cost_usd b)"

definition within_caps :: "run_budget \<Rightarrow> bool" where
  "within_caps b \<longleftrightarrow> calls b \<le> max_calls b \<and> fle (cost_usd b) (max_cost_usd b)"

section \<open>Bands\<close>

definition historical_high_sample :: int where "historical_high_sample = 10"
definition historical_low_sample :: int where "historical_low_sample = 3"
definition market_strong_confidence :: pyfloat where "market_strong_confidence = mk_float (7 / 10)"
definition market_moderate_confidence :: pyfloat where "market_moderate_confidence = mk_float (1 / 2)"

record blend_result =
  br_no_signal :: bool
  br_value :: "pyfloat option"
  br_rationale :: string
  br_sources_used :: "string list"
  br_reason :: "string option"

text \<open>\<open>float(value)\<close> of a number, when there is one; an int out of range raises.\<close>

definition num_float :: "json \<Rightarrow> pyfloat option option" where
  "num_float v = (case v of
      JInt i \<Rightarrow> map_option Some (float_of_int i)
    | JBool b \<Rightarrow> Some (Some (Fin (if b then 1 else 0)))
    | JFlt f \<Rightarrow> Some (Some f)
    | _ \<Rightarrow> Some None)"

definition band_field :: "dict option \<Rightarrow> string \<Rightarrow> json" where
  "band_field band k = (case band of None \<Rightarrow> JNull | Some d \<Rightarrow> d_get d k)"

definition historical_value :: "dict option \<Rightarrow> pyfloat option option" where
  "historical_value h = num_float (band_field h ''value'')"

definition historical_sample_size :: "dict option \<Rightarrow> int" where
  "historical_sample_size h = (case band_field h ''sample_size'' of JInt i \<Rightarrow> i | _ \<Rightarrow> 0)"

definition market_value :: "dict option \<Rightarrow> pyfloat option option" where
  "market_value m = num_float (band_field m ''value'')"

definition market_confidence :: "dict option \<Rightarrow> pyfloat option" where
  "market_confidence m = map_option (\<lambda>c. case c of None \<Rightarrow> Fin 0 | Some x \<Rightarrow> x)
     (num_float (band_field m ''confidence''))"

definition disagreement :: "pyfloat option \<Rightarrow> pyfloat option \<Rightarrow> pyfloat" where
  "disagreement h m = (case (h, m) of
      (Some h, Some m) \<Rightarrow>
        if feq h (Fin 0) then (if feq m (Fin 0) then Fin 0 else PInf)
        else (case fdiv (fabs (fsub h m)) (fabs h) of Some x \<Rightarrow> x | None \<Rightarrow> NaN)
    | _ \<Rightarrow> Fin 0)"

definition weighted :: "pyfloat option \<Rightarrow> pyfloat option \<Rightarrow> pyfloat \<Rightarrow> pyfloat \<Rightarrow> pyfloat option" where
  "weighted a b wa wb = (case (a, b) of
      (Some a, Some b) \<Rightarrow>
        let total = fadd wa wb
        in if feq total (Fin 0) then None
           else fdiv (fadd (fmul a wa) (fmul b wb)) total
    | (Some a, None) \<Rightarrow> Some a
    | (None, b) \<Rightarrow> b)"

section \<open>Blending\<close>

record blend_params =
  min_sample_size :: int
  confidence_threshold :: pyfloat
  disagreement_threshold :: pyfloat

definition default_params :: blend_params where
  "default_params = \<lparr>min_sample_size = 3, confidence_threshold = mk_float (1 / 2),
     disagreement_threshold = mk_float (1 / 4)\<rparr>"

definition no_signal :: blend_result where
  "no_signal = \<lparr>br_no_signal = True, br_value = None, br_rationale = [], br_sources_used = [],
     br_reason = Some ''confidence_below_threshold''\<rparr>"

definition signal :: "pyfloat option \<Rightarrow> string \<Rightarrow> string list \<Rightarrow> blend_result" where
  "signal v why srcs = \<lparr>br_no_signal = False, br_value = v, br_rationale = why,
     br_sources_used = srcs, br_reason = None\<rparr>"

definition flash_default :: string where
  "flash_default = ''disagreement >25% - reconciled by Gemini Flash''"

text \<open>
  The result built from a reconciler's answer: \<open>None\<close> when it recommends nothing, an escaping
  exception when the recommendation is not a number.
\<close>

definition flash_result :: "(rat \<Rightarrow> string) \<Rightarrow> dict option \<Rightarrow> string list \<Rightarrow> blend_result option option" where
  "flash_result repr reconciled srcs = (case reconciled of
      None \<Rightarrow> Some None
    | Some d \<Rightarrow>
        if d_get d ''recommended'' = JNull then Some None
        else map_option (\<lambda>x. Some (signal (Some x)
               (py_str repr (py_or (d_get d ''rationale'') (JStr flash_default))) (srcs @ [''flash''])))
             (py_float (d_get d ''recommended'')))"

definition maybe_reconcile ::
    "(rat \<Rightarrow> string) \<Rightarrow> pyfloat option \<Rightarrow> pyfloat option \<Rightarrow> pyfloat option \<Rightarrow> string \<Rightarrow> pyfloat \<Rightarrow>
     dict option \<Rightarrow> blend_result option" where
  "maybe_reconcile repr h m dflt why threshold reconciled =
     (if h \<noteq> None \<and> m \<noteq> None \<and> flt threshold (disagreement h m)
      then map_option (\<lambda>r. case r of Some res \<Rightarrow> res
             | None \<Rightarrow> signal dflt
                 (why @ '' (disagreement >25% - Flash fallback unavailable)'') [''historical'', ''market''])
           (flash_result repr reconciled [''historical'', ''market''])
      else Some (signal dflt why [''historical'', ''market'']))"

text \<open>
  \<open>blend\<close>; \<open>reconciled\<close> is what the reconciler answered, \<open>None\<close> also when there is none or it
  failed.
\<close>

definition blend ::
    "(rat \<Rightarrow> string) \<Rightarrow> blend_params \<Rightarrow> dict option \<Rightarrow> dict option \<Rightarrow> dict option \<Rightarrow> blend_result option" where
  "blend repr p historical market reconciled = do {
     let size = historical_sample_size historical;
     hv \<leftarrow> historical_value historical;
     mv \<leftarrow> market_value market;
     conf \<leftarrow> market_confidence market;
     let historical_strong = size \<ge> historical_high_sample \<and> hv \<noteq> None;
     let historical_moderate = historical_low_sample \<le> size \<and> size < historical_high_sample \<and> hv \<noteq> None;
     let historical_weak = size < min_sample_size p \<or> hv = None;
     let market_strong = mv \<noteq> None \<and> fle market_strong_confidence conf;
     let market_present = mv \<noteq> None \<and> flt (Fin 0) conf;
     if historical_weak \<and> flt conf (confidence_threshold p) then Some no_signal
     else if historical_strong \<and> market_strong then
       maybe_reconcile repr hv mv (weighted hv mv (mk_float (7 / 10)) (mk_float (3 / 10)))
         ''strong historical + strong market signal (70/30)'' (disagreement_threshold p) reconciled
     else if historical_moderate \<and> market_present then
       maybe_reconcile repr hv mv (weighted hv mv (mk_float (1 / 2)) (mk_float (1 / 2)))
         ''moderate historical + market (50/50)'' (disagreement_threshold p) reconciled
     else if size < historical_low_sample \<and> mv \<noteq> None \<and> fle market_moderate_confidence conf then
       Some (signal mv ''low-data corridor - market only'' [''market''])
     else if hv \<noteq> None \<and> size \<ge> min_sample_size p then
       Some (signal hv ''historical only'' [''historical''])
     else if mv \<noteq> None \<and> fle (confidence_threshold p) conf then
       Some (signal mv ''market only'' [''market''])
     else Some no_signal
   }"

section \<open>Reconciliation by Gemini Flash\<close>

text \<open>One call to Gemini: it failed or timed out, or answered with a body that may not be JSON.\<close>

datatype gemini_reply = GeminiFailed | GeminiBody "json option"

record flash_cfg =
  fc_configured :: bool
  fc_estimated_cost :: pyfloat
  fc_reply :: "pyfloat \<Rightarrow> pyfloat \<Rightarrow> gemini_reply"

definition part_text :: "json \<Rightarrow> string option option" where
  "part_text part = (case part of
      JObj d \<Rightarrow> (case d_get d ''text'' of
          JStr s \<Rightarrow> Some (Some s)
        | JNull \<Rightarrow> if d_has d ''text'' then None else Some (Some [])
        | _ \<Rightarrow> None)
    | _ \<Rightarrow> Some None)"

text \<open>The reply text that holds the recommendation, and the object read from it.\<close>

definition decode_flash :: "string \<Rightarrow> dict option" where
  "decode_flash raw =
     (if raw = [] then None
      else (case json_loads raw of
          Some (JObj d) \<Rightarrow>
            if d_has d ''recommended'' then Some d else last_object (\<lambda>d. d_has d ''recommended'') raw
        | _ \<Rightarrow> last_object (\<lambda>d. d_has d ''recommended'') raw))"

definition parse_flash_response :: "json \<Rightarrow> dict option option" where
  "parse_flash_response data = (case data of
      JObj d \<Rightarrow>
        (case py_or (d_get d ''candidates'') (JArr []) of
           JArr (c # _) \<Rightarrow>
             (case (case c of JObj cd \<Rightarrow> (case d_get cd ''content'' of
                        JObj content \<Rightarrow> d_get content ''parts'' | _ \<Rightarrow> JNull) | _ \<Rightarrow> JNull) of
                JArr parts \<Rightarrow> map_option (\<lambda>ts. decode_flash
                    (str_strip (str_join [CHR 0x0A] (List.map_filter id ts)))) (omap part_text parts)
              | _ \<Rightarrow> Some None)
         | _ \<Rightarrow> Some None)
    | _ \<Rightarrow> Some None)"

definition reconcile ::
    "flash_cfg \<Rightarrow> pyfloat \<Rightarrow> pyfloat \<Rightarrow> run_budget \<Rightarrow> dict option option \<times> run_budget" where
  "reconcile cfg h m b =
     (if \<not> fc_configured cfg then (Some None, b)
      else (case can_spend b (fc_estimated_cost cfg) of
          None \<Rightarrow> (None, b)
        | Some ok \<Rightarrow>
            if \<not> ok then (Some None, b)
            else (case fc_reply cfg h m of
                GeminiFailed \<Rightarrow> (Some None, b)
              | GeminiBody body \<Rightarrow>
                  (case record_spend b (fc_estimated_cost cfg) of
                     None \<Rightarrow> (None, b)
                   | Some b' \<Rightarrow> (Option.bind body parse_flash_response, b')))))"

definition needs_reconcile :: "blend_params \<Rightarrow> int \<Rightarrow> pyfloat option \<Rightarrow> pyfloat option \<Rightarrow> pyfloat \<Rightarrow> bool" where
  "needs_reconcile p n hv mv conf \<longleftrightarrow>
     hv \<noteq> None \<and> mv \<noteq> None \<and> flt (disagreement_threshold p) (disagreement hv mv) \<and>
     (n \<ge> historical_high_sample \<and> fle market_strong_confidence conf \<or>
      historical_low_sample \<le> n \<and> n < historical_high_sample \<and> flt (Fin 0) conf)"

definition blend_async ::
    "(rat \<Rightarrow> string) \<Rightarrow> blend_params \<Rightarrow> flash_cfg option \<Rightarrow> dict option \<Rightarrow> dict option \<Rightarrow> run_budget \<Rightarrow>
     blend_result option \<times> run_budget" where
  "blend_async repr p reconciler historical market b =
     (case (historical_value historical, market_value market, market_confidence market) of
        (Some hv, Some mv, Some conf) \<Rightarrow>
          (case (if needs_reconcile p (historical_sample_size historical) hv mv conf
                 then reconciler else None) of
             None \<Rightarrow> (blend repr p historical market None, b)
           | Some cfg \<Rightarrow>
               (case reconcile cfg (the hv) (the mv) b of
                  (answer, b') \<Rightarrow>
                    (case flash_result repr (case answer of None \<Rightarrow> None | Some d \<Rightarrow> d)
                            [''historical'', ''market''] of
                       None \<Rightarrow> (None, b')
                     | Some (Some res) \<Rightarrow> (Some res, b')
                     | Some None \<Rightarrow> (blend repr p historical market None, b'))))
      | _ \<Rightarrow> (None, b))"

section \<open>The budget as a gate\<close>

text \<open>A guard asked before every purchase: what it lets through keeps the account in order.\<close>

locale spend_gate =
  fixes can :: "'s \<Rightarrow> 'c \<Rightarrow> bool option"
    and spend :: "'s \<Rightarrow> 'c \<Rightarrow> 's option"
    and ok :: "'s \<Rightarrow> bool"
    and count :: "'s \<Rightarrow> int"
  assumes spend_ok: "can s c = Some True \<Longrightarrow> \<exists>s'. spend s c = Some s' \<and> ok s'"
    and spend_count: "spend s c = Some s' \<Longrightarrow> count s' = count s + 1"
begin

text \<open>Purchases one after the other; a refused or invalid one is skipped.\<close>

primrec shop :: "'s \<Rightarrow> 'c list \<Rightarrow> 's" where
  "shop s [] = s"
| "shop s (c # cs) =
     shop (if can s c = Some True then (case spend s c of Some s' \<Rightarrow> s' | None \<Rightarrow> s) else s) cs"

lemma shop_ok: "ok s \<Longrightarrow> ok (shop s cs)"
proof (induction cs arbitrary: s)
  case (Cons c cs)
  show ?case
  proof (cases "can s c = Some True")
    case True
    then obtain s' where "spend s c = Some s'" "ok s'" using spend_ok by blast
    with True Cons.IH show ?thesis by simp
  qed (use Cons in simp)
qed simp

lemma shop_count: "count s \<le> count (shop s cs) \<and> count (shop s cs) \<le> count s + int (length cs)"
proof (induction cs arbitrary: s)
  case (Cons c cs)
  let ?s' = "if can s c = Some True then (case spend s c of Some s' \<Rightarrow> s' | None \<Rightarrow> s) else s"
  have "count s \<le> count ?s' \<and> count ?s' \<le> count s + 1"
    by (auto split: option.split dest: spend_count)
  with Cons.IH [of ?s'] show ?case by simp
qed simp

end

lemma can_spend_record:
  "can_spend b c = Some True \<Longrightarrow> \<exists>b'. record_spend b c = Some b' \<and> within_caps b'"
  by (auto simp: can_spend_def record_spend_def within_caps_def split: if_splits)

lemma record_calls: "record_spend b c = Some b' \<Longrightarrow> calls b' = calls b + 1"
  by (auto simp: record_spend_def split: if_splits)

interpretation research_gate: spend_gate can_spend record_spend within_caps calls
  by unfold_locales (rule can_spend_record record_calls; assumption)+

section \<open>Laws of the blend\<close>

lemma representable_frac: "\<bar>m\<bar> \<le> 2 ^ 53 \<Longrightarrow> k \<le> 1074 \<Longrightarrow> representable (of_int m / 2 ^ k)"
  unfolding representable_def
  by (intro exI [of _ m] exI [of _ "- int k"]) (auto simp: pow2_def)

lemma mk_float_half [simp]: "mk_float (1 / 2) = Fin (1 / 2)"
  using fl_exact [OF representable_frac [of 1 1]] mk_float_bounded [of "1 / 2"] by simp

lemma mk_float_quarter [simp]: "mk_float (1 / 4) = Fin (1 / 4)"
  using fl_exact [OF representable_frac [of 1 2]] mk_float_bounded [of "1 / 4"] by simp

lemma mk_float_between:
  assumes "representable a" and "representable b" and "a \<le> x" and "x \<le> b"
    and "\<bar>a\<bar> < pow2 1024" and "\<bar>b\<bar> < pow2 1024"
  shows "\<exists>y. mk_float x = Fin y \<and> a \<le> y \<and> y \<le> b"
proof -
  have l: "a \<le> fl x" using fl_mono [OF assms(3)] fl_exact [OF assms(1)] by simp
  have u: "fl x \<le> b" using fl_mono [OF assms(4)] fl_exact [OF assms(2)] by simp
  have "\<bar>fl x\<bar> < pow2 1024" using l u assms(5,6) by linarith
  with l u show ?thesis by (simp add: mk_float_small)
qed

lemma seventy_thirty: "\<exists>t. fadd (mk_float (7 / 10)) (mk_float (3 / 10)) = Fin t \<and> 3 / 4 \<le> t"
proof -
  have r: "representable (1 / 2)" "representable (1 / 4)" "representable (3 / 4)" "representable 1"
      "representable 2"
    using representable_frac [of 1 1] representable_frac [of 1 2] representable_frac [of 3 2]
      representable_int [of 1] representable_int [of 2] by simp_all
  have big: "(2::rat) < pow2 1024" by (simp add: pow2_def)
  obtain a where a: "mk_float (7 / 10) = Fin a" "1 / 2 \<le> a" "a \<le> 1"
    using mk_float_between [OF r(1) r(4), of "7 / 10"] big by auto
  obtain b where b: "mk_float (3 / 10) = Fin b" "1 / 4 \<le> b" "b \<le> 1"
    using mk_float_between [OF r(2) r(4), of "3 / 10"] big by auto
  obtain t where "mk_float (a + b) = Fin t" "3 / 4 \<le> t"
    using mk_float_between [OF r(3) r(5), of "a + b"] a b big by auto
  with a b show ?thesis by simp
qed

lemma weighted_Some:
  "fadd wa wb = Fin t \<Longrightarrow> t \<noteq> 0 \<Longrightarrow> \<exists>x. weighted (Some a) (Some b) wa wb = Some x"
  by (simp add: weighted_def Let_def split: pyfloat.split)

text \<open>What a result may look like.\<close>

definition blend_ok :: "blend_result \<Rightarrow> bool" where
  "blend_ok res \<longleftrightarrow> (br_no_signal res \<longleftrightarrow> br_value res = None) \<and>
     set (br_sources_used res) \<subseteq> {''historical'', ''market'', ''flash''} \<and>
     (br_sources_used res = [] \<longleftrightarrow> br_no_signal res)"

lemma blend_ok_simps [simp]:
  "blend_ok no_signal"
  "blend_ok (signal (Some v) why srcs) \<longleftrightarrow>
     srcs \<noteq> [] \<and> set srcs \<subseteq> {''historical'', ''market'', ''flash''}"
  by (auto simp: blend_ok_def no_signal_def signal_def)

lemma maybe_reconcile_ok:
  assumes "maybe_reconcile repr h m (Some d) why thr reconciled = Some res" shows "blend_ok res"
  using assms by (auto simp: maybe_reconcile_def flash_result_def split: if_splits option.splits)

lemma blend_result_ok:
  assumes "blend repr p historical market reconciled = Some res" shows "blend_ok res"
proof -
  obtain hv mv conf where v: "historical_value historical = Some hv" "market_value market = Some mv"
    "market_confidence market = Some conf"
    using assms by (auto simp: blend_def Let_def split: Option.bind_splits)
  obtain t where t: "fadd (mk_float (7 / 10)) (mk_float (3 / 10)) = Fin t" "t \<noteq> 0"
    using seventy_thirty by force
  have h: "fadd (mk_float (1 / 2)) (mk_float (1 / 2)) = Fin 1" by simp
  show ?thesis
  proof (cases "hv = None \<or> mv = None")
    case True
    with assms v show ?thesis by (cases hv; cases mv) (auto simp: blend_def Let_def split: if_splits)
  next
    case False
    then obtain a b where ab: "hv = Some a" "mv = Some b" by auto
    obtain x y where w: "weighted (Some a) (Some b) (mk_float (7 / 10)) (mk_float (3 / 10)) = Some x"
      "weighted (Some a) (Some b) (Fin (1 / 2)) (Fin (1 / 2)) = Some y"
      using weighted_Some [OF t, of a b] weighted_Some [OF h, of a b] by auto
    show ?thesis
      using assms by (auto simp: blend_def Let_def v ab w split: if_splits dest: maybe_reconcile_ok)
  qed
qed

text \<open>The rungs of the ladder, as the specification words them.\<close>

datatype rung = Strong | Moderate | MarketOnly | HistoricalOnly | MarketFallback | Nothing

definition rung_of :: "int \<Rightarrow> pyfloat option \<Rightarrow> pyfloat option \<Rightarrow> pyfloat \<Rightarrow> rung" where
  "rung_of n hv mv conf =
     (if 10 \<le> n \<and> hv \<noteq> None \<and> mv \<noteq> None \<and> fle (mk_float (7 / 10)) conf then Strong
      else if 3 \<le> n \<and> n < 10 \<and> hv \<noteq> None \<and> mv \<noteq> None \<and> flt (Fin 0) conf then Moderate
      else if n < 3 \<and> mv \<noteq> None \<and> fle (Fin (1 / 2)) conf then MarketOnly
      else if 3 \<le> n \<and> hv \<noteq> None then HistoricalOnly
      else if mv \<noteq> None \<and> fle (Fin (1 / 2)) conf then MarketFallback
      else Nothing)"

definition rung_result ::
    "(rat \<Rightarrow> string) \<Rightarrow> pyfloat \<Rightarrow> dict option \<Rightarrow> rung \<Rightarrow> pyfloat option \<Rightarrow> pyfloat option \<Rightarrow> blend_result option" where
  "rung_result repr thr reconciled g hv mv = (case g of
      Strong \<Rightarrow> maybe_reconcile repr hv mv (weighted hv mv (mk_float (7 / 10)) (mk_float (3 / 10)))
        ''strong historical + strong market signal (70/30)'' thr reconciled
    | Moderate \<Rightarrow> maybe_reconcile repr hv mv (weighted hv mv (Fin (1 / 2)) (Fin (1 / 2)))
        ''moderate historical + market (50/50)'' thr reconciled
    | MarketOnly \<Rightarrow> Some (signal mv ''low-data corridor - market only'' [''market''])
    | HistoricalOnly \<Rightarrow> Some (signal hv ''historical only'' [''historical''])
    | MarketFallback \<Rightarrow> Some (signal mv ''market only'' [''market''])
    | Nothing \<Rightarrow> Some no_signal)"

lemma flt_fle_contra: "flt x y \<Longrightarrow> fle y x \<Longrightarrow> False"
  by (cases x; cases y) (auto simp: fle_def)

section \<open>Properties\<close>



text \<open>
  A blend that signals has a value and names its sources, and one that does not has neither,
  whatever the thresholds of the field and whatever the reconciler answers.
\<close>

theorem blend_signal_has_value:
  assumes "blend repr p historical market reconciled = Some res"
  shows "(br_no_signal res \<longleftrightarrow> br_value res = None) \<and>
    set (br_sources_used res) \<subseteq> {''historical'', ''market'', ''flash''} \<and>
    (br_sources_used res = [] \<longleftrightarrow> br_no_signal res)"
  using blend_result_ok [OF assms] by (simp add: blend_ok_def)

theorem blend_signal_has_value_witness:
  "(br_no_signal (signal (Some (Fin 4)) ''low-data corridor - market only'' [''market'']) \<longleftrightarrow>
      br_value (signal (Some (Fin 4)) ''low-data corridor - market only'' [''market'']) = None) \<and>
    set (br_sources_used (signal (Some (Fin 4)) ''low-data corridor - market only'' [''market'']))
      \<subseteq> {''historical'', ''market'', ''flash''} \<and>
    (br_sources_used (signal (Some (Fin 4)) ''low-data corridor - market only'' [''market'']) = [] \<longleftrightarrow>
      br_no_signal (signal (Some (Fin 4)) ''low-data corridor - market only'' [''market'']))"
proof (rule blend_signal_has_value)
  show "blend (\<lambda>_. []) default_params None
      (Some [(''value'', JInt 4), (''confidence'', JInt 1)]) None =
    Some (signal (Some (Fin 4)) ''low-data corridor - market only'' [''market''])"
    by (simp add: blend_def Let_def historical_value_def historical_sample_size_def market_value_def
        market_confidence_def num_float_def band_field_def d_get_def float_of_int_small
        default_params_def historical_high_sample_def historical_low_sample_def
        market_moderate_confidence_def)
qed

text \<open>
  The 50/50 blend of two finite values lies between them, rounding included, as long as
  halving them is exact.
\<close>

theorem moderate_blend_between:
  assumes "representable a" and "representable b" and "representable (a / 2)" and "representable (b / 2)"
    and "\<bar>a\<bar> < pow2 1024" and "\<bar>b\<bar> < pow2 1024"
  shows "\<exists>x. weighted (Some (Fin a)) (Some (Fin b)) (mk_float (1 / 2)) (mk_float (1 / 2)) = Some (Fin x) \<and>
    min a b \<le> x \<and> x \<le> max a b"
proof -
  have half: "mk_float (c / 2) = Fin (c / 2)" if "representable (c / 2)" "\<bar>c\<bar> < pow2 1024" for c
  proof -
    have "\<bar>c / 2\<bar> < pow2 1024" using that(2) by (simp add: abs_divide)
    then show ?thesis using that(1) by (simp add: mk_float_small fl_exact)
  qed
  let ?l = "min a b" and ?u = "max a b"
  have r: "representable ?l" "representable ?u" using assms(1,2) by (simp_all add: min_def max_def)
  have s: "\<bar>?l\<bar> < pow2 1024" "\<bar>?u\<bar> < pow2 1024" using assms(5,6) by (auto simp: min_def max_def)
  obtain y where y: "mk_float (a / 2 + b / 2) = Fin y" "?l \<le> y" "y \<le> ?u"
  proof -
    have "?l \<le> a / 2 + b / 2 \<and> a / 2 + b / 2 \<le> ?u" by (cases "a \<le> b") (auto simp: min_def max_def)
    then show ?thesis using mk_float_between [OF r, of "a / 2 + b / 2"] s that by blast
  qed
  have "representable y" using y(1) fl_representable [of "a / 2 + b / 2"]
    by (auto simp: mk_float_def Let_def split: if_splits)
  moreover have "\<bar>y\<bar> < pow2 1024" using y(2,3) s by linarith
  ultimately have "mk_float y = Fin y" by (simp add: mk_float_small fl_exact)
  with y show ?thesis by (simp add: weighted_def Let_def half assms)
qed

theorem moderate_blend_between_witness:
  "\<exists>x. weighted (Some (Fin 3)) (Some (Fin 5)) (mk_float (1 / 2)) (mk_float (1 / 2)) = Some (Fin x) \<and>
    min 3 5 \<le> x \<and> x \<le> max 3 5"
  by (rule moderate_blend_between)
    (use representable_int [of 3] representable_int [of 5] representable_frac [of 3 1]
      representable_frac [of 5 1] in \<open>simp_all add: pow2_def\<close>)

text \<open>
  However many suggestions ask for paid research one after the other, a fresh budget lets at
  most \<open>max_calls\<close> of them through and never more than \<open>max_cost_usd\<close>.
\<close>

theorem sequential_research_within_caps:
  assumes "0 \<le> max_calls b" and "fle (Fin 0) (max_cost_usd b)" and "calls b = 0" and "cost_usd b = Fin 0"
  shows "within_caps (foldl (\<lambda>b c. if can_spend b c = Some True
      then (case record_spend b c of Some b' \<Rightarrow> b' | None \<Rightarrow> b) else b) b cs)"
proof -
  have "research_gate.shop b cs = foldl (\<lambda>b c. if can_spend b c = Some True
      then (case record_spend b c of Some b' \<Rightarrow> b' | None \<Rightarrow> b) else b) b cs" for cs b
    by (induction cs arbitrary: b) simp_all
  moreover have "within_caps b" using assms by (simp add: within_caps_def)
  ultimately show ?thesis using research_gate.shop_ok by metis
qed

theorem sequential_research_within_caps_witness:
  "within_caps (foldl (\<lambda>b c. if can_spend b c = Some True
      then (case record_spend b c of Some b' \<Rightarrow> b' | None \<Rightarrow> b) else b)
    (new_budget 2 (Fin 1)) [Fin (1 / 4), Fin (1 / 4), Fin (1 / 4)])"
  by (rule sequential_research_within_caps) (simp_all add: new_budget_def)

text \<open>
  One unusable answer of the reconciler is not contained: when the bands disagree and Flash
  recommends a text that is no number, the exception leaves the asynchronous blend.
\<close>

theorem flash_text_escapes:
  assumes "needs_reconcile p (historical_sample_size h) (Some hv) (Some mv) conf"
    and "historical_value h = Some (Some hv)" and "market_value m = Some (Some mv)"
    and "market_confidence m = Some conf"
    and "reconcile cfg hv mv b = (Some (Some [(''recommended'', JStr ''about 3'')]), b')"
  shows "blend_async repr p (Some cfg) h m b = (None, b')"
proof -
  have "str_strip ''about 3'' = ''about 3''" "str_lower ''about 3'' = ''about 3''" by code_simp+
  moreover have "parse_unsigned ''about 3'' = None"
    by (simp add: parse_unsigned_def is_digit_def split_fraction_def Let_def)
  ultimately have "py_float (JStr ''about 3'') = None"
    by (simp add: py_float_def parse_float_def parse_signed_def parse_float_body_def)
  with assms show ?thesis by (simp add: blend_async_def flash_result_def d_get_def)
qed

definition demo_flash_body :: json where
  "demo_flash_body = JObj [(''candidates'', JArr [JObj [(''content'', JObj [(''parts'', JArr
     [JObj [(''text'', JStr ([CHR ''{'', CHR 0x22] @ ''recommended'' @ [CHR 0x22, CHR '':'', CHR 0x22] @
        ''about 3'' @ [CHR 0x22, CHR ''}'']))]])])]])]"

lemma demo_flash_parse:
  "parse_flash_response demo_flash_body = Some (Some [(''recommended'', JStr ''about 3'')])"
  by code_simp

definition demo_flash :: flash_cfg where
  "demo_flash = \<lparr>fc_configured = True, fc_estimated_cost = Fin 0,
     fc_reply = (\<lambda>_ _. GeminiBody (Some demo_flash_body))\<rparr>"

theorem flash_text_escapes_witness:
  "blend_async (\<lambda>_. []) default_params (Some demo_flash) (Some [(''value'', JInt 2), (''sample_size'', JInt 12)])
      (Some [(''value'', JInt 4), (''confidence'', JInt 1)]) (new_budget 5 (Fin 1)) =
    (None, (new_budget 5 (Fin 1))\<lparr>calls := 1\<rparr>)"
proof (rule flash_text_escapes [where hv = "Fin 2" and mv = "Fin 4" and conf = "Fin 1"])
  obtain c where c: "mk_float (7 / 10) = Fin c" "c \<le> 1"
    using mk_float_between [of "- 1" 1 "7 / 10"] representable_int [of 1] representable_int [of "- 1"]
    by (auto simp: pow2_def)
  show "needs_reconcile default_params (historical_sample_size (Some [(''value'', JInt 2), (''sample_size'', JInt 12)]))
      (Some (Fin 2)) (Some (Fin 4)) (Fin 1)"
    by (simp add: needs_reconcile_def default_params_def historical_sample_size_def band_field_def
        d_get_def disagreement_def fsub_def historical_high_sample_def market_strong_confidence_def c
        mk_float_of_int [of "- 2", simplified] mk_float_of_int [of 1, simplified])
  show "reconcile demo_flash (Fin 2) (Fin 4) (new_budget 5 (Fin 1)) =
      (Some (Some [(''recommended'', JStr ''about 3'')]), (new_budget 5 (Fin 1))\<lparr>calls := 1\<rparr>)"
    by (simp add: reconcile_def demo_flash_def can_spend_def new_budget_def record_spend_def demo_flash_parse)
qed (simp_all add: historical_value_def market_value_def market_confidence_def num_float_def
      band_field_def d_get_def float_of_int_small)

end
