(* ===== verification/Research.thy ===== *)
theory Research
  imports PriceFrame Blend
begin

text \<open>
  Market research through Gemini grounding (\<open>tools/web_research.py\<close>): the in-process cache with
  its time to live and bound, the parser of Gemini's reply, and one research call under the
  run's budget. Redis is absent, so the cache is the in-process one; Gemini, \<open>str.format_map\<close>
  and SHA-1 are parameters. The last section is the concurrent fan-out over the budget.
\<close>

section \<open>The cache\<close>

text \<open>Entries in the order of the \<open>OrderedDict\<close>: least recently used first.\<close>

type_synonym research_cache = "(string \<times> int \<times> dict) list"

definition cache_max_size :: nat where "cache_max_size = 1024"

definition cache_drop :: "string \<Rightarrow> research_cache \<Rightarrow> research_cache" where
  "cache_drop k c = filter (\<lambda>en. fst en \<noteq> k) c"

definition cache_get :: "int \<Rightarrow> string \<Rightarrow> research_cache \<Rightarrow> dict option \<times> research_cache" where
  "cache_get now k c = (case map_of c k of
      None \<Rightarrow> (None, c)
    | Some (expires_at, payload) \<Rightarrow>
        if expires_at \<le> now then (None, cache_drop k c)
        else (Some payload, cache_drop k c @ [(k, expires_at, payload)]))"

definition cache_set :: "int \<Rightarrow> string \<Rightarrow> dict \<Rightarrow> int \<Rightarrow> research_cache \<Rightarrow> research_cache" where
  "cache_set now k payload ttl_seconds c =
     (if ttl_seconds \<le> 0 then c
      else let c' = cache_drop k c @ [(k, now + ttl_seconds * 1000000, payload)]
           in drop (length c' - cache_max_size) c')"

section \<open>Gemini's reply\<close>

definition empty_payload :: dict where
  "empty_payload = [(''value'', JNull), (''confidence'', JFlt (Fin 0)),
     (''summary'', JStr ''research unavailable''), (''citations'', JArr []), (''cache_hit'', JBool False)]"

text \<open>Snippets by chunk index; the first support of a chunk wins.\<close>

definition snippets_of_support :: "(int \<times> string) list \<Rightarrow> json \<Rightarrow> (int \<times> string) list option" where
  "snippets_of_support acc support = (case support of
      JObj s \<Rightarrow>
        (case py_or (d_get s ''segment'') (JObj []) of
           JObj seg \<Rightarrow>
             (case d_get seg ''text'' of
                JStr snippet \<Rightarrow>
                  map_option (\<lambda>ixs. foldl (\<lambda>acc ix. case int_val ix of
                        None \<Rightarrow> acc
                      | Some i \<Rightarrow> if map_of acc i = None then acc @ [(i, snippet)] else acc) acc ixs)
                    (py_iter (py_or (d_get s ''groundingChunkIndices'') (JArr [])))
              | _ \<Rightarrow> Some acc)
         | _ \<Rightarrow> Some acc)
    | _ \<Rightarrow> Some acc)"

definition citation_of :: "(int \<times> string) list \<Rightarrow> nat \<times> json \<Rightarrow> json list" where
  "citation_of snippets ic = (case snd ic of
      JObj chunk \<Rightarrow>
        (let web = (case d_get chunk ''web'' of JObj d \<Rightarrow> d | _ \<Rightarrow> [])
         in case d_get web ''uri'' of
              JStr url \<Rightarrow>
                if url = [] then []
                else [JObj [(''url'', JStr url),
                            (''title'', case d_get web ''title'' of JStr t \<Rightarrow> if t = [] then JStr url else JStr t | _ \<Rightarrow> JStr url),
                            (''snippet'', JStr (case map_of snippets (int (fst ic)) of Some s \<Rightarrow> s | None \<Rightarrow> []))]]
            | _ \<Rightarrow> [])
    | _ \<Rightarrow> [])"

definition extract_citations :: "dict \<Rightarrow> json list option" where
  "extract_citations candidate = (case d_get candidate ''groundingMetadata'' of
      JObj meta \<Rightarrow> do {
        supports \<leftarrow> py_iter (py_or (d_get meta ''groundingSupports'') (JArr []));
        snippets \<leftarrow> ofold snippets_of_support [] supports;
        chunks \<leftarrow> py_iter (py_or (d_get meta ''groundingChunks'') (JArr []));
        Some (concat (map (citation_of snippets) (zip [0..<length chunks] chunks)))
      }
    | _ \<Rightarrow> Some [])"

definition extract_structured_json :: "string \<Rightarrow> dict" where
  "extract_structured_json txt = (case last_object (\<lambda>_. True) txt of Some d \<Rightarrow> d | None \<Rightarrow> [])"

definition is_line_end :: "char \<Rightarrow> bool" where
  "is_line_end c \<longleftrightarrow> code c \<in> {10, 11, 12, 13, 28, 29, 30, 133}"

definition reply_text :: "dict \<Rightarrow> string option" where
  "reply_text candidate = (case d_get candidate ''content'' of
      JObj content \<Rightarrow> map_option (\<lambda>parts. str_strip (str_join [CHR 0x0A]
          (List.map_filter (\<lambda>part. case part of
             JObj p \<Rightarrow> (case d_get p ''text'' of JStr t \<Rightarrow> Some t | _ \<Rightarrow> None) | _ \<Rightarrow> None) parts)))
        (py_iter (py_or (d_get content ''parts'') (JArr [])))
    | _ \<Rightarrow> Some [])"

definition clamp_confidence :: "pyfloat \<Rightarrow> pyfloat" where
  "clamp_confidence c = fmax (Fin 0) (fmin (Fin 1) c)"

text \<open>The payload from the model's text, its decoded object and its citations.\<close>

definition grounding_payload :: "string \<Rightarrow> dict \<Rightarrow> json list \<Rightarrow> dict option" where
  "grounding_payload raw structured citations = do {
     v \<leftarrow> num_float (d_get structured ''value'');
     c \<leftarrow> num_float (d_get structured ''confidence'');
     let summary = (case d_get structured ''summary'' of JStr s \<Rightarrow> str_strip s | _ \<Rightarrow> []);
     Some [(''value'', case v of None \<Rightarrow> JNull | Some x \<Rightarrow> JFlt x),
           (''confidence'', JFlt (case c of None \<Rightarrow> Fin 0 | Some x \<Rightarrow> clamp_confidence x)),
           (''summary'', JStr (if summary \<noteq> [] then summary
                              else if raw \<noteq> [] then take 280 (takeWhile (\<lambda>ch. \<not> is_line_end ch) raw)
                              else ''research unavailable'')),
           (''citations'', JArr citations), (''cache_hit'', JBool False)]
   }"

text \<open>\<open>_parse_grounding_response\<close>; \<open>None\<close> is an exception, which the caller treats as a failed call.\<close>

definition parse_grounding_response :: "json \<Rightarrow> dict option" where
  "parse_grounding_response data = (case data of
      JObj d \<Rightarrow>
        (case py_or (d_get d ''candidates'') (JArr []) of
           JArr (first # _) \<Rightarrow> do {
             let candidate = (case first of JObj c \<Rightarrow> c | _ \<Rightarrow> []);
             raw \<leftarrow> reply_text candidate;
             citations \<leftarrow> extract_citations candidate;
             grounding_payload raw (extract_structured_json raw) citations
           }
         | _ \<Rightarrow> Some empty_payload)
    | _ \<Rightarrow> Some empty_payload)"

section \<open>One research call\<close>

record research_cfg =
  rc_configured :: bool
  rc_estimated_cost :: pyfloat
  rc_default_max_age :: int
  rc_disagreement :: pyfloat
  rc_reply :: "string \<Rightarrow> gemini_reply"
  rc_format_map :: "string \<Rightarrow> dict \<Rightarrow> string option"
  rc_sha1 :: "string \<Rightarrow> string"
  rc_flash :: "flash_cfg option"

record research_state =
  rs_cache :: research_cache
  rs_budget :: run_budget

definition query_cache_key :: "research_cfg \<Rightarrow> string \<Rightarrow> string" where
  "query_cache_key cfg query = ''agent:market:'' @ rc_sha1 cfg query"

definition observe_web_research_cost :: "pyfloat \<Rightarrow> world \<Rightarrow> world" where
  "observe_web_research_cost c w = (if flt c (Fin 0) then w else record_metric (WebResearchCost c) w)"

text \<open>\<open>payload.get("value") is not None or payload.get("confidence", 0) > 0\<close>.\<close>

definition cacheable :: "dict \<Rightarrow> bool" where
  "cacheable payload \<longleftrightarrow> d_get payload ''value'' \<noteq> JNull \<or>
     (case num_val (d_get payload ''confidence'') of Some c \<Rightarrow> flt (Fin 0) c | None \<Rightarrow> False)"

text \<open>\<open>None\<close> is the \<open>ValueError\<close> of a negative cost.\<close>

definition research ::
    "env \<Rightarrow> research_cfg \<Rightarrow> string \<Rightarrow> int option \<Rightarrow> research_state \<Rightarrow> world \<Rightarrow>
     dict option \<times> research_state \<times> world" where
  "research e cfg query max_age rs w =
     (let ttl0 = (case max_age of Some t \<Rightarrow> t | None \<Rightarrow> rc_default_max_age cfg);
          ttl = (if ttl0 \<le> 0 then 21600 else ttl0);
          k = query_cache_key cfg query;
          (now, w1) = utc_now e w;
          (cached, cache1) = cache_get now k (rs_cache rs);
          rs1 = rs\<lparr>rs_cache := cache1\<rparr>
      in case cached of
           Some payload \<Rightarrow> (Some (d_set payload ''cache_hit'' (JBool True)), rs1, w1)
         | None \<Rightarrow>
             if \<not> rc_configured cfg then (Some empty_payload, rs1, w1)
             else (case can_spend (rs_budget rs) (rc_estimated_cost cfg) of
                 None \<Rightarrow> (None, rs1, w1)
               | Some ok \<Rightarrow>
                   if \<not> ok then (Some empty_payload, rs1, w1)
                   else (case (case rc_reply cfg query of
                                 GeminiFailed \<Rightarrow> None
                               | GeminiBody body \<Rightarrow> Option.bind body parse_grounding_response) of
                       None \<Rightarrow> (Some empty_payload, rs1, w1)
                     | Some result \<Rightarrow>
                         (case record_spend (rs_budget rs) (rc_estimated_cost cfg) of
                            None \<Rightarrow> (None, rs1, w1)
                          | Some b \<Rightarrow>
                              let w2 = observe_web_research_cost (rc_estimated_cost cfg) w1;
                                  payload = d_set result ''cache_hit'' (JBool False)
                              in if cacheable payload
                                 then let (now2, w3) = utc_now e w2
                                      in (Some payload,
                                          \<lparr>rs_cache = cache_set now2 k
                                             (filter (\<lambda>kv. fst kv \<noteq> ''cache_hit'') payload) ttl cache1,
                                           rs_budget = b\<rparr>, w3)
                                 else (Some payload, rs1\<lparr>rs_budget := b\<rparr>, w2)))))"

section \<open>The concurrent fan-out\<close>

text \<open>
  \<open>fan_out_market_suggestions\<close> starts one task per field under \<open>asyncio.gather\<close>. A task runs
  without interruption up to the network call: it asks the budget and is then in flight or
  skipped; later it resumes and records its cost, or not when the call failed.
\<close>

datatype task = Waiting | InFlight | Recorded | Skipped | Failed

inductive fan_step :: "pyfloat \<Rightarrow> run_budget \<times> task list \<Rightarrow> run_budget \<times> task list \<Rightarrow> bool"
  for cost :: pyfloat where
  start: "i < length ts \<Longrightarrow> ts ! i = Waiting \<Longrightarrow> can_spend b cost = Some True \<Longrightarrow>
    fan_step cost (b, ts) (b, ts[i := InFlight])"
| skip: "i < length ts \<Longrightarrow> ts ! i = Waiting \<Longrightarrow> can_spend b cost = Some False \<Longrightarrow>
    fan_step cost (b, ts) (b, ts[i := Skipped])"
| success: "i < length ts \<Longrightarrow> ts ! i = InFlight \<Longrightarrow> record_spend b cost = Some b' \<Longrightarrow>
    fan_step cost (b, ts) (b', ts[i := Recorded])"
| failure: "i < length ts \<Longrightarrow> ts ! i = InFlight \<Longrightarrow> fan_step cost (b, ts) (b, ts[i := Failed])"

inductive_cases fan_stepE: "fan_step cost (b, ts) (b', ts')"

abbreviation fan_run :: "pyfloat \<Rightarrow> run_budget \<times> task list \<Rightarrow> run_budget \<times> task list \<Rightarrow> bool" where
  "fan_run cost \<equiv> (fan_step cost)\<^sup>*\<^sup>*"

section \<open>Laws of the cache\<close>

text \<open>
  What the research call relies on: a live entry is returned as it was stored, an expired one
  never, storing one key leaves the others alone, a bounded number of entries is kept, and a
  read only ever drops the expired entry.
\<close>

locale ttl_cache =
  fixes look :: "int \<Rightarrow> 'k \<Rightarrow> 'c \<Rightarrow> 'v option \<times> 'c"
    and put :: "int \<Rightarrow> 'k \<Rightarrow> 'v \<Rightarrow> int \<Rightarrow> 'c \<Rightarrow> 'c"
    and life :: "'c \<Rightarrow> 'k \<Rightarrow> (int \<times> 'v) option"
    and count :: "'c \<Rightarrow> nat"
    and bound :: nat
    and wf :: "'c \<Rightarrow> bool"
  assumes look_val: "fst (look now k c) =
      (case life c k of Some (t, v) \<Rightarrow> if t \<le> now then None else Some v | None \<Rightarrow> None)"
    and look_life: "wf c \<Longrightarrow> life (snd (look now k c)) k' =
      (if k' = k \<and> fst (look now k c) = None then None else life c k')"
    and look_wf: "wf c \<Longrightarrow> wf (snd (look now k c))"
    and look_count: "wf c \<Longrightarrow> count (snd (look now k c)) \<le> count c"
    and put_life: "0 < ttl \<Longrightarrow> wf c \<Longrightarrow> 0 < bound \<Longrightarrow> life (put now k v ttl c) k = Some (now + ttl * 1000000, v)"
    and put_other: "wf c \<Longrightarrow> k' \<noteq> k \<Longrightarrow> life (put now k v ttl c) k' = Some x \<Longrightarrow> life c k' = Some x"
    and put_wf: "wf c \<Longrightarrow> wf (put now k v ttl c)"
    and put_count: "count c \<le> bound \<Longrightarrow> count (put now k v ttl c) \<le> bound"
    and bound_pos: "0 < bound"
begin

lemma fresh_hit:
  assumes "0 < ttl" and "wf c" and "later < now + ttl * 1000000"
  shows "fst (look later k (put now k v ttl c)) = Some v"
  using assms by (simp add: look_val put_life bound_pos)

lemma stale_miss:
  assumes "0 < ttl" and "wf c" and "now + ttl * 1000000 \<le> later"
  shows "fst (look later k (put now k v ttl c)) = None"
  using assms by (simp add: look_val put_life bound_pos)

lemma never_invented:
  assumes "wf c" and "k' \<noteq> k" and "fst (look later k' (put now k v ttl c)) = Some x"
  shows "fst (look later k' c) = Some x"
proof -
  from assms(3) obtain t where t: "life (put now k v ttl c) k' = Some (t, x)" "later < t"
    by (auto simp: look_val split: option.splits if_splits)
  from put_other [OF assms(1,2) t(1)] t(2) show ?thesis by (simp add: look_val)
qed

lemma miss_after_expiry_is_final:
  assumes "wf c" and "fst (look now k c) = None"
  shows "fst (look later k (snd (look now k c))) = None"
  using assms by (simp add: look_val [of later] look_life)

text \<open>Any history of reads and writes keeps the bound.\<close>

primrec serve :: "'c \<Rightarrow> (int \<times> 'k \<times> ('v \<times> int) option) list \<Rightarrow> 'c" where
  "serve c [] = c"
| "serve c (q # qs) = serve (case q of (now, k, w) \<Rightarrow>
     (case w of None \<Rightarrow> snd (look now k c) | Some (v, ttl) \<Rightarrow> put now k v ttl c)) qs"

lemma serve_bounded:
  "wf c \<Longrightarrow> count c \<le> bound \<Longrightarrow> wf (serve c qs) \<and> count (serve c qs) \<le> bound"
proof (induction qs arbitrary: c)
  case (Cons q qs)
  obtain now k w where q: "q = (now, k, w)" by (cases q)
  show ?case
  proof (cases w)
    case None
    have "count (snd (look now k c)) \<le> bound"
      using look_count [OF Cons.prems(1), of now k] Cons.prems(2) by linarith
    then show ?thesis using Cons.IH look_wf [OF Cons.prems(1)] by (simp add: q None)
  next
    case (Some vt)
    obtain v ttl where "vt = (v, ttl)" by (cases vt)
    then show ?thesis using Cons.IH put_wf [OF Cons.prems(1)] put_count [OF Cons.prems(2)]
      by (simp add: q Some)
  qed
qed simp

end

definition cache_wf :: "research_cache \<Rightarrow> bool" where "cache_wf c \<longleftrightarrow> distinct (map fst c)"

lemma cache_drop_simps [simp]:
  "cache_drop k [] = []"
  "cache_drop k (en # c) = (if fst en \<noteq> k then en # cache_drop k c else cache_drop k c)"
  by (simp_all add: cache_drop_def)

lemma map_of_cache_drop [simp]: "map_of (cache_drop k c) k' = (if k' = k then None else map_of c k')"
  by (induction c) auto

lemma keys_cache_drop: "fst ` set (cache_drop k c) = fst ` set c - {k}"
  by (auto simp: cache_drop_def)

lemma cache_wf_drop: "cache_wf c \<Longrightarrow> cache_wf (cache_drop k c)"
  by (simp add: cache_wf_def cache_drop_def distinct_map_filter)

lemma cache_wf_touch: "cache_wf c \<Longrightarrow> cache_wf (cache_drop k c @ [(k, v)])"
  using cache_wf_drop [of c k] keys_cache_drop [of k c] by (auto simp: cache_wf_def)

lemma length_cache_drop: "length (cache_drop k c) \<le> length c"
  by (simp add: cache_drop_def)

lemma length_cache_drop_in: "map_of c k = Some v \<Longrightarrow> length (cache_drop k c) < length c"
  by (induction c) (auto simp: le_imp_less_Suc length_cache_drop split: if_splits)

lemma cache_wf_suffix: "cache_wf c \<Longrightarrow> cache_wf (drop n c)"
  by (simp add: cache_wf_def drop_map [symmetric] del: drop_map)

lemma map_of_suffix: "cache_wf c \<Longrightarrow> map_of (drop n c) k = Some v \<Longrightarrow> map_of c k = Some v"
  unfolding cache_wf_def
  by (metis in_set_dropD map_of_SomeD map_of_eq_Some_iff)

lemma map_of_drop_last: "n \<le> length xs \<Longrightarrow> distinct (map fst (xs @ [(k, v)])) \<Longrightarrow>
    map_of (drop n (xs @ [(k, v)])) k = Some v"
proof -
  assume n: "n \<le> length xs" and d: "distinct (map fst (xs @ [(k, v)]))"
  have "k \<notin> fst ` set (drop n xs)" using d by (auto dest: in_set_dropD)
  then have "map_of (drop n xs) k = None" by (simp add: map_of_eq_None_iff)
  with n show ?thesis by (simp add: map_add_def)
qed

interpretation research_store: ttl_cache cache_get cache_set map_of length cache_max_size cache_wf
proof (unfold_locales, goal_cases)
  case 1 then show ?case by (simp add: cache_get_def split: option.split)
next
  case 2 then show ?case
    by (auto simp: cache_get_def map_add_def split: option.splits if_splits)
next
  case 3 then show ?case by (auto simp: cache_get_def cache_wf_drop cache_wf_touch split: option.split)
next
  case (4 c now k) then show ?case
    using length_cache_drop_in [of c k] by (auto simp: cache_get_def split: option.split)
next
  case (5 ttl c now k v)
  have "cache_wf (cache_drop k c @ [(k, now + ttl * 1000000, v)])"
    by (rule cache_wf_touch) (rule 5)
  then have "map_of (drop n (cache_drop k c @ [(k, now + ttl * 1000000, v)])) k =
      Some (now + ttl * 1000000, v)" if "n \<le> length (cache_drop k c)" for n
    using that by (auto simp: cache_wf_def simp del: drop_append intro: map_of_drop_last)
  then show ?case using 5 by (simp add: cache_set_def Let_def cache_max_size_def del: drop_append)
next
  case (6 c k' k now v ttl x)
  have wf: "cache_wf (cache_drop k c @ [(k, now + ttl * 1000000, v)])"
    by (rule cache_wf_touch) (rule 6)
  show ?case
  proof (cases "ttl \<le> 0")
    case True then show ?thesis using 6 by (simp add: cache_set_def)
  next
    case False
    with 6(3) have "map_of (drop (Suc (length (cache_drop k c)) - cache_max_size)
        (cache_drop k c @ [(k, now + ttl * 1000000, v)])) k' = Some x"
      by (simp add: cache_set_def Let_def del: drop_append)
    then have "map_of (cache_drop k c @ [(k, now + ttl * 1000000, v)]) k' = Some x"
      using map_of_suffix [OF wf] by blast
    with 6(2) show ?thesis by (simp add: map_add_def split: option.splits)
  qed
next
  case 7 then show ?case
    by (simp add: cache_set_def Let_def cache_wf_suffix cache_wf_touch del: drop_append)
next
  case 8
  have "n - (n - b) \<le> b" for n b :: nat by arith
  with 8 show ?case by (simp add: cache_set_def Let_def del: drop_append)
next
  case 9 then show ?case by (simp add: cache_max_size_def)
qed

section \<open>Properties\<close>

lemma clamp_confidence_range: "\<exists>c. clamp_confidence x = Fin c \<and> 0 \<le> c \<and> c \<le> 1"
  by (cases x) (auto simp: clamp_confidence_def fmax_def fmin_def)

lemma grounding_payload_confidence:
  assumes "grounding_payload raw structured citations = Some payload"
  shows "\<exists>c. d_get payload ''confidence'' = JFlt (Fin c) \<and> 0 \<le> c \<and> c \<le> 1"
proof -
  have "\<exists>r. (case x of None \<Rightarrow> Fin 0 | Some x \<Rightarrow> clamp_confidence x) = Fin r \<and> 0 \<le> r \<and> r \<le> 1" for x
    by (cases x) (use clamp_confidence_range in auto)
  then show ?thesis using assms
    by (auto simp: grounding_payload_def Let_def d_get_def split: Option.bind_splits)
qed

lemma extract_structured_json_Nil [simp]: "extract_structured_json [] = []"
  by (simp add: extract_structured_json_def last_object_def brace_groups.simps)

text \<open>
  Whatever Gemini answers, the confidence that leaves the parser is a finite float between
  0 and 1: infinities and NaN included.
\<close>

theorem research_confidence_in_range:
  assumes "parse_grounding_response data = Some payload"
  shows "\<exists>c. d_get payload ''confidence'' = JFlt (Fin c) \<and> 0 \<le> c \<and> c \<le> 1"
proof -
  have "payload = empty_payload \<or> (\<exists>raw st cs. grounding_payload raw st cs = Some payload)"
    using assms by (force simp: parse_grounding_response_def Let_def
        split: json.splits list.splits Option.bind_splits)
  then show ?thesis
    using grounding_payload_confidence by (auto simp: empty_payload_def d_get_def)
qed

definition demo_grounding :: json where
  "demo_grounding = JObj [(''candidates'', JArr [JObj []])]"

theorem research_confidence_in_range_witness:
  "\<exists>c. d_get [(''value'', JNull), (''confidence'', JFlt (Fin 0)), (''summary'', JStr ''research unavailable''),
      (''citations'', JArr []), (''cache_hit'', JBool False)] ''confidence'' = JFlt (Fin c) \<and> 0 \<le> c \<and> c \<le> 1"
  by (rule research_confidence_in_range [of demo_grounding])
    (simp add: demo_grounding_def parse_grounding_response_def reply_text_def extract_citations_def
      d_get_def py_or_simps num_float_def grounding_payload_def)

lemma fan_step_calls:
  assumes "fan_step cost (b, ts) (b', ts')"
  shows "length ts' = length ts \<and>
    calls b' + int (count_list ts Recorded) = calls b + int (count_list ts' Recorded)"
proof -
  have upd: "int (count_list (ts[i := x]) Recorded) = int (count_list ts Recorded) + (if x = Recorded then 1 else 0)"
    if "i < length ts" "ts ! i \<noteq> Recorded" for i x
    using that
  proof (induction ts arbitrary: i)
    case (Cons t ts) then show ?case by (cases i) auto
  qed simp
  from assms show ?thesis
    by (cases rule: fan_stepE) (auto simp: upd record_spend_def split: if_splits)
qed

lemma fan_run_calls:
  assumes "fan_run cost s t"
  shows "length (snd t) = length (snd s) \<and>
    calls (fst t) + int (count_list (snd s) Recorded) = calls (fst s) + int (count_list (snd t) Recorded)"
  using assms
proof (induction rule: rtranclp_induct)
  case (step u v)
  obtain b ts b' ts' where "u = (b, ts)" "v = (b', ts')" by fastforce
  with step.hyps(2) fan_step_calls [of cost b ts b' ts'] step.IH show ?case by auto
qed simp

lemma all_start:
  assumes "can_spend b cost = Some True"
  shows "fan_run cost (b, pre @ replicate n Waiting) (b, pre @ replicate n InFlight)"
proof (induction n arbitrary: pre)
  case (Suc n)
  have "fan_step cost (b, pre @ replicate (Suc n) Waiting)
      (b, (pre @ replicate (Suc n) Waiting)[length pre := InFlight])"
    by (rule fan_step.start) (simp_all add: assms nth_append)
  then have "fan_step cost (b, pre @ replicate (Suc n) Waiting) (b, (pre @ [InFlight]) @ replicate n Waiting)"
    by (simp add: list_update_append)
  then show ?case using Suc.IH [of "pre @ [InFlight]"] by (simp add: converse_rtranclp_into_rtranclp)
qed simp

lemma all_record:
  assumes "\<not> flt cost (Fin 0)"
  shows "\<exists>b'. fan_run cost (b, pre @ replicate n InFlight) (b', pre @ replicate n Recorded) \<and>
    calls b' = calls b + int n"
proof (induction n arbitrary: pre b)
  case (Suc n)
  let ?b = "b\<lparr>calls := calls b + 1, cost_usd := fadd (cost_usd b) cost\<rparr>"
  have "fan_step cost (b, pre @ replicate (Suc n) InFlight)
      (?b, (pre @ replicate (Suc n) InFlight)[length pre := Recorded])"
    by (rule fan_step.success) (simp_all add: assms nth_append record_spend_def)
  then have "fan_step cost (b, pre @ replicate (Suc n) InFlight) (?b, (pre @ [Recorded]) @ replicate n InFlight)"
    by (simp add: list_update_append)
  moreover obtain b' where "fan_run cost (?b, (pre @ [Recorded]) @ replicate n InFlight)
      (b', (pre @ [Recorded]) @ replicate n Recorded)" "calls b' = calls ?b + int n"
    using Suc.IH [of ?b "pre @ [Recorded]"] by auto
  ultimately show ?case
    by (intro exI [of _ b']) (auto intro: converse_rtranclp_into_rtranclp)
qed auto

text \<open>
  C38: the budget does not bound a concurrent fan-out: one admissible first call is enough for
  any number of tasks to be paid, because every task asks before the first one records. What
  is paid is one call per recorded task.
\<close>

theorem fan_out_exceeds_budget:
  assumes "can_spend b cost = Some True"
  shows "\<exists>b'. fan_run cost (b, replicate n Waiting) (b', replicate n Recorded) \<and>
    calls b' = calls b + int n"
proof -
  have "\<not> flt cost (Fin 0)" using assms by (auto simp: can_spend_def split: if_splits)
  from all_record [OF this, of b "[]" n] all_start [OF assms, of "[]" n] show ?thesis
    by (auto intro: rtranclp_trans)
qed

theorem fan_out_exceeds_budget_witness:
  "\<exists>b'. fan_run (Fin (1 / 128)) (new_budget 5 (Fin 1), replicate 8 Waiting) (b', replicate 8 Recorded) \<and>
    calls b' = calls (new_budget 5 (Fin 1)) + int 8"
proof (rule fan_out_exceeds_budget)
  obtain c where "mk_float (1 / 128) = Fin c" "c \<le> 1"
    using mk_float_between [of 0 1 "1 / 128"] representable_int [of 0] representable_int [of 1]
    by (auto simp: pow2_def)
  then show "can_spend (new_budget 5 (Fin 1)) (Fin (1 / 128)) = Some True"
    by (simp add: can_spend_def new_budget_def)
qed

lemma cache_wf_get: "cache_wf c \<Longrightarrow> cache_get now k c = (x, c') \<Longrightarrow> cache_wf c'"
  using research_store.look_wf [of c now k] by simp

text \<open>
  an answer that was paid for is not paid for again: as long as it has not expired, the same
  query is served from the cache, marked as a hit, with the budget untouched and nothing sent.
\<close>

theorem paid_research_is_reused:
  assumes "cache_wf (rs_cache rs)"
    and "rc_configured cfg" and "fst (cache_get (clock e (tick w)) (query_cache_key cfg q) (rs_cache rs)) = None"
    and "can_spend (rs_budget rs) (rc_estimated_cost cfg) = Some True"
    and "rc_reply cfg q = GeminiBody (Some body)" and "parse_grounding_response body = Some result"
    and "cacheable (d_set result ''cache_hit'' (JBool False))"
    and "0 < ttl" and "research e cfg q (Some ttl) rs w = (p, rs', w')"
    and "clock e (tick v) < clock e (Suc (tick w)) + ttl * 1000000"
  shows "\<exists>r. p = Some r \<and> d_get r ''cache_hit'' = JBool False \<and>
    calls (rs_budget rs') = calls (rs_budget rs) + 1 \<and>
    (\<exists>r2 rs2. research e cfg q (Some ttl) rs' v = (Some r2, rs2, v\<lparr>tick := Suc (tick v)\<rparr>) \<and>
      d_get r2 ''cache_hit'' = JBool True \<and> rs_budget rs2 = rs_budget rs' \<and>
      (\<forall>k. k \<noteq> ''cache_hit'' \<longrightarrow> d_get r2 k = d_get r k))"
proof -
  define key where "key = query_cache_key cfg q"
  define r where "r = d_set result ''cache_hit'' (JBool False)"
  define stored where "stored = filter (\<lambda>kv. fst kv \<noteq> ''cache_hit'') r"
  define b' where "b' = (rs_budget rs)\<lparr>calls := calls (rs_budget rs) + 1,
    cost_usd := fadd (cost_usd (rs_budget rs)) (rc_estimated_cost cfg)\<rparr>"
  obtain c1 where c1: "cache_get (clock e (tick w)) key (rs_cache rs) = (None, c1)"
    using assms(3) by (cases "cache_get (clock e (tick w)) key (rs_cache rs)") (auto simp: key_def)
  have wf: "cache_wf c1" using cache_wf_get [OF assms(1) c1] .
  have b: "record_spend (rs_budget rs) (rc_estimated_cost cfg) = Some b'"
    using assms(4) by (auto simp: can_spend_def record_spend_def b'_def split: if_splits)
  have tick: "tick (observe_web_research_cost c u) = tick u" for c u
    by (simp add: observe_web_research_cost_def record_metric_def)
  have first: "p = Some r" "rs' = \<lparr>rs_cache = cache_set (clock e (Suc (tick w))) key stored ttl c1, rs_budget = b'\<rparr>"
    using assms(2,4-9) b c1
    by (auto simp: research_def utc_now_def key_def [symmetric] r_def [symmetric] stored_def [symmetric] tick)
  have hit: "fst (cache_get (clock e (tick v)) key (rs_cache rs')) = Some stored"
    using research_store.fresh_hit [OF assms(8) wf assms(10)] by (simp add: first)
  then obtain c2 where c2: "cache_get (clock e (tick v)) key (rs_cache rs') = (Some stored, c2)"
    by (cases "cache_get (clock e (tick v)) key (rs_cache rs')") auto
  have keep: "d_get stored k = d_get r k" if "k \<noteq> ''cache_hit''" for k
    using that unfolding stored_def d_get_def by (induction r) auto
  have "research e cfg q (Some ttl) rs' v =
      (Some (d_set stored ''cache_hit'' (JBool True)), rs'\<lparr>rs_cache := c2\<rparr>, v\<lparr>tick := Suc (tick v)\<rparr>)"
    using c2 by (simp add: research_def utc_now_def key_def [symmetric])
  then show ?thesis using keep by (auto simp: first b'_def r_def)
qed

definition demo_research :: research_cfg where
  "demo_research = \<lparr>rc_configured = True, rc_estimated_cost = Fin 0, rc_default_max_age = 21600,
     rc_disagreement = Fin (1 / 4), rc_reply = (\<lambda>_. GeminiBody (Some (JObj [(''candidates'', JArr [JObj [
       (''content'', JObj [(''parts'', JArr [JObj [(''text'', JStr ([CHR ''{'', CHR 0x22] @ ''value'' @
         [CHR 0x22] @ '':2}''))]])])]])]))),
     rc_format_map = (\<lambda>t _. Some t), rc_sha1 = (\<lambda>q. q), rc_flash = None\<rparr>"

lemma demo_reply_parses:
  "\<exists>r. parse_grounding_response (JObj [(''candidates'', JArr [JObj [
       (''content'', JObj [(''parts'', JArr [JObj [(''text'', JStr ([CHR ''{'', CHR 0x22] @ ''value'' @
         [CHR 0x22] @ '':2}''))]])])]])]) = Some r \<and> d_get r ''value'' = JFlt (Fin 2)"
proof -
  let ?t = "[CHR ''{'', CHR 0x22] @ ''value'' @ [CHR 0x22] @ '':2}''"
  have strip: "str_strip ?t = ?t" by code_simp
  have st: "extract_structured_json ?t = [(''value'', JInt 2)]" by code_simp
  show ?thesis
    by (simp add: parse_grounding_response_def reply_text_def d_get_def py_or_simps py_iter_def
        extract_citations_def grounding_payload_def strip [simplified] st [simplified]
        num_float_def float_of_int_small List.map_filter_def)
qed

theorem paid_research_is_reused_witness:
  "\<exists>p rs' w'. research demo_env demo_research ''rates'' (Some 60)
      \<lparr>rs_cache = [], rs_budget = new_budget 5 (Fin 1)\<rparr> (session_on empty_db) = (p, rs', w') \<and>
    (\<exists>r. p = Some r \<and> d_get r ''cache_hit'' = JBool False \<and> calls (rs_budget rs') = 1 \<and>
      (\<exists>r2 rs2. research demo_env demo_research ''rates'' (Some 60) rs' (session_on empty_db) =
          (Some r2, rs2, (session_on empty_db)\<lparr>tick := 1\<rparr>) \<and>
        d_get r2 ''cache_hit'' = JBool True \<and> rs_budget rs2 = rs_budget rs' \<and>
        (\<forall>k. k \<noteq> ''cache_hit'' \<longrightarrow> d_get r2 k = d_get r k)))"
proof -
  let ?body = "JObj [(''candidates'', JArr [JObj [
       (''content'', JObj [(''parts'', JArr [JObj [(''text'', JStr ([CHR ''{'', CHR 0x22] @ ''value'' @
         [CHR 0x22] @ '':2}''))]])])]])]"
  let ?rs = "\<lparr>rs_cache = [], rs_budget = new_budget 5 (Fin 1)\<rparr>"
  let ?w = "session_on empty_db"
  obtain p rs' w' where run: "research demo_env demo_research ''rates'' (Some 60) ?rs ?w = (p, rs', w')"
    by (cases "research demo_env demo_research ''rates'' (Some 60) ?rs ?w") auto
  obtain r where r: "parse_grounding_response ?body = Some r" "d_get r ''value'' = JFlt (Fin 2)"
    using demo_reply_parses by auto
  have "\<exists>r. p = Some r \<and> d_get r ''cache_hit'' = JBool False \<and>
    calls (rs_budget rs') = calls (rs_budget ?rs) + 1 \<and>
    (\<exists>r2 rs2. research demo_env demo_research ''rates'' (Some 60) rs' ?w = (Some r2, rs2, ?w\<lparr>tick := Suc (tick ?w)\<rparr>) \<and>
      d_get r2 ''cache_hit'' = JBool True \<and> rs_budget rs2 = rs_budget rs' \<and>
      (\<forall>k. k \<noteq> ''cache_hit'' \<longrightarrow> d_get r2 k = d_get r k))"
    by (rule paid_research_is_reused [where body = ?body and result = r and w = ?w and w' = w' and p = p])
      (use run r in \<open>simp_all add: cache_wf_def demo_research_def cache_get_def can_spend_def new_budget_def
        cacheable_def demo_env_def session_on_def del: append.simps\<close>)
  with run show ?thesis by (simp add: session_on_def new_budget_def)
qed

end
