(* ===== verification/Effects.thy ===== *)
theory Effects
  imports Tools RunEvents
begin

text \<open>
  What a piece of handler code may do to the world, as two relations that compose: \<open>quiet P\<close>
  (only requests allowed by \<open>P\<close> go out, the agent's database stays as it is) and \<open>logs r P\<close>
  (besides, events are appended to the log of run \<open>r\<close>, numbered as its log requires). The
  clock and the metrics are free in both.
\<close>

definition quiet :: "(pf_request \<Rightarrow> bool) \<Rightarrow> world \<Rightarrow> world \<Rightarrow> bool" where
  "quiet P w w' \<longleftrightarrow> cur w' = cur w \<and> saved w' = saved w \<and> idn w' = idn w \<and> rown w' = rown w \<and>
     only_requests P w w'"

definition logs :: "string \<Rightarrow> (pf_request \<Rightarrow> bool) \<Rightarrow> world \<Rightarrow> world \<Rightarrow> bool" where
  "logs r P w w' \<longleftrightarrow>
     (\<exists>evs. cur w' = (cur w)\<lparr>run_events := run_events (cur w) @ evs\<rparr> \<and> (\<forall>ev \<in> set evs. ev_run_id ev = r)) \<and>
     (log_wf (cur w) \<longrightarrow> log_wf (cur w')) \<and> saved w' = saved w \<and> idn w' = idn w \<and> only_requests P w w'"

lemma quiet_refl [simp]: "quiet P w w"
  by (simp add: quiet_def)

lemma quiet_trans [trans]: "quiet P w v \<Longrightarrow> quiet P v u \<Longrightarrow> quiet P w u"
  by (auto simp: quiet_def intro: only_requests_trans)

lemma quiet_tick [simp]: "quiet P w (w\<lparr>tick := t\<rparr>)" "quiet P w (record_metric m w)"
  by (simp_all add: quiet_def only_requests_def record_metric_def)

lemma quiet_sends: "only_sends w w' \<Longrightarrow> only_requests P w w' \<Longrightarrow> quiet P w w'"
  by (simp add: quiet_def only_sends_def)

lemma logs_refl [simp]: "logs r P w w"
  unfolding logs_def by (intro conjI exI [of _ "[]"]) simp_all

lemma logs_trans [trans]:
  assumes "logs r P w v" and "logs r P v u" shows "logs r P w u"
proof -
  obtain es where es: "cur v = (cur w)\<lparr>run_events := run_events (cur w) @ es\<rparr>" "\<forall>ev \<in> set es. ev_run_id ev = r"
    using assms(1) by (auto simp: logs_def)
  obtain fs where fs: "cur u = (cur v)\<lparr>run_events := run_events (cur v) @ fs\<rparr>" "\<forall>ev \<in> set fs. ev_run_id ev = r"
    using assms(2) by (auto simp: logs_def)
  have "cur u = (cur w)\<lparr>run_events := run_events (cur w) @ (es @ fs)\<rparr>" "\<forall>ev \<in> set (es @ fs). ev_run_id ev = r"
    using es fs by auto
  then show ?thesis using assms unfolding logs_def by (auto intro: only_requests_trans)
qed

lemma quiet_logs: "quiet P w w' \<Longrightarrow> logs r P w w'"
  unfolding quiet_def logs_def by (intro conjI exI [of _ "[]"]) simp_all

lemma emit_logs [simp]: "logs r P w (emit e r ty p w)"
  unfolding logs_def
proof (intro conjI exI [of _ "[new_event e r ty p w]"] impI)
  show "cur (emit e r ty p w) = (cur w)\<lparr>run_events := run_events (cur w) @ [new_event e r ty p w]\<rparr>"
    by (simp add: append_run_event_eq)
  show "only_requests P w (emit e r ty p w)" by (simp add: only_requests_def frame)
qed (simp_all add: frame log_wf_emit new_event_def)

lemma logs_frame:
  assumes "logs r P w w'"
  shows "runs (cur w') = runs (cur w)" "tool_calls (cur w') = tool_calls (cur w)"
    "drafts (cur w') = drafts (cur w)" "conversations (cur w') = conversations (cur w)"
    "messages (cur w') = messages (cur w)" "run_steps (cur w') = run_steps (cur w)"
    "audit_log (cur w') = audit_log (cur w)" "saved w' = saved w"
    "idempotency_keys (cur w') = idempotency_keys (cur w)" "user_memory (cur w') = user_memory (cur w)"
  using assms by (auto simp: logs_def)

lemma logs_lookups:
  assumes "logs r P w w'"
  shows "get_run k w' = get_run k w" "get_tool_call k w' = get_tool_call k w" "get_draft k w' = get_draft k w"
    "get_conversation k w' = get_conversation k w" "get_step_row i w' = get_step_row i w"
  using logs_frame [OF assms] by (simp_all add: table_defs)

lemma logs_other_run: "logs r P w w' \<Longrightarrow> k \<noteq> r \<Longrightarrow> run_log k (cur w') = run_log k (cur w)"
  by (auto simp: logs_def run_log_def filter_empty_conv)

lemma logs_prefix: "logs r P w w' \<Longrightarrow> prefix (run_log k (cur w)) (run_log k (cur w'))"
  by (auto simp: logs_def run_log_def)

lemma quiet_mono: "quiet P w w' \<Longrightarrow> (\<And>rq. P rq \<Longrightarrow> Q rq) \<Longrightarrow> quiet Q w w'"
  by (auto simp: quiet_def only_requests_def list_all_iff)

lemma logs_mono: "logs r P w w' \<Longrightarrow> (\<And>rq. P rq \<Longrightarrow> Q rq) \<Longrightarrow> logs r Q w w'"
  unfolding logs_def by (auto simp: only_requests_def list_all_iff)

end
