(* ===== verification/Suggestions.thy ===== *)
theory Suggestions
  imports Effects Research
begin

text \<open>
  The proactive suggestions of a workflow step (\<open>agent/suggestions.py\<close>): historical bands from
  PriceFRAME, market bands from research, one blended event per eligible field, and the
  emission into the run's log. Contracts, steps and fields are raw contract JSON; the tasks
  under \<open>asyncio.gather\<close> run in order here (their interleaving over the budget is \<open>fan_step\<close>).
  An outer \<open>None\<close> is an exception that leaves the function.
\<close>

section \<open>Reading the contract\<close>

definition event_ready :: string where "event_ready = ''v1.suggestion.ready''"
definition event_no_signal :: string where "event_no_signal = ''v1.suggestion.no_signal''"

definition get_key :: "json \<Rightarrow> string \<Rightarrow> json" where
  "get_key v k = (case v of JObj d \<Rightarrow> d_get d k | _ \<Rightarrow> JNull)"

text \<open>\<open>_coerce_sources\<close> and \<open>_coerce_filter_keys\<close>.\<close>

definition coerce_list :: "json \<Rightarrow> json list" where
  "coerce_list v = (case v of
      JNull \<Rightarrow> []
    | JStr s \<Rightarrow> [JStr s]
    | JArr xs \<Rightarrow> filter (\<lambda>x. x \<noteq> JNull) xs
    | JObj d \<Rightarrow> map (JStr \<circ> fst) d
    | _ \<Rightarrow> [])"

definition summary_of :: "dict \<Rightarrow> dict" where
  "summary_of draft = (case d_get draft ''summary'' of JObj s \<Rightarrow> s | _ \<Rightarrow> [])"

text \<open>The draft value under a filter key; an unhashable key raises.\<close>

definition ctx_candidate :: "dict \<Rightarrow> json \<Rightarrow> json option" where
  "ctx_candidate draft key = (case key of
      JStr k \<Rightarrow> Some (if d_has (summary_of draft) k then d_get (summary_of draft) k else d_get draft k)
    | _ \<Rightarrow> if py_hashable key then Some JNull else None)"

definition ctx_step :: "dict \<Rightarrow> dict \<Rightarrow> json \<Rightarrow> dict option" where
  "ctx_step draft ctx key = map_option (\<lambda>v.
     if is_blank v then ctx else (case key of JStr k \<Rightarrow> d_set ctx k v | _ \<Rightarrow> ctx)) (ctx_candidate draft key)"

definition build_suggestion_ctx :: "dict \<Rightarrow> json list \<Rightarrow> dict option" where
  "build_suggestion_ctx draft filter_keys =
     (if draft = [] then Some [] else ofold (ctx_step draft) [] filter_keys)"

definition contract_id_of :: "json \<Rightarrow> json" where
  "contract_id_of contract = py_or (get_key contract ''id'') (get_key contract ''contract_id'')"

definition contract_version_of :: "json \<Rightarrow> json" where
  "contract_version_of contract = py_or (get_key contract ''version'') (get_key contract ''contract_version'')"

definition key_unless_null :: "string \<Rightarrow> json \<Rightarrow> dict" where
  "key_unless_null k v = (if v = JNull then [] else [(k, v)])"

definition step_identity :: "json \<Rightarrow> json \<Rightarrow> dict" where
  "step_identity contract step = key_unless_null ''step_id'' (get_key step ''id'') @
     key_unless_null ''contract_id'' (contract_id_of contract) @
     key_unless_null ''contract_version'' (contract_version_of contract)"

definition step_fields :: "json \<Rightarrow> json list option" where
  "step_fields step = py_iter (py_or (get_key step ''fields'') (JArr []))"

text \<open>The declared sources of a field with a proactive suggestion.\<close>

definition proactive_sources :: "json \<Rightarrow> json list option" where
  "proactive_sources field =
     (let suggestion = get_key field ''suggestion''
      in if suggestion = JNull \<or> get_key suggestion ''mode'' \<noteq> JStr ''proactive'' then None
         else Some (coerce_list (get_key suggestion ''sources'')))"

definition has_source :: "string \<Rightarrow> json \<Rightarrow> bool" where
  "has_source src field = (case proactive_sources field of None \<Rightarrow> False | Some srcs \<Rightarrow> JStr src \<in> set srcs)"

definition field_name :: "json \<Rightarrow> string option" where
  "field_name field = (case get_key field ''id'' of JStr f \<Rightarrow> if f = [] then None else Some f | _ \<Rightarrow> None)"

section \<open>Historical bands\<close>

type_synonym suggestion_event = "string \<times> dict"

definition historical_target :: "dict \<Rightarrow> json \<Rightarrow> (string \<times> dict) option option" where
  "historical_target draft field =
     (if \<not> has_source ''historical'' field then Some None
      else map_option (\<lambda>ctx. map_option (\<lambda>f. (f, ctx)) (field_name field))
        (build_suggestion_ctx draft
          (coerce_list (get_key (get_key (get_key field ''suggestion'') ''historical'') ''filter_keys''))))"

definition historical_targets :: "dict \<Rightarrow> json \<Rightarrow> (string \<times> dict) list option" where
  "historical_targets draft step = do {
     flds \<leftarrow> step_fields step;
     ts \<leftarrow> omap (historical_target draft) flds;
     Some (List.map_filter id ts)
   }"

definition suggestions_tool :: tool where
  "suggestions_tool = mk_tool ''get_field_suggestions'' ''agent.suggestions.read'' READ"

text \<open>The event for PriceFRAME's answer about one field.\<close>

definition historical_event :: "dict \<Rightarrow> json \<Rightarrow> suggestion_event" where
  "historical_event base data = (case data of
      JObj d \<Rightarrow>
        if py_truthy (d_get d ''no_signal'')
        then (event_no_signal, base @ [(''reason'', JStr ''below_min_sample_size''),
               (''sample_size'', case map_of d ''sample_size'' of None \<Rightarrow> JInt 0 | Some n \<Rightarrow> n),
               (''basis'', d_get d ''basis''), (''as_of'', d_get d ''as_of'')])
        else let payload = base @ map (\<lambda>k. (k, d_get d k))
                   [''value'', ''unit'', ''sample_size'', ''range'', ''basis'', ''as_of'']
             in (event_ready, case d_get d ''context_used'' of
                   JObj u \<Rightarrow> d_set payload ''context_used'' (JObj u) | _ \<Rightarrow> payload)
    | _ \<Rightarrow> (event_no_signal, base @ [(''reason'', JStr ''empty_response'')]))"

definition fetch_one ::
    "env \<Rightarrow> pf_client \<Rightarrow> auth_context \<Rightarrow> dict \<Rightarrow> string \<times> dict \<Rightarrow> world \<Rightarrow> suggestion_event \<times> world" where
  "fetch_one e c auth identity target w =
     (let base = [(''field_id'', JStr (fst target)), (''context_used'', JObj (snd target))] @ identity
      in case execute e c auth suggestions_tool (FieldSuggestionsInput (fst target) (snd target)) w of
           (Inl err, w') \<Rightarrow> ((event_no_signal,
               base @ [(''reason'', JStr ''error''), (''error'', JStr (exc_text err))]), w')
         | (Inr out, w') \<Rightarrow> (historical_event base (d_get out ''data''), w'))"

primrec fetch_all ::
    "env \<Rightarrow> pf_client \<Rightarrow> auth_context \<Rightarrow> dict \<Rightarrow> (string \<times> dict) list \<Rightarrow> world \<Rightarrow>
     suggestion_event list \<times> world" where
  "fetch_all e c auth identity [] w = ([], w)"
| "fetch_all e c auth identity (t # ts) w =
     (case fetch_one e c auth identity t w of
        (ev, w1) \<Rightarrow> (case fetch_all e c auth identity ts w1 of (evs, w2) \<Rightarrow> (ev # evs, w2)))"

definition fan_out_historical_suggestions ::
    "env \<Rightarrow> pf_client \<Rightarrow> auth_context \<Rightarrow> json \<Rightarrow> json \<Rightarrow> dict \<Rightarrow> world \<Rightarrow>
     suggestion_event list option \<times> world" where
  "fan_out_historical_suggestions e c auth contract step draft w =
     (case historical_targets draft step of
        None \<Rightarrow> (None, w)
      | Some ts \<Rightarrow> apfst Some (fetch_all e c auth (step_identity contract step) ts w))"

definition historical_band :: "suggestion_event option \<Rightarrow> dict option" where
  "historical_band ev = (case ev of
      None \<Rightarrow> None
    | Some (ty, payload) \<Rightarrow>
        if ty \<noteq> event_ready then None
        else Some (List.map_filter (\<lambda>k. if d_has payload k then Some (k, d_get payload k) else None)
               [''value'', ''unit'', ''sample_size'', ''range'', ''basis'', ''as_of'', ''context_used'']))"

section \<open>Market bands\<close>

definition setdefault :: "dict \<Rightarrow> string \<times> json \<Rightarrow> dict" where
  "setdefault d kv = (if d_has d (fst kv) then d else d @ [kv])"

definition render_research_query :: "research_cfg \<Rightarrow> string \<Rightarrow> dict \<Rightarrow> string \<Rightarrow> string" where
  "render_research_query cfg template draft f =
     (let context = foldl setdefault [(''field_id'', JStr f)] (summary_of draft @ draft)
      in case rc_format_map cfg template context of None \<Rightarrow> template | Some q \<Rightarrow> q)"

definition market_target :: "research_cfg \<Rightarrow> json \<Rightarrow> (string \<times> string \<times> int) option" where
  "market_target cfg field =
     (if \<not> has_source ''market'' field then None
      else let spec = get_key (get_key field ''suggestion'') ''market''
           in if spec = JNull then None
              else (case get_key spec ''research_query_template'' of
                      JStr template \<Rightarrow>
                        if template = [] then None
                        else map_option (\<lambda>f. (f, template,
                               case int_val (get_key spec ''max_age_seconds'') of
                                 Some t \<Rightarrow> if t \<le> 0 then rc_default_max_age cfg else t
                               | None \<Rightarrow> rc_default_max_age cfg)) (field_name field)
                    | _ \<Rightarrow> None))"

text \<open>\<open>_research_one\<close>: a query the input model refuses, or an exception, is the empty payload.\<close>

definition research_one ::
    "env \<Rightarrow> research_cfg \<Rightarrow> dict \<Rightarrow> string \<times> string \<times> int \<Rightarrow> research_state \<Rightarrow> world \<Rightarrow>
     dict \<times> research_state \<times> world" where
  "research_one e cfg draft target rs w =
     (case target of (f, template, max_age) \<Rightarrow>
        let query = render_research_query cfg template draft f
        in if query = [] \<or> max_age < 1 then (empty_payload, rs, w)
           else (case research e cfg query (Some max_age) rs w of
                   (r, rs', w') \<Rightarrow> (case r of None \<Rightarrow> empty_payload | Some p \<Rightarrow> p, rs', w')))"

primrec research_all ::
    "env \<Rightarrow> research_cfg \<Rightarrow> dict \<Rightarrow> (string \<times> string \<times> int) list \<Rightarrow> research_state \<Rightarrow> world \<Rightarrow>
     (string \<times> dict) list \<times> research_state \<times> world" where
  "research_all e cfg draft [] rs w = ([], rs, w)"
| "research_all e cfg draft (t # ts) rs w =
     (case research_one e cfg draft t rs w of
        (p, rs1, w1) \<Rightarrow> (case research_all e cfg draft ts rs1 w1 of
           (ps, rs2, w2) \<Rightarrow> ((fst t, p) # ps, rs2, w2)))"

text \<open>The payloads by field; of two with the same field the last one is kept.\<close>

definition fan_out_market_suggestions ::
    "env \<Rightarrow> research_cfg \<Rightarrow> json \<Rightarrow> dict \<Rightarrow> research_state \<Rightarrow> world \<Rightarrow>
     (string \<times> dict) list option \<times> research_state \<times> world" where
  "fan_out_market_suggestions e cfg step draft rs w =
     (case step_fields step of
        None \<Rightarrow> (None, rs, w)
      | Some flds \<Rightarrow> apfst (\<lambda>ps. Some (rev ps))
          (research_all e cfg draft (List.map_filter (market_target cfg) flds) rs w))"

definition market_band :: "dict option \<Rightarrow> dict option" where
  "market_band payload = (case payload of
      None \<Rightarrow> None
    | Some p \<Rightarrow>
        let v = d_get p ''value'';
            confidence = (case map_of p ''confidence'' of None \<Rightarrow> JFlt (Fin 0) | Some x \<Rightarrow> x);
            citations = py_or (d_get p ''citations'') (JArr [])
        in if v = JNull \<and> \<not> py_truthy citations \<and> \<not> py_truthy confidence then None
           else Some [(''value'', v), (''confidence'', confidence),
                  (''summary'', case map_of p ''summary'' of None \<Rightarrow> JStr [] | Some s \<Rightarrow> s),
                  (''citations'', citations), (''cache_hit'', JBool (py_truthy (d_get p ''cache_hit'')))])"

section \<open>Blending per field\<close>

text \<open>Thresholds of a field; \<open>float\<close> of a huge int raises.\<close>

definition confidence_threshold_for :: "json \<Rightarrow> pyfloat option" where
  "confidence_threshold_for field =
     map_option (\<lambda>t. case t of None \<Rightarrow> mk_float (1 / 2) | Some x \<Rightarrow> x)
       (num_float (get_key (get_key field ''suggestion'') ''confidence_threshold''))"

definition historical_min_sample_for :: "json \<Rightarrow> int" where
  "historical_min_sample_for field =
     (case get_key (get_key (get_key field ''suggestion'') ''historical'') ''min_sample_size'' of
        JInt n \<Rightarrow> n | _ \<Rightarrow> 3)"

definition eligible_fields :: "json list \<Rightarrow> string list" where
  "eligible_fields flds = List.map_filter (\<lambda>field.
     if has_source ''historical'' field \<or> has_source ''market'' field then field_name field else None) flds"

text \<open>The dicts \<open>fields_by_id\<close> and \<open>historical_by_field\<close>: the last entry of a name wins.\<close>

definition field_by_id :: "json list \<Rightarrow> string \<Rightarrow> json" where
  "field_by_id flds f =
     (case find (\<lambda>field. get_key field ''id'' = JStr f) (rev flds) of None \<Rightarrow> JNull | Some field \<Rightarrow> field)"

definition event_of_field :: "suggestion_event list \<Rightarrow> string \<Rightarrow> suggestion_event option" where
  "event_of_field evs f = find (\<lambda>ev. d_get (snd ev) ''field_id'' = JStr f) (rev evs)"

definition band_json :: "dict option \<Rightarrow> json" where
  "band_json b = (case b of None \<Rightarrow> JNull | Some d \<Rightarrow> JObj d)"

definition inherited_keys :: "suggestion_event option \<Rightarrow> dict" where
  "inherited_keys ev = (case ev of
      None \<Rightarrow> []
    | Some (ty, payload) \<Rightarrow> List.map_filter (\<lambda>k. if d_has payload k then Some (k, d_get payload k) else None)
        [''context_used'', ''as_of''])"

definition metric_sources :: "string list \<Rightarrow> string list" where
  "metric_sources srcs =
     (if ''historical'' \<in> set srcs \<and> ''market'' \<in> set srcs then srcs @ [''blended''] else srcs)"

definition increment_suggestion_sources :: "string list \<Rightarrow> world \<Rightarrow> world" where
  "increment_suggestion_sources srcs w =
     foldl (\<lambda>w s. if s = [] then w else record_metric (SuggestionSource s) w) w srcs"

definition increment_suggestion_no_signal :: "string \<Rightarrow> world \<Rightarrow> world" where
  "increment_suggestion_no_signal f w = (if f = [] then w else record_metric (SuggestionNoSignal f) w)"

definition add_missing :: "dict \<Rightarrow> dict \<Rightarrow> string \<Rightarrow> dict" where
  "add_missing src payload k =
     (if d_has src k \<and> \<not> d_has payload k then payload @ [(k, d_get src k)] else payload)"

definition echoed_keys :: "string list" where
  "echoed_keys = [''unit'', ''sample_size'', ''range'', ''basis'']"

definition ready_payload :: "dict \<Rightarrow> dict option \<Rightarrow> dict option \<Rightarrow> blend_result \<Rightarrow> dict" where
  "ready_payload base hb mb res =
     (let v = (case br_value res of None \<Rightarrow> JNull | Some x \<Rightarrow> JFlt x);
          p1 = base @ [(''historical'', band_json hb), (''market'', band_json mb),
                 (''proposed'', JObj [(''value'', v), (''rationale'', JStr (br_rationale res)),
                    (''sources_used'', jstrs (br_sources_used res))])];
          p2 = (case hb of
                  Some d \<Rightarrow> if ''historical'' \<in> set (br_sources_used res)
                            then foldl (add_missing d) p1 echoed_keys else p1
                | None \<Rightarrow> p1)
      in if v \<noteq> JNull \<and> \<not> d_has p2 ''value'' then p2 @ [(''value'', v)] else p2)"

definition blended_event :: "dict \<Rightarrow> dict option \<Rightarrow> dict option \<Rightarrow> string \<Rightarrow> blend_result \<Rightarrow> world \<Rightarrow>
    suggestion_event \<times> world" where
  "blended_event base hb mb f res w =
     (if br_no_signal res
      then ((event_no_signal, base @ [(''reason'', JStr (case br_reason res of Some r \<Rightarrow> if r = [] then
                ''confidence_below_threshold'' else r | None \<Rightarrow> ''confidence_below_threshold'')),
              (''historical'', band_json hb), (''market'', band_json mb)]),
            increment_suggestion_no_signal f w)
      else ((event_ready, ready_payload base hb mb res),
            increment_suggestion_sources (metric_sources (br_sources_used res)) w))"

definition blend_one ::
    "env \<Rightarrow> research_cfg \<Rightarrow> json \<Rightarrow> string \<Rightarrow> dict \<Rightarrow> dict option \<Rightarrow> dict option \<Rightarrow> run_budget \<Rightarrow> world \<Rightarrow>
     suggestion_event option \<times> run_budget \<times> world" where
  "blend_one e cfg field f base hb mb b w =
     (case confidence_threshold_for field of
        None \<Rightarrow> (None, b, w)
      | Some threshold \<Rightarrow>
          (case blend_async (float_text e)
                  \<lparr>min_sample_size = historical_min_sample_for field, confidence_threshold = threshold,
                    disagreement_threshold = rc_disagreement cfg\<rparr>
                  (if rc_configured cfg then rc_flash cfg else None) hb mb b of
             (None, b') \<Rightarrow> (None, b', w)
           | (Some res, b') \<Rightarrow>
               (case blended_event base hb mb f res w of (ev, w') \<Rightarrow> (Some ev, b', w'))))"

text \<open>One turn of the blending loop.\<close>

definition suggest_field ::
    "env \<Rightarrow> research_cfg \<Rightarrow> dict \<Rightarrow> json list \<Rightarrow> suggestion_event list \<Rightarrow> (string \<times> dict) list \<Rightarrow>
     string \<Rightarrow> run_budget \<Rightarrow> world \<Rightarrow> suggestion_event option \<times> run_budget \<times> world" where
  "suggest_field e cfg identity flds historical market f b w =
     (let field = field_by_id flds f;
          hev = event_of_field historical f;
          hb = historical_band hev;
          mb = market_band (map_of market f);
          base = [(''field_id'', JStr f)] @ identity @ inherited_keys hev
      in case hev of
           Some (ty, payload) \<Rightarrow>
             if JStr ''market'' \<notin> set (coerce_list (get_key (get_key field ''suggestion'') ''sources''))
             then (Some (ty, payload), b,
                   if ty = event_ready then increment_suggestion_sources [''historical''] w
                   else if ty = event_no_signal then increment_suggestion_no_signal f w else w)
             else blend_one e cfg field f base hb mb b w
         | None \<Rightarrow> blend_one e cfg field f base hb mb b w)"

primrec suggest_fields ::
    "env \<Rightarrow> research_cfg \<Rightarrow> dict \<Rightarrow> json list \<Rightarrow> suggestion_event list \<Rightarrow> (string \<times> dict) list \<Rightarrow>
     string list \<Rightarrow> run_budget \<Rightarrow> world \<Rightarrow> suggestion_event list option \<times> run_budget \<times> world" where
  "suggest_fields e cfg identity flds historical market [] b w = (Some [], b, w)"
| "suggest_fields e cfg identity flds historical market (f # fs) b w =
     (case suggest_field e cfg identity flds historical market f b w of
        (None, b1, w1) \<Rightarrow> (None, b1, w1)
      | (Some ev, b1, w1) \<Rightarrow>
          (case suggest_fields e cfg identity flds historical market fs b1 w1 of
             (None, b2, w2) \<Rightarrow> (None, b2, w2)
           | (Some evs, b2, w2) \<Rightarrow> (Some (ev # evs), b2, w2)))"

text \<open>\<open>fan_out_suggestions\<close>, with the fresh cache it builds and the budget it is handed.\<close>

definition fan_out_suggestions ::
    "env \<Rightarrow> pf_client \<Rightarrow> research_cfg \<Rightarrow> auth_context \<Rightarrow> json \<Rightarrow> json \<Rightarrow> dict \<Rightarrow> run_budget \<Rightarrow> world \<Rightarrow>
     suggestion_event list option \<times> run_budget \<times> world" where
  "fan_out_suggestions e c cfg auth contract step draft b w =
     (case step_fields step of
        None \<Rightarrow> (None, b, w)
      | Some flds \<Rightarrow>
          (case fan_out_historical_suggestions e c auth contract step draft w of
             (historical, w1) \<Rightarrow>
               (case fan_out_market_suggestions e cfg step draft \<lparr>rs_cache = [], rs_budget = b\<rparr> w1 of
                  (market, rs, w2) \<Rightarrow>
                    (case (historical, market) of
                       (Some hist, Some mkt) \<Rightarrow>
                         suggest_fields e cfg (step_identity contract step) flds hist mkt
                           (eligible_fields flds) (rs_budget rs) w2
                     | _ \<Rightarrow> (None, rs_budget rs, w2)))))"

primrec append_events :: "env \<Rightarrow> string \<Rightarrow> suggestion_event list \<Rightarrow> world \<Rightarrow> world" where
  "append_events e run_id [] w = w"
| "append_events e run_id (ev # evs) w = append_events e run_id evs (emit e run_id (fst ev) (snd ev) w)"

text \<open>Without a client or without the permission nothing happens.\<close>

definition emit_suggestions ::
    "env \<Rightarrow> pf_client option \<Rightarrow> research_cfg \<Rightarrow> auth_context \<Rightarrow> string \<Rightarrow> json \<Rightarrow> json \<Rightarrow> dict \<Rightarrow>
     run_budget \<Rightarrow> world \<Rightarrow> suggestion_event list option \<times> run_budget \<times> world" where
  "emit_suggestions e client cfg auth run_id contract step draft b w =
     (case client of
        None \<Rightarrow> (Some [], b, w)
      | Some c \<Rightarrow>
          if \<not> has_permission auth ''agent.suggestions.read'' then (Some [], b, w)
          else (case fan_out_suggestions e c cfg auth contract step draft b w of
                  (None, b', w') \<Rightarrow> (None, b', w')
                | (Some evs, b', w') \<Rightarrow> (Some evs, b', append_events e run_id evs w')))"

definition emit_historical_suggestions ::
    "env \<Rightarrow> pf_client option \<Rightarrow> auth_context \<Rightarrow> string \<Rightarrow> json \<Rightarrow> json \<Rightarrow> dict \<Rightarrow> world \<Rightarrow>
     suggestion_event list option \<times> world" where
  "emit_historical_suggestions e client auth run_id contract step draft w =
     (case client of
        None \<Rightarrow> (Some [], w)
      | Some c \<Rightarrow>
          if \<not> has_permission auth ''agent.suggestions.read'' then (Some [], w)
          else (case fan_out_historical_suggestions e c auth contract step draft w of
                  (None, w') \<Rightarrow> (None, w')
                | (Some evs, w') \<Rightarrow> (Some evs, append_events e run_id evs w')))"

section \<open>Laws\<close>

definition suggestion_read :: "pf_request \<Rightarrow> bool" where
  "suggestion_read rq \<longleftrightarrow> rq_method rq = ''GET'' \<and> rq_path rq = ''/api/v1/agent/suggestions''"

lemma ask_quiet: "quiet suggestion_read w (snd (execute e c auth suggestions_tool (FieldSuggestionsInput f ctx) w))"
proof (rule quiet_sends)
  show "only_requests suggestion_read w (snd (execute e c auth suggestions_tool (FieldSuggestionsInput f ctx) w))"
    by (auto simp: execute_def suggestion_read_def intro!: calls_once_requests calls_once_mono [OF get_json_once])
qed (rule priceframe_tools.reach)

lemma fetch_one_quiet: "quiet suggestion_read w (snd (fetch_one e c auth identity t w))"
  using ask_quiet by (auto simp: fetch_one_def Let_def split_def split: sum.split)

lemma fetch_all_quiet: "quiet suggestion_read w (snd (fetch_all e c auth identity ts w))"
proof (induction ts arbitrary: w)
  case (Cons t ts)
  then show ?case
    using quiet_trans [OF fetch_one_quiet [of w e c auth identity t]] by (auto simp: split_def)
qed simp

lemma fan_out_historical_quiet:
  "quiet suggestion_read w (snd (fan_out_historical_suggestions e c auth contract step draft w))"
  by (simp add: fan_out_historical_suggestions_def fetch_all_quiet split: option.split)

lemma research_quiet: "quiet P w (snd (snd (research e cfg q age rs w)))"
proof -
  have "quiet P w (observe_web_research_cost x (w\<lparr>tick := t\<rparr>))" for x t
    using quiet_trans [OF quiet_tick(1) quiet_tick(2)] by (simp add: observe_web_research_cost_def)
  moreover have "quiet P w ((observe_web_research_cost x (w\<lparr>tick := t\<rparr>))\<lparr>tick := t'\<rparr>)" for x t t'
    using quiet_trans [OF calculation quiet_tick(1)] .
  ultimately show ?thesis
    by (auto simp: research_def utc_now_def Let_def split: option.split prod.split gemini_reply.split)
qed

lemma research_one_quiet: "quiet P w (snd (snd (research_one e cfg draft t rs w)))"
  using research_quiet by (auto simp: research_one_def Let_def split_def)

lemma research_all_quiet: "quiet P w (snd (snd (research_all e cfg draft ts rs w)))"
proof (induction ts arbitrary: rs w)
  case (Cons t ts)
  then show ?case
    using quiet_trans [OF research_one_quiet [of P w e cfg draft t rs]] by (auto simp: split_def)
qed simp

lemma fan_out_market_quiet: "quiet P w (snd (snd (fan_out_market_suggestions e cfg step draft rs w)))"
  by (simp add: fan_out_market_suggestions_def research_all_quiet split: option.split)

lemma increment_quiet:
  "quiet P w (increment_suggestion_sources srcs w)" "quiet P w (increment_suggestion_no_signal f w)"
proof -
  show "quiet P w (increment_suggestion_sources srcs w)"
    unfolding increment_suggestion_sources_def
  proof (induction srcs arbitrary: w)
    case (Cons s srcs)
    then show ?case by (cases "s = []") (auto intro: quiet_trans [OF quiet_tick(2)])
  qed simp
qed (simp add: increment_suggestion_no_signal_def)

lemma blended_event_quiet: "quiet P w (snd (blended_event base hb mb f res w))"
  by (simp add: blended_event_def increment_quiet)

lemma blend_one_quiet: "quiet P w (snd (snd (blend_one e cfg field f base hb mb b w)))"
  using blended_event_quiet by (auto simp: blend_one_def split_def split: option.split)

lemma suggest_field_quiet: "quiet P w (snd (snd (suggest_field e cfg idy flds hist mkt f b w)))"
  by (auto simp: suggest_field_def Let_def blend_one_quiet increment_quiet split: option.split)

lemma suggest_fields_quiet: "quiet P w (snd (snd (suggest_fields e cfg idy flds hist mkt fs b w)))"
proof (induction fs arbitrary: b w)
  case (Cons f fs)
  obtain r b1 w1 where one: "suggest_field e cfg idy flds hist mkt f b w = (r, b1, w1)" by (metis surj_pair)
  have w1: "quiet P w w1" using suggest_field_quiet [of P w e cfg idy flds hist mkt f b] one by simp
  show ?case
    using one w1 quiet_trans [OF w1 Cons.IH [of w1 b1]]
    by (auto simp: split: option.split prod.split)
qed simp

lemma fan_out_quiet: "quiet suggestion_read w (snd (snd (fan_out_suggestions e c cfg auth contract step draft b w)))"
proof (cases "step_fields step")
  case (Some flds)
  obtain h w1 where h: "fan_out_historical_suggestions e c auth contract step draft w = (h, w1)" by fastforce
  obtain m rs w2 where m: "fan_out_market_suggestions e cfg step draft \<lparr>rs_cache = [], rs_budget = b\<rparr> w1 = (m, rs, w2)"
    by (metis surj_pair)
  have w2: "quiet suggestion_read w w2"
    using fan_out_historical_quiet [of w e c auth contract step draft] h m quiet_trans
      fan_out_market_quiet [of suggestion_read w1 e cfg step draft "\<lparr>rs_cache = [], rs_budget = b\<rparr>"] by auto
  show ?thesis using Some h m w2 quiet_trans [OF w2 suggest_fields_quiet]
    by (auto simp: fan_out_suggestions_def split: option.split)
qed (simp add: fan_out_suggestions_def)

lemma append_events_logs: "logs r P w (append_events e r evs w)"
proof (induction evs arbitrary: w)
  case (Cons ev evs)
  then show ?case by (auto intro: logs_trans [OF emit_logs])
qed simp

lemma emit_suggestions_logs:
  "logs r suggestion_read w (snd (snd (emit_suggestions e cl cfg auth r contract step draft b w)))"
proof (cases "cl = None \<or> \<not> has_permission auth ''agent.suggestions.read''")
  case False
  then obtain c where cl: "cl = Some c" by auto
  obtain evs b' w' where f: "fan_out_suggestions e c cfg auth contract step draft b w = (evs, b', w')"
    by (metis surj_pair)
  have "logs r suggestion_read w w'"
    using quiet_logs [OF fan_out_quiet [of w e c cfg auth contract step draft b]] f by simp
  then show ?thesis using False cl f logs_trans [OF _ append_events_logs]
    by (auto simp: emit_suggestions_def split: option.split)
qed (auto simp: emit_suggestions_def split: option.split)

lemma d_get_Cons: "d_get ((k, v) # d) k' = (if k = k' then v else d_get d k')"
  by (simp add: d_get_def)

definition event_shape :: "suggestion_event \<Rightarrow> bool" where
  "event_shape ev \<longleftrightarrow> fst ev = event_ready \<or> fst ev = event_no_signal \<and> is_str (d_get (snd ev) ''reason'')"

text \<open>Keys of the identity never shadow the reason of an event.\<close>

lemma step_identity_reason [simp]: "d_get (step_identity contract step @ d) ''reason'' = d_get d ''reason''"
  by (simp add: step_identity_def key_unless_null_def d_get_Cons)

lemma historical_event_shape:
  "event_shape (historical_event ((''field_id'', x) # (''context_used'', y) # step_identity ct st) data)"
  by (cases data) (simp_all add: historical_event_def event_shape_def d_get_Cons py Let_def)

lemma fetch_one_shape: "event_shape (fst (fetch_one e c auth (step_identity ct st) t w))"
proof -
  obtain r w1 where x: "execute e c auth suggestions_tool (FieldSuggestionsInput (fst t) (snd t)) w = (r, w1)"
    by fastforce
  show ?thesis
  proof (cases r)
    case (Inl err) with x show ?thesis by (simp add: fetch_one_def event_shape_def d_get_Cons py)
  next
    case (Inr out)
    with x historical_event_shape [of "JStr (fst t)" "JObj (snd t)" ct st "d_get out ''data''"]
    show ?thesis by (simp add: fetch_one_def)
  qed
qed

lemma fetch_all_shape: "list_all event_shape (fst (fetch_all e c auth (step_identity ct st) ts w))"
proof (induction ts arbitrary: w)
  case (Cons t ts)
  then show ?case using fetch_one_shape by (simp add: split_def)
qed simp

lemma event_of_fieldD:
  "event_of_field evs f = Some ev \<Longrightarrow> ev \<in> set evs \<and> d_get (snd ev) ''field_id'' = JStr f"
  unfolding event_of_field_def by (drule find_SomeD) simp

lemma d_get_append_first: "map_of d k = Some v \<Longrightarrow> d_get (d @ d') k = v"
  by (simp add: d_get_def)

lemma inherited_reason: "d_get (inherited_keys ev @ d) ''reason'' = d_get d ''reason''"
  by (auto simp: inherited_keys_def d_get_Cons List.map_filter_def split: option.split)

lemma add_missing_keeps: "map_of payload k = Some v \<Longrightarrow> map_of (add_missing src payload k') k = Some v"
  by (auto simp: add_missing_def)

lemma foldl_add_missing_keeps: "map_of p k = Some v \<Longrightarrow> map_of (foldl (add_missing src) p ks) k = Some v"
  by (induction ks arbitrary: p) (simp_all add: add_missing_keeps)

lemma map_of_append_first: "map_of d k = Some v \<Longrightarrow> map_of (d @ d') k = Some v"
  by simp

lemma ready_payload_keeps:
  assumes "map_of base k = Some v" shows "d_get (ready_payload base hb mb res) k = v"
proof -
  define val where "val = (case br_value res of None \<Rightarrow> JNull | Some x \<Rightarrow> JFlt x)"
  define p1 where "p1 = base @ [(''historical'', band_json hb), (''market'', band_json mb),
    (''proposed'', JObj [(''value'', val), (''rationale'', JStr (br_rationale res)),
       (''sources_used'', jstrs (br_sources_used res))])]"
  define p2 where "p2 = (case hb of Some d \<Rightarrow> if ''historical'' \<in> set (br_sources_used res)
    then foldl (add_missing d) p1 echoed_keys else p1 | None \<Rightarrow> p1)"
  have "map_of p1 k = Some v" unfolding p1_def by (rule map_of_append_first [OF assms])
  then have "map_of p2 k = Some v"
    unfolding p2_def by (simp add: foldl_add_missing_keeps split: option.split)
  then have "map_of (if c then p2 @ d else p2) k = Some v" for c d by simp
  then have "d_get (if c then p2 @ d else p2) k = v" for c d by (simp only: d_get_def option.case)
  then show ?thesis
    unfolding ready_payload_def Let_def val_def [symmetric] p1_def [symmetric] p2_def [symmetric] .
qed

lemma blend_one_shape:
  assumes "blend_one e cfg field f ((''field_id'', JStr f) # step_identity ct st @ inherited_keys hev) hb mb b w = (Some ev, b', w')"
  shows "event_shape ev \<and> d_get (snd ev) ''field_id'' = JStr f"
proof -
  let ?base = "(''field_id'', JStr f) # step_identity ct st @ inherited_keys hev"
  obtain res where "blended_event ?base hb mb f res w = (ev, w')"
    using assms by (auto simp: blend_one_def split: option.splits prod.splits)
  then have ev: "ev = fst (blended_event ?base hb mb f res w)" by simp
  have "map_of ?base ''field_id'' = Some (JStr f)" by simp
  then show ?thesis using ready_payload_keeps [of ?base "''field_id''" "JStr f" hb mb res]
    by (auto simp: ev blended_event_def event_shape_def d_get_Cons inherited_reason py)
qed

lemma suggest_field_shape:
  assumes "suggest_field e cfg (step_identity ct st) flds hist mkt f b w = (Some ev, b', w')" and "list_all event_shape hist"
  shows "event_shape ev \<and> d_get (snd ev) ''field_id'' = JStr f"
proof (cases "event_of_field hist f")
  case None
  with assms(1) show ?thesis by (simp add: suggest_field_def Let_def) (erule blend_one_shape)
next
  case (Some hev)
  then have "event_shape hev \<and> d_get (snd hev) ''field_id'' = JStr f"
    using event_of_fieldD [OF Some] assms(2) by (simp add: list_all_iff)
  with assms(1) Some show ?thesis
    by (cases hev) (auto simp: suggest_field_def Let_def split: if_splits dest: blend_one_shape)
qed

lemma suggest_fields_shape:
  assumes "suggest_fields e cfg (step_identity ct st) flds hist mkt fs b w = (Some evs, b', w')" and "list_all event_shape hist"
  shows "map (\<lambda>ev. d_get (snd ev) ''field_id'') evs = map JStr fs \<and> list_all event_shape evs"
  using assms(1)
proof (induction fs arbitrary: b w evs)
  case (Cons f fs)
  obtain ev b1 w1 es b2 w2 where one: "suggest_field e cfg (step_identity ct st) flds hist mkt f b w = (Some ev, b1, w1)"
    and rest: "suggest_fields e cfg (step_identity ct st) flds hist mkt fs b1 w1 = (Some es, b', w')" and evs: "evs = ev # es"
    using Cons.prems by (auto split: option.splits prod.splits)
  from Cons.IH [OF rest] suggest_field_shape [OF one assms(2)] show ?case by (simp add: evs)
qed simp

lemma fan_out_shape:
  assumes "fan_out_suggestions e c cfg auth contract step draft b w = (Some evs, b', w')"
    and "step_fields step = Some flds"
  shows "map (\<lambda>ev. d_get (snd ev) ''field_id'') evs = map JStr (eligible_fields flds) \<and> list_all event_shape evs"
proof -
  obtain hist w1 where h: "fan_out_historical_suggestions e c auth contract step draft w = (Some hist, w1)"
    using assms by (auto simp: fan_out_suggestions_def split: option.splits prod.splits)
  then have "list_all event_shape hist"
    using fetch_all_shape
    by (auto simp: fan_out_historical_suggestions_def apfst_def map_prod_def split_def split: option.splits)
  moreover obtain mkt b1 w2 where
    "suggest_fields e cfg (step_identity contract step) flds hist mkt (eligible_fields flds) b1 w2 = (Some evs, b', w')"
    using assms h by (auto simp: fan_out_suggestions_def split: option.splits prod.splits)
  ultimately show ?thesis using suggest_fields_shape by blast
qed

section \<open>Properties\<close>

text \<open>
  C33: a fan-out that returns has answered every eligible field of the step, in the order of the
  contract and once each, with a ready event or with a no-signal event that names its reason,
  whatever PriceFRAME and Gemini replied.
\<close>

theorem suggestions_cover_fields:
  assumes "fan_out_suggestions e c cfg auth contract step draft b w = (Some evs, b', w')"
    and "step_fields step = Some flds"
  shows "map (\<lambda>ev. d_get (snd ev) ''field_id'') evs = map JStr (eligible_fields flds) \<and>
    list_all (\<lambda>ev. fst ev = event_ready \<or>
      fst ev = event_no_signal \<and> is_str (d_get (snd ev) ''reason'')) evs"
  using fan_out_shape [OF assms] by (simp add: event_shape_def [abs_def])

text \<open>
  emitting suggestions only reads and logs: the requests are GETs of the suggestions endpoint,
  the database of the agent changes by events appended to the log of this very run, and
  nothing is committed.
\<close>

theorem suggestions_only_read:
  "\<exists>evs. cur (snd (snd (emit_suggestions e cl cfg auth r contract step draft b w))) =
      (cur w)\<lparr>run_events := run_events (cur w) @ evs\<rparr> \<and> list_all (\<lambda>ev. ev_run_id ev = r) evs \<and>
    saved (snd (snd (emit_suggestions e cl cfg auth r contract step draft b w))) = saved w \<and>
    only_requests (\<lambda>rq. rq_method rq = ''GET'' \<and> rq_path rq = ''/api/v1/agent/suggestions'') w
      (snd (snd (emit_suggestions e cl cfg auth r contract step draft b w)))"
  using emit_suggestions_logs [of r w e cl cfg auth contract step draft b]
  by (auto simp: logs_def suggestion_read_def [abs_def] list_all_iff)

definition ctx_entry_ok :: "dict \<Rightarrow> json list \<Rightarrow> string \<times> json \<Rightarrow> bool" where
  "ctx_entry_ok draft keys kv \<longleftrightarrow> JStr (fst kv) \<in> set keys \<and> \<not> is_blank (snd kv) \<and>
     snd kv = (if d_has (summary_of draft) (fst kv) then d_get (summary_of draft) (fst kv) else d_get draft (fst kv))"

lemma ctx_step_sound:
  assumes "ctx_step draft ctx key = Some ctx'" and "key \<in> set keys" and "list_all (ctx_entry_ok draft keys) ctx"
  shows "list_all (ctx_entry_ok draft keys) ctx'"
proof (cases "ctx' = ctx")
  case False
  with assms(1) obtain k v where k: "key = JStr k" "ctx' = d_set ctx k v" "\<not> is_blank v"
    "v = (if d_has (summary_of draft) k then d_get (summary_of draft) k else d_get draft k)"
    by (cases key) (auto simp: ctx_step_def ctx_candidate_def split: if_splits)
  then have "ctx_entry_ok draft keys (k, v)" using assms(2) by (simp add: ctx_entry_ok_def)
  with k(2) assms(3) show ?thesis
    by (auto simp: list_all_iff d_set_def dest!: set_update_cases)
qed (use assms in simp)

text \<open>
  The context sent for a field holds only non-blank draft values of its declared filter keys,
  and for each of them the summary section takes precedence over the top level.
\<close>

theorem suggestion_ctx_sound:
  assumes "build_suggestion_ctx draft keys = Some ctx"
  shows "list_all (\<lambda>kv. JStr (fst kv) \<in> set keys \<and> \<not> is_blank (snd kv) \<and>
    snd kv = (if d_has (summary_of draft) (fst kv) then d_get (summary_of draft) (fst kv)
              else d_get draft (fst kv))) ctx"
proof (cases "draft = []")
  case False
  with assms have "ofold (ctx_step draft) [] keys = Some ctx" by (simp add: build_suggestion_ctx_def)
  then have "list_all (ctx_entry_ok draft keys) ctx"
    by (rule ofold_invariant) (auto intro: ctx_step_sound)
  then show ?thesis by (simp add: ctx_entry_ok_def [abs_def])
qed (use assms in \<open>simp add: build_suggestion_ctx_def\<close>)

theorem suggestion_ctx_sound_witness:
  "list_all (\<lambda>kv. JStr (fst kv) \<in> set [JStr ''fee'', JStr ''name''] \<and> \<not> is_blank (snd kv) \<and>
    snd kv = (if d_has (summary_of [(''summary'', JObj [(''name'', JStr ''n'')]), (''fee'', JInt 3)]) (fst kv)
              then d_get (summary_of [(''summary'', JObj [(''name'', JStr ''n'')]), (''fee'', JInt 3)]) (fst kv)
              else d_get [(''summary'', JObj [(''name'', JStr ''n'')]), (''fee'', JInt 3)] (fst kv)))
    [(''fee'', JInt 3), (''name'', JStr ''n'')]"
  by (rule suggestion_ctx_sound)
    (simp add: build_suggestion_ctx_def ctx_step_def ctx_candidate_def summary_of_def d_get_def d_has_def
      is_blank_def d_set_def)

definition demo_field :: json where
  "demo_field = JObj [(''id'', JStr ''fee''), (''suggestion'', JObj [(''mode'', JStr ''proactive''),
     (''sources'', JArr [JStr ''historical'']), (''historical'', JObj [(''filter_keys'', JArr [JStr ''name''])])])]"

definition demo_step :: json where
  "demo_step = JObj [(''id'', JStr ''prices''), (''fields'', JArr [demo_field])]"

definition demo_draft :: dict where
  "demo_draft = [(''summary'', JObj [(''name'', JStr ''n'')])]"

theorem suggestions_cover_fields_witness:
  "\<exists>evs b' w'. fan_out_suggestions demo_env (from_settings demo_env []) demo_research demo_context
      (JObj [(''id'', JStr ''c'')]) demo_step demo_draft (new_budget 5 (Fin 1)) (session_on empty_db) = (Some evs, b', w') \<and>
    map (\<lambda>ev. d_get (snd ev) ''field_id'') evs = map JStr (eligible_fields [demo_field]) \<and>
    list_all (\<lambda>ev. fst ev = event_ready \<or>
      fst ev = event_no_signal \<and> is_str (d_get (snd ev) ''reason'')) evs"
proof -
  have srcs: "has_source ''historical'' demo_field" "\<not> has_source ''market'' demo_field" "field_name demo_field = Some ''fee''"
    by (simp_all add: has_source_def proactive_sources_def demo_field_def get_key_def d_get_def coerce_list_def
        field_name_def)
  have flds: "step_fields demo_step = Some [demo_field]"
    by (simp add: step_fields_def demo_step_def get_key_def d_get_def py)
  have none: "fan_out_market_suggestions demo_env demo_research demo_step demo_draft rs v = (Some [], rs, v)" for rs v
    by (simp add: fan_out_market_suggestions_def flds market_target_def srcs List.map_filter_def)
  have hist: "fan_out_historical_suggestions demo_env (from_settings demo_env []) demo_context
      (JObj [(''id'', JStr ''c'')]) demo_step demo_draft w = (Some [(event_no_signal,
        [(''field_id'', JStr ''fee''), (''context_used'', JObj [(''name'', JStr ''n'')])] @
        step_identity (JObj [(''id'', JStr ''c'')]) demo_step @
        [(''reason'', JStr ''error''), (''error'', JStr ''Missing permission: agent.suggestions.read'')])], w)" for w
    by (simp add: fan_out_historical_suggestions_def historical_targets_def flds historical_target_def srcs
        List.map_filter_def)
      (simp add: fetch_one_def execute_def suggestions_tool_def has_permission_def demo_context_def
        demo_field_def demo_draft_def get_key_def d_get_def coerce_list_def build_suggestion_ctx_def
        ctx_step_def ctx_candidate_def summary_of_def d_has_def is_blank_def d_set_def)
  have src: "coerce_list (get_key (get_key demo_field ''suggestion'') ''sources'') = [JStr ''historical'']"
    by (simp add: demo_field_def get_key_def d_get_def coerce_list_def)
  obtain evs b' w' where run: "fan_out_suggestions demo_env (from_settings demo_env []) demo_research demo_context
      (JObj [(''id'', JStr ''c'')]) demo_step demo_draft (new_budget 5 (Fin 1)) (session_on empty_db) = (Some evs, b', w')"
    by (simp add: fan_out_suggestions_def flds hist none eligible_fields_def srcs List.map_filter_def
        suggest_field_def event_of_field_def d_get_Cons field_by_id_def Let_def)
      (simp add: demo_field_def get_key_def d_get_Cons src coerce_list_def)
  from suggestions_cover_fields [OF run flds] run show ?thesis by blast
qed

end
