(* ===== verification/Runner.thy ===== *)
theory Runner
  imports Suggestions Recap
begin

text \<open>
  The glue of the guided conversation (\<open>agent/conversation/runner.py\<close>) and its payload builders
  (\<open>agent/conversation/events.py\<close>): the next prompt, its options and suggestion fetched from
  PriceFRAME when they can be, and one event in the run's log. An inner \<open>None\<close> of the
  best-effort parts is an exception that \<open>except Exception\<close> turns into no value.
\<close>

section \<open>Payloads\<close>

definition event_field_prompt :: string where "event_field_prompt = ''v1.field.prompt''"
definition event_field_accepted :: string where "event_field_accepted = ''v1.field.accepted''"
definition event_conversation_recap :: string where "event_conversation_recap = ''v1.conversation.recap''"
definition event_conversation_committed :: string where
  "event_conversation_committed = ''v1.conversation.committed''"

definition field_prompt_payload :: "field_prompt \<Rightarrow> dict option \<Rightarrow> dict" where
  "field_prompt_payload p suggestion =
     [(''phase_id'', fp_phase_id p), (''field_id'', fp_field_id p), (''label'', fp_label p),
      (''type'', fp_type p), (''control'', JStr (fp_control p)), (''required'', JBool (fp_required p)),
      (''requires_explicit_confirm'', JBool (fp_requires_explicit_confirm p)),
      (''options'', fp_options p), (''options_source'', fp_options_source p), (''ui'', fp_ui p),
      (''suggestion'', band_json suggestion)]"

definition field_accepted_payload :: "string \<Rightarrow> json \<Rightarrow> dict" where
  "field_accepted_payload f v = [(''field_id'', JStr f), (''value'', v)]"

definition recap_payload :: "dict \<Rightarrow> dict \<Rightarrow> dict" where
  "recap_payload collected defaulted = [(''collected'', JObj collected), (''defaulted'', JObj defaulted)]"

definition committed_payload :: "json \<Rightarrow> json \<Rightarrow> json \<Rightarrow> dict" where
  "committed_payload quote_id applied failed =
     [(''quote_id'', quote_id), (''applied'', applied), (''failed'', py_or failed (JArr []))]"

section \<open>Options\<close>

text \<open>\<open>list(dict.fromkeys(xs))\<close>, and the loop with \<open>seen\<close>: members must be hashable.\<close>

definition keep_new :: "json list \<Rightarrow> json \<Rightarrow> json list" where
  "keep_new seen x = (if py_in x seen then seen else seen @ [x])"

definition dedupe :: "json list \<Rightarrow> json list option" where
  "dedupe xs = (if list_all py_hashable xs
     then Some (foldl keep_new [] xs) else None)"

definition by_region :: "dict \<Rightarrow> dict option" where
  "by_region data = as_dict (py_or (d_get data ''countriesByRegion'') (JObj []))"

definition all_countries :: "dict \<Rightarrow> json list option" where
  "all_countries data = do {
     regions \<leftarrow> by_region data;
     lists \<leftarrow> omap (\<lambda>(k, v). py_iter v) regions;
     dedupe (concat lists)
   }"

definition countries_of :: "dict \<Rightarrow> json \<Rightarrow> json list option" where
  "countries_of regions region =
     (if py_hashable region
      then py_iter (py_or (case region of JStr r \<Rightarrow> d_get regions r | _ \<Rightarrow> JNull) (JArr []))
      else None)"

definition countries_in :: "dict \<Rightarrow> json list \<Rightarrow> json list option" where
  "countries_in data selected = do {
     regions \<leftarrow> by_region data;
     lists \<leftarrow> omap (countries_of regions) selected;
     dedupe (concat lists)
   }"

definition selected_regions :: "dict \<Rightarrow> string \<Rightarrow> json" where
  "selected_regions draft dep = (case d_get draft ''summary'' of
      JObj s \<Rightarrow> (case py_or (d_get s dep) (JArr []) of JStr r \<Rightarrow> JArr [JStr r] | v \<Rightarrow> v)
    | _ \<Rightarrow> JArr [])"

definition region_keys :: "string list" where
  "region_keys = [''corridor_regions'', ''sending_partner_region'']"

text \<open>The first dependency on a region, and the value list narrowed by it.\<close>

fun region_dep :: "json list \<Rightarrow> string option" where
  "region_dep [] = None"
| "region_dep (JStr s # deps) = (if s \<in> set region_keys then Some s else region_dep deps)"
| "region_dep (d # deps) = region_dep deps"

definition narrow :: "dict \<Rightarrow> dict \<Rightarrow> json list \<Rightarrow> json \<Rightarrow> json option" where
  "narrow data draft deps raw = (case region_dep deps of
      None \<Rightarrow> Some raw
    | Some dep \<Rightarrow>
        let selected = selected_regions draft dep
        in if \<not> py_truthy selected then Some raw
           else do {
             regions \<leftarrow> py_iter selected;
             filtered \<leftarrow> countries_in data regions;
             Some (if filtered = [] then raw else JArr filtered)
           })"

definition labelled :: "json \<Rightarrow> json" where
  "labelled v = JObj [(''value'', v), (''label'', v)]"

definition option_of_item :: "(rat \<Rightarrow> string) \<Rightarrow> json \<Rightarrow> json option" where
  "option_of_item repr x = do {
     i \<leftarrow> jget_or x ''id'' (JStr (py_str repr x));
     v \<leftarrow> jget_or x ''value'' i;
     n \<leftarrow> jget_or x ''name'' (JStr (py_str repr x));
     l \<leftarrow> jget_or x ''label'' n;
     Some (JObj [(''value'', v), (''label'', l)])
   }"

definition normalized :: "(rat \<Rightarrow> string) \<Rightarrow> json \<Rightarrow> json list option" where
  "normalized repr raw =
     (if \<not> py_truthy raw then None
      else do {
        first \<leftarrow> py_item raw 0;
        items \<leftarrow> py_iter raw;
        case first of
          JStr _ \<Rightarrow> Some (map labelled items)
        | JObj _ \<Rightarrow> omap (option_of_item repr) items
        | _ \<Rightarrow> None
      })"

definition value_list :: "dict \<Rightarrow> json \<Rightarrow> json option" where
  "value_list data value_path =
     (if \<not> py_hashable value_path then None
      else let raw = py_or (case value_path of JStr p \<Rightarrow> d_get data p | _ \<Rightarrow> JNull) (JArr [])
           in if \<not> py_truthy raw \<and> value_path = JStr ''countries''
              then map_option JArr (all_countries data) else Some raw)"

definition options_from :: "(rat \<Rightarrow> string) \<Rightarrow> json \<Rightarrow> dict \<Rightarrow> dict \<Rightarrow> json list option" where
  "options_from repr source draft data = do {
     value_path \<leftarrow> jget_or source ''value_path'' (JStr []);
     depends_on \<leftarrow> jget source ''depends_on'';
     raw \<leftarrow> value_list data value_path;
     deps \<leftarrow> py_iter (py_or depends_on (JArr []));
     raw \<leftarrow> narrow data draft deps raw;
     normalized repr raw
   }"

definition resolve_options ::
    "env \<Rightarrow> pf_client option \<Rightarrow> auth_context \<Rightarrow> dict \<Rightarrow> field_prompt \<Rightarrow> world \<Rightarrow> json list option \<times> world" where
  "resolve_options e client auth draft p w =
     (case client of
        None \<Rightarrow> (None, w)
      | Some c \<Rightarrow>
          if \<not> py_truthy (fp_options_source p) \<or> py_truthy (fp_options p) then (None, w)
          else (case jget_or (fp_options_source p) ''endpoint'' (JStr []) of
                  Some (JStr path) \<Rightarrow>
                    (case get_json e c path (jwt_raw auth) [] w of
                       (Inr (JObj data), w') \<Rightarrow>
                         (options_from (float_text e) (fp_options_source p) draft data, w')
                     | (_, w') \<Rightarrow> (None, w'))
                | _ \<Rightarrow> (None, w)))"

section \<open>Suggestion\<close>

definition has_id :: "json \<Rightarrow> json \<Rightarrow> bool option" where
  "has_id field_id field = map_option (\<lambda>i. py_eq i field_id) (jget field ''id'')"

text \<open>\<open>any(f.get("id") == field_id for f in step.get("fields", []))\<close>.\<close>

definition owns_field :: "json \<Rightarrow> json \<Rightarrow> bool option" where
  "owns_field field_id step = do {
     flds \<leftarrow> jget_or step ''fields'' (JArr []);
     flds \<leftarrow> py_iter flds;
     hit \<leftarrow> ofind (has_id field_id) flds;
     Some (hit \<noteq> None)
   }"

definition owning_step :: "json \<Rightarrow> json \<Rightarrow> json option option" where
  "owning_step contract field_id = do {
     steps \<leftarrow> jget_or contract ''steps'' (JArr []);
     steps \<leftarrow> py_iter steps;
     ofind (owns_field field_id) steps
   }"

text \<open>\<open>{**step, "fields": [...]}\<close> with the matching fields only.\<close>

definition single_field_step :: "json \<Rightarrow> json \<Rightarrow> json option" where
  "single_field_step step field_id = do {
     d \<leftarrow> as_dict step;
     flds \<leftarrow> jitem step ''fields'';
     flds \<leftarrow> py_iter flds;
     hits \<leftarrow> omap (has_id field_id) flds;
     Some (JObj (d_set d ''fields'' (JArr (map fst (filter snd (zip flds hits))))))
   }"

definition suggestion_band :: "suggestion_event list \<Rightarrow> dict option" where
  "suggestion_band evs = map_option (\<lambda>ev. map (\<lambda>k. (k, d_get (snd ev) k))
       [''value'', ''basis'', ''as_of'', ''sample_size'', ''range''])
     (find (\<lambda>ev. fst ev = event_ready) evs)"

definition suggestion_for ::
    "env \<Rightarrow> pf_client option \<Rightarrow> auth_context \<Rightarrow> json \<Rightarrow> dict \<Rightarrow> field_prompt \<Rightarrow> world \<Rightarrow> dict option \<times> world" where
  "suggestion_for e client auth contract draft p w =
     (case client of
        None \<Rightarrow> (None, w)
      | Some c \<Rightarrow>
          if \<not> fp_requires_explicit_confirm p then (None, w)
          else (case owning_step contract (fp_field_id p) of
                  Some (Some step) \<Rightarrow>
                    (case single_field_step step (fp_field_id p) of
                       None \<Rightarrow> (None, w)
                     | Some single \<Rightarrow>
                         (case fan_out_historical_suggestions e c auth contract single draft w of
                            (None, w') \<Rightarrow> (None, w')
                          | (Some evs, w') \<Rightarrow> (suggestion_band evs, w')))
                | _ \<Rightarrow> (None, w)))"

section \<open>The next prompt\<close>

record emit_result =
  er_kind :: string
  er_field_id :: json

definition with_options :: "json list option \<Rightarrow> field_prompt \<Rightarrow> field_prompt" where
  "with_options resolved p = (case resolved of
      Some (opt # opts) \<Rightarrow> p\<lparr>fp_options := JArr (opt # opts)\<rparr> | _ \<Rightarrow> p)"

definition emit_prompt ::
    "env \<Rightarrow> pf_client option \<Rightarrow> auth_context \<Rightarrow> string \<Rightarrow> json \<Rightarrow> dict \<Rightarrow> field_prompt \<Rightarrow> world \<Rightarrow> world" where
  "emit_prompt e client auth run_id contract draft p w =
     (case resolve_options e client auth draft p w of
        (resolved, w1) \<Rightarrow>
          (case suggestion_for e client auth contract draft (with_options resolved p) w1 of
             (suggestion, w2) \<Rightarrow>
               emit e run_id event_field_prompt
                 (field_prompt_payload (with_options resolved p) suggestion) w2))"

definition emit_next_prompt ::
    "env \<Rightarrow> pf_client option \<Rightarrow> auth_context \<Rightarrow> string \<Rightarrow> json \<Rightarrow> dict \<Rightarrow> cursor \<Rightarrow> world \<Rightarrow>
     emit_result res \<times> world" where
  "emit_next_prompt e client auth run_id contract draft c w =
     (case next_step contract c of
        None \<Rightarrow> (Inl PyError, w)
      | Some (PromptFor p) \<Rightarrow>
          (Inr \<lparr>er_kind = ''prompt'', er_field_id = fp_field_id p\<rparr>,
           emit_prompt e client auth run_id contract draft p w)
      | Some Recap \<Rightarrow>
          (case build_recap contract draft of
             None \<Rightarrow> (Inl PyError, w)
           | Some (collected, defaulted) \<Rightarrow>
               (Inr \<lparr>er_kind = ''recap'', er_field_id = JNull\<rparr>,
                emit e run_id event_conversation_recap (recap_payload collected defaulted) w))
      | Some Done \<Rightarrow>
          (Inr \<lparr>er_kind = ''done'', er_field_id = JNull\<rparr>, emit e run_id ''v1.conversation.done'' [] w))"

section \<open>Laws\<close>

definition is_get :: "pf_request \<Rightarrow> bool" where "is_get rq \<longleftrightarrow> rq_method rq = ''GET''"

lemma resolve_options_quiet: "quiet is_get w (snd (resolve_options e cl auth draft p w))"
proof -
  have "quiet is_get w (snd (get_json e c path (jwt_raw auth) [] w))" for c path
    by (intro quiet_sends calls_once_requests get_json_only_sends)
      (rule calls_once_mono [OF get_json_once], simp add: is_get_def)
  then have "quiet is_get w w'" if "get_json e c path (jwt_raw auth) [] w = (r, w')" for c path r w'
    using that by (metis snd_conv)
  then show ?thesis
    by (auto simp: resolve_options_def split: option.split json.split prod.split sum.split)
qed

lemma suggestion_for_quiet: "quiet is_get w (snd (suggestion_for e cl auth contract draft p w))"
proof -
  have "quiet is_get w (snd (fan_out_historical_suggestions e c auth contract step draft w))" for c step
    by (rule quiet_mono [OF fan_out_historical_quiet]) (simp add: suggestion_read_def is_get_def)
  then have "quiet is_get w w'" if "fan_out_historical_suggestions e c auth contract step draft w = (r, w')" for c step r w'
    using that by (metis snd_conv)
  then show ?thesis by (auto simp: suggestion_for_def split: option.split prod.split)
qed

lemma with_options_fields [simp]:
  "fp_field_id (with_options r p) = fp_field_id p" "fp_control (with_options r p) = fp_control p"
  by (auto simp: with_options_def split: option.split list.split)

text \<open>One prompt is one event, after requests that only read.\<close>

lemma emit_prompt_event:
  "\<exists>w2 r sg. quiet is_get w w2 \<and> emit_prompt e cl auth run_id contract draft p w =
     emit e run_id event_field_prompt (field_prompt_payload (with_options r p) sg) w2"
proof -
  obtain r w1 where 1: "resolve_options e cl auth draft p w = (r, w1)" by fastforce
  obtain sg w2 where 2: "suggestion_for e cl auth contract draft (with_options r p) w1 = (sg, w2)" by fastforce
  have "quiet is_get w w2"
    using resolve_options_quiet [of w e cl auth draft p] 1 2 quiet_trans
      suggestion_for_quiet [of w1 e cl auth contract draft "with_options r p"] by (metis snd_conv)
  with 1 2 show ?thesis unfolding emit_prompt_def by auto
qed

lemma emit_prompt_logs: "logs r is_get w (emit_prompt e cl auth r contract draft p w)"
  using emit_prompt_event [of w e cl auth r contract draft p] quiet_logs logs_trans emit_logs by metis

lemma emit_next_prompt_logs: "logs r is_get w (snd (emit_next_prompt e cl auth r contract draft c w))"
  by (auto simp: emit_next_prompt_def emit_prompt_logs split: option.split next_prompt.split)

lemma keep_new_subset: "set acc \<subseteq> set (keep_new acc x)" "set (keep_new acc x) \<subseteq> insert x (set acc)"
  by (auto simp: keep_new_def)

lemma foldl_keep_new_old: "set acc \<subseteq> set (foldl keep_new acc xs)"
proof (induction xs arbitrary: acc)
  case (Cons x xs)
  from Cons [of "keep_new acc x"] keep_new_subset(1) [of acc x] show ?case by simp
qed simp

lemma foldl_keep_new_sub: "set (foldl keep_new acc xs) \<subseteq> set acc \<union> set xs"
proof (induction xs arbitrary: acc)
  case (Cons x xs)
  from Cons [of "keep_new acc x"] keep_new_subset(2) [of acc x] show ?case by (simp, blast)
qed simp

lemma py_in_mono: "py_in x xs \<Longrightarrow> set xs \<subseteq> set ys \<Longrightarrow> py_in x ys"
  by (auto simp: py_in_def list_ex_iff)

lemma foldl_keep_new_covers:
  "x \<in> set xs \<Longrightarrow> x \<in> set (foldl keep_new acc xs) \<or> py_in x (foldl keep_new acc xs)"
proof (induction xs arbitrary: acc)
  case (Cons y ys)
  show ?case
  proof (cases "x = y")
    case True
    then have "x \<in> set (keep_new acc y) \<or> py_in x (keep_new acc y)" by (simp add: keep_new_def)
    then show ?thesis using foldl_keep_new_old [of "keep_new acc y" ys] py_in_mono by fastforce
  next
    case False
    with Cons.prems have "x \<in> set ys" by simp
    from Cons.IH [OF this] show ?thesis by simp
  qed
qed simp

lemma dedupe_subset: "dedupe xs = Some ys \<Longrightarrow> set ys \<subseteq> set xs"
  using foldl_keep_new_sub [of "[]" xs] by (auto simp: dedupe_def split: if_splits)

lemma dedupe_covers: "dedupe xs = Some ys \<Longrightarrow> x \<in> set xs \<Longrightarrow> x \<in> set ys \<or> py_in x ys"
  using foldl_keep_new_covers [of x xs "[]"] by (auto simp: dedupe_def split: if_splits)

section \<open>Properties\<close>

text \<open>
  asking a field never fails because of PriceFRAME: whatever it answers to the requests for
  options and for a suggestion, which are reads, exactly one event is appended to the run's log,
  the prompt for the field the sequencer chose.
\<close>

theorem prompt_is_emitted:
  assumes "next_step contract c = Some (PromptFor p)"
  shows "\<exists>ev w'. emit_next_prompt e cl auth r contract draft c w =
      (Inr \<lparr>er_kind = ''prompt'', er_field_id = fp_field_id p\<rparr>, w') \<and>
    cur w' = (cur w)\<lparr>run_events := run_events (cur w) @ [ev]\<rparr> \<and> saved w' = saved w \<and>
    ev_run_id ev = r \<and> ev_type ev = ''v1.field.prompt'' \<and> ev_seq ev = next_seq r (cur w) \<and>
    d_get (ev_payload ev) ''field_id'' = fp_field_id p \<and>
    d_get (ev_payload ev) ''control'' = JStr (fp_control p) \<and>
    only_requests (\<lambda>rq. rq_method rq = ''GET'') w w'"
proof -
  obtain w2 res sg where q: "quiet is_get w w2" and em: "emit_prompt e cl auth r contract draft p w =
      emit e r event_field_prompt (field_prompt_payload (with_options res p) sg) w2"
    using emit_prompt_event by metis
  let ?ev = "new_event e r event_field_prompt (field_prompt_payload (with_options res p) sg) w2"
  have reads: "only_requests (\<lambda>rq. rq_method rq = ''GET'') w (emit e r ty pl w2)" for ty pl
    using q by (simp add: quiet_def only_requests_def is_get_def [abs_def] frame)
  show ?thesis
  proof (intro exI [of _ ?ev] exI [of _ "emit_prompt e cl auth r contract draft p w"] conjI)
    show "emit_next_prompt e cl auth r contract draft c w =
        (Inr \<lparr>er_kind = ''prompt'', er_field_id = fp_field_id p\<rparr>, emit_prompt e cl auth r contract draft p w)"
      using assms by (simp add: emit_next_prompt_def)
    show "only_requests (\<lambda>rq. rq_method rq = ''GET'') w (emit_prompt e cl auth r contract draft p w)"
      using reads em by simp
  qed (use q in \<open>simp_all add: em quiet_def append_run_event_eq event_field_prompt_def
      field_prompt_payload_def d_get_Cons\<close>)
qed

definition demo_prompt :: field_prompt where
  "demo_prompt = (case next_step demo_contract (Cursor 0 0) of Some (PromptFor p) \<Rightarrow> p)"

theorem prompt_is_emitted_witness:
  "\<exists>ev w'. emit_next_prompt demo_env None demo_context ''r'' demo_contract [] (Cursor 0 0) (session_on empty_db) =
      (Inr \<lparr>er_kind = ''prompt'', er_field_id = fp_field_id demo_prompt\<rparr>, w') \<and>
    cur w' = (cur (session_on empty_db))\<lparr>run_events := run_events (cur (session_on empty_db)) @ [ev]\<rparr> \<and>
    saved w' = saved (session_on empty_db) \<and>
    ev_run_id ev = ''r'' \<and> ev_type ev = ''v1.field.prompt'' \<and> ev_seq ev = next_seq ''r'' (cur (session_on empty_db)) \<and>
    d_get (ev_payload ev) ''field_id'' = fp_field_id demo_prompt \<and>
    d_get (ev_payload ev) ''control'' = JStr (fp_control demo_prompt) \<and>
    only_requests (\<lambda>rq. rq_method rq = ''GET'') (session_on empty_db) w'"
proof (rule prompt_is_emitted)
  show "next_step demo_contract (Cursor 0 0) = Some (PromptFor demo_prompt)"
    unfolding demo_prompt_def by code_simp
qed

text \<open>
  The countries offered for a region-dependent field are those of the selected regions: each one
  is listed by PriceFRAME under a selected region, and each country listed under one is offered,
  up to Python's equality.
\<close>

theorem countries_of_selected_regions:
  assumes "countries_in data selected = Some cs" and "by_region data = Some regions"
  shows "(\<forall>x \<in> set cs. \<exists>r \<in> set selected. \<exists>xs. countries_of regions r = Some xs \<and> x \<in> set xs) \<and>
    (\<forall>r \<in> set selected. \<forall>xs. countries_of regions r = Some xs \<longrightarrow> (\<forall>x \<in> set xs. x \<in> set cs \<or> py_in x cs))"
proof -
  obtain lists where l: "omap (countries_of regions) selected = Some lists" and d: "dedupe (concat lists) = Some cs"
    using assms by (auto simp: countries_in_def split: Option.bind_splits)
  have m: "map (countries_of regions) selected = map Some lists" using l by (simp add: omap_Some_iff)
  have "\<exists>r \<in> set selected. countries_of regions r = Some xs" if "xs \<in> set lists" for xs
  proof -
    have "Some xs \<in> set (map (countries_of regions) selected)" using that by (simp add: m)
    then show ?thesis by auto
  qed
  moreover have "xs \<in> set lists" if "r \<in> set selected" "countries_of regions r = Some xs" for r xs
  proof -
    have "Some xs \<in> set (map Some lists)" using that by (metis m image_eqI list.set_map)
    then show ?thesis by auto
  qed
  ultimately have in_lists: "x \<in> set (concat lists) \<longleftrightarrow>
      (\<exists>r \<in> set selected. \<exists>xs. countries_of regions r = Some xs \<and> x \<in> set xs)" for x
    by (simp only: set_concat UN_iff) blast
  show ?thesis
  proof (intro conjI ballI allI impI)
    fix x assume "x \<in> set cs"
    with dedupe_subset [OF d] have "x \<in> set (concat lists)" by blast
    then show "\<exists>r \<in> set selected. \<exists>xs. countries_of regions r = Some xs \<and> x \<in> set xs" by (simp only: in_lists)
  next
    fix r xs x assume "r \<in> set selected" "countries_of regions r = Some xs" "x \<in> set xs"
    then have "x \<in> set (concat lists)" unfolding in_lists by blast
    from dedupe_covers [OF d this] show "x \<in> set cs \<or> py_in x cs" .
  qed
qed

theorem countries_of_selected_regions_witness:
  "countries_of [(''Asia'', JArr [JStr ''IN'', JStr ''JP'']), (''EU'', JArr [JStr ''FR''])] (JStr ''Asia'') = Some [JStr ''IN'', JStr ''JP''] \<and>
   (\<exists>r \<in> set [JStr ''Asia'']. \<exists>xs. countries_of [(''Asia'', JArr [JStr ''IN'', JStr ''JP'']), (''EU'', JArr [JStr ''FR''])] r = Some xs \<and> JStr ''JP'' \<in> set xs)"
proof -
  have c: "countries_in [(''countriesByRegion'', JObj [(''Asia'', JArr [JStr ''IN'', JStr ''JP'']), (''EU'', JArr [JStr ''FR''])])]
      [JStr ''Asia''] = Some [JStr ''IN'', JStr ''JP'']" by code_simp
  have b: "by_region [(''countriesByRegion'', JObj [(''Asia'', JArr [JStr ''IN'', JStr ''JP'']), (''EU'', JArr [JStr ''FR''])])] =
      Some [(''Asia'', JArr [JStr ''IN'', JStr ''JP'']), (''EU'', JArr [JStr ''FR''])]" by code_simp
  have "countries_of [(''Asia'', JArr [JStr ''IN'', JStr ''JP'']), (''EU'', JArr [JStr ''FR''])] (JStr ''Asia'') = Some [JStr ''IN'', JStr ''JP'']"
    by code_simp
  with countries_of_selected_regions [OF c b] show ?thesis by (metis list.set_intros(1) list.set_intros(2))
qed

end
