(* ===== verification/StepProposals.thy ===== *)
theory StepProposals
  imports Suggestions
begin

text \<open>
  The proposal for a whole workflow step (\<open>agent/step_proposals.py\<close>): each essential field of the
  step is filled from the draft, from a historical suggestion, or from a static default, in this
  order, and the outcome carries a confidence. Outer \<open>None\<close>s are exceptions that leave the
  function; the caller swallows them.
\<close>

section \<open>Reading the step\<close>

definition step_id_text :: "(rat \<Rightarrow> string) \<Rightarrow> json \<Rightarrow> string" where
  "step_id_text repr step =
     (let raw = get_key step ''id'' in if raw = JNull then ''unknown'' else py_str repr raw)"

definition field_id_text :: "(rat \<Rightarrow> string) \<Rightarrow> json \<Rightarrow> string" where
  "field_id_text repr field =
     (let raw = get_key field ''id'' in if raw = JNull then [] else py_str repr raw)"

definition essential_entry :: "json \<Rightarrow> string option" where
  "essential_entry entry = (case entry of
      JStr s \<Rightarrow> if s = [] then None else Some s
    | JObj d \<Rightarrow> (case py_or (d_get d ''root'') (d_get d ''id'') of
        JStr s \<Rightarrow> if s = [] then None else Some s | _ \<Rightarrow> None)
    | _ \<Rightarrow> None)"

definition essential_field_ids :: "json \<Rightarrow> string list option" where
  "essential_field_ids step =
     (let raw = get_key step ''essential_field_ids''
      in if raw = JNull then Some [] else map_option (List.map_filter essential_entry) (py_iter raw))"

definition draft_value :: "dict \<Rightarrow> string \<Rightarrow> string \<Rightarrow> json" where
  "draft_value draft step_id f = (case d_get draft step_id of
      JObj sect \<Rightarrow> if d_has sect f \<and> \<not> is_blank (d_get sect f) then d_get sect f else JNull
    | _ \<Rightarrow> JNull)"

section \<open>Defaults\<close>

text \<open>The value of the first enum option when it is a non-empty string.\<close>

definition first_option :: "json \<Rightarrow> string option option" where
  "first_option field =
     (let options = py_or (get_key field ''enum_options'') (JArr [])
      in if \<not> py_truthy options then Some None
         else map_option (\<lambda>first. case get_key first ''value'' of
                  JStr v \<Rightarrow> if v = [] then None else Some v | _ \<Rightarrow> None) (py_item options 0))"

definition numeric_types :: "json set" where
  "numeric_types = {JStr ''number'', JStr ''currency'', JStr ''percentage''}"

definition default_value_for :: "json \<Rightarrow> json option" where
  "default_value_for field =
     (let field_type = get_key field ''type''
      in if field_type = JStr ''enum''
           then map_option (\<lambda>v. case v of None \<Rightarrow> JNull | Some s \<Rightarrow> JStr s) (first_option field)
         else if field_type = JStr ''multi_enum''
           then map_option (\<lambda>v. case v of None \<Rightarrow> JArr [] | Some s \<Rightarrow> JArr [JStr s]) (first_option field)
         else if field_type = JStr ''boolean'' then Some (JBool False)
         else if field_type \<in> numeric_types
           then Some (case get_key (get_key field ''validation'') ''min'' of
               JInt i \<Rightarrow> JInt i | JFlt x \<Rightarrow> JFlt x | JBool b \<Rightarrow> JBool b | _ \<Rightarrow> JInt 0)
         else Some JNull)"

section \<open>Historical values\<close>

definition historical_cost :: pyfloat where "historical_cost = Fin 0"

text \<open>A failing call, no signal and an answer without a value are all \<open>JNull\<close>.\<close>

definition fetch_historical ::
    "env \<Rightarrow> pf_client \<Rightarrow> auth_context \<Rightarrow> dict \<Rightarrow> string \<Rightarrow> json \<Rightarrow> world \<Rightarrow> json option \<times> world" where
  "fetch_historical e c auth draft f spec w =
     (case build_suggestion_ctx draft (coerce_list (get_key spec ''filter_keys'')) of
        None \<Rightarrow> (None, w)
      | Some ctx \<Rightarrow>
          (case execute e c auth suggestions_tool (FieldSuggestionsInput f ctx) w of
             (Inl err, w') \<Rightarrow> (Some JNull, w')
           | (Inr out, w') \<Rightarrow>
               (Some (case d_get out ''data'' of
                  JObj data \<Rightarrow> if py_truthy (d_get data ''no_signal'') then JNull else d_get data ''value''
                | _ \<Rightarrow> JNull), w')))"

section \<open>Confidence\<close>

definition confidence_score :: "nat \<Rightarrow> nat \<Rightarrow> string list \<Rightarrow> pyfloat" where
  "confidence_score filled essential sources =
     (if essential = 0 then Fin 0
      else let coverage = fmax (Fin 0) (fmin (Fin 1) (mk_float (rat_of_nat filled / rat_of_nat essential)));
               quality = (if ''historical'' \<in> set sources then Fin 1
                          else if ''draft'' \<in> set sources then mk_float (7 / 10)
                          else if ''default'' \<in> set sources then mk_float (4 / 10) else Fin 0)
           in fround 4 (fadd (fmul (mk_float (7 / 10)) coverage) (fmul (mk_float (3 / 10)) quality)))"

section \<open>The proposal\<close>

record proposal =
  pr_payload :: dict
  pr_rationale :: dict
  pr_sources :: "string list"

definition fill :: "string \<Rightarrow> json \<Rightarrow> string \<Rightarrow> string \<Rightarrow> proposal \<Rightarrow> proposal" where
  "fill f v source why st =
     \<lparr>pr_payload = d_set (pr_payload st) f v, pr_rationale = d_set (pr_rationale st) f (JStr why),
      pr_sources = List.insert source (pr_sources st)\<rparr>"

definition fill_default :: "string \<Rightarrow> json \<Rightarrow> proposal \<Rightarrow> proposal option" where
  "fill_default f field st = map_option (\<lambda>v.
     if v = JNull then st else fill f v ''default'' ''Sensible default - adjust as needed.'' st)
     (default_value_for field)"

text \<open>The client to ask for a field's history, when everything allows it; \<open>can_spend\<close> is asked last.\<close>

definition history_client ::
    "pf_client option \<Rightarrow> auth_context \<Rightarrow> json \<Rightarrow> run_budget \<Rightarrow> pf_client option option" where
  "history_client client auth field b =
     (let suggestion = get_key field ''suggestion''
      in case client of
           None \<Rightarrow> Some None
         | Some c \<Rightarrow>
             if has_permission auth ''agent.suggestions.read'' \<and> get_key suggestion ''historical'' \<noteq> JNull \<and>
                JStr ''historical'' \<in> set (coerce_list (get_key suggestion ''sources''))
             then map_option (\<lambda>ok. if ok then Some c else None) (can_spend b historical_cost)
             else Some None)"

text \<open>One turn of the loop over the essential fields.\<close>

definition propose_field ::
    "env \<Rightarrow> pf_client option \<Rightarrow> auth_context \<Rightarrow> dict \<Rightarrow> string \<Rightarrow> string \<times> json \<Rightarrow>
     proposal \<Rightarrow> run_budget \<Rightarrow> world \<Rightarrow> proposal option \<times> run_budget \<times> world" where
  "propose_field e client auth draft step_id essential st b w =
     (case essential of (f, field) \<Rightarrow>
        let v = draft_value draft step_id f
        in if v \<noteq> JNull then (Some (fill f v ''draft'' ''Already filled in this draft.'' st), b, w)
           else (case history_client client auth field b of
                   None \<Rightarrow> (None, b, w)
                 | Some None \<Rightarrow> (fill_default f field st, b, w)
                 | Some (Some c) \<Rightarrow>
                     (case fetch_historical e c auth draft f
                             (get_key (get_key field ''suggestion'') ''historical'') w of
                        (None, w') \<Rightarrow> (None, b, w')
                      | (Some h, w') \<Rightarrow>
                          (case record_spend b historical_cost of
                             None \<Rightarrow> (None, b, w')
                           | Some b' \<Rightarrow>
                               (if h \<noteq> JNull
                                then Some (fill f h ''historical'' ''Drawn from similar quotes in your history.'' st)
                                else fill_default f field st, b', w')))))"

primrec propose_fields ::
    "env \<Rightarrow> pf_client option \<Rightarrow> auth_context \<Rightarrow> dict \<Rightarrow> string \<Rightarrow> (string \<times> json) list \<Rightarrow>
     proposal \<Rightarrow> run_budget \<Rightarrow> world \<Rightarrow> proposal option \<times> run_budget \<times> world" where
  "propose_fields e client auth draft step_id [] st b w = (Some st, b, w)"
| "propose_fields e client auth draft step_id (x # xs) st b w =
     (case propose_field e client auth draft step_id x st b w of
        (None, b1, w1) \<Rightarrow> (None, b1, w1)
      | (Some st1, b1, w1) \<Rightarrow> propose_fields e client auth draft step_id xs st1 b1 w1)"

text \<open>\<open>fields_by_id.get(f)\<close>: of two fields with the same id the last one.\<close>

definition essential_field :: "(rat \<Rightarrow> string) \<Rightarrow> json list \<Rightarrow> string \<Rightarrow> (string \<times> json) option" where
  "essential_field repr flds f =
     map_option (Pair f) (find (\<lambda>field. field_id_text repr field = f) (rev flds))"

definition essentials_of :: "(rat \<Rightarrow> string) \<Rightarrow> json \<Rightarrow> (string \<times> json) list option" where
  "essentials_of repr step = do {
     ids \<leftarrow> essential_field_ids step;
     if ids = [] then Some []
     else map_option (\<lambda>flds. List.map_filter (essential_field repr flds) ids) (step_fields step)
   }"

definition proposal_json :: "string \<Rightarrow> nat \<Rightarrow> proposal \<Rightarrow> dict" where
  "proposal_json step_id essential st =
     [(''step_id'', JStr step_id),
      (''proposal'', JObj
         [(''payload'', JObj (pr_payload st)), (''rationale_by_field'', JObj (pr_rationale st)),
          (''citations'', JNull), (''sources_used'', jstrs (sort (pr_sources st))),
          (''confidence'', JFlt (confidence_score (length (pr_payload st)) essential (pr_sources st)))])]"

definition empty_proposal :: proposal where
  "empty_proposal = \<lparr>pr_payload = [], pr_rationale = [], pr_sources = []\<rparr>"

definition propose_step_payload ::
    "env \<Rightarrow> pf_client option \<Rightarrow> auth_context \<Rightarrow> json \<Rightarrow> dict \<Rightarrow> run_budget \<Rightarrow> world \<Rightarrow>
     dict option option \<times> run_budget \<times> world" where
  "propose_step_payload e client auth step draft b w =
     (case essentials_of (float_text e) step of
        None \<Rightarrow> (None, b, w)
      | Some essentials \<Rightarrow>
          if essentials = [] then (Some None, b, w)
          else let step_id = step_id_text (float_text e) step
               in (case propose_fields e client auth draft step_id essentials empty_proposal b w of
                     (None, b', w') \<Rightarrow> (None, b', w')
                   | (Some st, b', w') \<Rightarrow>
                       (Some (if pr_payload st = [] then None
                              else Some (proposal_json step_id (length essentials) st)), b', w')))"

section \<open>Laws\<close>

lemma fetch_historical_quiet: "quiet suggestion_read w (snd (fetch_historical e c auth draft f spec w))"
  using ask_quiet [of w e c auth f]
  by (auto simp: fetch_historical_def split: option.split prod.split sum.split) (metis snd_conv)+

lemma propose_field_quiet: "quiet suggestion_read w (snd (snd (propose_field e cl auth draft sid x st b w)))"
proof -
  have "quiet suggestion_read w w'" if "fetch_historical e c auth draft f spec w = (r, w')" for c f spec r w'
    using fetch_historical_quiet that by (metis snd_conv)
  then show ?thesis
    by (auto simp: propose_field_def Let_def split: prod.split option.split)
qed

lemma propose_fields_quiet: "quiet suggestion_read w (snd (snd (propose_fields e cl auth draft sid xs st b w)))"
proof (induction xs arbitrary: st b w)
  case (Cons x xs)
  obtain r b1 w1 where one: "propose_field e cl auth draft sid x st b w = (r, b1, w1)" by (metis surj_pair)
  with propose_field_quiet [of w e cl auth draft sid x st b] have "quiet suggestion_read w w1" by simp
  with one quiet_trans Cons.IH show ?case by (auto split: option.split)
qed simp

lemma propose_step_quiet: "quiet suggestion_read w (snd (snd (propose_step_payload e cl auth step draft b w)))"
proof -
  have "quiet suggestion_read w w'" if "propose_fields e cl auth draft sid xs st b w = (r, b', w')" for sid xs st r b' w'
    using propose_fields_quiet [of w e cl auth draft sid xs st b] that by simp
  then show ?thesis by (auto simp: propose_step_payload_def Let_def split: option.split prod.split)
qed

text \<open>What every entry of a proposal satisfies, and what the loop keeps of it.\<close>

definition entry_ok :: "dict \<Rightarrow> string \<Rightarrow> string set \<Rightarrow> string \<times> json \<Rightarrow> bool" where
  "entry_ok draft sid names kv \<longleftrightarrow> fst kv \<in> names \<and> snd kv \<noteq> JNull \<and>
     (draft_value draft sid (fst kv) \<noteq> JNull \<longrightarrow> snd kv = draft_value draft sid (fst kv))"

definition proposal_ok :: "dict \<Rightarrow> string \<Rightarrow> string set \<Rightarrow> proposal \<Rightarrow> bool" where
  "proposal_ok draft sid names st \<longleftrightarrow> list_all (entry_ok draft sid names) (pr_payload st) \<and>
     fst ` set (pr_rationale st) = fst ` set (pr_payload st)"

lemma fill_ok:
  assumes "proposal_ok draft sid names st" and "entry_ok draft sid names (f, v)"
  shows "proposal_ok draft sid names (fill f v src why st)"
  using assms by (auto simp: proposal_ok_def fill_def list_all_iff dom_d_set) (auto simp: d_set_def dest!: set_update_cases)

lemma fill_default_ok:
  assumes "fill_default f field st = Some st'" and "proposal_ok draft sid names st"
    and "f \<in> names" and "draft_value draft sid f = JNull"
  shows "proposal_ok draft sid names st'"
proof -
  obtain v where v: "default_value_for field = Some v" using assms(1) by (auto simp: fill_default_def)
  show ?thesis
  proof (cases "v = JNull")
    case False
    then have "entry_ok draft sid names (f, v)" using assms by (simp add: entry_ok_def)
    with fill_ok [OF assms(2) this] False v assms(1) show ?thesis by (auto simp: fill_default_def)
  qed (use v assms in \<open>simp add: fill_default_def\<close>)
qed

lemma propose_field_ok:
  assumes "propose_field e cl auth draft sid (f, field) st b w = (Some st', b', w')"
    and "proposal_ok draft sid names st" and "f \<in> names"
  shows "proposal_ok draft sid names st'"
proof (cases "draft_value draft sid f = JNull")
  case True
  with assms show ?thesis
    by (auto simp: propose_field_def entry_ok_def split: option.splits prod.splits if_splits
        intro: fill_default_ok intro!: fill_ok)
next
  case False
  with assms show ?thesis by (auto simp: propose_field_def entry_ok_def intro!: fill_ok)
qed

text \<open>A draft value, once taken, stays: later turns leave it or write it again.\<close>

definition takes_draft :: "dict \<Rightarrow> string \<Rightarrow> string \<Rightarrow> proposal \<Rightarrow> bool" where
  "takes_draft draft sid f st \<longleftrightarrow> map_of (pr_payload st) f = Some (draft_value draft sid f)"

lemma fill_map: "map_of (pr_payload (fill f v src why st)) g = (if g = f then Some v else map_of (pr_payload st) g)"
  by (simp add: fill_def map_of_d_set)

lemma propose_field_takes:
  assumes "propose_field e cl auth draft sid (f, field) st b w = (Some st', b', w')"
    and "draft_value draft sid g \<noteq> JNull" and "g = f \<or> takes_draft draft sid g st"
  shows "takes_draft draft sid g st'"
  using assms
  by (auto simp: propose_field_def Let_def takes_draft_def fill_map fill_default_def
      split: option.splits prod.splits if_splits)

lemma propose_fields_ok:
  assumes "propose_fields e cl auth draft sid xs st b w = (Some st', b', w')"
    and "proposal_ok draft sid names st" and "fst ` set xs \<subseteq> names"
  shows "proposal_ok draft sid names st' \<and>
    (\<forall>g. draft_value draft sid g \<noteq> JNull \<longrightarrow> g \<in> fst ` set xs \<or> takes_draft draft sid g st \<longrightarrow> takes_draft draft sid g st')"
  using assms
proof (induction xs arbitrary: st b w)
  case (Cons x xs)
  obtain f field where x: "x = (f, field)" by (cases x)
  obtain st1 b1 w1 where one: "propose_field e cl auth draft sid (f, field) st b w = (Some st1, b1, w1)"
    and rest: "propose_fields e cl auth draft sid xs st1 b1 w1 = (Some st', b', w')"
    using Cons.prems(1) by (auto simp: x split: option.splits prod.splits)
  have ok: "proposal_ok draft sid names st1"
    using propose_field_ok [OF one Cons.prems(2)] Cons.prems(3) by (simp add: x)
  have "fst ` set xs \<subseteq> names" using Cons.prems(3) by simp
  from Cons.IH [OF rest ok this] propose_field_takes [OF one] show ?case by (auto simp: x)
qed simp

lemma weights: "0 \<le> fl (7 / 10)" "0 \<le> fl (3 / 10)" "fl (7 / 10) + fl (3 / 10) \<le> 1"
  by code_simp+

lemma mk_unit: "0 \<le> x \<Longrightarrow> x \<le> 1 \<Longrightarrow> mk_float x = Fin (fl x) \<and> 0 \<le> fl x \<and> fl x \<le> 1"
  using mk_float_bounded [of x] fl_nonneg [of x] fl_mono [of x 1] fl_exact [OF representable_int [of 1]] by simp

lemma fround_unit:
  assumes "0 \<le> x" and "x \<le> 1"
  shows "\<exists>y. fround 4 (Fin x) = Fin y \<and> 0 \<le> y \<and> y \<le> 1"
proof -
  have "rne (x * 10 ^ 4) \<le> 10 ^ 4" "0 \<le> rne (x * 10 ^ 4)"
    using assms by (auto intro!: rne_le_int rne_ge_int)
  then have "0 \<le> (of_int (rne (x * 10 ^ 4)) / 10 ^ 4 :: rat)" "(of_int (rne (x * 10 ^ 4)) / 10 ^ 4 :: rat) \<le> 1"
    by simp_all
  from mk_unit [OF this] show ?thesis by auto
qed

lemma weighted_unit:
  assumes "0 \<le> c" and "c \<le> 1" and "0 \<le> q" and "q \<le> 1"
  shows "\<exists>y. fround 4 (fadd (fmul (mk_float (7 / 10)) (Fin c)) (fmul (mk_float (3 / 10)) (Fin q))) = Fin y \<and> 0 \<le> y \<and> y \<le> 1"
proof -
  have part: "fmul (mk_float k) (Fin z) = Fin (fl (fl k * z)) \<and> 0 \<le> fl (fl k * z) \<and> fl (fl k * z) \<le> fl k"
    if "0 \<le> k" "k \<le> 1" "0 \<le> z" "z \<le> 1" for k z
  proof -
    have k: "mk_float k = Fin (fl k)" "0 \<le> fl k" "fl k \<le> 1" using mk_unit that by auto
    have "0 \<le> fl k * z" "fl k * z \<le> fl k" using k that by (simp_all add: mult_left_le)
    then have "mk_float (fl k * z) = Fin (fl (fl k * z))" "0 \<le> fl (fl k * z)" "fl (fl k * z) \<le> fl (fl k)"
      using k mk_unit [of "fl k * z"] fl_mono [of "fl k * z" "fl k"] by auto
    with k show ?thesis by simp
  qed
  let ?a = "fl (fl (7 / 10) * c)" and ?b = "fl (fl (3 / 10) * q)"
  have ab: "0 \<le> ?a + ?b" "?a + ?b \<le> 1"
    using part [of "7 / 10" c] part [of "3 / 10" q] assms weights by simp_all
  from mk_unit [OF this] have "mk_float (?a + ?b) = Fin (fl (?a + ?b))" "0 \<le> fl (?a + ?b)" "fl (?a + ?b) \<le> 1" by auto
  moreover have "fmul (mk_float (7 / 10)) (Fin c) = Fin ?a" "fmul (mk_float (3 / 10)) (Fin q) = Fin ?b"
    using part [of "7 / 10" c] part [of "3 / 10" q] assms by simp_all
  ultimately show ?thesis using fround_unit [of "fl (?a + ?b)"] by simp
qed

lemma clamped_unit: "x \<noteq> NaN \<Longrightarrow> \<exists>c. fmax (Fin 0) (fmin (Fin 1) x) = Fin c \<and> 0 \<le> c \<and> c \<le> 1"
  by (cases x) (auto simp: fmax_def fmin_def)

lemma confidence_score_range: "\<exists>y. confidence_score filled essential sources = Fin y \<and> 0 \<le> y \<and> y \<le> 1"
proof (cases "essential = 0")
  case False
  let ?q = "rat_of_nat filled / rat_of_nat essential"
  obtain c where c: "fmax (Fin 0) (fmin (Fin 1) (mk_float ?q)) = Fin c" "0 \<le> c" "c \<le> 1"
    using clamped_unit [of "mk_float ?q"] by auto
  have "\<exists>q. (if ''historical'' \<in> set sources then Fin 1
      else if ''draft'' \<in> set sources then mk_float (7 / 10)
      else if ''default'' \<in> set sources then mk_float (4 / 10) else Fin 0) = Fin q \<and> 0 \<le> q \<and> q \<le> 1"
    using mk_unit [of "7 / 10"] mk_unit [of "2 / 5"] by simp
  then obtain q where q: "(if ''historical'' \<in> set sources then Fin 1
      else if ''draft'' \<in> set sources then mk_float (7 / 10)
      else if ''default'' \<in> set sources then mk_float (4 / 10) else Fin 0) = Fin q" "0 \<le> q" "q \<le> 1"
    by blast
  have "confidence_score filled essential sources =
      fround 4 (fadd (fmul (mk_float (7 / 10)) (Fin c)) (fmul (mk_float (3 / 10)) (Fin q)))"
    using False unfolding confidence_score_def Let_def c(1) q(1) by simp
  with weighted_unit [OF c(2,3) q(2,3)] show ?thesis by simp
qed (simp add: confidence_score_def)

lemma propose_step_SomeD:
  assumes "propose_step_payload e cl auth step draft b w = (Some (Some d), b', w')"
    and "essentials_of (float_text e) step = Some essentials"
  obtains st where "propose_fields e cl auth draft (step_id_text (float_text e) step) essentials empty_proposal b w = (Some st, b', w')"
    and "pr_payload st \<noteq> []" and "d = proposal_json (step_id_text (float_text e) step) (length essentials) st"
  using assms by (auto simp: propose_step_payload_def Let_def split: if_splits option.splits prod.splits)

section \<open>Properties\<close>

text \<open>
  C34: a proposal covers only declared essentials of the step, each with a value and a rationale,
  and never overrides the user: an essential the draft already answers is proposed with exactly
  that answer.
\<close>

theorem proposal_respects_draft:
  assumes "propose_step_payload e cl auth step draft b w = (Some (Some d), b', w')"
    and "essentials_of (float_text e) step = Some essentials"
  shows "\<exists>payload rationale. get_key (d_get d ''proposal'') ''payload'' = JObj payload \<and>
    get_key (d_get d ''proposal'') ''rationale_by_field'' = JObj rationale \<and>
    payload \<noteq> [] \<and> fst ` set rationale = fst ` set payload \<and>
    (\<forall>(f, v) \<in> set payload. f \<in> fst ` set essentials \<and> v \<noteq> JNull) \<and>
    (\<forall>f \<in> fst ` set essentials. draft_value draft (step_id_text (float_text e) step) f \<noteq> JNull \<longrightarrow>
      d_get payload f = draft_value draft (step_id_text (float_text e) step) f)"
proof -
  let ?sid = "step_id_text (float_text e) step"
  obtain st where st: "propose_fields e cl auth draft ?sid essentials empty_proposal b w = (Some st, b', w')"
    "pr_payload st \<noteq> []" "d = proposal_json ?sid (length essentials) st"
    using propose_step_SomeD [OF assms] .
  have "proposal_ok draft ?sid (fst ` set essentials) empty_proposal"
    by (simp add: proposal_ok_def empty_proposal_def)
  from propose_fields_ok [OF st(1) this] have ok: "proposal_ok draft ?sid (fst ` set essentials) st"
    "\<forall>f \<in> fst ` set essentials. draft_value draft ?sid f \<noteq> JNull \<longrightarrow> takes_draft draft ?sid f st" by auto
  show ?thesis
  proof (intro exI conjI)
    show "get_key (d_get d ''proposal'') ''payload'' = JObj (pr_payload st)"
      "get_key (d_get d ''proposal'') ''rationale_by_field'' = JObj (pr_rationale st)"
      by (simp_all add: st(3) proposal_json_def d_get_Cons get_key_def)
    show "\<forall>f \<in> fst ` set essentials. draft_value draft ?sid f \<noteq> JNull \<longrightarrow> d_get (pr_payload st) f = draft_value draft ?sid f"
      using ok(2) by (auto simp: takes_draft_def d_get_def)
    show "\<forall>(f, v) \<in> set (pr_payload st). f \<in> fst ` set essentials \<and> v \<noteq> JNull"
      using ok(1) unfolding proposal_ok_def entry_ok_def list_all_iff split_beta by blast
  qed (use st ok(1) in \<open>simp_all add: proposal_ok_def\<close>)
qed

definition demo_essential_step :: json where
  "demo_essential_step = JObj [(''id'', JStr ''prices''), (''essential_field_ids'', JArr [JStr ''fee'', JStr ''on'']),
     (''fields'', JArr [JObj [(''id'', JStr ''fee''), (''type'', JStr ''number'')],
                        JObj [(''id'', JStr ''on''), (''type'', JStr ''boolean'')]])]"

definition demo_essentials :: "(string \<times> json) list" where
  "demo_essentials = [(''fee'', JObj [(''id'', JStr ''fee''), (''type'', JStr ''number'')]),
     (''on'', JObj [(''id'', JStr ''on''), (''type'', JStr ''boolean'')])]"

definition demo_prices :: dict where "demo_prices = [(''prices'', JObj [(''fee'', JInt 7)])]"

lemma demo_essentials: "essentials_of repr demo_essential_step = Some demo_essentials"
  by (simp add: essentials_of_def demo_essential_step_def essential_field_ids_def get_key_def d_get_def py
      py_iter_def essential_entry_def step_fields_def essential_field_def field_id_text_def List.map_filter_def
      py_str_def demo_essentials_def py_or_def py_truthy_def)

definition demo_proposal :: proposal where
  "demo_proposal = fill ''on'' (JBool False) ''default'' ''Sensible default - adjust as needed.''
     (fill ''fee'' (JInt 7) ''draft'' ''Already filled in this draft.'' empty_proposal)"

lemma demo_propose:
  "propose_step_payload demo_env None demo_context demo_essential_step demo_prices default_budget w =
    (Some (Some (proposal_json ''prices'' 2 demo_proposal)), default_budget, w)"
proof -
  have sid: "step_id_text r demo_essential_step = ''prices''" for r
    by (simp add: step_id_text_def demo_essential_step_def get_key_def d_get_def py_str_def)
  have "propose_fields demo_env None demo_context demo_prices ''prices'' demo_essentials empty_proposal default_budget w =
      (Some demo_proposal, default_budget, w)"
    by (simp add: demo_essentials_def propose_field_def draft_value_def demo_prices_def d_get_def d_has_def
        is_blank_def history_client_def fill_default_def default_value_for_def get_key_def numeric_types_def demo_proposal_def)
  moreover have "demo_essentials \<noteq> []" "length demo_essentials = 2" "pr_payload demo_proposal \<noteq> []"
    by (simp_all add: demo_essentials_def demo_proposal_def fill_def)
  ultimately show ?thesis by (simp add: propose_step_payload_def demo_essentials sid Let_def)
qed

theorem proposal_respects_draft_witness:
  "\<exists>payload rationale. get_key (d_get (proposal_json ''prices'' 2 demo_proposal) ''proposal'') ''payload'' = JObj payload \<and>
    get_key (d_get (proposal_json ''prices'' 2 demo_proposal) ''proposal'') ''rationale_by_field'' = JObj rationale \<and>
    payload \<noteq> [] \<and> fst ` set rationale = fst ` set payload \<and> d_get payload ''fee'' = JInt 7"
proof -
  have fee: "draft_value demo_prices (step_id_text (float_text demo_env) demo_essential_step) ''fee'' = JInt 7"
    by (simp add: step_id_text_def demo_essential_step_def get_key_def d_get_def py_str_def draft_value_def
        demo_prices_def d_has_def is_blank_def)
  have "''fee'' \<in> fst ` set demo_essentials" by (simp add: demo_essentials_def)
  with proposal_respects_draft [OF demo_propose [of "session_on empty_db"] demo_essentials] fee show ?thesis by fastforce
qed

text \<open>
  the confidence of a proposal is a finite float between 0 and 1, rounding of every operation
  included, and making the proposal only reads: the database of the agent stays as it is.
\<close>

theorem proposal_confidence_in_range:
  assumes "propose_step_payload e cl auth step draft b w = (Some (Some d), b', w')"
  shows "(\<exists>x. get_key (d_get d ''proposal'') ''confidence'' = JFlt (Fin x) \<and> 0 \<le> x \<and> x \<le> 1) \<and>
    cur w' = cur w \<and> saved w' = saved w"
proof -
  obtain essentials where es: "essentials_of (float_text e) step = Some essentials"
    using assms by (auto simp: propose_step_payload_def split: option.splits)
  obtain st where "d = proposal_json (step_id_text (float_text e) step) (length essentials) st"
    using propose_step_SomeD [OF assms es] .
  then have "get_key (d_get d ''proposal'') ''confidence'' =
      JFlt (confidence_score (length (pr_payload st)) (length essentials) (pr_sources st))"
    by (simp add: proposal_json_def d_get_Cons get_key_def)
  with confidence_score_range [of "length (pr_payload st)" "length essentials" "pr_sources st"]
    propose_step_quiet [of w e cl auth step draft b] assms
  show ?thesis by (auto simp: quiet_def)
qed

theorem proposal_confidence_in_range_witness:
  "(\<exists>x. get_key (d_get (proposal_json ''prices'' 2 demo_proposal) ''proposal'') ''confidence'' = JFlt (Fin x) \<and> 0 \<le> x \<and> x \<le> 1) \<and>
    cur (session_on empty_db) = empty_db"
  using proposal_confidence_in_range [OF demo_propose [of "session_on empty_db"]] by (simp add: session_on_def)

end
