(* ===== verification/WorkflowAdvance.thy ===== *)
theory WorkflowAdvance
  imports StepProposals
begin

text \<open>
  Advancing the wizard by one step (\<open>agent/workflow_advance.py\<close>): the contract artifact, the
  template of the step's tool call with its token grammar, the decision about the step with the
  rows it persists, the announcement of a decision, and the entry into the following step. The
  texts of pydantic's validation errors are not modelled and stand as empty strings.
\<close>

section \<open>Contract\<close>

definition load_contract :: "env \<Rightarrow> string \<Rightarrow> string \<Rightarrow> json res" where
  "load_contract e cid ver = (case contract_file e (cid @ ''_'' @ ver @ ''.json'') of
      None \<Rightarrow> Inl (StepAdvanceError (''Workflow contract not found: '' @ cid @ ''/'' @ ver))
    | Some j \<Rightarrow> Inr j)"

definition is_step :: "string \<Rightarrow> json \<Rightarrow> bool" where
  "is_step step_id step \<longleftrightarrow> is_obj step \<and> get_key step ''id'' = JStr step_id"

definition quoted :: "string \<Rightarrow> string" where "quoted s = [CHR 0x27] @ s @ [CHR 0x27]"

definition get_step :: "json \<Rightarrow> string \<Rightarrow> json option option" where
  "get_step contract step_id = do {
     steps \<leftarrow> jget_or contract ''steps'' (JArr []);
     steps \<leftarrow> py_iter steps;
     Some (find (is_step step_id) steps)
   }"

section \<open>The quote created before\<close>

definition as_quote_id :: "json \<Rightarrow> json option" where
  "as_quote_id v = (case v of
      JInt i \<Rightarrow> Some (JInt i)
    | JBool b \<Rightarrow> Some (JBool b)
    | JStr s \<Rightarrow> if str_isdecimal s then Some (JInt (int (dec_value s))) else None
    | _ \<Rightarrow> None)"

definition orelse :: "'a option \<Rightarrow> 'a option \<Rightarrow> 'a option" where
  "orelse x y = (case x of None \<Rightarrow> y | Some v \<Rightarrow> Some v)"

definition quote_id_from_result :: "dict \<Rightarrow> dict \<Rightarrow> json option" where
  "quote_id_from_result result args =
     (let nested = (case d_get result ''data'' of JObj data \<Rightarrow> get_key (d_get data ''data'') ''id'' | _ \<Rightarrow> JNull);
          direct = (case d_get result ''data'' of
              JObj data \<Rightarrow> py_or (py_or (d_get data ''id'') (d_get data ''quoteId'')) (d_get data ''quote_id'')
            | _ \<Rightarrow> JNull)
      in orelse (as_quote_id nested) (orelse (as_quote_id direct)
           (as_quote_id (py_or (d_get args ''quote_id'') (d_get args ''quoteId'')))))"

text \<open>
  \<open>ORDER BY completed_at DESC LIMIT 1\<close>: nulls come first, and of rows completed at the same time
  the database may return either; here it is the later row.
\<close>

definition completion_key :: "agent_tool_call \<Rightarrow> int list" where
  "completion_key tc = (case tc_completed_at tc of None \<Rightarrow> [1, 0] | Some t \<Rightarrow> [0, t])"

definition latest_completed :: "agent_tool_call list \<Rightarrow> agent_tool_call option" where
  "latest_completed tcs = (case rev (sort_key completion_key tcs) of [] \<Rightarrow> None | tc # _ \<Rightarrow> Some tc)"

definition created_quote :: "agent_tool_call \<Rightarrow> bool" where
  "created_quote tc \<longleftrightarrow> tc_tool_name tc = ''create_quotation'' \<and> tc_status tc = ''succeeded''"

definition run_in_conversation :: "db \<Rightarrow> string \<Rightarrow> string \<Rightarrow> bool" where
  "run_in_conversation d conv r = list_ex (\<lambda>run. rn_id run = r \<and> rn_conversation_id run = conv) (runs d)"

definition latest_created_quote_id :: "db \<Rightarrow> string \<Rightarrow> string option \<Rightarrow> json option" where
  "latest_created_quote_id d run_id conversation_id =
     (let in_run = latest_completed (filter (\<lambda>tc. created_quote tc \<and> tc_run_id tc = run_id) (tool_calls d));
          in_conversation = (case conversation_id of
              None \<Rightarrow> None
            | Some conv \<Rightarrow> latest_completed
                (filter (\<lambda>tc. created_quote tc \<and> run_in_conversation d conv (tc_run_id tc)) (tool_calls d)))
      in case orelse in_run in_conversation of
           None \<Rightarrow> None
         | Some tc \<Rightarrow> (case tc_result tc of None \<Rightarrow> None | Some r \<Rightarrow> quote_id_from_result r (tc_args tc)))"

section \<open>Templates\<close>

definition is_word :: "char \<Rightarrow> bool" where
  "is_word c \<longleftrightarrow> is_digit c \<or> 65 \<le> code c \<and> code c \<le> 90 \<or> 97 \<le> code c \<and> code c \<le> 122 \<or> c = CHR ''_''"

text \<open>What stands between an opening and the closing braces; \<open>$\<close> also matches before a final newline.\<close>

definition token_body :: "string \<Rightarrow> string \<Rightarrow> string option" where
  "token_body opening s =
     (let t = (if s \<noteq> [] \<and> last s = CHR 0x0A then butlast s else s)
      in if prefix opening t \<and> suffix ''}}'' (drop (length opening) t)
         then Some (take (length t - length opening - 2) (drop (length opening) t)) else None)"

definition field_token :: "string \<Rightarrow> (string \<times> string) option" where
  "field_token s = (case token_body ''{{field:'' s of
      None \<Rightarrow> None
    | Some body \<Rightarrow>
        (case split_char (CHR ''.'') body of
           [a, b] \<Rightarrow> if a \<noteq> [] \<and> b \<noteq> [] \<and> list_all is_word (a @ b) then Some (a, b) else None
         | _ \<Rightarrow> None))"

definition draft_token :: "string \<Rightarrow> string option" where
  "draft_token s = (case token_body ''{{draft.'' s of
      None \<Rightarrow> None
    | Some body \<Rightarrow>
        if body \<noteq> [] \<and> list_all (\<lambda>c. is_word c \<or> c = CHR ''.'') body then Some body else None)"

fun walk_path :: "json \<Rightarrow> string list \<Rightarrow> json" where
  "walk_path j [] = j"
| "walk_path j (part # parts) = (case j of
      JObj d \<Rightarrow> if d_has d part then walk_path (d_get d part) parts else JNull
    | _ \<Rightarrow> JNull)"

definition resolve_string :: "dict \<Rightarrow> dict \<Rightarrow> string \<Rightarrow> json \<times> string list" where
  "resolve_string draft runtime s = (case field_token s of
      Some (a, b) \<Rightarrow>
        (case d_get draft a of
           JObj sect \<Rightarrow> if d_has sect b then (d_get sect b, []) else (JNull, [s])
         | _ \<Rightarrow> (JNull, [s]))
    | None \<Rightarrow>
        (case draft_token s of
           Some key \<Rightarrow>
             if d_has runtime key then (d_get runtime key, [])
             else let v = walk_path (JObj draft) (split_char (CHR ''.'') key)
                  in if v \<noteq> JNull then (v, []) else (JNull, [s])
         | None \<Rightarrow> (JStr s, [])))"

fun resolve_value :: "dict \<Rightarrow> dict \<Rightarrow> json \<Rightarrow> json \<times> string list" where
  "resolve_value draft runtime (JStr s) = resolve_string draft runtime s"
| "resolve_value draft runtime (JObj d) =
     (let rs = map (\<lambda>(k, v). (k, resolve_value draft runtime v)) d
      in (JObj (map (\<lambda>(k, r). (k, fst r)) rs), concat (map (\<lambda>(k, r). snd r) rs)))"
| "resolve_value draft runtime (JArr xs) =
     (let rs = map (resolve_value draft runtime) xs
      in (JArr (map fst rs), concat (map snd rs)))"
| "resolve_value draft runtime v = (v, [])"

definition resolve_args_template :: "dict \<Rightarrow> dict \<Rightarrow> dict \<Rightarrow> dict \<times> string list" where
  "resolve_args_template template draft runtime =
     (let rs = map (\<lambda>(k, v). (k, resolve_value draft runtime v)) template
      in (map (\<lambda>(k, r). (k, fst r)) rs, concat (map (\<lambda>(k, r). snd r) rs)))"

section \<open>Decision\<close>

record advance_decision =
  ad_status :: string
  ad_tool_calls :: "(string \<times> dict) list"
  ad_tool_call_ids :: "string list"
  ad_blocked_reason :: "string option"
  ad_detail :: "dict option"

definition immediate :: "string \<Rightarrow> advance_decision" where
  "immediate reason = \<lparr>ad_status = ''approved'', ad_tool_calls = [], ad_tool_call_ids = [],
     ad_blocked_reason = None, ad_detail = Some [(''reason'', JStr reason)]\<rparr>"

definition blocked :: "string \<Rightarrow> dict \<Rightarrow> advance_decision" where
  "blocked reason detail = \<lparr>ad_status = ''blocked'', ad_tool_calls = [], ad_tool_call_ids = [],
     ad_blocked_reason = Some reason, ad_detail = Some detail\<rparr>"

definition unresolved_reason :: "string list \<Rightarrow> string" where
  "unresolved_reason tokens =
     (if list_ex (\<lambda>t. str_contains t ''draft.created_quote_id'') tokens
      then ''missing_created_quote_id'' else ''unknown_token'')"

text \<open>The two rows of a requested advance: the step record, and the call waiting for its decision.\<close>

definition step_kind :: "string \<Rightarrow> string" where "step_kind step_id = ''workflow_step:'' @ step_id"

definition persist_call ::
    "env \<Rightarrow> string \<Rightarrow> string \<Rightarrow> tool \<Rightarrow> dict \<Rightarrow> world \<Rightarrow> advance_decision \<times> world" where
  "persist_call e run_id step_id t args w =
     (let (i, w1) = next_row w;
          (t1, w2) = utc_now e w1;
          w3 = add_step_row \<lparr>st_id = i, st_run_id = run_id, st_seq = 0, st_kind = step_kind step_id,
                 st_status = ''awaiting_decision'', st_created_at = t1, st_completed_at = None\<rparr> w2;
          (k, w4) = new_id e w3;
          (t2, w5) = utc_now e w4;
          w6 = add_tool_call \<lparr>tc_id = k, tc_run_id = run_id, tc_step_id = Some i, tc_tool_name = tl_name t,
                 tc_status = (if requires_approval t then ''proposed'' else ''pending''), tc_args = args,
                 tc_result = None, tc_error = None, tc_requires_approval = requires_approval t,
                 tc_audit_log_id = None, tc_approved_at = None, tc_rejected_at = None,
                 tc_created_at = t2, tc_completed_at = None\<rparr> w5
      in (\<lparr>ad_status = ''requested'', ad_tool_calls = [(tl_name t, args)], ad_tool_call_ids = [k],
           ad_blocked_reason = None, ad_detail = None\<rparr>, w6))"

definition request_call ::
    "env \<Rightarrow> pydantic \<Rightarrow> string \<Rightarrow> string \<Rightarrow> json \<Rightarrow> dict \<Rightarrow> world \<Rightarrow> advance_decision res \<times> world" where
  "request_call e pyd run_id step_id tool_name args w = (case tool_name of
      JStr n \<Rightarrow>
        (case registry_get n of
           None \<Rightarrow> (Inr (blocked ''unknown_tool'' [(''tool'', JStr n)]), w)
         | Some t \<Rightarrow>
             (case validate_args pyd n args of
                None \<Rightarrow> (Inr (blocked ''schema_validation_failed'' [(''tool'', JStr n), (''error'', JStr [])]), w)
              | Some parsed \<Rightarrow>
                  (case persist_call e run_id step_id t (dump_args parsed) w of (d, w') \<Rightarrow> (Inr d, w'))))
    | _ \<Rightarrow> (Inl (StepAdvanceError (''Step '' @ quoted step_id @ '' on_complete has no tool name'')), w))"

text \<open>The step's call, resolved against the draft and the quote created before.\<close>

definition evaluate_on_complete ::
    "env \<Rightarrow> pydantic \<Rightarrow> string \<Rightarrow> agent_workflow_draft \<Rightarrow> string \<Rightarrow> json \<Rightarrow> world \<Rightarrow> advance_decision res \<times> world" where
  "evaluate_on_complete e pyd run_id draft step_id on_complete w =
     (let runtime = (case latest_created_quote_id (cur w) run_id (Some (dr_conversation_id draft)) of
              None \<Rightarrow> [] | Some q \<Rightarrow> [(''created_quote_id'', q)])
      in case Option.bind (jget on_complete ''args_template'') (\<lambda>t. as_dict (py_or t (JObj []))) of
           None \<Rightarrow> (Inl PyError, w)
         | Some template \<Rightarrow>
             (case resolve_args_template template (dr_payload draft) runtime of
                (args, unresolved) \<Rightarrow>
                  if unresolved \<noteq> []
                  then (Inr (blocked (unresolved_reason unresolved) [(''unresolved_tokens'', jstrs unresolved)]), w)
                  else request_call e pyd run_id step_id (get_key on_complete ''tool'') args w))"

definition evaluate_step_advance ::
    "env \<Rightarrow> pydantic \<Rightarrow> string \<Rightarrow> string \<Rightarrow> agent_workflow_draft option \<Rightarrow> world \<Rightarrow> advance_decision res \<times> world" where
  "evaluate_step_advance e pyd run_id step_id draft w = (case draft of
      None \<Rightarrow> (Inl (StepAdvanceError ''No workflow draft is associated with this conversation''), w)
    | Some dr \<Rightarrow>
        (case load_contract e (dr_contract_id dr) (dr_contract_version dr) of
           Inl err \<Rightarrow> (Inl err, w)
         | Inr contract \<Rightarrow>
             (case get_step contract step_id of
                None \<Rightarrow> (Inl PyError, w)
              | Some None \<Rightarrow> (Inl (StepAdvanceError
                    (''Step '' @ quoted step_id @ '' not in contract '' @ dr_contract_id dr)), w)
              | Some (Some step) \<Rightarrow>
                  let mode = get_key step ''approval_mode'';
                      on_complete = get_key step ''on_complete''
                  in if mode = JStr ''batch_at_submit'' then (Inr (immediate ''batch_at_submit''), w)
                     else if mode \<noteq> JStr ''per_tab''
                     then (Inl (StepAdvanceError (''Step '' @ quoted step_id @ '' has unsupported approval_mode '' @
                             quoted (py_str (float_text e) mode))), w)
                     else if \<not> py_truthy on_complete then (Inr (immediate ''no_on_complete''), w)
                     else evaluate_on_complete e pyd run_id dr step_id on_complete w)))"

section \<open>Announcement\<close>

definition member_unless :: "bool \<Rightarrow> string \<Rightarrow> json \<Rightarrow> dict" where
  "member_unless b k v = (if b then [] else [(k, v)])"

definition advance_payload :: "string \<Rightarrow> advance_decision \<Rightarrow> dict" where
  "advance_payload step_id d =
     [(''step_id'', JStr step_id), (''status'', JStr (ad_status d))] @
     member_unless (ad_tool_call_ids d = []) ''tool_call_ids'' (jstrs (ad_tool_call_ids d)) @
     member_unless (ad_tool_calls d = []) ''tool_calls''
       (JArr (map (\<lambda>(n, args). JObj [(''tool_name'', JStr n), (''args'', JObj args)]) (ad_tool_calls d))) @
     (case ad_detail d of None \<Rightarrow> [] | Some dt \<Rightarrow> member_unless (dt = []) ''detail'' (JObj dt))"

definition emit_advance_event :: "env \<Rightarrow> string \<Rightarrow> string \<Rightarrow> advance_decision \<Rightarrow> world \<Rightarrow> world" where
  "emit_advance_event e run_id step_id d w =
     (if ad_status d = ''requested''
      then (case utc_now e w of (now, w1) \<Rightarrow>
              emit e run_id ''v1.workflow.step.advance_requested'' (advance_payload step_id d)
                (upd_run run_id (\<lambda>r. r\<lparr>rn_status := ''awaiting_decision'', rn_updated_at := now\<rparr>) w1))
      else if ad_status d = ''approved''
      then emit e run_id ''v1.workflow.step.advance_approved'' (advance_payload step_id d) w
      else if ad_status d = ''blocked''
      then emit e run_id ''v1.workflow.step.advance_blocked''
             (advance_payload step_id d @ [(''reason'', jopt JStr (ad_blocked_reason d))]) w
      else w)"

section \<open>The following step\<close>

fun after_step :: "string \<Rightarrow> json list \<Rightarrow> json option" where
  "after_step cur_id [] = None"
| "after_step cur_id (step # steps) =
     (if is_step cur_id step then find is_obj steps else after_step cur_id steps)"

definition next_step_after :: "json \<Rightarrow> string \<Rightarrow> json option" where
  "next_step_after contract cur_id = (case get_key contract ''steps'' of
      JArr steps \<Rightarrow> after_step cur_id steps | _ \<Rightarrow> None)"

fun index_of_step :: "json \<Rightarrow> json list \<Rightarrow> nat option" where
  "index_of_step step_id [] = None"
| "index_of_step step_id (s # ss) =
     (if is_obj s \<and> py_eq (get_key s ''id'') step_id then Some 0 else map_option Suc (index_of_step step_id ss))"

definition step_entered_payload :: "json \<Rightarrow> json \<Rightarrow> dict" where
  "step_entered_payload contract step =
     (let steps = (case get_key contract ''steps'' of JArr ss \<Rightarrow> ss | _ \<Rightarrow> []);
          step_id = get_key step ''id''
      in [(''workflow'', get_key contract ''id''), (''contract_id'', get_key contract ''id''),
          (''contract_version'', get_key contract ''version''), (''step_id'', step_id),
          (''step_index'', JInt (case index_of_step step_id steps of None \<Rightarrow> 0 | Some i \<Rightarrow> int i)),
          (''total_steps'', JInt (int (length steps)))])"

text \<open>Suggestions and proposal are best effort: their exceptions are dropped, what they did stays.\<close>

definition emit_step_entered_with_suggestions ::
    "env \<Rightarrow> pf_client option \<Rightarrow> research_cfg \<Rightarrow> auth_context \<Rightarrow> string \<Rightarrow> json \<Rightarrow> json \<Rightarrow> dict \<Rightarrow> run_budget option \<Rightarrow>
     world \<Rightarrow> run_budget \<times> world" where
  "emit_step_entered_with_suggestions e client cfg auth run_id contract step draft budget w =
     (let w0 = emit e run_id ''v1.workflow.step.entered'' (step_entered_payload contract step) w;
          b0 = (case budget of None \<Rightarrow> default_budget | Some b \<Rightarrow> b)
      in case emit_suggestions e client cfg auth run_id contract step draft b0 w0 of
           (_, b1, w1) \<Rightarrow>
             (case propose_step_payload e client auth step draft b1 w1 of
                (Some (Some payload), b2, w2) \<Rightarrow> (b2, emit e run_id event_step_proposed payload w2)
              | (_, b2, w2) \<Rightarrow> (b2, w2)))"

section \<open>Laws\<close>

lemma persist_call_tables:
  "cur (snd (persist_call e r sid t args w)) = (cur w)\<lparr>
     run_steps := run_steps (cur w) @ [\<lparr>st_id = rown w, st_run_id = r, st_seq = 0, st_kind = step_kind sid,
       st_status = ''awaiting_decision'', st_created_at = clock e (tick w), st_completed_at = None\<rparr>],
     tool_calls := tool_calls (cur w) @ [\<lparr>tc_id = fresh_id e (idn w), tc_run_id = r, tc_step_id = Some (rown w),
       tc_tool_name = tl_name t, tc_status = (if requires_approval t then ''proposed'' else ''pending''),
       tc_args = args, tc_result = None, tc_error = None, tc_requires_approval = requires_approval t,
       tc_audit_log_id = None, tc_approved_at = None, tc_rejected_at = None,
       tc_created_at = clock e (Suc (tick w)), tc_completed_at = None\<rparr>]\<rparr>"
  "sent (snd (persist_call e r sid t args w)) = sent w"
  "saved (snd (persist_call e r sid t args w)) = saved w"
  "metrics (snd (persist_call e r sid t args w)) = metrics w"
  by (simp_all add: persist_call_def next_row_def utc_now_def new_id_def add_step_row_def add_tool_call_def in_db_def)

lemma persist_call_decision:
  "fst (persist_call e r sid t args w) = \<lparr>ad_status = ''requested'', ad_tool_calls = [(tl_name t, args)],
     ad_tool_call_ids = [fresh_id e (idn w)], ad_blocked_reason = None, ad_detail = None\<rparr>"
  by (simp add: persist_call_def next_row_def utc_now_def new_id_def Let_def add_step_row_def add_tool_call_def in_db_def)

text \<open>A decision is an immediate one, a blocked one, or a persisted call of a registered tool.\<close>

definition settled :: "advance_decision \<Rightarrow> bool" where
  "settled d \<longleftrightarrow> ad_tool_calls d = [] \<and> ad_tool_call_ids d = [] \<and> (ad_status d = ''approved'' \<or> ad_status d = ''blocked'')"

lemma settled_simps [simp]: "settled (immediate reason)" "settled (blocked reason detail)"
  by (simp_all add: settled_def immediate_def blocked_def)

lemma registry_get_name: "registry_get n = Some t \<Longrightarrow> tl_name t = n"
  unfolding registry_get_def by (drule find_SomeD) simp

lemma request_call_cases:
  assumes "request_call e pyd r sid tn args w = (Inr d, w')"
  obtains "settled d" and "w' = w"
  | t parsed where "registry_get (tl_name t) = Some t" and "validate_args pyd (tl_name t) args = Some parsed"
      and "persist_call e r sid t (dump_args parsed) w = (d, w')"
proof (cases "\<exists>n t parsed. tn = JStr n \<and> registry_get n = Some t \<and> validate_args pyd n args = Some parsed")
  case True
  then obtain n t parsed where tn: "tn = JStr n" and t: "registry_get n = Some t"
    and v: "validate_args pyd n args = Some parsed" by blast
  have "persist_call e r sid t (dump_args parsed) w = (d, w')"
    using assms by (simp add: request_call_def tn t v split: prod.splits)
  with t v registry_get_name [OF t] show thesis by (intro that(2)) simp_all
next
  case False
  with assms have "settled d \<and> w' = w"
    by (cases tn) (auto simp: request_call_def split: option.splits)
  then show thesis using that(1) by simp
qed

lemma evaluate_cases:
  assumes "evaluate_step_advance e pyd r sid draft w = (Inr d, w')"
  obtains "settled d" and "w' = w"
  | t parsed args where "registry_get (tl_name t) = Some t" and "validate_args pyd (tl_name t) args = Some parsed"
      and "persist_call e r sid t (dump_args parsed) w = (d, w')"
proof -
  have "settled d \<and> w' = w \<or> (\<exists>tn args. request_call e pyd r sid tn args w = (Inr d, w'))"
    using assms
    by (auto simp: evaluate_step_advance_def evaluate_on_complete_def Let_def
        split: option.splits sum.splits prod.splits if_splits)
  then show thesis
  proof
    assume "\<exists>tn args. request_call e pyd r sid tn args w = (Inr d, w')"
    then obtain tn args where "request_call e pyd r sid tn args w = (Inr d, w')" by blast
    then show thesis by (rule request_call_cases) (use that in blast)+
  qed (use that in blast)
qed

lemma evaluate_error: "evaluate_step_advance e pyd r sid draft w = (Inl err, w') \<Longrightarrow> w' = w"
  by (auto simp: evaluate_step_advance_def evaluate_on_complete_def request_call_def Let_def
      split: option.splits sum.splits prod.splits if_splits json.splits)

lemma split_char_append: "sep \<notin> set a \<Longrightarrow> split_char sep (a @ sep # b) = a # split_char sep b"
  by (induction a) auto

lemma token_body_braces: "token_body opening (opening @ body @ ''}}'') = Some body"
  by (simp add: token_body_def suffix_def)

lemma word_no_dot: "list_all is_word a \<Longrightarrow> CHR ''.'' \<notin> set a"
  by (auto simp: list_all_iff is_word_def is_digit_def)

definition field_ref :: "string \<Rightarrow> string \<Rightarrow> string" where
  "field_ref a b = ''{{field:'' @ (a @ ''.'' @ b) @ ''}}''"

definition draft_ref :: "string \<Rightarrow> string" where "draft_ref k = ''{{draft.'' @ k @ ''}}''"

lemma field_token_ref:
  assumes "a \<noteq> []" and "b \<noteq> []" and "list_all is_word a" and "list_all is_word b"
  shows "field_token (field_ref a b) = Some (a, b)"
proof -
  have "token_body ''{{field:'' (field_ref a b) = Some (a @ ''.'' @ b)"
    unfolding field_ref_def by (rule token_body_braces)
  moreover have "split_char (CHR ''.'') (a @ ''.'' @ b) = [a, b]"
    using assms word_no_dot by (simp add: split_char_append split_char_none)
  ultimately show ?thesis using assms by (simp add: field_token_def)
qed

lemma draft_token_ref:
  assumes "k \<noteq> []" and "list_all is_word k"
  shows "field_token (draft_ref k) = None" and "draft_token (draft_ref k) = Some k"
proof -
  have "list_all (\<lambda>c. is_word c \<or> c = CHR ''.'') k" using assms(2) by (auto simp: list_all_iff)
  with assms(1) show "draft_token (draft_ref k) = Some k"
    unfolding draft_token_def draft_ref_def token_body_braces by simp
  show "field_token (draft_ref k) = None"
    by (simp add: field_token_def draft_ref_def token_body_def)
qed

section \<open>The tour of the wizard\<close>

text \<open>The tabs a user sees who only clicks Next; \<open>None\<close> when the fuel runs out.\<close>

fun tour :: "nat \<Rightarrow> json \<Rightarrow> string \<Rightarrow> string list option" where
  "tour 0 contract step_id = None"
| "tour (Suc n) contract step_id = (case next_step_after contract step_id of
      None \<Rightarrow> Some [step_id]
    | Some step \<Rightarrow> (case get_key step ''id'' of
        JStr s \<Rightarrow> map_option (Cons step_id) (tour n contract s) | _ \<Rightarrow> None))"

definition steps_named :: "json list \<Rightarrow> string list \<Rightarrow> bool" where
  "steps_named steps ids \<longleftrightarrow> list_all2 (\<lambda>step i. is_step i step) steps ids"

lemma is_step_id: "is_step i step \<Longrightarrow> is_step j step \<longleftrightarrow> j = i"
  by (auto simp: is_step_def)

lemma after_step_split:
  assumes "steps_named steps (ids @ i # rest)" and "i \<notin> set ids"
  shows "\<exists>tl. steps_named tl rest \<and> after_step i steps = (case tl of [] \<Rightarrow> None | s # _ \<Rightarrow> Some s)"
  using assms
proof (induction ids arbitrary: steps)
  case Nil
  then obtain s tl where "steps = s # tl" "is_step i s" "steps_named tl rest"
    by (auto simp: steps_named_def list_all2_Cons2)
  then show ?case by (cases tl) (auto simp: steps_named_def list_all2_Cons1 is_step_def)
next
  case (Cons j ids)
  then obtain s tl where "steps = s # tl" "is_step j s" "steps_named tl (ids @ i # rest)"
    by (auto simp: steps_named_def list_all2_Cons2)
  with Cons show ?case by (simp add: is_step_id)
qed

lemma tour_suffix:
  assumes "get_key contract ''steps'' = JArr steps" and "steps_named steps (pre @ i # rest)" and "distinct (pre @ i # rest)"
  shows "tour (Suc (length rest)) contract i = Some (i # rest)"
  using assms(2,3)
proof (induction rest arbitrary: pre i)
  case Nil
  then show ?case using after_step_split [OF Nil(1)] assms(1)
    by (auto simp: next_step_after_def steps_named_def)
next
  case (Cons j rest)
  then obtain tl where "steps_named tl (j # rest)" and a: "after_step i steps = (case tl of [] \<Rightarrow> None | s # _ \<Rightarrow> Some s)"
    using after_step_split [OF Cons.prems(1)] by auto
  then obtain s where s: "after_step i steps = Some s" "is_step j s"
    by (auto simp: steps_named_def list_all2_Cons2)
  have "tour (Suc (length rest)) contract j = Some (j # rest)"
    by (rule Cons.IH [of "pre @ [i]"]) (use Cons.prems in simp_all)
  with s assms(1) show ?case by (simp add: next_step_after_def is_step_def)
qed

section \<open>Entering a step\<close>

lemma append_events_log: "map ev_type (run_log r (cur (append_events e r evs w))) = map ev_type (run_log r (cur w)) @ map fst evs"
  by (induction evs arbitrary: w) (simp_all add: run_log_emit)

definition suggestion_types :: "string set" where
  "suggestion_types = {''v1.suggestion.ready'', ''v1.suggestion.no_signal''}"

lemma emit_suggestions_types:
  assumes "emit_suggestions e cl cfg auth r contract step draft b w = (res, b', w')"
  shows "\<exists>tys. map ev_type (run_log r (cur w')) = map ev_type (run_log r (cur w)) @ tys \<and> set tys \<subseteq> suggestion_types"
proof (cases "cl = None \<or> \<not> has_permission auth ''agent.suggestions.read''")
  case True
  with assms show ?thesis by (auto simp: emit_suggestions_def split: option.splits intro: exI [of _ "[]"])
next
  case False
  then obtain c where c: "cl = Some c" by auto
  obtain fr b1 w1 where f: "fan_out_suggestions e c cfg auth contract step draft b w = (fr, b1, w1)"
    by (metis surj_pair)
  have q: "cur w1 = cur w" using fan_out_quiet [of w e c cfg auth contract step draft b] f by (simp add: quiet_def)
  show ?thesis
  proof (cases fr)
    case None
    with assms False c f q show ?thesis by (auto simp: emit_suggestions_def intro: exI [of _ "[]"])
  next
    case (Some evs)
    obtain flds where "step_fields step = Some flds"
      using f Some by (auto simp: fan_out_suggestions_def split: option.splits)
    with fan_out_shape f Some have "list_all event_shape evs" by blast
    then have "set (map fst evs) \<subseteq> suggestion_types"
      by (auto simp: list_all_iff event_shape_def suggestion_types_def event_ready_def event_no_signal_def)
    moreover have "w' = append_events e r evs w1" using assms False c f Some by (simp add: emit_suggestions_def)
    ultimately show ?thesis using append_events_log [of r e evs w1] q by metis
  qed
qed

lemma enter_step_logs:
  "logs r suggestion_read w (snd (emit_step_entered_with_suggestions e cl cfg auth r contract step draft b w))"
proof -
  let ?b = "case b of None \<Rightarrow> default_budget | Some b \<Rightarrow> b"
  let ?w0 = "emit e r ''v1.workflow.step.entered'' (step_entered_payload contract step) w"
  obtain s b1 w1 where s: "emit_suggestions e cl cfg auth r contract step draft ?b ?w0 = (s, b1, w1)" by (metis surj_pair)
  obtain p b2 w2 where p: "propose_step_payload e cl auth step draft b1 w1 = (p, b2, w2)" by (metis surj_pair)
  have "logs r suggestion_read ?w0 w1"
    using emit_suggestions_logs [of r ?w0 e cl cfg auth contract step draft ?b] s by simp
  moreover have "logs r suggestion_read w1 w2"
    using quiet_logs [OF propose_step_quiet [of w1 e cl auth step draft b1]] p by simp
  ultimately have "logs r suggestion_read w w2" using logs_trans [OF emit_logs] logs_trans by blast
  then show ?thesis using s p logs_trans [OF _ emit_logs]
    by (auto simp: emit_step_entered_with_suggestions_def Let_def split: option.split)
qed

lemma evaluate_settles:
  assumes "evaluate_step_advance e pyd r sid draft w = (Inr d, w')" and "ad_status d \<noteq> ''requested''"
  shows "(ad_status d = ''approved'' \<or> ad_status d = ''blocked'') \<and> w' = w"
  using assms(1)
proof (rule evaluate_cases)
  fix t parsed args
  assume "persist_call e r sid t (dump_args parsed) w = (d, w')"
  then show ?thesis using persist_call_decision [of e r sid t "dump_args parsed" w] assms(2) by simp
qed (simp add: settled_def)

section \<open>Properties\<close>

text \<open>
  C35: evaluating an advance never reaches PriceFRAME. An approved or blocked step leaves the
  database as it is; a requested one adds one call of a registered tool, with arguments that the
  tool's input model accepted, waiting as proposed exactly when the tool needs an approval and
  tied to the step by its record.
\<close>

theorem advance_requests_valid_call:
  assumes "evaluate_step_advance e pyd r sid draft w = (Inr d, w')"
  shows "sent w' = sent w \<and> saved w' = saved w \<and> run_events (cur w') = run_events (cur w) \<and>
    (if ad_status d = ''requested''
     then \<exists>t parsed args tc st. registry_get (tl_name t) = Some t \<and> validate_args pyd (tl_name t) args = Some parsed \<and>
       tool_calls (cur w') = tool_calls (cur w) @ [tc] \<and> run_steps (cur w') = run_steps (cur w) @ [st] \<and>
       ad_tool_call_ids d = [tc_id tc] \<and> tc_run_id tc = r \<and> tc_tool_name tc = tl_name t \<and>
       tc_args tc = dump_args parsed \<and> tc_result tc = None \<and>
       tc_status tc = (if requires_approval t then ''proposed'' else ''pending'') \<and>
       tc_step_id tc = Some (st_id st) \<and> st_run_id st = r \<and> st_kind st = ''workflow_step:'' @ sid
     else (ad_status d = ''approved'' \<or> ad_status d = ''blocked'') \<and> w' = w)"
  using assms
proof (rule evaluate_cases)
  assume "settled d" and "w' = w"
  then show ?thesis by (auto simp: settled_def)
next
  fix t parsed args
  assume t: "registry_get (tl_name t) = Some t" and v: "validate_args pyd (tl_name t) args = Some parsed"
    and p: "persist_call e r sid t (dump_args parsed) w = (d, w')"
  show ?thesis
    using persist_call_tables [of e r sid t "dump_args parsed" w] persist_call_decision [of e r sid t "dump_args parsed" w] t v
    unfolding p step_kind_def fst_conv snd_conv by fastforce
qed

definition demo_wizard :: json where
  "demo_wizard = JObj [(''id'', JStr ''demo''), (''version'', JStr ''v1''), (''steps'', JArr
     [JObj [(''id'', JStr ''summary''), (''approval_mode'', JStr ''per_tab'')],
      JObj [(''id'', JStr ''pricing''), (''approval_mode'', JStr ''batch_at_submit'')],
      JObj [(''id'', JStr ''approvals''), (''approval_mode'', JStr ''per_tab''),
            (''on_complete'', JObj [(''tool'', JStr ''get_quotation''),
               (''args_template'', JObj [(''id'', JStr ''{{field:summary.quote}}'')])])]])]"

definition wizard_env :: env where
  "wizard_env = demo_env\<lparr>contract_file := (\<lambda>f. if f = ''demo_v1.json'' then Some demo_wizard else None)\<rparr>"

definition demo_wizard_draft :: agent_workflow_draft where
  "demo_wizard_draft = \<lparr>dr_conversation_id = ''c'', dr_contract_id = ''demo'', dr_contract_version = ''v1'',
     dr_current_step_id = ''summary'', dr_payload = [(''summary'', JObj [(''quote'', JInt 7)])],
     dr_step_status = [], dr_created_at = 0, dr_updated_at = 0, dr_expires_at = 0\<rparr>"

lemma demo_on_complete: "evaluate_step_advance wizard_env demo_pydantic ''r'' ''approvals'' (Some demo_wizard_draft) (session_on empty_db) =
    (case persist_call wizard_env ''r'' ''approvals'' (mk_tool ''get_quotation'' ''agent.quotes.read'' READ)
       (dump_args (IdInput 7)) (session_on empty_db) of (d, w') \<Rightarrow> (Inr d, w'))"
proof -
  have load: "load_contract wizard_env ''demo'' ''v1'' = Inr demo_wizard"
    by (simp add: load_contract_def wizard_env_def)
  have step: "get_step demo_wizard ''approvals'' = Some (Some (JObj [(''id'', JStr ''approvals''), (''approval_mode'', JStr ''per_tab''),
            (''on_complete'', JObj [(''tool'', JStr ''get_quotation''),
               (''args_template'', JObj [(''id'', JStr ''{{field:summary.quote}}'')])])]))"
    by (simp add: get_step_def demo_wizard_def is_step_def get_key_def d_get_def py)
  have tok: "field_token ''{{field:summary.quote}}'' = Some (''summary'', ''quote'')" by code_simp
  have reg: "registry_get ''get_quotation'' = Some (mk_tool ''get_quotation'' ''agent.quotes.read'' READ)"
    by (simp add: registry_get_def registered_tools_def)
  have val: "validate_args demo_pydantic ''get_quotation'' [(''id'', JInt 7)] = Some (IdInput 7)"
    by (simp add: validate_args_def fld_def guard_def demo_pydantic_def int_val_def)
  have req: "request_call wizard_env demo_pydantic ''r'' ''approvals'' (JStr ''get_quotation'') [(''id'', JInt 7)] w =
      (case persist_call wizard_env ''r'' ''approvals'' (mk_tool ''get_quotation'' ''agent.quotes.read'' READ)
       (dump_args (IdInput 7)) w of (d, w') \<Rightarrow> (Inr d, w'))" for w
    by (simp add: request_call_def reg val del: dump_args.simps)
  have none: "latest_created_quote_id (cur (session_on empty_db)) r cv = None" for r cv
    by (simp add: latest_created_quote_id_def session_on_def empty_db_def latest_completed_def orelse_def split: option.split)
  show ?thesis
    by (simp add: evaluate_step_advance_def demo_wizard_draft_def load step get_key_def d_get_Cons py evaluate_on_complete_def
        none as_dict_def resolve_args_template_def resolve_string_def tok d_has_def req del: dump_args.simps)
qed

theorem advance_requests_valid_call_witness:
  "\<exists>w' d tc. evaluate_step_advance wizard_env demo_pydantic ''r'' ''approvals'' (Some demo_wizard_draft) (session_on empty_db) = (Inr d, w') \<and>
    ad_status d = ''requested'' \<and> tool_calls (cur w') = [tc] \<and> tc_run_id tc = ''r'' \<and> sent w' = []"
proof -
  obtain d w' where p: "persist_call wizard_env ''r'' ''approvals'' (mk_tool ''get_quotation'' ''agent.quotes.read'' READ)
       (dump_args (IdInput 7)) (session_on empty_db) = (d, w')" by fastforce
  have ev: "evaluate_step_advance wizard_env demo_pydantic ''r'' ''approvals'' (Some demo_wizard_draft) (session_on empty_db) = (Inr d, w')"
    using p by (simp add: demo_on_complete del: dump_args.simps)
  have st: "ad_status d = ''requested''"
    using persist_call_decision [of wizard_env "''r''" "''approvals''" "mk_tool ''get_quotation'' ''agent.quotes.read'' READ" "dump_args (IdInput 7)" "session_on empty_db"]
    by (simp add: p del: dump_args.simps)
  from advance_requests_valid_call [OF ev] st have "sent w' = sent (session_on empty_db)"
    and "\<exists>tc. tool_calls (cur w') = tool_calls (cur (session_on empty_db)) @ [tc] \<and> tc_run_id tc = ''r''" by auto
  with ev st show ?thesis by (auto simp: session_on_def empty_db_def)
qed

text \<open>
  the token grammar of a template: a reference to a field of the draft resolves to its value,
  a reference to a run-time value resolves to that value, and a reference that cannot be resolved
  is reported as it is written; whoever writes a template gets back what was referred to.
\<close>

theorem template_references_resolve:
  assumes "a \<noteq> []" and "b \<noteq> []" and "list_all is_word a" and "list_all is_word b"
  shows "(d_get draft a = JObj sect \<and> d_has sect b \<longrightarrow>
      resolve_value draft runtime (JStr (field_ref a b)) = (d_get sect b, [])) \<and>
    (\<not> d_has draft a \<longrightarrow> resolve_value draft runtime (JStr (field_ref a b)) = (JNull, [field_ref a b])) \<and>
    (d_has runtime a \<longrightarrow> resolve_value draft runtime (JStr (draft_ref a)) = (d_get runtime a, [])) \<and>
    (\<not> d_has runtime a \<and> d_get draft a \<noteq> JNull \<longrightarrow> resolve_value draft runtime (JStr (draft_ref a)) = (d_get draft a, [])) \<and>
    (\<not> d_has runtime a \<and> d_get draft a = JNull \<longrightarrow> resolve_value draft runtime (JStr (draft_ref a)) = (JNull, [draft_ref a]))"
proof -
  have "split_char (CHR ''.'') a = [a]" using assms word_no_dot split_char_none by blast
  moreover have "d_has draft a" if "d_get draft a \<noteq> JNull" using that by (auto simp: d_get_def d_has_def split: option.splits)
  moreover have "d_get draft a = JNull" if "\<not> d_has draft a" using that by (auto simp: d_get_def d_has_def)
  ultimately show ?thesis
    using field_token_ref [OF assms] draft_token_ref [OF assms(1,3)]
    by (auto simp: resolve_string_def)
qed

theorem template_references_resolve_witness:
  "resolve_value [(''summary'', JObj [(''name'', JStr ''n'')])] [(''quote'', JInt 7)] (JStr (field_ref ''summary'' ''name'')) = (JStr ''n'', []) \<and>
   resolve_value [(''summary'', JObj [(''name'', JStr ''n'')])] [(''quote'', JInt 7)] (JStr (draft_ref ''quote'')) = (JInt 7, []) \<and>
   resolve_value [(''summary'', JObj [(''name'', JStr ''n'')])] [] (JStr (draft_ref ''quote'')) = (JNull, [draft_ref ''quote''])"
proof -
  have w: "list_all is_word ''summary''" "list_all is_word ''name''" "list_all is_word ''quote''" by code_simp+
  note t = template_references_resolve [of "''summary''" "''name''", OF _ _ w(1,2)]
  note q = template_references_resolve [of "''quote''" "''name''", OF _ _ w(3,2)]
  from t [of "[(''summary'', JObj [(''name'', JStr ''n'')])]" "[(''name'', JStr ''n'')]" "[(''quote'', JInt 7)]"]
    q [of "[(''summary'', JObj [(''name'', JStr ''n'')])]" _ "[(''quote'', JInt 7)]"]
    q [of "[(''summary'', JObj [(''name'', JStr ''n'')])]" _ "[]"]
  show ?thesis by (simp add: d_get_def d_has_def del: resolve_value.simps)
qed

text \<open>
  C36: the wizard terminates: when the steps of a contract have different ids, clicking Next from
  the first one shows every tab once, in the order of the contract, and stops after the last.
\<close>

theorem wizard_tour_ends:
  assumes "get_key contract ''steps'' = JArr steps" and "list_all2 (\<lambda>step i. is_step i step) steps (first # rest)"
    and "distinct (first # rest)"
  shows "tour (length steps) contract first = Some (first # rest)"
proof -
  have "length steps = Suc (length rest)" using assms(2) list_all2_lengthD by fastforce
  with tour_suffix [of contract steps "[]" first rest] assms show ?thesis by (simp add: steps_named_def)
qed

theorem wizard_tour_ends_witness:
  "tour 3 demo_wizard ''summary'' = Some [''summary'', ''pricing'', ''approvals'']"
proof -
  obtain steps where s: "get_key demo_wizard ''steps'' = JArr steps" "length steps = 3"
    "list_all2 (\<lambda>step i. is_step i step) steps (''summary'' # [''pricing'', ''approvals''])"
    by (simp add: demo_wizard_def get_key_def d_get_Cons is_step_def is_obj_def)
  show ?thesis using wizard_tour_ends [OF s(1,3)] s(2) by simp
qed

text \<open>
  entering a step is announced first: the log of the run grows by the entered event, then
  suggestion events, then at most one proposal, whatever PriceFRAME and Gemini answer and
  whatever is raised on the way; nothing else changes and the requests are reads.
\<close>

theorem entered_comes_first:
  "\<exists>tys. map ev_type (run_log r (cur (snd (emit_step_entered_with_suggestions e cl cfg auth r contract step draft b w)))) =
      map ev_type (run_log r (cur w)) @ [''v1.workflow.step.entered''] @ tys \<and>
    (set tys \<subseteq> suggestion_types \<or>
     (\<exists>sugg. tys = sugg @ [''v1.workflow.step.proposed''] \<and> set sugg \<subseteq> suggestion_types)) \<and>
    logs r suggestion_read w (snd (emit_step_entered_with_suggestions e cl cfg auth r contract step draft b w))"
proof -
  let ?b = "case b of None \<Rightarrow> default_budget | Some b \<Rightarrow> b"
  let ?w0 = "emit e r ''v1.workflow.step.entered'' (step_entered_payload contract step) w"
  obtain s b1 w1 where s: "emit_suggestions e cl cfg auth r contract step draft ?b ?w0 = (s, b1, w1)" by (metis surj_pair)
  obtain p b2 w2 where p: "propose_step_payload e cl auth step draft b1 w1 = (p, b2, w2)" by (metis surj_pair)
  obtain sugg where sugg: "map ev_type (run_log r (cur w1)) = map ev_type (run_log r (cur ?w0)) @ sugg" "set sugg \<subseteq> suggestion_types"
    using emit_suggestions_types [OF s] by blast
  have "cur w2 = cur w1" using propose_step_quiet [of w1 e cl auth step draft b1] p by (simp add: quiet_def)
  then have w2: "map ev_type (run_log r (cur w2)) = map ev_type (run_log r (cur w)) @ [''v1.workflow.step.entered''] @ sugg"
    using sugg(1) by (simp add: run_log_emit)
  show ?thesis
  proof (cases "\<exists>payload. p = Some (Some payload)")
    case True
    then have "map ev_type (run_log r (cur (snd (emit_step_entered_with_suggestions e cl cfg auth r contract step draft b w)))) =
        map ev_type (run_log r (cur w)) @ [''v1.workflow.step.entered''] @ sugg @ [''v1.workflow.step.proposed'']"
      using s p w2 by (auto simp: emit_step_entered_with_suggestions_def Let_def run_log_emit event_step_proposed_def)
    with sugg(2) enter_step_logs show ?thesis by blast
  next
    case False
    then have "snd (emit_step_entered_with_suggestions e cl cfg auth r contract step draft b w) = w2"
      using s p by (auto simp: emit_step_entered_with_suggestions_def Let_def split: option.split)
    with w2 sugg(2) enter_step_logs show ?thesis by metis
  qed
qed

end
