(* ===== verification/Runs.thy ===== *)
theory Runs
  imports Runner WorkflowAdvance
begin

text \<open>
  The endpoints of \<open>api/v1/runs.py\<close>. A handler is a function of the session: what it answers
  (a value, or the exception that leaves it) and the session afterwards. Only \<open>commit\<close> makes a
  change durable; \<open>served\<close> closes the session at the end of the request, as \<open>get_session\<close>
  does, so what was not committed is dropped. Texts of validation errors are not modelled.
\<close>

section \<open>Handlers\<close>

definition sbind :: "'a res \<times> world \<Rightarrow> ('a \<Rightarrow> world \<Rightarrow> 'b res \<times> world) \<Rightarrow> 'b res \<times> world" where
  "sbind m f = (case m of (Inl err, w) \<Rightarrow> (Inl err, w) | (Inr x, w) \<Rightarrow> f x w)"

definition served :: "'a res \<times> world \<Rightarrow> 'a res \<times> world" where
  "served r = apsnd close_session r"

text \<open>What a request sees of the application: its collaborators, settings and the caller's address.\<close>

record api =
  ap_env :: env
  ap_pyd :: pydantic
  ap_research :: research_cfg
  ap_budget :: run_budget
  ap_user_ip :: "string option"
  ap_user_agent :: "string option"

definition unprocessable :: "string \<Rightarrow> exc" where "unprocessable d = HTTPException 422 d"
definition not_found :: "string \<Rightarrow> exc" where "not_found d = HTTPException 404 d"
definition conflict :: "string \<Rightarrow> exc" where "conflict d = HTTPException 409 d"

text \<open>A \<open>StepAdvanceError\<close> of the contract lookup becomes a 422.\<close>

definition advance_error :: "'a res \<Rightarrow> 'a res" where
  "advance_error r = (case r of Inl (StepAdvanceError m) \<Rightarrow> Inl (unprocessable m) | _ \<Rightarrow> r)"

section \<open>Lookups\<close>

definition require_run :: "auth_context \<Rightarrow> string \<Rightarrow> world \<Rightarrow> agent_run res" where
  "require_run auth run_id w = (case get_run run_id w of
      Some run \<Rightarrow> if rn_user_id run = user_id auth then Inr run else Inl (not_found ''Run not found'')
    | None \<Rightarrow> Inl (not_found ''Run not found''))"

definition pending_statuses :: "string list" where
  "pending_statuses = [''pending'', ''proposed'', ''awaiting_approval'']"

definition list_pending_tool_calls :: "string \<Rightarrow> world \<Rightarrow> agent_tool_call list" where
  "list_pending_tool_calls run_id w =
     sort_key tc_created_at (filter (\<lambda>tc. tc_run_id tc = run_id \<and> tc_status tc \<in> set pending_statuses)
       (tool_calls (cur w)))"

definition missing_call_detail :: "agent_tool_call list \<Rightarrow> string" where
  "missing_call_detail pending =
     (if pending \<noteq> []
      then ''Tool call not found for this run. Pending tool_call_id values: '' @
           str_join '', '' (map tc_id pending)
      else ''Tool call not found for this run. No pending tool calls exist for this run.'')"

definition require_tool_call :: "string \<Rightarrow> string \<Rightarrow> world \<Rightarrow> agent_tool_call res" where
  "require_tool_call run_id tool_call_id w =
     (case get_tool_call tool_call_id w of
        Some tc \<Rightarrow> if tc_run_id tc = run_id then Inr tc
                   else Inl (not_found (missing_call_detail (list_pending_tool_calls run_id w)))
      | None \<Rightarrow> Inl (not_found (missing_call_detail (list_pending_tool_calls run_id w))))"

definition call_of_step :: "db \<Rightarrow> string \<Rightarrow> agent_tool_call \<Rightarrow> bool" where
  "call_of_step d kind tc = list_ex (\<lambda>st. tc_step_id tc = Some (st_id st) \<and> st_kind st = kind) (run_steps d)"

definition list_proposed_tool_calls_for_step :: "string \<Rightarrow> string \<Rightarrow> world \<Rightarrow> agent_tool_call list" where
  "list_proposed_tool_calls_for_step run_id step_id w =
     sort_key tc_created_at (filter (\<lambda>tc. tc_run_id tc = run_id \<and> tc_status tc \<in> set pending_statuses \<and>
       call_of_step (cur w) (step_kind step_id) tc) (tool_calls (cur w)))"

text \<open>The path parameter may name a run or a conversation; the latter stands for its newest run.\<close>

definition newest_run :: "agent_run list \<Rightarrow> agent_run option" where
  "newest_run rs = (case rev (sort_key rn_updated_at rs) of [] \<Rightarrow> None | r # _ \<Rightarrow> Some r)"

definition resolve_run_or_conversation :: "auth_context \<Rightarrow> string \<Rightarrow> world \<Rightarrow> agent_run res" where
  "resolve_run_or_conversation auth ident w =
     (case find (\<lambda>run. rn_user_id run = user_id auth) (case get_run ident w of None \<Rightarrow> [] | Some r \<Rightarrow> [r]) of
        Some run \<Rightarrow> Inr run
      | None \<Rightarrow>
          (case get_conversation ident w of
             None \<Rightarrow> Inl (not_found ''No run or conversation found for this id'')
           | Some conv \<Rightarrow>
               if cv_user_id conv \<noteq> user_id auth
               then Inl (not_found ''No run or conversation found for this id'')
               else (case newest_run (filter (\<lambda>r. rn_conversation_id r = cv_id conv \<and> rn_user_id r = user_id auth)
                            (runs (cur w))) of
                       None \<Rightarrow> Inl (not_found ''No active run for this conversation'')
                     | Some run \<Rightarrow> Inr run)))"

section \<open>Answers\<close>

record pending_tool_call_response =
  pt_id :: string
  pt_tool_name :: string
  pt_status :: string
  pt_args :: dict
  pt_requires_approval :: bool

record run_response =
  rr_id :: string
  rr_conversation_id :: string
  rr_status :: string
  rr_input_message_id :: "string option"
  rr_output_message_id :: "string option"
  rr_error :: "string option"
  rr_created_at :: int
  rr_started_at :: "int option"
  rr_completed_at :: "int option"
  rr_cancelled_at :: "int option"
  rr_pending_tool_calls :: "pending_tool_call_response list"

definition pending_response_of :: "agent_tool_call \<Rightarrow> pending_tool_call_response" where
  "pending_response_of tc = \<lparr>pt_id = tc_id tc, pt_tool_name = tc_tool_name tc, pt_status = tc_status tc,
     pt_args = tc_args tc, pt_requires_approval = tc_requires_approval tc\<rparr>"

definition run_response_of :: "agent_run \<Rightarrow> agent_tool_call list \<Rightarrow> run_response" where
  "run_response_of run pending = \<lparr>rr_id = rn_id run, rr_conversation_id = rn_conversation_id run,
     rr_status = rn_status run, rr_input_message_id = rn_input_message_id run,
     rr_output_message_id = rn_output_message_id run, rr_error = rn_error run, rr_created_at = rn_created_at run,
     rr_started_at = rn_started_at run, rr_completed_at = rn_completed_at run,
     rr_cancelled_at = rn_cancelled_at run, rr_pending_tool_calls = map pending_response_of pending\<rparr>"

section \<open>Changes of a run\<close>

text \<open>\<open>run.updated_at = utc_now()\<close>, and the change to completed with its time.\<close>

definition touch_run :: "env \<Rightarrow> string \<Rightarrow> world \<Rightarrow> world" where
  "touch_run e run_id w = (case utc_now e w of (t, w1) \<Rightarrow> upd_run run_id (\<lambda>r. r\<lparr>rn_updated_at := t\<rparr>) w1)"

definition complete_run :: "env \<Rightarrow> string \<Rightarrow> world \<Rightarrow> world" where
  "complete_run e run_id w = (case utc_now e w of (t, w1) \<Rightarrow>
     upd_run run_id (\<lambda>r. r\<lparr>rn_status := ''completed'', rn_completed_at := Some t\<rparr>) w1)"

definition complete_if_awaiting :: "env \<Rightarrow> string \<Rightarrow> world \<Rightarrow> world" where
  "complete_if_awaiting e run_id w =
     (case get_run run_id w of
        Some run \<Rightarrow> if rn_status run = ''awaiting_decision'' then complete_run e run_id w else w
      | None \<Rightarrow> w)"

definition reopen_run :: "env \<Rightarrow> agent_run \<Rightarrow> world \<Rightarrow> world" where
  "reopen_run e run w =
     (if rn_status run \<in> {''completed'', ''error''}
      then (case utc_now e w of (t, w1) \<Rightarrow> upd_run (rn_id run)
              (\<lambda>r. r\<lparr>rn_status := ''awaiting_decision'', rn_completed_at := None, rn_updated_at := t\<rparr>) w1)
      else w)"

section \<open>Reading and cancelling a run\<close>

definition get_run_endpoint :: "api \<Rightarrow> auth_context \<Rightarrow> string \<Rightarrow> world \<Rightarrow> run_response res \<times> world" where
  "get_run_endpoint a auth run_id w =
     sbind (require_run auth run_id w, w) (\<lambda>run w.
       (Inr (run_response_of run (list_pending_tool_calls run_id w)), w))"

definition mark_cancelled :: "env \<Rightarrow> string \<Rightarrow> world \<Rightarrow> world" where
  "mark_cancelled e run_id w =
     (case utc_now e w of (t1, w1) \<Rightarrow> (case utc_now e w1 of (t2, w2) \<Rightarrow>
        upd_run run_id (\<lambda>r. r\<lparr>rn_status := ''cancelled'', rn_cancelled_at := Some t1, rn_updated_at := t2\<rparr>) w2))"

definition cancel_run :: "api \<Rightarrow> auth_context \<Rightarrow> string \<Rightarrow> world \<Rightarrow> run_response res \<times> world" where
  "cancel_run a auth run_id w =
     sbind (require_run auth run_id w, w) (\<lambda>run w.
       if rn_status run \<in> {''completed'', ''error'', ''cancelled''}
       then (Inr (run_response_of run []), w)
       else let w1 = mark_cancelled (ap_env a) run_id w;
                w2 = commit (emit (ap_env a) run_id ''v1.run.error'' [(''cancelled'', JBool True)] w1)
            in (of_opt (map_option (\<lambda>r. run_response_of r []) (get_run run_id w2)), w2))"

section \<open>Executing an approved call\<close>

definition result_entity_id :: "dict \<Rightarrow> json option" where
  "result_entity_id result = (case d_get result ''data'' of
      JObj data \<Rightarrow>
        let nested = get_key (d_get data ''data'') ''id''; direct = d_get data ''id''
        in if int_val nested \<noteq> None then Some nested
           else if int_val direct \<noteq> None then Some direct else None
    | _ \<Rightarrow> None)"

text \<open>\<open>int(v)\<close> with the class of what it raises.\<close>

definition int_res :: "json \<Rightarrow> int res" where
  "int_res v = (case py_int v of
      Some i \<Rightarrow> Inr i
    | None \<Rightarrow> Inl (case v of JStr _ \<Rightarrow> ValueError [] | JFlt NaN \<Rightarrow> ValueError [] | _ \<Rightarrow> PyError))"

definition int_item :: "dict \<Rightarrow> string \<Rightarrow> int res" where
  "int_item d k = (case map_of d k of None \<Rightarrow> Inl PyError | Some v \<Rightarrow> int_res v)"

definition audit_entity :: "string \<Rightarrow> dict \<Rightarrow> dict \<Rightarrow> (string \<times> int) res" where
  "audit_entity tool_name args result =
     (if tool_name \<in> {''update_corridor_pricing'', ''set_fx_spread''}
      then ebind (int_item args ''corridor_id'') (\<lambda>i. Inr (''quote_corridor'', i))
      else if tool_name \<in> {''bulk_add_corridors'', ''submit_for_approval'', ''preview_pricing_change''}
      then ebind (int_item args ''quote_id'') (\<lambda>i. Inr (''quote'', i))
      else if tool_name = ''create_quotation''
      then ebind (int_res (py_or (case result_entity_id result of None \<Rightarrow> JNull | Some v \<Rightarrow> v)
             (py_or (d_get args ''quote_id'') (py_or (d_get args ''id'') (JInt 0))))) (\<lambda>i. Inr (''quote'', i))
      else Inr (''agent_tool_call'', 0))"

definition audit_payload :: "api \<Rightarrow> string \<Rightarrow> agent_tool_call \<Rightarrow> dict \<Rightarrow> dict \<Rightarrow> dict res" where
  "audit_payload a run_id tc args result =
     ebind (audit_entity (tc_tool_name tc) args result) (\<lambda>(entity, entity_id).
       Inr [(''agent_run_id'', JStr run_id), (''agent_tool_call_id'', JStr (tc_id tc)),
            (''entity'', JStr entity), (''entity_id'', JInt entity_id), (''action'', JStr (tc_tool_name tc)),
            (''changes'', JObj args), (''user_ip'', jopt JStr (ap_user_ip a)),
            (''user_agent'', jopt JStr (ap_user_agent a))])"

text \<open>The tool's own requests and, for a write, the audit callback: the result and its log id.\<close>

definition call_priceframe ::
    "api \<Rightarrow> auth_context \<Rightarrow> string \<Rightarrow> agent_tool_call \<Rightarrow> tool \<Rightarrow> tool_input \<Rightarrow> world \<Rightarrow>
     (dict \<times> int option) res \<times> world" where
  "call_priceframe a auth run_id tc t parsed w =
     (let c = from_settings (ap_env a) [(''Idempotency-Key'', tc_id tc)]
      in sbind (execute (ap_env a) c auth t parsed w) (\<lambda>result w1.
           if tl_risk t = READ then (Inr (result, None), w1)
           else sbind (audit_payload a run_id tc (tc_args tc) result, w1) (\<lambda>payload w1.
             sbind (post_agent_audit_callback (ap_env a) c (jwt_raw auth) (service_secret (ap_env a)) payload w1)
               (\<lambda>audit_id w2. (Inr (result, Some audit_id), w2)))))"

definition mark_succeeded :: "env \<Rightarrow> string \<Rightarrow> dict \<Rightarrow> int option \<Rightarrow> world \<Rightarrow> world" where
  "mark_succeeded e k result audit_id w = (case utc_now e w of (t, w1) \<Rightarrow>
     upd_tool_call k (\<lambda>tc. tc\<lparr>tc_status := ''succeeded'', tc_result := Some result,
       tc_audit_log_id := audit_id, tc_completed_at := Some t\<rparr>) w1)"

definition log_write ::
    "env \<Rightarrow> auth_context \<Rightarrow> string \<Rightarrow> agent_tool_call \<Rightarrow> tool \<Rightarrow> dict \<Rightarrow> int option \<Rightarrow> world \<Rightarrow> world" where
  "log_write e auth run_id tc t result audit_id w =
     (if tl_risk t = READ then w
      else (case next_row w of (i, w1) \<Rightarrow> (case utc_now e w1 of (now, w2) \<Rightarrow>
        add_audit_row \<lparr>al_id = i, al_user_id = user_id auth, al_run_id = Some run_id, al_action = tc_tool_name tc,
          al_payload = [(''tool_call_id'', JStr (tc_id tc)), (''priceframe_audit_log_id'', jopt JInt audit_id),
                        (''args'', JObj (tc_args tc)), (''result'', JObj result)],
          al_created_at = now\<rparr> w2)))"

definition record_success ::
    "env \<Rightarrow> auth_context \<Rightarrow> string \<Rightarrow> agent_tool_call \<Rightarrow> tool \<Rightarrow> bool \<Rightarrow> dict \<Rightarrow> int option \<Rightarrow> world \<Rightarrow> world" where
  "record_success e auth run_id tc t mark_completed result audit_id w =
     (let w1 = mark_succeeded e (tc_id tc) result audit_id w;
          w2 = touch_run e run_id w1;
          w3 = (if mark_completed then complete_if_awaiting e run_id w2 else w2);
          w4 = log_write e auth run_id tc t result audit_id w3
      in emit e run_id ''v1.tool.completed'' [(''tool_call_id'', JStr (tc_id tc)), (''result'', JObj result)] w4)"

definition execute_approved_tool_call ::
    "api \<Rightarrow> auth_context \<Rightarrow> string \<Rightarrow> string \<Rightarrow> bool \<Rightarrow> world \<Rightarrow> dict res \<times> world" where
  "execute_approved_tool_call a auth run_id tool_call_id mark_completed w =
     (case get_tool_call tool_call_id w of
        None \<Rightarrow> (Inl PyError, w)
      | Some tc \<Rightarrow>
          (case registry_get (tc_tool_name tc) of
             None \<Rightarrow> (Inl (HTTPException 400 ''Unknown tool''), w)
           | Some t \<Rightarrow>
               (case validate_args (ap_pyd a) (tc_tool_name tc) (tc_args tc) of
                  None \<Rightarrow> (Inl (ValueError []), w)
                | Some parsed \<Rightarrow>
                    sbind (call_priceframe a auth run_id tc t parsed w) (\<lambda>(result, audit_id) w1.
                      (Inr result, record_success (ap_env a) auth run_id tc t mark_completed result audit_id w1)))))"

text \<open>What the callers catch.\<close>

definition execution_error :: "'a res \<Rightarrow> 'a res" where
  "execution_error r = (case r of
      Inl (ToolPermissionError m) \<Rightarrow> Inl (HTTPException 403 m)
    | Inl (ValueError m) \<Rightarrow> Inl (HTTPException 400 m)
    | Inl (PriceFrameError k m st) \<Rightarrow> Inl (HTTPException (priceframe_error_status k st) m)
    | _ \<Rightarrow> r)"

section \<open>Deciding a tool call\<close>

datatype decision = Approve | Reject | Edit

definition mark_rejected :: "env \<Rightarrow> string \<Rightarrow> world \<Rightarrow> world" where
  "mark_rejected e k w = (case utc_now e w of (t1, w1) \<Rightarrow> (case utc_now e w1 of (t2, w2) \<Rightarrow>
     upd_tool_call k (\<lambda>tc. tc\<lparr>tc_status := ''rejected'', tc_rejected_at := Some t1,
       tc_completed_at := Some t2\<rparr>) w2))"

definition mark_executing :: "env \<Rightarrow> string \<Rightarrow> world \<Rightarrow> world" where
  "mark_executing e k w = (case utc_now e w of (t, w1) \<Rightarrow>
     upd_tool_call k (\<lambda>tc. tc\<lparr>tc_status := ''executing'', tc_approved_at := Some t\<rparr>) w1)"

definition opt_json :: "dict option \<Rightarrow> json" where
  "opt_json args = (case args of None \<Rightarrow> JNull | Some d \<Rightarrow> JObj d)"

definition decision_payload :: "string \<Rightarrow> json \<Rightarrow> dict" where
  "decision_payload k edited = [(''tool_call_id'', JStr k), (''edited_args'', edited)]"

definition announce_start :: "env \<Rightarrow> string \<Rightarrow> agent_tool_call \<Rightarrow> json \<Rightarrow> world \<Rightarrow> world" where
  "announce_start e run_id tc edited w =
     emit e run_id ''v1.tool.started'' [(''tool_call_id'', JStr (tc_id tc)), (''tool_name'', JStr (tc_tool_name tc))]
       (emit e run_id ''v1.tool.approved'' (decision_payload (tc_id tc) edited) w)"

definition decided :: "string \<Rightarrow> dict \<Rightarrow> dict" where
  "decided st extra = [(''success'', JBool True), (''tool_call_status'', JStr st)] @ extra"

definition reject_tool_call :: "env \<Rightarrow> string \<Rightarrow> string \<Rightarrow> world \<Rightarrow> dict res \<times> world" where
  "reject_tool_call e run_id k w =
     (let w1 = touch_run e run_id (mark_rejected e k w)
      in (Inr (decided ''rejected'' []), commit (emit e run_id ''v1.tool.rejected'' (decision_payload k JNull) w1)))"

definition edit_tool_call :: "env \<Rightarrow> string \<Rightarrow> string \<Rightarrow> dict option \<Rightarrow> world \<Rightarrow> dict res \<times> world" where
  "edit_tool_call e run_id k edited w = (case edited of
      None \<Rightarrow> (Inl (unprocessable ''edited_args is required for edit decisions''), w)
    | Some args \<Rightarrow>
        let w1 = upd_tool_call k (\<lambda>tc. tc\<lparr>tc_args := args, tc_status := ''proposed''\<rparr>) w;
            w2 = touch_run e run_id w1
        in (Inr (decided ''proposed'' []),
            commit (emit e run_id ''v1.tool.edited'' (decision_payload k (JObj args)) w2)))"

text \<open>The call becomes executing in a transaction of its own, then runs, then its outcome is committed.\<close>

definition start_tool_call :: "env \<Rightarrow> string \<Rightarrow> agent_tool_call \<Rightarrow> dict \<Rightarrow> json \<Rightarrow> world \<Rightarrow> world" where
  "start_tool_call e run_id tc args edited w =
     (let w1 = mark_executing e (tc_id tc) (upd_tool_call (tc_id tc) (\<lambda>tc. tc\<lparr>tc_args := args\<rparr>) w);
          w2 = touch_run e run_id w1
      in commit (announce_start e run_id tc edited w2))"

definition approve_tool_call ::
    "api \<Rightarrow> auth_context \<Rightarrow> string \<Rightarrow> agent_tool_call \<Rightarrow> dict option \<Rightarrow> world \<Rightarrow> dict res \<times> world" where
  "approve_tool_call a auth run_id tc edited w =
     (if tc_status tc = ''executing'' then (Inr (decided ''executing'' []), w)
      else if tc_status tc = ''succeeded''
      then (Inr (decided ''succeeded'' [(''result'', opt_json (tc_result tc))]), w)
      else if tc_status tc \<notin> set pending_statuses
      then (Inl (conflict (''Tool call cannot be approved from status '' @ tc_status tc)), w)
      else if registry_get (tc_tool_name tc) = None then (Inl (HTTPException 400 ''Unknown tool''), w)
      else (case validate_args (ap_pyd a) (tc_tool_name tc)
                  (case edited of Some (x # xs) \<Rightarrow> x # xs | _ \<Rightarrow> tc_args tc) of
              None \<Rightarrow> (Inl (ValueError []), w)
            | Some parsed \<Rightarrow>
                let w1 = start_tool_call (ap_env a) run_id tc (dump_args parsed) (opt_json edited) w
                in (case execute_approved_tool_call a auth run_id (tc_id tc) True w1 of
                      (Inl err, w2) \<Rightarrow> (execution_error (Inl err), w2)
                    | (Inr result, w2) \<Rightarrow>
                        (Inr (decided ''succeeded'' [(''result'', JObj result)]), commit w2))))"

definition decide_run_tool_call ::
    "api \<Rightarrow> auth_context \<Rightarrow> string \<Rightarrow> string \<Rightarrow> decision \<Rightarrow> dict option \<Rightarrow> world \<Rightarrow> dict res \<times> world" where
  "decide_run_tool_call a auth run_id tool_call_id decision edited w =
     sbind (require_run auth run_id w, w) (\<lambda>run w.
     sbind (require_tool_call run_id tool_call_id w, w) (\<lambda>tc w.
       case decision of
         Reject \<Rightarrow> reject_tool_call (ap_env a) run_id tool_call_id w
       | Edit \<Rightarrow> edit_tool_call (ap_env a) run_id tool_call_id edited w
       | Approve \<Rightarrow> approve_tool_call a auth run_id tc edited w))"

section \<open>Advancing a step\<close>

definition load_draft_contract :: "env \<Rightarrow> agent_workflow_draft \<Rightarrow> json res" where
  "load_draft_contract e dr = advance_error (load_contract e (dr_contract_id dr) (dr_contract_version dr))"

text \<open>\<open>_enter_next_step_after_advance\<close>: nothing to do without a contract or a following step.\<close>

definition enter_next_step :: "api \<Rightarrow> auth_context \<Rightarrow> string \<Rightarrow> string \<Rightarrow> string \<Rightarrow> world \<Rightarrow> world" where
  "enter_next_step a auth run_id conv approved_step_id w =
     (let dr = get_draft conv w;
          cid = (case dr of None \<Rightarrow> ''create_pricing_request'' | Some d \<Rightarrow> dr_contract_id d);
          ver = (case dr of None \<Rightarrow> ''v1'' | Some d \<Rightarrow> dr_contract_version d);
          state = (case dr of None \<Rightarrow> [] | Some d \<Rightarrow> dr_payload d);
          client = (if has_permission auth ''agent.suggestions.read''
                    then Some (from_settings (ap_env a) []) else None)
      in case load_contract (ap_env a) cid ver of
           Inl _ \<Rightarrow> w
         | Inr contract \<Rightarrow>
             (case next_step_after contract approved_step_id of
                None \<Rightarrow> w
              | Some step \<Rightarrow> snd (emit_step_entered_with_suggestions (ap_env a) client (ap_research a) auth run_id
                    contract step state None w)))"

definition finish_run :: "env \<Rightarrow> string \<Rightarrow> string \<Rightarrow> string \<Rightarrow> world \<Rightarrow> world" where
  "finish_run e run_id step_id via w =
     emit e run_id ''v1.run.completed'' [(''step_id'', JStr step_id), (''via'', JStr via)]
       (touch_run e run_id (complete_run e run_id w))"

record step_advance_tool_call =
  sc_tool_call_id :: string
  sc_tool_name :: string
  sc_args :: dict
  sc_requires_approval :: bool

record step_advance_response =
  sr_step_id :: string
  sr_status :: string
  sr_tool_calls :: "step_advance_tool_call list"
  sr_reason :: "string option"
  sr_detail :: "dict option"

definition advance_tool_call :: "string list \<Rightarrow> nat \<times> string \<times> dict \<Rightarrow> step_advance_tool_call" where
  "advance_tool_call ids ic = (case ic of (i, n, args) \<Rightarrow>
     \<lparr>sc_tool_call_id = (if i < length ids then ids ! i else []), sc_tool_name = n, sc_args = args,
      sc_requires_approval = (case registry_get n of None \<Rightarrow> True | Some t \<Rightarrow> tl_risk t \<noteq> READ)\<rparr>)"

definition step_advance_response_of :: "string \<Rightarrow> advance_decision \<Rightarrow> step_advance_response" where
  "step_advance_response_of step_id d = \<lparr>sr_step_id = step_id, sr_status = ad_status d,
     sr_tool_calls = map (advance_tool_call (ad_tool_call_ids d)) (enumerate 0 (ad_tool_calls d)),
     sr_reason = ad_blocked_reason d, sr_detail = ad_detail d\<rparr>"

definition after_decision ::
    "api \<Rightarrow> auth_context \<Rightarrow> agent_run \<Rightarrow> string \<Rightarrow> advance_decision \<Rightarrow> world \<Rightarrow> world" where
  "after_decision a auth run step_id d w =
     (let e = ap_env a; r = rn_id run
      in if ad_status d = ''approved''
         then finish_run e r step_id ''step_advance_approved''
                (enter_next_step a auth r (rn_conversation_id run) step_id
                  (snd (record_step_duration_from_events e r step_id ''approved'' w)))
         else if ad_status d = ''blocked''
         then finish_run e r step_id ''step_advance_blocked''
                (snd (record_step_duration_from_events e r step_id ''blocked'' w))
         else w)"

definition request_step_advance ::
    "api \<Rightarrow> auth_context \<Rightarrow> string \<Rightarrow> string \<Rightarrow> world \<Rightarrow> step_advance_response res \<times> world" where
  "request_step_advance a auth run_id step_id w =
     sbind (require_run auth run_id w, w) (\<lambda>run w.
       let w0 = reopen_run (ap_env a) run w
       in sbind (apfst advance_error (evaluate_step_advance (ap_env a) (ap_pyd a) (rn_id run) step_id
                  (get_draft (rn_conversation_id run) w0) w0)) (\<lambda>d w1.
            let w2 = emit_advance_event (ap_env a) (rn_id run) step_id d w1
            in (Inr (step_advance_response_of step_id d), commit (after_decision a auth run step_id d w2))))"

section \<open>Deciding a step\<close>

record step_decision_response =
  sd_step_id :: string
  sd_status :: string
  sd_results :: "json list"
  sd_reason :: "string option"

definition reject_bundle :: "env \<Rightarrow> string \<Rightarrow> agent_tool_call list \<Rightarrow> world \<Rightarrow> world" where
  "reject_bundle e run_id tcs w = foldl (\<lambda>w tc.
     emit e run_id ''v1.tool.rejected'' (decision_payload (tc_id tc) JNull) (mark_rejected e (tc_id tc) w)) w tcs"

definition reject_step ::
    "api \<Rightarrow> string \<Rightarrow> string \<Rightarrow> string option \<Rightarrow> agent_tool_call list \<Rightarrow> world \<Rightarrow> world" where
  "reject_step a run_id step_id reason tcs w =
     (let e = ap_env a;
          w1 = complete_if_awaiting e run_id (touch_run e run_id (reject_bundle e run_id tcs w));
          w2 = snd (record_step_duration_from_events e run_id step_id ''rejected'' w1);
          w3 = emit e run_id ''v1.workflow.step.advance_rejected''
                 [(''step_id'', JStr step_id), (''status'', JStr ''rejected''), (''reason'', jopt JStr reason),
                  (''tool_call_ids'', jstrs (map tc_id tcs))] w2
      in commit (emit e run_id ''v1.run.completed''
                  [(''step_id'', JStr step_id), (''via'', JStr ''step_decision_rejected'')] w3))"

text \<open>The calls of the bundle, one after the other; the first failure leaves the handler.\<close>

primrec approve_bundle ::
    "api \<Rightarrow> auth_context \<Rightarrow> string \<Rightarrow> agent_tool_call list \<Rightarrow> world \<Rightarrow> json list res \<times> world" where
  "approve_bundle a auth run_id [] w = (Inr [], w)"
| "approve_bundle a auth run_id (tc # tcs) w =
     (let w1 = commit (announce_start (ap_env a) run_id tc JNull (mark_executing (ap_env a) (tc_id tc) w))
      in sbind (apfst execution_error (execute_approved_tool_call a auth run_id (tc_id tc) False w1)) (\<lambda>result w2.
           sbind (approve_bundle a auth run_id tcs w2) (\<lambda>results w3.
             (Inr (JObj [(''tool_call_id'', JStr (tc_id tc)), (''tool_name'', JStr (tc_tool_name tc)),
                         (''result'', JObj result)] # results), w3))))"

definition approve_step ::
    "api \<Rightarrow> auth_context \<Rightarrow> agent_run \<Rightarrow> string \<Rightarrow> agent_tool_call list \<Rightarrow> world \<Rightarrow> json list res \<times> world" where
  "approve_step a auth run step_id tcs w =
     sbind (approve_bundle a auth (rn_id run) tcs w) (\<lambda>results w.
       let e = ap_env a; r = rn_id run;
           w1 = complete_if_awaiting e r (touch_run e r w);
           w2 = snd (record_step_duration_from_events e r step_id ''approved'' w1);
           w3 = emit e r ''v1.workflow.step.advance_approved''
                  [(''step_id'', JStr step_id), (''status'', JStr ''approved''),
                   (''tool_call_ids'', jstrs (map tc_id tcs))] w2;
           w4 = enter_next_step a auth r (rn_conversation_id run) step_id w3
       in (Inr results, commit (emit e r ''v1.run.completed''
              [(''step_id'', JStr step_id), (''via'', JStr ''step_decision_approved'')] w4)))"

text \<open>The decision is approve or reject.\<close>

definition decide_step_advance ::
    "api \<Rightarrow> auth_context \<Rightarrow> string \<Rightarrow> string \<Rightarrow> bool \<Rightarrow> string option \<Rightarrow> world \<Rightarrow> step_decision_response res \<times> world" where
  "decide_step_advance a auth run_id step_id approve reason w =
     sbind (require_run auth run_id w, w) (\<lambda>run w.
       let tcs = list_proposed_tool_calls_for_step run_id step_id w
       in if tcs = [] then (Inl (not_found ''No pending bundled proposal for this step''), w)
          else if \<not> approve
          then (Inr \<lparr>sd_step_id = step_id, sd_status = ''rejected'', sd_results = [], sd_reason = reason\<rparr>,
                reject_step a run_id step_id reason tcs w)
          else sbind (approve_step a auth run step_id tcs w) (\<lambda>results w.
                 (Inr \<lparr>sd_step_id = step_id, sd_status = ''approved'', sd_results = results, sd_reason = None\<rparr>, w)))"

section \<open>Deciding a proposal\<close>

definition valid_field_id :: "json \<Rightarrow> string option" where
  "valid_field_id field = (case get_key field ''id'' of JStr f \<Rightarrow> if f = [] then None else Some f | _ \<Rightarrow> None)"

definition valid_field_ids :: "json \<Rightarrow> string list option" where
  "valid_field_ids step = do {
     flds \<leftarrow> jget_or step ''fields'' (JArr []);
     flds \<leftarrow> py_iter flds;
     Some (List.map_filter valid_field_id flds)
   }"

text \<open>The merge into the step's section of the draft; a section that is no mapping raises.\<close>

definition merge_section :: "dict \<Rightarrow> string \<Rightarrow> dict \<Rightarrow> dict option" where
  "merge_section payload step_id new = map_option (\<lambda>sect. d_set payload step_id (JObj (d_update sect new)))
     (py_dict (py_or (d_get payload step_id) (JObj [])))"

definition write_draft :: "env \<Rightarrow> string \<Rightarrow> dict \<Rightarrow> world \<Rightarrow> world" where
  "write_draft e conv payload w = (case utc_now e w of (t, w1) \<Rightarrow>
     upd_draft conv (\<lambda>dr. dr\<lparr>dr_payload := payload, dr_updated_at := t\<rparr>) w1)"

definition accept_proposal ::
    "env \<Rightarrow> string \<Rightarrow> string \<Rightarrow> agent_workflow_draft \<Rightarrow> json \<Rightarrow> dict \<Rightarrow> world \<Rightarrow> (string \<times> string list) res \<times> world" where
  "accept_proposal e run_id step_id dr step proposed w =
     (case valid_field_ids step of
        None \<Rightarrow> (Inl PyError, w)
      | Some valid \<Rightarrow>
          let unknown = filter (\<lambda>k. k \<notin> set valid) (map fst proposed)
          in if unknown \<noteq> []
             then (Inl (unprocessable (''Proposed payload contains field ids not on step '' @ repr_str step_id @
                     '': '' @ py_repr (float_text e) (jstrs (sort unknown)))), w)
             else (case merge_section (dr_payload dr) step_id proposed of
                     None \<Rightarrow> (Inl PyError, w)
                   | Some payload \<Rightarrow>
                       let populated = sort (map fst proposed);
                           w1 = write_draft e (dr_conversation_id dr) payload w
                       in (Inr (''accepted'', populated),
                           commit (emit e run_id event_proposal_accepted
                             [(''step_id'', JStr step_id), (''populated_fields'', jstrs populated)] w1))))"

text \<open>\<open>accepted = None\<close> is a dismissal; otherwise the payload that is accepted.\<close>

definition decide_step_proposal ::
    "api \<Rightarrow> auth_context \<Rightarrow> string \<Rightarrow> string \<Rightarrow> dict option \<Rightarrow> string option \<Rightarrow> world \<Rightarrow>
     (string \<times> string list) res \<times> world" where
  "decide_step_proposal a auth run_id step_id accepted reason w =
     sbind (require_run auth run_id w, w) (\<lambda>run w.
       case get_draft (rn_conversation_id run) w of
         None \<Rightarrow> (Inl (not_found ''No active workflow draft for this conversation''), w)
       | Some dr \<Rightarrow>
           sbind (load_draft_contract (ap_env a) dr, w) (\<lambda>contract w.
             case get_step contract step_id of
               None \<Rightarrow> (Inl PyError, w)
             | Some None \<Rightarrow> (Inl (not_found (''Step '' @ repr_str step_id @ '' not in contract '' @ dr_contract_id dr)), w)
             | Some (Some step) \<Rightarrow>
                 (case accepted of
                    None \<Rightarrow> (Inr (''dismissed'', []),
                        commit (emit (ap_env a) run_id event_proposal_dismissed
                          [(''step_id'', JStr step_id), (''reason'', jopt JStr reason)] w))
                  | Some proposed \<Rightarrow> accept_proposal (ap_env a) run_id step_id dr step proposed w)))"

section \<open>Conversation endpoints\<close>

definition next_json :: "emit_result \<Rightarrow> json" where
  "next_json r = JObj [(''kind'', JStr (er_kind r)), (''field_id'', er_field_id r)]"

definition seed_draft :: "env \<Rightarrow> string \<Rightarrow> dict \<Rightarrow> world \<Rightarrow> agent_workflow_draft \<times> world" where
  "seed_draft e conv payload w =
     (case utc_now e w of (t1, w1) \<Rightarrow> (case utc_now e w1 of (t2, w2) \<Rightarrow> (case utc_now e w2 of (t3, w3) \<Rightarrow>
        let dr = \<lparr>dr_conversation_id = conv, dr_contract_id = ''create_pricing_request'', dr_contract_version = ''v1'',
                  dr_current_step_id = ''summary'', dr_payload = payload, dr_step_status = [],
                  dr_created_at = t1, dr_updated_at = t2, dr_expires_at = t3 + 7 * day_us\<rparr>
        in (dr, add_draft dr w3))))"

definition draft_or_seed :: "env \<Rightarrow> string \<Rightarrow> world \<Rightarrow> agent_workflow_draft res \<times> world" where
  "draft_or_seed e conv w = (case get_draft conv w of
      Some dr \<Rightarrow> (Inr dr, w)
    | None \<Rightarrow> (case init_conversation_draft_payload of
        None \<Rightarrow> (Inl PyError, w) | Some payload \<Rightarrow> apfst Inr (seed_draft e conv payload w)))"

text \<open>The prompt at the draft's cursor, through a client without default headers.\<close>

definition prompt_at :: "api \<Rightarrow> auth_context \<Rightarrow> string \<Rightarrow> json \<Rightarrow> dict \<Rightarrow> world \<Rightarrow> emit_result res \<times> world" where
  "prompt_at a auth run_id contract payload w = (case get_cursor payload of
      None \<Rightarrow> (Inl PyError, w)
    | Some c \<Rightarrow> emit_next_prompt (ap_env a) (Some (from_settings (ap_env a) [])) auth run_id contract payload c w)"

definition start_conversation :: "api \<Rightarrow> auth_context \<Rightarrow> string \<Rightarrow> world \<Rightarrow> dict res \<times> world" where
  "start_conversation a auth run_id w =
     sbind (require_run auth run_id w, w) (\<lambda>run w.
     sbind (draft_or_seed (ap_env a) (rn_conversation_id run) w) (\<lambda>dr w.
     sbind (load_draft_contract (ap_env a) dr, w) (\<lambda>contract w.
     sbind (prompt_at a auth run_id contract (dr_payload dr) w) (\<lambda>res w.
       (Inr [(''started'', JBool True), (''next'', next_json res)], commit w)))))"

text \<open>The draft of a run and its contract, or the 409 of the conversation endpoints.\<close>

definition active_draft ::
    "api \<Rightarrow> string \<Rightarrow> agent_run \<Rightarrow> world \<Rightarrow> (agent_workflow_draft \<times> json) res" where
  "active_draft a detail run w = (case get_draft (rn_conversation_id run) w of
      None \<Rightarrow> Inl (conflict detail)
    | Some dr \<Rightarrow> ebind (load_draft_contract (ap_env a) dr) (\<lambda>contract. Inr (dr, contract)))"

definition spec_hit :: "string \<Rightarrow> json \<Rightarrow> bool" where
  "spec_hit f field \<longleftrightarrow> is_obj field \<and> get_key field ''id'' = JStr f"

definition spec_in_step :: "string \<Rightarrow> json \<Rightarrow> json option option" where
  "spec_in_step f step = do {
     flds \<leftarrow> jget_or step ''fields'' (JArr []);
     flds \<leftarrow> py_iter flds;
     Some (find (spec_hit f) flds)
   }"

fun first_spec :: "string \<Rightarrow> json list \<Rightarrow> json option option" where
  "first_spec f [] = Some None"
| "first_spec f (step # steps) = (case spec_in_step f step of
      None \<Rightarrow> None | Some (Some spec) \<Rightarrow> Some (Some spec) | Some None \<Rightarrow> first_spec f steps)"

definition contract_steps :: "json \<Rightarrow> json list option" where
  "contract_steps contract = Option.bind (jget_or contract ''steps'' (JArr [])) py_iter"

definition spec_for :: "json \<Rightarrow> string \<Rightarrow> json option option" where
  "spec_for contract f = Option.bind (contract_steps contract) (first_spec f)"

definition step_id_for :: "json \<Rightarrow> string \<Rightarrow> string option option" where
  "step_id_for contract f = map_option (\<lambda>hit. case hit of
       Some step \<Rightarrow> (case get_key step ''id'' of JStr s \<Rightarrow> Some s | _ \<Rightarrow> None) | None \<Rightarrow> None)
     (owning_step contract (JStr f))"

definition section_name :: "string option \<Rightarrow> string" where
  "section_name s = (case s of Some (c # cs) \<Rightarrow> c # cs | _ \<Rightarrow> ''summary'')"

text \<open>The draft payload after an answer: the value in its section and the cursor moved on.\<close>

definition answered_payload :: "json \<Rightarrow> dict \<Rightarrow> string \<Rightarrow> json \<Rightarrow> dict option" where
  "answered_payload contract payload f v = do {
     owner \<leftarrow> step_id_for contract f;
     p \<leftarrow> merge_section payload (section_name owner) [(f, v)];
     c \<leftarrow> get_cursor p;
     c \<leftarrow> advance_cursor contract c;
     set_cursor p c
   }"

definition checked_answer :: "api \<Rightarrow> json \<Rightarrow> json \<Rightarrow> json res" where
  "checked_answer a spec v = (case validate_answer (float_text (ap_env a)) (re_match (ap_env a)) spec v of
      Inr clean \<Rightarrow> Inr clean | Inl Crash \<Rightarrow> Inl PyError | Inl _ \<Rightarrow> Inl (unprocessable []))"

definition submit_field_answer ::
    "api \<Rightarrow> auth_context \<Rightarrow> string \<Rightarrow> string \<Rightarrow> json \<Rightarrow> world \<Rightarrow> dict res \<times> world" where
  "submit_field_answer a auth run_id f v w =
     sbind (require_run auth run_id w, w) (\<lambda>run w.
     sbind (active_draft a ''No active workflow draft for this run'' run w, w) (\<lambda>(dr, contract) w.
       case spec_for contract f of
         None \<Rightarrow> (Inl PyError, w)
       | Some None \<Rightarrow> (Inl (unprocessable (''Unknown field: '' @ f)), w)
       | Some (Some spec) \<Rightarrow>
           sbind (checked_answer a spec v, w) (\<lambda>clean w.
           sbind (of_opt (answered_payload contract (dr_payload dr) f clean), w) (\<lambda>payload w.
             let w1 = write_draft (ap_env a) (dr_conversation_id dr) payload w;
                 w2 = emit (ap_env a) run_id event_field_accepted (field_accepted_payload f clean) w1
             in sbind (prompt_at a auth run_id contract payload w2) (\<lambda>res w3.
                  (Inr [(''accepted'', JBool True), (''next'', next_json res)], commit w3))))))"

text \<open>The phase that asks a field, and its prompt for a re-ask.\<close>

definition phase_hit :: "string \<Rightarrow> json \<Rightarrow> bool option" where
  "phase_hit f phase = Option.bind (jget_or phase ''field_ids'' (JArr [])) (\<lambda>ids. py_contains ids f)"

definition phase_of_field :: "json \<Rightarrow> string \<Rightarrow> json option" where
  "phase_of_field contract f = do {
     conv \<leftarrow> jget contract ''conversation'';
     phases \<leftarrow> jget_or (py_or conv (JObj [])) ''phases'' (JArr []);
     phases \<leftarrow> py_iter phases;
     hit \<leftarrow> ofind (phase_hit f) phases;
     case hit of None \<Rightarrow> Some (JStr []) | Some phase \<Rightarrow> jitem phase ''id''
   }"

definition field_in_step :: "string \<Rightarrow> json \<Rightarrow> json option option" where
  "field_in_step f step = do {
     flds \<leftarrow> jget_or step ''fields'' (JArr []);
     flds \<leftarrow> py_iter flds;
     ofind (has_id (JStr f)) flds
   }"

fun first_field :: "string \<Rightarrow> json list \<Rightarrow> json option option" where
  "first_field f [] = Some None"
| "first_field f (step # steps) = (case field_in_step f step of
      None \<Rightarrow> None | Some (Some field) \<Rightarrow> Some (Some field) | Some None \<Rightarrow> first_field f steps)"

definition build_field_prompt_for :: "json \<Rightarrow> string \<Rightarrow> field_prompt option option" where
  "build_field_prompt_for contract f = do {
     phase_id \<leftarrow> phase_of_field contract f;
     steps \<leftarrow> contract_steps contract;
     field \<leftarrow> first_field f steps;
     case field of None \<Rightarrow> Some None | Some spec \<Rightarrow> map_option Some (prompt_of phase_id (JStr f) spec)
   }"

definition re_ask_field :: "api \<Rightarrow> auth_context \<Rightarrow> string \<Rightarrow> string \<Rightarrow> world \<Rightarrow> dict res \<times> world" where
  "re_ask_field a auth run_id f w =
     sbind (require_run auth run_id w, w) (\<lambda>run w.
     sbind (active_draft a ''No active workflow draft for this run'' run w, w) (\<lambda>(dr, contract) w.
       case build_field_prompt_for contract f of
         None \<Rightarrow> (Inl PyError, w)
       | Some None \<Rightarrow> (Inl (unprocessable (''Unknown field: '' @ f)), w)
       | Some (Some p) \<Rightarrow>
           (case suggestion_for (ap_env a) (Some (from_settings (ap_env a) [])) auth contract (dr_payload dr) p w of
              (suggestion, w1) \<Rightarrow>
                (Inr [(''re_asked'', JBool True), (''field_id'', JStr f)],
                 commit (emit (ap_env a) run_id event_field_prompt (field_prompt_payload p suggestion) w1)))))"

definition commit_conversation :: "api \<Rightarrow> auth_context \<Rightarrow> string \<Rightarrow> world \<Rightarrow> dict res \<times> world" where
  "commit_conversation a auth run_id w =
     sbind (require_run auth run_id w, w) (\<lambda>run w.
     sbind (active_draft a ''No active workflow draft'' run w, w) (\<lambda>(dr, contract) w.
     sbind (commit_draft (ap_env a) (ap_pyd a) (from_settings (ap_env a) []) auth (dr_payload dr) w) (\<lambda>res w1.
       let d = commit_result_dict res
       in (Inr ((''committed'', JBool True) # d),
           commit (emit (ap_env a) run_id event_conversation_committed
             (committed_payload (d_get d ''quote_id'') (d_get d ''applied'') (d_get d ''failed'')) w1)))))"

section \<open>Reactive suggestion\<close>

definition text_id_hit :: "(rat \<Rightarrow> string) \<Rightarrow> string \<Rightarrow> json \<Rightarrow> bool" where
  "text_id_hit repr i x \<longleftrightarrow> py_str repr (get_key x ''id'') = i"

definition only_field :: "json \<Rightarrow> json \<Rightarrow> json" where
  "only_field step field = (case step of JObj d \<Rightarrow> JObj (d_set d ''fields'' (JArr [field])) | _ \<Rightarrow> step)"

text \<open>The step of the draft and the field in it, or the 404.\<close>

definition reactive_target :: "env \<Rightarrow> json \<Rightarrow> agent_workflow_draft \<Rightarrow> string \<Rightarrow> json res" where
  "reactive_target e contract dr f =
     ebind (of_opt (case contract of JObj _ \<Rightarrow> contract_steps contract | _ \<Rightarrow> Some [])) (\<lambda>steps.
       case find (text_id_hit (float_text e) (dr_current_step_id dr)) steps of
         None \<Rightarrow> Inl (not_found (''Step '' @ repr_str (dr_current_step_id dr) @ '' not found in contract '' @ dr_contract_id dr))
       | Some step \<Rightarrow>
           ebind (of_opt (if get_key step ''fields'' = JNull then Some [] else py_iter (get_key step ''fields''))) (\<lambda>flds.
             case find (text_id_hit (float_text e) f) flds of
               None \<Rightarrow> Inl (not_found (''Field '' @ repr_str f @ '' not found in step '' @ repr_str (dr_current_step_id dr)))
             | Some field \<Rightarrow> Inr (only_field step field)))"

definition request_reactive_suggestion ::
    "api \<Rightarrow> auth_context \<Rightarrow> string \<Rightarrow> string \<Rightarrow> world \<Rightarrow> dict res \<times> world" where
  "request_reactive_suggestion a auth ident f w =
     (if \<not> has_permission auth ''agent.suggestions.read''
      then (Inl (HTTPException 403 ''Missing agent.suggestions.read permission''), w)
      else sbind (resolve_run_or_conversation auth ident w, w) (\<lambda>run w.
        case get_draft (rn_conversation_id run) w of
          None \<Rightarrow> (Inl (not_found ''No active workflow draft for this conversation''), w)
        | Some dr \<Rightarrow>
            sbind (load_draft_contract (ap_env a) dr, w) (\<lambda>contract w.
            sbind (reactive_target (ap_env a) contract dr f, w) (\<lambda>step w.
              case emit_suggestions (ap_env a) (Some (from_settings (ap_env a) [])) (ap_research a) auth (rn_id run)
                     contract step (dr_payload dr) (ap_budget a) w of
                (None, _, w1) \<Rightarrow> (Inl PyError, w1)
              | (Some evs, _, w1) \<Rightarrow>
                  (Inr [(''run_id'', JStr (rn_id run)), (''field_id'', JStr f),
                        (''events_emitted'', JStr (show_nat (length evs)))], commit w1)))))"

section \<open>The router\<close>

text \<open>
  One request on a run, as the router dispatches it, with the session it is served in: what is
  left of it is what the handler committed.
\<close>

datatype run_call =
    ReadRun string
  | CancelRun string
  | DecideCall string string decision "dict option"
  | AdvanceStep string string
  | DecideStep string string bool "string option"
  | DecideProposal string string "dict option" "string option"
  | StartConversation string
  | FieldAnswer string string json
  | ReAskField string string
  | CommitConversation string
  | AskSuggestion string string

fun serve :: "api \<Rightarrow> auth_context \<Rightarrow> run_call \<Rightarrow> world \<Rightarrow> world" where
  "serve a auth (ReadRun r) w = snd (served (get_run_endpoint a auth r w))"
| "serve a auth (CancelRun r) w = snd (served (cancel_run a auth r w))"
| "serve a auth (DecideCall r k dec edited) w = snd (served (decide_run_tool_call a auth r k dec edited w))"
| "serve a auth (AdvanceStep r s) w = snd (served (request_step_advance a auth r s w))"
| "serve a auth (DecideStep r s approve reason) w = snd (served (decide_step_advance a auth r s approve reason w))"
| "serve a auth (DecideProposal r s accepted reason) w = snd (served (decide_step_proposal a auth r s accepted reason w))"
| "serve a auth (StartConversation r) w = snd (served (start_conversation a auth r w))"
| "serve a auth (FieldAnswer r f v) w = snd (served (submit_field_answer a auth r f v w))"
| "serve a auth (ReAskField r f) w = snd (served (re_ask_field a auth r f w))"
| "serve a auth (CommitConversation r) w = snd (served (commit_conversation a auth r w))"
| "serve a auth (AskSuggestion r f) w = snd (served (request_reactive_suggestion a auth r f w))"

fun target :: "run_call \<Rightarrow> string" where
  "target (ReadRun r) = r" | "target (CancelRun r) = r" | "target (DecideCall r k dec edited) = r"
| "target (AdvanceStep r s) = r" | "target (DecideStep r s approve reason) = r"
| "target (DecideProposal r s accepted reason) = r" | "target (StartConversation r) = r"
| "target (FieldAnswer r f v) = r" | "target (ReAskField r f) = r" | "target (CommitConversation r) = r"
| "target (AskSuggestion r f) = r"

end
