(* ===== verification/RunsLaws.thy ===== *)
theory RunsLaws
  imports Runs
begin

text \<open>
  What the endpoints of \<open>Runs\<close> keep and reach. \<open>handler_invariant\<close> is the contract between a
  property of the database and the few ways the handlers change it; inside it every handler is
  shown to keep the property, once, and the numbering of the event logs and the life cycle of
  runs and tool calls are its interpretations.
\<close>

text \<open>A transitive relation between sessions holds along a sequence of steps.\<close>

lemma sbind_rel:
  assumes "R w (snd m)" and "\<And>x w1. m = (Inr x, w1) \<Longrightarrow> R w1 (snd (f x w1))"
    and "\<And>u v w. R u v \<Longrightarrow> R v w \<Longrightarrow> R u w"
  shows "R w (snd (sbind m f))"
proof (cases m)
  case (Pair r w1)
  with assms(1) have "R w w1" by simp
  with Pair assms(2,3) show ?thesis by (cases r) (auto simp: sbind_def)
qed

section \<open>Life cycles\<close>

definition run_statuses :: "string set" where
  "run_statuses = {''queued'', ''running'', ''awaiting_decision'', ''completed'', ''error'', ''cancelled''}"

definition call_statuses :: "string set" where
  "call_statuses = {''pending'', ''proposed'', ''awaiting_approval'', ''executing'', ''succeeded'', ''failed'', ''rejected''}"

definition run_ok :: "agent_run \<Rightarrow> bool" where
  "run_ok r \<longleftrightarrow> rn_status r \<in> run_statuses \<and>
     (rn_status r = ''completed'' \<longrightarrow> rn_completed_at r \<noteq> None) \<and>
     (rn_status r = ''cancelled'' \<longrightarrow> rn_cancelled_at r \<noteq> None)"

definition call_ok :: "agent_tool_call \<Rightarrow> bool" where
  "call_ok tc \<longleftrightarrow> tc_status tc \<in> call_statuses \<and>
     (tc_status tc = ''succeeded'' \<longrightarrow> tc_result tc \<noteq> None \<and> tc_completed_at tc \<noteq> None) \<and>
     (tc_status tc = ''rejected'' \<longrightarrow> tc_rejected_at tc \<noteq> None) \<and>
     (tc_status tc = ''executing'' \<longrightarrow> tc_approved_at tc \<noteq> None)"

definition lifecycle_ok :: "db \<Rightarrow> bool" where
  "lifecycle_ok d \<longleftrightarrow> list_all run_ok (runs d) \<and> list_all call_ok (tool_calls d)"

section \<open>Invariants of the handlers\<close>

locale handler_invariant =
  fixes I :: "db \<Rightarrow> bool"
  assumes logged: "logs r P w w' \<Longrightarrow> I (cur w) \<Longrightarrow> I (cur w')"
    and run_changed: "I d \<Longrightarrow> (\<And>r. run_ok r \<Longrightarrow> run_ok (f r)) \<Longrightarrow> I (d\<lparr>runs := row_modify rn_id k f (runs d)\<rparr>)"
    and call_changed: "I d \<Longrightarrow> (\<And>tc. call_ok tc \<Longrightarrow> call_ok (g tc)) \<Longrightarrow>
      I (d\<lparr>tool_calls := row_modify tc_id k g (tool_calls d)\<rparr>)"
    and call_added: "I d \<Longrightarrow> call_ok tc \<Longrightarrow>
      I (d\<lparr>run_steps := sts, tool_calls := tool_calls d @ [tc]\<rparr>)"
    and drafts_changed: "I d \<Longrightarrow> I (d\<lparr>drafts := drs\<rparr>)"
    and audit_changed: "I d \<Longrightarrow> I (d\<lparr>audit_log := al\<rparr>)"
begin

text \<open>From a session in which view and saved state are fine to one in which they are.\<close>

definition keeps :: "world \<Rightarrow> world \<Rightarrow> bool" where
  "keeps w w' \<longleftrightarrow> (I (cur w) \<and> I (saved w) \<longrightarrow> I (cur w') \<and> I (saved w'))"

lemma keeps_refl [simp, intro]: "keeps w w"
  by (simp add: keeps_def)

lemma keeps_trans [trans]: "keeps w v \<Longrightarrow> keeps v u \<Longrightarrow> keeps w u"
  by (auto simp: keeps_def)

lemma keeps_same: "cur w' = cur w \<Longrightarrow> saved w' = saved w \<Longrightarrow> keeps w w'"
  by (simp add: keeps_def)

lemma keeps_commit: "keeps w v \<Longrightarrow> keeps w (commit v)"
  by (auto simp: keeps_def commit_def)

lemma keeps_logs: "logs r P v u \<Longrightarrow> keeps w v \<Longrightarrow> keeps w u"
  using logged logs_frame(8) by (fastforce simp: keeps_def)

lemma keeps_emit: "keeps w v \<Longrightarrow> keeps w (emit e r ty p v)"
  by (rule keeps_logs [OF emit_logs [where P = "\<lambda>_. True"]])

lemma keeps_sends: "only_sends v u \<Longrightarrow> keeps w v \<Longrightarrow> keeps w u"
  by (simp add: keeps_def only_sends_def)

lemma keeps_run: "(\<And>r. run_ok r \<Longrightarrow> run_ok (f r)) \<Longrightarrow> keeps w (upd_run k f w)"
  using run_changed by (simp add: keeps_def upd_run_def in_db_def)

lemma keeps_call: "(\<And>tc. call_ok tc \<Longrightarrow> call_ok (g tc)) \<Longrightarrow> keeps w (upd_tool_call k g w)"
  using call_changed by (simp add: keeps_def upd_tool_call_def in_db_def)

lemma keeps_draft: "keeps w (upd_draft k f w)" "keeps w (add_draft dr w)"
  using drafts_changed by (simp_all add: keeps_def upd_draft_def add_draft_def in_db_def)

lemma keeps_tick [simp]: "keeps (w\<lparr>tick := t\<rparr>) v \<longleftrightarrow> keeps w v" "keeps w (v\<lparr>tick := t\<rparr>) \<longleftrightarrow> keeps w v"
  by (simp_all add: keeps_def)

lemma keeps_sbind:
  "keeps w (snd m) \<Longrightarrow> (\<And>x w1. m = (Inr x, w1) \<Longrightarrow> keeps w1 (snd (f x w1))) \<Longrightarrow> keeps w (snd (sbind m f))"
  by (rule sbind_rel [where R = keeps]) (auto intro: keeps_trans)

lemma keeps_require: "(\<And>x. r = Inr x \<Longrightarrow> keeps w (snd (f x w))) \<Longrightarrow> keeps w (snd (sbind (r, w) f))"
  by (rule keeps_sbind) auto

text \<open>Each change, as a step that may follow anything.\<close>

lemma after: "keeps v u \<Longrightarrow> keeps w v \<Longrightarrow> keeps w u"
  by (rule keeps_trans)

lemma run_step: "(\<And>r. run_ok r \<Longrightarrow> run_ok (f r)) \<Longrightarrow> keeps w v \<Longrightarrow> keeps w (upd_run k f (v\<lparr>tick := t\<rparr>))"
  using keeps_run [of f "v\<lparr>tick := t\<rparr>" k] after by auto

lemma call_step: "(\<And>tc. call_ok tc \<Longrightarrow> call_ok (g tc)) \<Longrightarrow> keeps w v \<Longrightarrow> keeps w (upd_tool_call k g (v\<lparr>tick := t\<rparr>))"
  using keeps_call [of g "v\<lparr>tick := t\<rparr>" k] after by auto

lemma args_step: "keeps w v \<Longrightarrow> keeps w (upd_tool_call k (\<lambda>tc. tc\<lparr>tc_args := args\<rparr>) v)"
  by (rule after [OF keeps_call]) (simp_all add: call_ok_def)

lemma edit_step: "keeps w v \<Longrightarrow> keeps w (upd_tool_call k (\<lambda>tc. tc\<lparr>tc_args := args, tc_status := ''proposed''\<rparr>) v)"
  by (rule after [OF keeps_call]) (simp_all add: call_ok_def call_statuses_def)

lemma touch_step: "keeps w v \<Longrightarrow> keeps w (touch_run e k v)"
  unfolding touch_run_def utc_now_def prod.case by (rule run_step) (simp_all add: run_ok_def)

lemma complete_step: "keeps w v \<Longrightarrow> keeps w (complete_run e k v)"
  unfolding complete_run_def utc_now_def prod.case by (rule run_step) (simp_all add: run_ok_def run_statuses_def)

lemma complete_if_step: "keeps w v \<Longrightarrow> keeps w (complete_if_awaiting e k v)"
  by (simp add: complete_if_awaiting_def complete_step split: option.split)

lemma reopen_step: "keeps w v \<Longrightarrow> keeps w (reopen_run e run v)"
  unfolding reopen_run_def utc_now_def prod.case
  by (auto intro!: run_step simp: run_ok_def run_statuses_def)

lemma cancel_step: "keeps w v \<Longrightarrow> keeps w (mark_cancelled e k v)"
  using run_step [of "\<lambda>r. r\<lparr>rn_status := ''cancelled'', rn_cancelled_at := Some t1, rn_updated_at := t2\<rparr>" w "v\<lparr>tick := t\<rparr>" k t' for t1 t2 t t']
  by (simp add: mark_cancelled_def utc_now_def run_ok_def run_statuses_def)

lemma reject_mark_step: "keeps w v \<Longrightarrow> keeps w (mark_rejected e k v)"
  using call_step [of "\<lambda>tc. tc\<lparr>tc_status := ''rejected'', tc_rejected_at := Some t1, tc_completed_at := Some t2\<rparr>" w "v\<lparr>tick := t\<rparr>" k t' for t1 t2 t t']
  by (simp add: mark_rejected_def utc_now_def call_ok_def call_statuses_def)

lemma executing_step: "keeps w v \<Longrightarrow> keeps w (mark_executing e k v)"
  unfolding mark_executing_def utc_now_def prod.case
  by (rule call_step) (simp_all add: call_ok_def call_statuses_def)

lemma succeeded_step: "keeps w v \<Longrightarrow> keeps w (mark_succeeded e k result i v)"
  unfolding mark_succeeded_def utc_now_def prod.case
  by (rule call_step) (simp_all add: call_ok_def call_statuses_def)

lemma log_write_step: "keeps w v \<Longrightarrow> keeps w (log_write e auth r tc t result i v)"
  using audit_changed by (simp add: log_write_def next_row_def utc_now_def add_audit_row_def in_db_def keeps_def)

lemma write_draft_step: "keeps w v \<Longrightarrow> keeps w (write_draft e conv payload v)"
  using drafts_changed by (simp add: write_draft_def utc_now_def upd_draft_def in_db_def keeps_def)

lemma duration_step: "keeps w v \<Longrightarrow> keeps w (snd (record_step_duration_from_events e r s out v))"
  by (simp add: record_step_duration_from_events_def utc_now_def observe_workflow_step_duration_def
      record_metric_def keeps_def Let_def split: option.split)

lemma start_announced: "keeps w v \<Longrightarrow> keeps w (announce_start e r tc j v)"
  by (simp add: announce_start_def keeps_emit)

lemmas steps = keeps_commit keeps_emit args_step edit_step touch_step complete_step complete_if_step reopen_step cancel_step
  reject_mark_step executing_step succeeded_step log_write_step write_draft_step duration_step start_announced

section \<open>The handlers, one by one\<close>

lemma get_run_keeps: "keeps w (snd (get_run_endpoint a auth r w))"
  unfolding get_run_endpoint_def by (rule keeps_require) simp

lemma cancel_run_keeps: "keeps w (snd (cancel_run a auth r w))"
  unfolding cancel_run_def by (rule keeps_require) (auto simp: Let_def intro!: steps)

lemma call_priceframe_keeps: "keeps w (snd (call_priceframe a auth r tc t parsed w))"
  unfolding call_priceframe_def Let_def
proof (rule keeps_sbind)
  show "keeps w (snd (execute (ap_env a) (from_settings (ap_env a) [(''Idempotency-Key'', tc_id tc)]) auth t parsed w))"
    by (rule keeps_sends [OF priceframe_tools.reach]) simp
  show "keeps w1 (snd (if tl_risk t = READ then (Inr (x, None), w1)
      else sbind (audit_payload a r tc (tc_args tc) x, w1) (\<lambda>payload w1.
        sbind (post_agent_audit_callback (ap_env a) (from_settings (ap_env a) [(''Idempotency-Key'', tc_id tc)])
          (jwt_raw auth) (service_secret (ap_env a)) payload w1) (\<lambda>audit_id w2. (Inr (x, Some audit_id), w2)))))" for x w1
    by (auto intro!: keeps_sbind keeps_sends [OF audit_only_sends])
qed

lemma execute_approved_keeps: "keeps w (snd (execute_approved_tool_call a auth r k m w))"
proof -
  have "keeps w (snd (sbind (call_priceframe a auth r tc t parsed w) (\<lambda>(result, audit_id) w1.
      (Inr result, record_success (ap_env a) auth r tc t m result audit_id w1))))" for tc t parsed
    by (rule keeps_sbind [OF call_priceframe_keeps]) (auto simp: record_success_def Let_def intro!: steps)
  then show ?thesis by (simp add: execute_approved_tool_call_def split: option.split)
qed

lemma approve_keeps: "keeps w (snd (approve_tool_call a auth r tc edited w))"
proof -
  have start: "keeps w (start_tool_call e r tc args j w)" for e args j
    by (simp add: start_tool_call_def Let_def steps)
  have "keeps w w2" if "execute_approved_tool_call a auth r k m (start_tool_call e r tc args j w) = (res, w2)"
    for e args j k m res w2
    using execute_approved_keeps [of "start_tool_call e r tc args j w" a auth r k m] start [of e args j] that keeps_trans
    by (metis snd_conv)
  then show ?thesis
    by (auto simp: approve_tool_call_def Let_def keeps_commit split: option.split prod.split sum.split)
qed

lemma decide_keeps: "keeps w (snd (decide_run_tool_call a auth r k dec edited w))"
  unfolding decide_run_tool_call_def
proof (rule keeps_require, rule keeps_require)
  fix run tc
  show "keeps w (snd (case dec of Reject \<Rightarrow> reject_tool_call (ap_env a) r k w
      | Edit \<Rightarrow> edit_tool_call (ap_env a) r k edited w | Approve \<Rightarrow> approve_tool_call a auth r tc edited w))"
    by (auto simp: reject_tool_call_def edit_tool_call_def Let_def approve_keeps split: decision.split option.split
        intro!: steps)
qed

lemma evaluate_keeps: "keeps w (snd (evaluate_step_advance e pyd r sid draft w))"
proof -
  obtain res w' where ev: "evaluate_step_advance e pyd r sid draft w = (res, w')" by fastforce
  show ?thesis
  proof (cases res)
    case (Inl err)
    with ev have "w' = w" by (auto dest: evaluate_error)
    with ev show ?thesis by simp
  next
    case (Inr d)
    show ?thesis using ev [unfolded Inr]
    proof (rule evaluate_cases)
      fix t parsed args assume "persist_call e r sid t (dump_args parsed) w = (d, w')"
      then have "w' = snd (persist_call e r sid t (dump_args parsed) w)" by simp
      with call_added show ?thesis
        by (auto simp: ev keeps_def persist_call_tables call_ok_def call_statuses_def)
    qed (use ev in simp)
  qed
qed

lemma advance_event_step: "keeps w v \<Longrightarrow> keeps w (emit_advance_event e r sid d v)"
  by (auto simp: emit_advance_event_def utc_now_def run_ok_def run_statuses_def intro!: keeps_emit run_step)

lemma enter_step: "keeps w v \<Longrightarrow> keeps w (enter_next_step a auth r conv sid v)"
  by (auto simp: enter_next_step_def Let_def split: option.split sum.split intro: keeps_logs [OF enter_step_logs])

lemma finish_step: "keeps w v \<Longrightarrow> keeps w (finish_run e r sid via v)"
  by (simp add: finish_run_def steps)

lemma after_decision_step: "keeps w v \<Longrightarrow> keeps w (after_decision a auth run sid d v)"
  by (simp add: after_decision_def Let_def finish_step enter_step steps)

lemma request_step_advance_keeps: "keeps w (snd (request_step_advance a auth r sid w))"
  unfolding request_step_advance_def Let_def
proof (rule keeps_require, rule keeps_sbind)
  fix run
  have "keeps w (reopen_run (ap_env a) run w)" by (rule reopen_step) simp
  then show "keeps w (snd (apfst advance_error (evaluate_step_advance (ap_env a) (ap_pyd a) (rn_id run) sid
      (get_draft (rn_conversation_id run) (reopen_run (ap_env a) run w)) (reopen_run (ap_env a) run w))))"
    using evaluate_keeps keeps_trans by simp
qed (simp add: keeps_commit after_decision_step advance_event_step)

lemma reject_bundle_step: "keeps w v \<Longrightarrow> keeps w (reject_bundle e r tcs v)"
  unfolding reject_bundle_def by (induction tcs arbitrary: v) (simp_all add: steps)

lemma reject_step_keeps: "keeps w (reject_step a r sid reason tcs w)"
  by (simp add: reject_step_def Let_def reject_bundle_step steps)

lemma approve_bundle_keeps: "keeps w (snd (approve_bundle a auth r tcs w))"
proof (induction tcs arbitrary: w)
  case (Cons tc tcs)
  let ?w1 = "commit (announce_start (ap_env a) r tc JNull (mark_executing (ap_env a) (tc_id tc) w))"
  have "keeps w ?w1" by (simp add: steps)
  then have "keeps w (snd (apfst execution_error (execute_approved_tool_call a auth r (tc_id tc) False ?w1)))"
    using execute_approved_keeps keeps_trans by simp
  then show ?case unfolding approve_bundle.simps Let_def
    by (rule keeps_sbind) (auto intro!: keeps_sbind Cons.IH)
qed simp

lemma approve_step_keeps: "keeps w (snd (approve_step a auth run sid tcs w))"
  unfolding approve_step_def Let_def
  by (rule keeps_sbind [OF approve_bundle_keeps]) (simp add: enter_step steps)

lemma decide_step_keeps: "keeps w (snd (decide_step_advance a auth r sid approve reason w))"
  unfolding decide_step_advance_def Let_def
  by (rule keeps_require) (auto intro!: keeps_sbind approve_step_keeps reject_step_keeps)

lemma decide_proposal_keeps: "keeps w (snd (decide_step_proposal a auth r sid accepted reason w))"
proof -
  have "keeps w (snd (accept_proposal e r sid dr step proposed w))" for e dr step proposed
    by (auto simp: accept_proposal_def Let_def intro!: steps split: option.split)
  then show ?thesis unfolding decide_step_proposal_def
    by (auto intro!: keeps_require steps split: option.split)
qed

lemma prompt_keeps: "keeps w v \<Longrightarrow> keeps w (snd (prompt_at a auth r contract payload v))"
  by (auto simp: prompt_at_def split: option.split intro: keeps_logs [OF emit_next_prompt_logs])

lemma start_conversation_keeps: "keeps w (snd (start_conversation a auth r w))"
proof -
  have "keeps w (snd (draft_or_seed e conv w))" for e conv
    using drafts_changed
    by (auto simp: draft_or_seed_def seed_draft_def utc_now_def add_draft_def in_db_def keeps_def Let_def split: option.split)
  then show ?thesis unfolding start_conversation_def
    by (auto intro!: keeps_require keeps_sbind prompt_keeps keeps_commit)
qed

lemma field_answer_keeps: "keeps w (snd (submit_field_answer a auth r f v w))"
  unfolding submit_field_answer_def Let_def
  by (auto intro!: keeps_require keeps_sbind prompt_keeps steps split: option.split)

lemma re_ask_keeps: "keeps w (snd (re_ask_field a auth r f w))"
proof -
  have "keeps w w1" if "suggestion_for e cl auth contract draft p w = (s, w1)" for e cl contract draft p s w1
    using keeps_logs [OF quiet_logs [OF suggestion_for_quiet]] that by (metis keeps_refl snd_conv)
  then show ?thesis unfolding re_ask_field_def
    by (auto intro!: keeps_require steps split: option.split prod.split)
qed

lemma commit_conversation_keeps: "keeps w (snd (commit_conversation a auth r w))"
  unfolding commit_conversation_def
  by (auto simp: Let_def intro!: keeps_require keeps_sbind keeps_sends [OF commit_draft_frame] steps)

lemma reactive_keeps: "keeps w (snd (request_reactive_suggestion a auth ident f w))"
proof -
  have "keeps w w1" if "emit_suggestions e cl cfg auth r contract step draft b w = (s, b', w1)" for e cl cfg r contract step draft b s b' w1
    using keeps_logs [OF emit_suggestions_logs [of r w e cl cfg auth contract step draft b]] that by simp
  then show ?thesis unfolding request_reactive_suggestion_def
    by (auto intro!: keeps_require steps split: option.split prod.split)
qed

text \<open>The whole API: a request on a run, as the router dispatches it.\<close>

lemma keeps_close: "keeps w v \<Longrightarrow> keeps w (close_session v)"
  by (simp add: keeps_def close_session_def)

lemma serve_keeps: "keeps w (serve a auth q w)"
  by (cases q) (simp_all add: served_def keeps_close get_run_keeps cancel_run_keeps decide_keeps
      request_step_advance_keeps decide_step_keeps decide_proposal_keeps start_conversation_keeps field_answer_keeps
      re_ask_keeps commit_conversation_keeps reactive_keeps)

lemma serves_keep: "keeps w (foldl (\<lambda>w (a, auth, q). serve a auth q w) w qs)"
proof (induction qs arbitrary: w)
  case (Cons x qs)
  obtain a auth q where x: "x = (a, auth, q)" by (metis surj_pair)
  show ?case using keeps_trans [OF serve_keeps [of w a auth q] Cons.IH [of "serve a auth q w"]] by (simp add: x)
qed simp

lemma serves_saved: "I (saved w) \<Longrightarrow> cur w = saved w \<Longrightarrow> I (saved (foldl (\<lambda>w (a, auth, q). serve a auth q w) w qs))"
  using serves_keep [of w qs] by (simp add: keeps_def)

end

interpretation log_numbering: handler_invariant log_wf
proof (unfold_locales, goal_cases)
  case 1 then show ?case by (simp add: logs_def)
qed (simp_all add: log_wf_def run_log_def)

lemma list_all_row_modify: "list_all P rs \<Longrightarrow> (\<And>r. P r \<Longrightarrow> P (f r)) \<Longrightarrow> list_all P (row_modify key k f rs)"
  by (auto simp: list_all_iff set_row_modify)

interpretation life_cycles: handler_invariant lifecycle_ok
proof (unfold_locales, goal_cases)
  case (1 r P w w') then show ?case using logs_frame(1,2) [OF 1(1)] by (simp add: lifecycle_ok_def)
qed (simp_all add: lifecycle_ok_def list_all_row_modify)

section \<open>Ownership\<close>

definition owns_run :: "auth_context \<Rightarrow> world \<Rightarrow> string \<Rightarrow> bool" where
  "owns_run auth w r \<longleftrightarrow> (\<exists>run. get_run r w = Some run \<and> rn_user_id run = user_id auth)"

definition owns_conversation :: "auth_context \<Rightarrow> world \<Rightarrow> string \<Rightarrow> bool" where
  "owns_conversation auth w c \<longleftrightarrow> (\<exists>conv. get_conversation c w = Some conv \<and> cv_user_id conv = user_id auth)"

lemma sbind_Inl [simp]: "sbind (Inl err, w) f = (Inl err, w)" and sbind_Inr [simp]: "sbind (Inr x, w) f = f x w"
  by (simp_all add: sbind_def)

lemma require_foreign: "\<not> owns_run auth w r \<Longrightarrow> require_run auth r w = Inl (not_found ''Run not found'')"
  by (auto simp: owns_run_def require_run_def split: option.split)

lemma require_own: "require_run auth r w = Inr run \<Longrightarrow> owns_run auth w r \<and> get_run r w = Some run \<and> rn_id run = r"
  by (auto simp: owns_run_def require_run_def split: option.splits if_splits dest: run_rows.get_key)

lemma resolve_foreign:
  "\<not> owns_run auth w r \<Longrightarrow> \<not> owns_conversation auth w r \<Longrightarrow> \<exists>m. resolve_run_or_conversation auth r w = Inl (not_found m)"
  by (auto simp: owns_run_def owns_conversation_def resolve_run_or_conversation_def split: option.split)

interpretation append_only: handler_invariant "\<lambda>d. prefix (run_log r d0) (run_log r d)" for r d0
proof (unfold_locales, goal_cases)
  case (1 r' P w w') then show ?case using logs_prefix prefix_order.trans by metis
qed (simp_all add: run_log_def)

section \<open>One tool call\<close>

lemma call_cong: "tool_calls (cur w') = tool_calls (cur w) \<Longrightarrow> get_tool_call k w' = get_tool_call k w"
  by (simp add: get_tool_call_def)

lemma calls_frame [simp]:
  "tool_calls (cur (touch_run e r w)) = tool_calls (cur w)"
  "tool_calls (cur (complete_run e r w)) = tool_calls (cur w)"
  "tool_calls (cur (complete_if_awaiting e r w)) = tool_calls (cur w)"
  "tool_calls (cur (log_write e auth r tc t result i w)) = tool_calls (cur w)"
  "tool_calls (cur (commit w)) = tool_calls (cur w)"
  "tool_calls (cur (announce_start e r tc j w)) = tool_calls (cur w)"
proof -
  show "tool_calls (cur (touch_run e r w)) = tool_calls (cur w)"
    by (simp add: touch_run_def utc_now_def upd_run_def in_db_def)
  show c: "tool_calls (cur (complete_run e r w)) = tool_calls (cur w)"
    by (simp add: complete_run_def utc_now_def upd_run_def in_db_def)
  show "tool_calls (cur (complete_if_awaiting e r w)) = tool_calls (cur w)"
    by (simp add: complete_if_awaiting_def c split: option.split)
  show "tool_calls (cur (log_write e auth r tc t result i w)) = tool_calls (cur w)"
    by (simp add: log_write_def utc_now_def next_row_def add_audit_row_def in_db_def)
  show "tool_calls (cur (commit w)) = tool_calls (cur w)" by (simp add: commit_def)
  show "tool_calls (cur (announce_start e r tc j w)) = tool_calls (cur w)"
    by (simp add: announce_start_def frame)
qed

lemmas call_frame [simp] = call_cong [OF calls_frame(1)] call_cong [OF calls_frame(2)] call_cong [OF calls_frame(3)]
  call_cong [OF calls_frame(4)] call_cong [OF calls_frame(5)] call_cong [OF calls_frame(6)]

lemma call_marks [simp]:
  "get_tool_call k' (mark_executing e k w) = (if k' = k
     then map_option (\<lambda>tc. tc\<lparr>tc_status := ''executing'', tc_approved_at := Some (clock e (tick w))\<rparr>) (get_tool_call k w)
     else get_tool_call k' w)"
  "get_tool_call k' (mark_rejected e k w) = (if k' = k
     then map_option (\<lambda>tc. tc\<lparr>tc_status := ''rejected'', tc_rejected_at := Some (clock e (tick w)),
       tc_completed_at := Some (clock e (Suc (tick w)))\<rparr>) (get_tool_call k w)
     else get_tool_call k' w)"
  "get_tool_call k' (mark_succeeded e k result i w) = (if k' = k
     then map_option (\<lambda>tc. tc\<lparr>tc_status := ''succeeded'', tc_result := Some result, tc_audit_log_id := i,
       tc_completed_at := Some (clock e (tick w))\<rparr>) (get_tool_call k w)
     else get_tool_call k' w)"
  by (simp_all add: mark_executing_def mark_rejected_def mark_succeeded_def utc_now_def tool_call_rows.get_upd)
    (simp_all add: table_defs)

lemma start_call [simp]:
  "get_tool_call k' (start_tool_call e r tc args j w) = (if k' = tc_id tc
     then map_option (\<lambda>tc. tc\<lparr>tc_args := args, tc_status := ''executing'', tc_approved_at := Some (clock e (tick w))\<rparr>)
       (get_tool_call (tc_id tc) w)
     else get_tool_call k' w)"
  by (simp add: start_tool_call_def Let_def tool_call_rows.get_upd option.map_comp comp_def)
    (simp add: upd_tool_call_def in_db_def)

lemma call_priceframe_sends: "only_sends w (snd (call_priceframe a auth r tc t parsed w))"
  unfolding call_priceframe_def Let_def
  by (rule sbind_rel [where R = only_sends, OF priceframe_tools.reach])
    (auto intro!: sbind_rel [where R = only_sends] audit_only_sends intro: only_sends_trans)

lemma execute_approved_cases:
  assumes "execute_approved_tool_call a auth r k m w = (res, w')"
  obtains err where "res = Inl err" and "only_sends w w'"
  | tc t result i w1 where "res = Inr result" and "get_tool_call k w = Some tc"
      and "only_sends w w1" and "w' = record_success (ap_env a) auth r tc t m result i w1"
proof (cases res)
  case (Inl err)
  have "only_sends w w'"
  proof (cases "\<exists>tc t parsed. get_tool_call k w = Some tc \<and> registry_get (tc_tool_name tc) = Some t \<and>
      validate_args (ap_pyd a) (tc_tool_name tc) (tc_args tc) = Some parsed")
    case True
    then obtain tc t parsed where tc: "get_tool_call k w = Some tc" "registry_get (tc_tool_name tc) = Some t"
      "validate_args (ap_pyd a) (tc_tool_name tc) (tc_args tc) = Some parsed" by blast
    with assms Inl call_priceframe_sends [of w a auth r tc t parsed] show ?thesis
      by (auto simp: execute_approved_tool_call_def sbind_def split: prod.splits sum.splits)
  qed (use assms in \<open>auto simp: execute_approved_tool_call_def split: option.splits\<close>)
  with Inl that(1) show thesis by blast
next
  case (Inr result)
  then obtain tc t parsed i w1 where tc: "get_tool_call k w = Some tc"
    and c: "call_priceframe a auth r tc t parsed w = (Inr (result, i), w1)"
    and w': "w' = record_success (ap_env a) auth r tc t m result i w1"
    using assms by (auto simp: execute_approved_tool_call_def sbind_def split: option.splits prod.splits sum.splits)
  have "only_sends w w1" using call_priceframe_sends [of w a auth r tc t parsed] c by simp
  with Inr tc w' that(2) show thesis by blast
qed

lemma sends_call: "only_sends w w' \<Longrightarrow> get_tool_call k w' = get_tool_call k w"
  by (simp add: only_sends_def get_tool_call_def)

lemma record_success_call: "get_tool_call k' (record_success e auth r tc t m result i w) = (if k' = tc_id tc
     then map_option (\<lambda>tc. tc\<lparr>tc_status := ''succeeded'', tc_result := Some result, tc_audit_log_id := i,
       tc_completed_at := Some (clock e (tick w))\<rparr>) (get_tool_call (tc_id tc) w)
     else get_tool_call k' w)"
  by (simp add: record_success_def Let_def frame)

section \<open>The machine of one call\<close>

text \<open>
  The abstract machine that the decision endpoint promises for a tool call, over its status alone:
  a call starts only from a pending status, a start ends in success or is left executing, and a
  refused or repeated decision changes nothing.
\<close>

inductive call_move :: "decision \<Rightarrow> string \<Rightarrow> string \<Rightarrow> bool" where
  move_none: "call_move dec s s"
| move_reject: "call_move Reject s ''rejected''"
| move_edit: "call_move Edit s ''proposed''"
| move_start: "s \<in> set pending_statuses \<Longrightarrow> call_move Approve s ''executing''"
| move_finish: "s \<in> set pending_statuses \<Longrightarrow> call_move Approve s ''succeeded''"

inductive_cases approve_moveE: "call_move Approve s s'"

lemma approve_from_settled: "call_move Approve s s' \<Longrightarrow> s \<notin> set pending_statuses \<Longrightarrow> s' = s"
  by (erule approve_moveE) auto

lemma approve_cases:
  assumes "approve_tool_call a auth r tc edited w = (res, w')"
  obtains "w' = w"
  | args w1 err where "tc_status tc \<in> set pending_statuses" and "w1 = start_tool_call (ap_env a) r tc args (opt_json edited) w"
      and "execute_approved_tool_call a auth r (tc_id tc) True w1 = (Inl err, w')" and "res = execution_error (Inl err)"
  | args w1 w2 result where "tc_status tc \<in> set pending_statuses" and "w1 = start_tool_call (ap_env a) r tc args (opt_json edited) w"
      and "execute_approved_tool_call a auth r (tc_id tc) True w1 = (Inr result, w2)" and "w' = commit w2"
      and "res = Inr (decided ''succeeded'' [(''result'', JObj result)])"
proof (cases "w' = w")
  case False
  obtain parsed where st: "tc_status tc \<in> set pending_statuses"
    and v: "(case execute_approved_tool_call a auth r (tc_id tc) True (start_tool_call (ap_env a) r tc (dump_args parsed) (opt_json edited) w) of
        (Inl err, w2) \<Rightarrow> (execution_error (Inl err), w2)
      | (Inr result, w2) \<Rightarrow> (Inr (decided ''succeeded'' [(''result'', JObj result)]), commit w2)) = (res, w')"
    using assms False by (auto simp: approve_tool_call_def Let_def split: if_splits option.splits)
  show thesis
  proof (cases "fst (execute_approved_tool_call a auth r (tc_id tc) True (start_tool_call (ap_env a) r tc (dump_args parsed) (opt_json edited) w))")
    case (Inl err)
    with v show thesis by (intro that(2) [OF st refl]) (auto split: prod.splits sum.splits)
  next
    case (Inr result)
    with v show thesis
      by (intro that(3) [OF st refl, of "dump_args parsed" result "snd (execute_approved_tool_call a auth r (tc_id tc) True (start_tool_call (ap_env a) r tc (dump_args parsed) (opt_json edited) w))"])
        (auto split: prod.splits sum.splits)
  qed
qed (use that(1) in blast)

text \<open>What an execution does to the calls: nothing, or it makes its own succeed.\<close>

lemma execute_approved_calls:
  assumes "execute_approved_tool_call a auth r k m w = (Inl err, w')"
  shows "get_tool_call k' w' = get_tool_call k' w" and "saved w' = saved w"
proof -
  have "only_sends w w'" using assms by (rule execute_approved_cases) simp_all
  then show "get_tool_call k' w' = get_tool_call k' w" "saved w' = saved w"
    by (simp_all add: sends_call only_sends_def)
qed

lemma execute_approved_success:
  assumes "execute_approved_tool_call a auth r k m w = (Inr result, w')"
  shows "\<exists>tc'. get_tool_call k w' = Some tc' \<and> tc_status tc' = ''succeeded'' \<and> tc_result tc' = Some result"
    and "k' \<noteq> k \<Longrightarrow> get_tool_call k' w' = get_tool_call k' w"
proof -
  obtain tc t i w1 where tc: "get_tool_call k w = Some tc" and s: "only_sends w w1"
    and w': "w' = record_success (ap_env a) auth r tc t m result i w1"
    using assms by (rule execute_approved_cases) auto
  have k: "tc_id tc = k" using tc by (rule tool_call_rows.get_key)
  show "\<exists>tc'. get_tool_call k w' = Some tc' \<and> tc_status tc' = ''succeeded'' \<and> tc_result tc' = Some result"
    using tc sends_call [OF s] by (simp add: w' record_success_call k)
  show "get_tool_call k' w' = get_tool_call k' w" if "k' \<noteq> k"
    using that sends_call [OF s] by (simp add: w' record_success_call k)
qed

lemma require_call: "require_tool_call r k w = Inr tc \<Longrightarrow> get_tool_call k w = Some tc \<and> tc_run_id tc = r \<and> tc_id tc = k"
  by (auto simp: require_tool_call_def split: option.splits if_splits dest: tool_call_rows.get_key)

lemma reject_call [simp]: "get_tool_call k' (snd (reject_tool_call e r k w)) = get_tool_call k' (mark_rejected e k w)"
  by (simp add: reject_tool_call_def Let_def frame)

lemma edit_call: "get_tool_call k' (snd (edit_tool_call e r k (Some args) w)) =
    (if k' = k then map_option (\<lambda>tc. tc\<lparr>tc_args := args, tc_status := ''proposed''\<rparr>) (get_tool_call k w) else get_tool_call k' w)"
  by (simp add: edit_tool_call_def Let_def frame tool_call_rows.get_upd)

lemma decide_unfold:
  assumes "get_tool_call k w = Some tc" and "tc_run_id tc = r" and "owns_run auth w r"
  shows "decide_run_tool_call a auth r k dec edited w = (case dec of
      Reject \<Rightarrow> reject_tool_call (ap_env a) r k w | Edit \<Rightarrow> edit_tool_call (ap_env a) r k edited w
    | Approve \<Rightarrow> approve_tool_call a auth r tc edited w)"
proof -
  obtain run where "require_run auth r w = Inr run" using assms(3) by (auto simp: owns_run_def require_run_def)
  moreover have "require_tool_call r k w = Inr tc" using assms(1,2) by (simp add: require_tool_call_def)
  ultimately show ?thesis by (simp add: decide_run_tool_call_def)
qed

lemma decide_refused:
  assumes "\<not> (\<exists>tc. get_tool_call k w = Some tc \<and> tc_run_id tc = r) \<or> \<not> owns_run auth w r"
  shows "\<exists>m. decide_run_tool_call a auth r k dec edited w = (Inl (not_found m), w)"
proof (cases "owns_run auth w r")
  case True
  then obtain run where "require_run auth r w = Inr run" by (auto simp: owns_run_def require_run_def)
  moreover have "\<exists>m. require_tool_call r k w = Inl (not_found m)"
    using assms True by (auto simp: require_tool_call_def split: option.split)
  ultimately show ?thesis by (auto simp: decide_run_tool_call_def)
qed (auto simp: decide_run_tool_call_def require_foreign)

lemma approve_machine:
  assumes "approve_tool_call a auth r tc edited w = (res, w')" and "get_tool_call (tc_id tc) w = Some tc"
  shows "\<exists>tc'. get_tool_call (tc_id tc) w' = Some tc' \<and> call_move Approve (tc_status tc) (tc_status tc') \<and>
    (\<forall>k' \<noteq> tc_id tc. get_tool_call k' w' = get_tool_call k' w)"
  using assms(1)
proof (rule approve_cases)
  assume "w' = w" with assms(2) show ?thesis by (auto intro: move_none)
next
  fix args w1 err
  assume "tc_status tc \<in> set pending_statuses" and w1: "w1 = start_tool_call (ap_env a) r tc args (opt_json edited) w"
    and x: "execute_approved_tool_call a auth r (tc_id tc) True w1 = (Inl err, w')"
  then show ?thesis using execute_approved_calls(1) [OF x] assms(2) by (auto intro: move_start)
next
  fix args w1 w2 result
  assume p: "tc_status tc \<in> set pending_statuses" and w1: "w1 = start_tool_call (ap_env a) r tc args (opt_json edited) w"
    and x: "execute_approved_tool_call a auth r (tc_id tc) True w1 = (Inr result, w2)" and w': "w' = commit w2"
  from execute_approved_success [OF x] p show ?thesis by (auto simp: w' w1 intro: move_finish)
qed

section \<open>Properties\<close>


text \<open>A run of the demo user with one call, and the API around it.\<close>

definition demo_api :: api where
  "demo_api = \<lparr>ap_env = demo_env, ap_pyd = demo_pydantic, ap_research = demo_research, ap_budget = default_budget,
     ap_user_ip = None, ap_user_agent = None\<rparr>"

definition demo_run :: "string \<Rightarrow> agent_run" where
  "demo_run st = \<lparr>rn_id = ''r'', rn_conversation_id = ''c'', rn_user_id = 7, rn_status = st, rn_input_message_id = None,
     rn_output_message_id = None, rn_error = None, rn_created_at = 0, rn_updated_at = 0, rn_started_at = None,
     rn_completed_at = None, rn_cancelled_at = (if st = ''cancelled'' then Some 0 else None)\<rparr>"

definition demo_call :: "string \<Rightarrow> agent_tool_call" where
  "demo_call st = \<lparr>tc_id = ''k'', tc_run_id = ''r'', tc_step_id = None, tc_tool_name = ''submit_for_approval'',
     tc_status = st, tc_args = [(''quote_id'', JInt 3)], tc_result = (if st = ''succeeded'' then Some [] else None),
     tc_error = None, tc_requires_approval = True, tc_audit_log_id = None, tc_approved_at = Some 0,
     tc_rejected_at = None, tc_created_at = 0, tc_completed_at = (if st = ''succeeded'' then Some 0 else None)\<rparr>"

definition demo_session :: "string \<Rightarrow> world" where
  "demo_session st = session_on (empty_db\<lparr>runs := [demo_run ''awaiting_decision''], tool_calls := [demo_call st]\<rparr>)"

lemma demo_session_call: "get_tool_call ''k'' (demo_session st) = Some (demo_call st)"
  by (simp add: get_tool_call_def demo_session_def session_on_def demo_call_def)

lemma demo_session_run: "get_run ''r'' (demo_session st) = Some (demo_run ''awaiting_decision'')"
  by (simp add: get_run_def demo_session_def session_on_def demo_run_def)

lemma demo_owns: "owns_run demo_context (demo_session st) ''r''"
  by (simp add: owns_run_def demo_session_run) (simp add: demo_run_def demo_context_def)


lemma start_owns: "owns_run auth w r' \<Longrightarrow> owns_run auth (start_tool_call e r tc args j w) r'"
proof -
  have "get_run r' (start_tool_call e r tc args j w) = (if r' = r
      then map_option (\<lambda>run. run\<lparr>rn_updated_at := clock e (Suc (tick w))\<rparr>) (get_run r w) else get_run r' w)"
    by (simp add: start_tool_call_def announce_start_def Let_def commit_def table_defs frame append_run_event_eq touch_run_def utc_now_def
        mark_executing_def run_rows.get_upd row_find_modify)
  then show "owns_run auth w r' \<Longrightarrow> owns_run auth (start_tool_call e r tc args j w) r'"
    by (auto simp: owns_run_def split: if_splits)
qed

lemma start_saved: "saved (start_tool_call e r tc args j w) = cur (start_tool_call e r tc args j w)"
  by (simp add: start_tool_call_def Let_def commit_def)

text \<open>
  C8: an approval whose execution fails is stuck: whatever failed, the permission, the write or only
  its audit callback, the database says executing, and from then on every approval of the call,
  with or without edited arguments, reports success and does nothing.
\<close>

theorem failed_approval_sticks:
  assumes "get_tool_call k w = Some tc" and "tc_run_id tc = r" and "owns_run auth w r"
    and "decide_run_tool_call a auth r k Approve edited w = (Inl err, w')" and "w' \<noteq> w"
  shows "(\<exists>tc'. row_find tc_id k (tool_calls (saved w')) = Some tc' \<and> tc_status tc' = ''executing'') \<and>
    decide_run_tool_call a auth r k Approve edited' (close_session w') =
      (Inr [(''success'', JBool True), (''tool_call_status'', JStr ''executing'')], close_session w')"
proof -
  have k: "tc_id tc = k" using assms(1) by (rule tool_call_rows.get_key)
  have "approve_tool_call a auth r tc edited w = (Inl err, w')"
    using assms(4) decide_unfold [OF assms(1,2,3), of a Approve edited] by simp
  then obtain args w1 err' where w1: "w1 = start_tool_call (ap_env a) r tc args (opt_json edited) w"
    and x: "execute_approved_tool_call a auth r (tc_id tc) True w1 = (Inl err', w')"
    by (rule approve_cases) (use assms(5) in auto)
  have closed: "cur (close_session w') = cur w1"
    using execute_approved_calls(2) [OF x] by (simp add: close_session_def w1 start_saved)
  obtain tc' where tc': "get_tool_call k w1 = Some tc'" "tc_status tc' = ''executing''" "tc_run_id tc' = r"
    using assms(1,2) by (simp add: w1 k)
  then have call: "get_tool_call k (close_session w') = Some tc'" by (simp add: get_tool_call_def closed)
  have "owns_run auth w1 r" using start_owns [OF assms(3)] by (simp add: w1)
  then have "owns_run auth (close_session w') r" by (simp add: owns_run_def get_run_def closed)
  from decide_unfold [OF call tc'(3) this, of a Approve edited'] tc'(2)
  have "decide_run_tool_call a auth r k Approve edited' (close_session w') = (Inr (decided ''executing'' []), close_session w')"
    by (simp add: approve_tool_call_def)
  with call tc'(2) show ?thesis by (auto simp: get_tool_call_def close_session_def decided_def)
qed

lemma demo_submit:
  "registry_get ''submit_for_approval'' = Some (mk_tool ''submit_for_approval'' ''agent.approvals.submit'' HIGH_RISK_WRITE)"
  "validate_args demo_pydantic ''submit_for_approval'' [(''quote_id'', JInt 3)] = Some (ApprovalInput 3 None)"
  "validate_args demo_pydantic ''submit_for_approval'' (dump_args (ApprovalInput 3 None)) = Some (ApprovalInput 3 None)"
  by (simp_all add: registry_get_def registered_tools_def validate_args_def fld_opt_def fld_or_def fld_def guard_def
      demo_pydantic_def int_val_def nullable_def jopt_def)

lemma demo_execution_denied:
  assumes "get_tool_call k w = Some tc" and "tc_tool_name tc = ''submit_for_approval''"
    and "tc_args tc = dump_args (ApprovalInput 3 None)"
  shows "execute_approved_tool_call demo_api demo_context r k m w =
    (Inl (ToolPermissionError ''Missing permission: agent.approvals.submit''), w)"
  by (simp add: execute_approved_tool_call_def assms demo_submit demo_api_def call_priceframe_def execute_def
      has_permission_def demo_context_def Let_def del: dump_args.simps)

lemma demo_denied: "decide_run_tool_call demo_api demo_context ''r'' ''k'' Approve None (demo_session ''proposed'') =
    (Inl (HTTPException 403 ''Missing permission: agent.approvals.submit''),
     start_tool_call demo_env ''r'' (demo_call ''proposed'') (dump_args (ApprovalInput 3 None)) JNull (demo_session ''proposed''))"
proof -
  have call: "tc_id (demo_call ''proposed'') = ''k''" "tc_tool_name (demo_call ''proposed'') = ''submit_for_approval''"
    "tc_args (demo_call ''proposed'') = [(''quote_id'', JInt 3)]" "tc_run_id (demo_call ''proposed'') = ''r''"
    "tc_status (demo_call ''proposed'') = ''proposed''"
    by (simp_all add: demo_call_def)
  have pend: "''proposed'' \<in> set pending_statuses" by (simp add: pending_statuses_def)
  have api: "ap_env demo_api = demo_env" "ap_pyd demo_api = demo_pydantic" by (simp_all add: demo_api_def)
  obtain tc' where tc': "get_tool_call ''k'' (start_tool_call demo_env ''r'' (demo_call ''proposed'') (dump_args (ApprovalInput 3 None)) JNull (demo_session ''proposed'')) = Some tc'"
    "tc_tool_name tc' = ''submit_for_approval''" "tc_args tc' = dump_args (ApprovalInput 3 None)"
    by (simp add: demo_session_call call del: dump_args.simps)
  from demo_execution_denied [OF this]
  show ?thesis
    using decide_unfold [OF demo_session_call call(4) demo_owns, of demo_api Approve None]
    by (simp add: call approve_tool_call_def pend demo_submit api opt_json_def execution_error_def del: dump_args.simps start_call)
qed

lemma start_changes: "start_tool_call e r tc args j w \<noteq> w"
proof
  assume h: "start_tool_call e r tc args j w = w"
  have "rown (start_tool_call e r tc args j w) = rown w + 2"
    by (simp add: start_tool_call_def announce_start_def append_run_event_eq commit_def touch_run_def mark_executing_def
        utc_now_def upd_run_def upd_tool_call_def in_db_def Let_def)
  with h show False by simp
qed

theorem failed_approval_sticks_witness:
  "\<exists>w'. decide_run_tool_call demo_api demo_context ''r'' ''k'' Approve None (demo_session ''proposed'') =
      (Inl (HTTPException 403 ''Missing permission: agent.approvals.submit''), w') \<and>
    decide_run_tool_call demo_api demo_context ''r'' ''k'' Approve None (close_session w') =
      (Inr [(''success'', JBool True), (''tool_call_status'', JStr ''executing'')], close_session w')"
proof -
  have "tc_run_id (demo_call ''proposed'') = ''r''" by (simp add: demo_call_def)
  from failed_approval_sticks [OF demo_session_call this demo_owns demo_denied start_changes, of None] demo_denied
  show ?thesis by blast
qed

end
