(* ===== verification/RunsApi.thy ===== *)
theory RunsApi
  imports RunsLaws
begin

text \<open>
  Properties of the run endpoints as a whole: what any sequence of requests keeps, who can reach
  what, and what the endpoints write into a draft.
\<close>

section \<open>Any sequence of requests\<close>

text \<open>
  C5: whatever requests arrive on runs, from whomever and in whatever order, the event log of every
  run stays numbered 1, 2, 3, ... without a gap, and is only ever extended.
\<close>

theorem logs_stay_numbered:
  assumes "log_wf (saved w)" and "cur w = saved w"
  shows "log_wf (saved (foldl (\<lambda>w (a, auth, q). serve a auth q w) w reqs)) \<and>
    prefix (run_log r (saved w)) (run_log r (saved (foldl (\<lambda>w (a, auth, q). serve a auth q w) w reqs)))"
  using log_numbering.serves_saved [OF assms]
    append_only.serves_saved [where r = r and ?d0.0 = "saved w" and w = w and qs = reqs] assms(2) by simp

theorem logs_stay_numbered_witness:
  "log_wf (saved (foldl (\<lambda>w (a, auth, q). serve a auth q w) (demo_session ''proposed'')
      [(demo_api, demo_context, CancelRun ''r''), (demo_api, demo_context, DecideCall ''r'' ''k'' Approve None)]))"
proof -
  have "log_wf (saved (demo_session ''proposed''))" "cur (demo_session ''proposed'') = saved (demo_session ''proposed'')"
    by (simp_all add: demo_session_def session_on_def empty_db_def log_wf_def run_log_def)
  from logs_stay_numbered [OF this] show ?thesis by blast
qed

text \<open>
  C6: the rows stay well formed under any sequence of requests: the status of a run or a tool call
  is one of the known ones, a completed or cancelled run carries its time, a succeeded call has
  a result and a completion time, a rejected or executing one the time of its decision.
\<close>

theorem lifecycles_stay_well_formed:
  assumes "lifecycle_ok (saved w)" and "cur w = saved w"
  shows "lifecycle_ok (saved (foldl (\<lambda>w (a, auth, q). serve a auth q w) w reqs))"
  by (rule life_cycles.serves_saved [OF assms])

theorem lifecycles_stay_well_formed_witness:
  "lifecycle_ok (saved (foldl (\<lambda>w (a, auth, q). serve a auth q w) (demo_session ''succeeded'')
      [(demo_api, demo_context, DecideCall ''r'' ''k'' Edit (Some [])), (demo_api, demo_context, CancelRun ''r'')]))"
  by (rule lifecycles_stay_well_formed)
    (simp_all add: demo_session_def session_on_def empty_db_def lifecycle_ok_def run_ok_def call_ok_def
      demo_run_def demo_call_def run_statuses_def call_statuses_def)

section \<open>Isolation\<close>

text \<open>
  C2: a user reaches only their own runs: a request that names a run of somebody else, or none, or
  for a suggestion somebody else's conversation, sends nothing and leaves the database as it is.
\<close>

theorem foreign_runs_are_out_of_reach:
  assumes "\<not> owns_run auth w (target q)" and "\<not> owns_conversation auth w (target q)"
  shows "serve a auth q w = close_session w"
proof (cases q)
  case (AskSuggestion r f)
  with resolve_foreign [of auth w r] assms show ?thesis
    by (auto simp: served_def request_reactive_suggestion_def)
qed (use assms in \<open>simp_all add: served_def require_foreign get_run_endpoint_def cancel_run_def decide_run_tool_call_def
    request_step_advance_def decide_step_advance_def decide_step_proposal_def start_conversation_def
    submit_field_answer_def re_ask_field_def commit_conversation_def\<close>)

theorem foreign_runs_are_out_of_reach_witness:
  "serve demo_api (demo_context\<lparr>user_id := 8\<rparr>) (CancelRun ''r'') (demo_session ''proposed'') = close_session (demo_session ''proposed'')"
proof (rule foreign_runs_are_out_of_reach)
  show "\<not> owns_run (demo_context\<lparr>user_id := 8\<rparr>) (demo_session ''proposed'') (target (CancelRun ''r''))"
    by (simp add: owns_run_def demo_session_run) (simp add: demo_run_def demo_context_def)
  show "\<not> owns_conversation (demo_context\<lparr>user_id := 8\<rparr>) (demo_session ''proposed'') (target (CancelRun ''r''))"
    by (simp add: owns_conversation_def demo_session_def session_on_def get_conversation_def empty_db_def)
qed

section \<open>Settled calls and runs\<close>

text \<open>
  an edit has no guard on the status: a call that already succeeded becomes proposed again, with
  other arguments and its old result, ready for another approval.
\<close>

theorem edit_reopens_settled_call:
  assumes "get_tool_call k w = Some tc" and "tc_run_id tc = r" and "owns_run auth w r" and "tc_status tc = ''succeeded''"
  shows "\<exists>w' tc'. decide_run_tool_call a auth r k Edit (Some args) w =
      (Inr [(''success'', JBool True), (''tool_call_status'', JStr ''proposed'')], w') \<and>
    row_find tc_id k (tool_calls (saved w')) = Some tc' \<and> tc_status tc' = ''proposed'' \<and> tc_args tc' = args \<and>
    tc_result tc' = tc_result tc"
proof -
  let ?w' = "snd (edit_tool_call (ap_env a) r k (Some args) w)"
  have "decide_run_tool_call a auth r k Edit (Some args) w = (Inr (decided ''proposed'' []), ?w')"
    by (simp add: decide_unfold [OF assms(1-3)] edit_tool_call_def Let_def)
  moreover have "saved ?w' = cur ?w'" by (simp add: edit_tool_call_def Let_def commit_def)
  moreover have "get_tool_call k ?w' = Some (tc\<lparr>tc_args := args, tc_status := ''proposed''\<rparr>)"
    using assms(1) by (simp add: edit_call)
  ultimately show ?thesis by (auto simp: get_tool_call_def decided_def)
qed

theorem edit_reopens_settled_call_witness:
  "\<exists>w' tc'. decide_run_tool_call demo_api demo_context ''r'' ''k'' Edit (Some [(''quote_id'', JInt 4)]) (demo_session ''succeeded'') =
      (Inr [(''success'', JBool True), (''tool_call_status'', JStr ''proposed'')], w') \<and>
    row_find tc_id ''k'' (tool_calls (saved w')) = Some tc' \<and> tc_status tc' = ''proposed'' \<and>
    tc_args tc' = [(''quote_id'', JInt 4)] \<and> tc_result tc' = tc_result (demo_call ''succeeded'')"
  by (rule edit_reopens_settled_call [OF demo_session_call _ demo_owns]) (simp_all add: demo_call_def)

section \<open>What is written into a draft\<close>

lemma sbind_Inr_conv: "sbind m f = (Inr y, w') \<longleftrightarrow> (\<exists>x w1. m = (Inr x, w1) \<and> f x w1 = (Inr y, w'))"
  by (auto simp: sbind_def split: prod.split sum.split)

lemma merge_section_get:
  assumes "merge_section payload sid new = Some p"
  obtains old where "py_dict (py_or (d_get payload sid) (JObj [])) = Some old" and "d_get p sid = JObj (d_update old new)"
    and "\<And>k. k \<noteq> sid \<Longrightarrow> d_get p k = d_get payload k"
  using assms by (auto simp: merge_section_def)

lemma write_draft_get: "get_draft c' (write_draft e c payload w) = (if c' = c
    then map_option (\<lambda>dr. dr\<lparr>dr_payload := payload, dr_updated_at := clock e (tick w)\<rparr>) (get_draft c w) else get_draft c' w)"
  by (simp add: write_draft_def utc_now_def draft_rows.get_upd) (simp add: get_draft_def)

lemma write_draft_frame [simp]: "sent (write_draft e c payload w) = sent w" "runs (cur (write_draft e c payload w)) = runs (cur w)"
  "tool_calls (cur (write_draft e c payload w)) = tool_calls (cur w)"
  by (simp_all add: write_draft_def utc_now_def upd_draft_def in_db_def)

lemma saved_commit [simp]: "saved (commit w) = cur w" "cur (commit w) = cur w" "sent (commit w) = sent w"
  by (simp_all add: commit_def)

lemma accept_cases:
  assumes "accept_proposal e r sid dr step proposed w = (Inr (st, populated), w')"
  obtains valid payload where "valid_field_ids step = Some valid" and "set (map fst proposed) \<subseteq> set valid"
    and "merge_section (dr_payload dr) sid proposed = Some payload"
    and "st = ''accepted''" and "populated = sort (map fst proposed)"
    and "w' = commit (emit e r event_proposal_accepted
      [(''step_id'', JStr sid), (''populated_fields'', jstrs populated)] (write_draft e (dr_conversation_id dr) payload w))"
  using assms by (auto simp: accept_proposal_def Let_def filter_empty_conv split: option.splits if_splits)

text \<open>
  C4: accepting a proposal merges it into its own step's section of the draft and nowhere else:
  only field ids of that step are taken, fields typed before survive unless proposed, no other
  section changes, and neither a run nor a tool call moves: the wizard is not advanced.
\<close>

theorem accepted_proposal_merges:
  assumes "decide_step_proposal a auth r sid (Some proposed) reason w = (Inr (st, populated), w')"
    and "get_run r w = Some run" and "get_draft (rn_conversation_id run) w = Some dr"
  shows "st = ''accepted'' \<and> populated = sort (map fst proposed) \<and>
    (\<exists>dr' contract step valid old. row_find dr_conversation_id (dr_conversation_id dr) (drafts (saved w')) = Some dr' \<and>
      load_contract (ap_env a) (dr_contract_id dr) (dr_contract_version dr) = Inr contract \<and>
      get_step contract sid = Some (Some step) \<and> valid_field_ids step = Some valid \<and> set (map fst proposed) \<subseteq> set valid \<and>
      py_dict (py_or (d_get (dr_payload dr) sid) (JObj [])) = Some old \<and>
      d_get (dr_payload dr') sid = JObj (d_update old proposed) \<and>
      (\<forall>k. k \<noteq> sid \<longrightarrow> d_get (dr_payload dr') k = d_get (dr_payload dr) k) \<and>
      dr_current_step_id dr' = dr_current_step_id dr) \<and>
    runs (saved w') = runs (cur w) \<and> tool_calls (saved w') = tool_calls (cur w) \<and> sent w' = sent w"
proof -
  obtain run' where "require_run auth r w = Inr run'" and "get_run r w = Some run'"
    using assms(1) require_own by (fastforce simp: decide_step_proposal_def sbind_Inr_conv)
  with assms have run: "require_run auth r w = Inr run" by simp
  obtain contract where c: "load_contract (ap_env a) (dr_contract_id dr) (dr_contract_version dr) = Inr contract"
    and step: "case get_step contract sid of Some (Some step) \<Rightarrow> accept_proposal (ap_env a) r sid dr step proposed w = (Inr (st, populated), w') | _ \<Rightarrow> False"
    using assms(1,3) by (auto simp: decide_step_proposal_def sbind_Inr_conv run load_draft_contract_def advance_error_def
        split: option.splits sum.splits exc.splits)
  then obtain step where s: "get_step contract sid = Some (Some step)"
    and ap: "accept_proposal (ap_env a) r sid dr step proposed w = (Inr (st, populated), w')"
    by (auto split: option.splits)
  obtain valid payload where v: "valid_field_ids step = Some valid" "set (map fst proposed) \<subseteq> set valid"
    and m: "merge_section (dr_payload dr) sid proposed = Some payload" and st: "st = ''accepted''" "populated = sort (map fst proposed)"
    and w': "w' = commit (emit (ap_env a) r event_proposal_accepted
      [(''step_id'', JStr sid), (''populated_fields'', jstrs populated)] (write_draft (ap_env a) (dr_conversation_id dr) payload w))"
    using ap by (rule accept_cases)
  obtain old where old: "py_dict (py_or (d_get (dr_payload dr) sid) (JObj [])) = Some old"
    "d_get payload sid = JObj (d_update old proposed)" "\<And>k. k \<noteq> sid \<Longrightarrow> d_get payload k = d_get (dr_payload dr) k"
    using m by (rule merge_section_get) blast
  have conv: "rn_conversation_id run = dr_conversation_id dr" using assms(3) by (metis draft_rows.get_key)
  let ?dr' = "dr\<lparr>dr_payload := payload, dr_updated_at := clock (ap_env a) (tick w)\<rparr>"
  have "get_draft (dr_conversation_id dr) w' = Some ?dr'"
    using assms(3) conv by (simp add: w' get_draft_def [of _ "commit _"] get_draft_def [symmetric] frame write_draft_get)
  then have "row_find dr_conversation_id (dr_conversation_id dr) (drafts (saved w')) = Some ?dr'"
    by (simp add: get_draft_def w')
  moreover have "runs (saved w') = runs (cur w)" "tool_calls (saved w') = tool_calls (cur w)" "sent w' = sent w"
    by (simp_all add: w' frame)
  ultimately show ?thesis using st c s v old by fastforce
qed

text \<open>A contract with one form, a draft with one answer in it, and the session of its run.\<close>

definition demo_form_step :: json where
  "demo_form_step = JObj [(''id'', JStr ''summary''), (''fields'', JArr [JObj [(''id'', JStr ''name'')], JObj [(''id'', JStr ''fee'')]])]"

definition demo_form :: json where
  "demo_form = JObj [(''steps'', JArr [demo_form_step]),
     (''conversation'', JObj [(''phases'', JArr [JObj [(''id'', JStr ''p''), (''field_ids'', JArr [JStr ''name'', JStr ''fee''])]])])]"

definition form_api :: api where
  "form_api = demo_api\<lparr>ap_env := demo_env\<lparr>contract_file := (\<lambda>f. if f = ''demo_v1.json'' then Some demo_form else None)\<rparr>\<rparr>"

definition demo_form_draft :: agent_workflow_draft where
  "demo_form_draft = \<lparr>dr_conversation_id = ''c'', dr_contract_id = ''demo'', dr_contract_version = ''v1'',
     dr_current_step_id = ''summary'', dr_payload = [(''summary'', JObj [(''name'', JStr ''n'')])],
     dr_step_status = [], dr_created_at = 0, dr_updated_at = 0, dr_expires_at = 0\<rparr>"

definition form_session :: world where
  "form_session = session_on (empty_db\<lparr>runs := [demo_run ''completed''], drafts := [demo_form_draft]\<rparr>)"

lemma form_session:
  "get_run ''r'' form_session = Some (demo_run ''completed'')"
  "get_draft (rn_conversation_id (demo_run ''completed'')) form_session = Some demo_form_draft"
  "load_contract (ap_env form_api) (dr_contract_id demo_form_draft) (dr_contract_version demo_form_draft) = Inr demo_form"
  "get_step demo_form ''summary'' = Some (Some demo_form_step)" "valid_field_ids demo_form_step = Some [''name'', ''fee'']"
  by (simp_all add: get_run_def get_draft_def form_session_def session_on_def demo_form_draft_def demo_run_def load_contract_def
      form_api_def get_step_def demo_form_def demo_form_step_def is_step_def get_key_def d_get_def py valid_field_ids_def
      List.map_filter_def valid_field_id_def)

theorem accepted_proposal_merges_witness:
  "\<exists>w' dr'. decide_step_proposal form_api demo_context ''r'' ''summary'' (Some [(''fee'', JInt 3)]) None form_session =
      (Inr (''accepted'', [''fee'']), w') \<and>
    row_find dr_conversation_id ''c'' (drafts (saved w')) = Some dr' \<and>
    d_get (dr_payload dr') ''summary'' = JObj [(''name'', JStr ''n''), (''fee'', JInt 3)] \<and> runs (saved w') = runs (cur form_session)"
proof -
  have own: "require_run demo_context ''r'' form_session = Inr (demo_run ''completed'')"
    by (simp add: require_run_def form_session) (simp add: demo_run_def demo_context_def)
  have m: "merge_section (dr_payload demo_form_draft) ''summary'' [(''fee'', JInt 3)] =
      Some [(''summary'', JObj [(''name'', JStr ''n''), (''fee'', JInt 3)])]"
    by (simp add: merge_section_def demo_form_draft_def d_get_def py d_update_def d_set_def)
  obtain w' where run: "decide_step_proposal form_api demo_context ''r'' ''summary'' (Some [(''fee'', JInt 3)]) None form_session =
      (Inr (''accepted'', [''fee'']), w')"
    by (simp add: decide_step_proposal_def own form_session load_draft_contract_def advance_error_def accept_proposal_def m Let_def)
  have old: "py_dict (py_or (d_get (dr_payload demo_form_draft) ''summary'') (JObj [])) = Some [(''name'', JStr ''n'')]"
    "dr_conversation_id demo_form_draft = ''c''" "d_update [(''name'', JStr ''n'')] [(''fee'', JInt 3)] = [(''name'', JStr ''n''), (''fee'', JInt 3)]"
    by (simp_all add: demo_form_draft_def d_get_def py d_update_def d_set_def)
  from accepted_proposal_merges [OF run form_session(1,2)] run show ?thesis
    unfolding old by (auto simp: old(3))
qed

section \<open>Answering a field\<close>

lemma advance_error_Inr [simp]: "advance_error r = Inr x \<longleftrightarrow> r = Inr x"
  by (auto simp: advance_error_def split: sum.splits exc.splits)

lemma logs_draft: "logs r P w w' \<Longrightarrow> get_draft k w' = get_draft k w"
  by (rule logs_lookups(3))

lemma prompt_at_logs: "logs r is_get w (snd (prompt_at a auth r contract payload w))"
  by (simp add: prompt_at_def emit_next_prompt_logs split: option.split)

lemma answered_payloadD:
  assumes "answered_payload contract payload f v = Some p"
  obtains owner q c c' where "step_id_for contract f = Some owner" and "merge_section payload (section_name owner) [(f, v)] = Some q"
    and "get_cursor q = Some c" and "advance_cursor contract c = Some c'" and "set_cursor q c' = Some p"
  using assms by (auto simp: answered_payload_def split: Option.bind_splits)


definition answered_name :: dict where
  "answered_name = [(''accepted'', JBool True), (''next'', next_json \<lparr>er_kind = ''prompt'', er_field_id = JStr ''fee''\<rparr>)]"

lemma form_answer: "\<exists>w'. submit_field_answer form_api demo_context ''r'' ''name'' (JStr ''m'') form_session = (Inr answered_name, w')"
proof -
  have own: "require_run demo_context ''r'' form_session = Inr (demo_run ''completed'')"
    by (simp add: require_run_def form_session) (simp add: demo_run_def demo_context_def)
  have ad: "active_draft form_api t (demo_run ''completed'') form_session = Inr (demo_form_draft, demo_form)" for t
    by (simp add: active_draft_def form_session load_draft_contract_def ebind_Inr_conv)
  have spec: "spec_for demo_form ''name'' = Some (Some (JObj [(''id'', JStr ''name'')]))" by code_simp
  have clean: "checked_answer form_api (JObj [(''id'', JStr ''name'')]) (JStr ''m'') = Inr (JStr ''m'')"
    by (simp add: checked_answer_def form_api_def demo_api_def demo_env_def) code_simp
  let ?pl = "[(''summary'', JObj [(''name'', JStr ''m'')]), (''_meta'', JObj [(''conversation_cursor'',
      JObj [(''phase_index'', JInt 0), (''field_index'', JInt 1)])])]"
  have pl: "answered_payload demo_form (dr_payload demo_form_draft) ''name'' (JStr ''m'') = Some ?pl" by code_simp
  have cu: "get_cursor ?pl = Some (Cursor 0 1)" by code_simp
  have nx: "next_step demo_form (Cursor 0 1) = Some (PromptFor \<lparr>fp_phase_id = JStr ''p'', fp_field_id = JStr ''fee'',
      fp_label = JStr ''fee'', fp_type = JStr ''string'', fp_control = ''text'', fp_required = False,
      fp_requires_explicit_confirm = False, fp_options = JNull, fp_options_source = JNull, fp_ui = JNull\<rparr>)" by code_simp
  show ?thesis
    by (simp add: submit_field_answer_def own ad spec clean pl prompt_at_def cu emit_next_prompt_def nx answered_name_def)
qed


section \<open>Advancing a step\<close>

lemma get_run_tick [simp]: "get_run k (w\<lparr>tick := t\<rparr>) = get_run k w"
  by (simp add: get_run_def)

lemma run_log_upd_run [simp]: "run_log k (cur (upd_run r f w)) = run_log k (cur w)"
  by (simp add: run_log_def upd_run_def in_db_def)

lemma duration_run: "get_run k (snd (record_step_duration_from_events e r s out w)) = get_run k w"
  by (auto simp: record_step_duration_from_events_def observe_workflow_step_duration_def get_run_def Let_def utc_now_def
      record_metric_def split: option.split)

lemma enter_run: "get_run k (enter_next_step a auth r conv sid w) = get_run k w"
  by (auto simp: enter_next_step_def Let_def logs_lookups(1) [OF enter_step_logs] split: option.split sum.split)

lemma touch_run_get: "get_run k (touch_run e r w) = (if k = r then map_option (\<lambda>q. q\<lparr>rn_updated_at := clock e (tick w)\<rparr>) (get_run r w)
    else get_run k w)"
  by (simp add: touch_run_def utc_now_def run_rows.get_upd)

lemma complete_run_get: "get_run k (complete_run e r w) = (if k = r then map_option (\<lambda>q. q\<lparr>rn_status := ''completed'',
      rn_completed_at := Some (clock e (tick w))\<rparr>) (get_run r w) else get_run k w)"
  by (simp add: complete_run_def utc_now_def run_rows.get_upd)

lemma get_run_emit: "get_run k (emit e r ty p w) = get_run k w"
  by (rule logs_lookups(1) [OF emit_logs])

lemma finish_run_get:
  assumes "get_run r w = Some run"
  obtains run' where "get_run r (finish_run e r sid via w) = Some run'" and "rn_status run' = ''completed''"
    and "rn_completed_at run' \<noteq> None" and "rn_cancelled_at run' = rn_cancelled_at run"
  by (rule that [of "run\<lparr>rn_status := ''completed'', rn_completed_at := Some (clock e (tick w)),
      rn_updated_at := clock e (tick (complete_run e r w))\<rparr>"]) (simp_all add: finish_run_def get_run_emit touch_run_get complete_run_get assms)

lemma finish_run_log: "run_log r (cur (finish_run e r sid via w)) = run_log r (cur w) @
    [new_event e r ''v1.run.completed'' [(''step_id'', JStr sid), (''via'', JStr via)] (touch_run e r (complete_run e r w))]"
  by (simp add: finish_run_def run_log_emit) (simp add: touch_run_def complete_run_def utc_now_def)

lemma reopen_get: "get_run r w = Some run \<Longrightarrow> \<exists>run'. get_run r (reopen_run e run w) = Some run' \<and> rn_cancelled_at run' = rn_cancelled_at run"
  by (cases "rn_id run = r") (auto simp: reopen_run_def utc_now_def run_rows.get_upd)

lemma after_decision_settled:
  assumes "ad_status d = ''approved'' \<or> ad_status d = ''blocked''"
  obtains via v where "after_decision a auth run sid d w = finish_run (ap_env a) (rn_id run) sid via v"
    and "via = ''step_advance_approved'' \<or> via = ''step_advance_blocked''" and "\<And>k. get_run k v = get_run k w"
  using assms
proof
  assume "ad_status d = ''approved''"
  then show thesis
    by (intro that [of "''step_advance_approved''" "enter_next_step a auth (rn_id run) (rn_conversation_id run) sid
      (snd (record_step_duration_from_events (ap_env a) (rn_id run) sid ''approved'' w))"])
      (simp_all add: after_decision_def Let_def enter_run duration_run)
next
  assume "ad_status d = ''blocked''"
  then show thesis
    by (intro that [of "''step_advance_blocked''"
      "snd (record_step_duration_from_events (ap_env a) (rn_id run) sid ''blocked'' w)"]) (simp_all add: after_decision_def Let_def duration_run)
qed

text \<open>
  C7: clicking Next on a step that needs no decision closes the run: when the answer is not a
  request for approval, the committed run is completed with its completion time, whatever status
  it had before, and the last event of its log says so for this step.  The cancellation time is
  left as it was, so a cancelled run ends up completed and cancelled.
\<close>

theorem settled_advance_completes_run:
  assumes "request_step_advance a auth r sid w = (Inr resp, w')" and "sr_status resp \<noteq> ''requested''"
    and "get_run r w = Some run"
  shows "(sr_status resp = ''approved'' \<or> sr_status resp = ''blocked'') \<and> cur w' = saved w' \<and>
    (\<exists>run'. row_find rn_id r (runs (saved w')) = Some run' \<and> rn_status run' = ''completed'' \<and>
       rn_completed_at run' \<noteq> None \<and> rn_cancelled_at run' = rn_cancelled_at run) \<and>
    (\<exists>before ev via. run_log r (saved w') = before @ [ev] \<and> ev_type ev = ''v1.run.completed'' \<and>
       ev_payload ev = [(''step_id'', JStr sid), (''via'', JStr via)] \<and>
       (via = ''step_advance_approved'' \<or> via = ''step_advance_blocked''))"
proof -
  have req: "require_run auth r w = Inr run" and id: "rn_id run = r"
    using assms(1,3) require_own by (fastforce simp: request_step_advance_def sbind_Inr_conv)+
  let ?w0 = "reopen_run (ap_env a) run w"
  obtain d w1 where ev: "evaluate_step_advance (ap_env a) (ap_pyd a) r sid (get_draft (rn_conversation_id run) ?w0) ?w0 = (Inr d, w1)"
    and resp: "resp = step_advance_response_of sid d"
    and w': "w' = commit (after_decision a auth run sid d (emit_advance_event (ap_env a) r sid d w1))"
    using assms(1) by (auto simp: request_step_advance_def sbind_Inr_conv req id Let_def apfst_def map_prod_def split: prod.splits)
  have st: "ad_status d = ''approved'' \<or> ad_status d = ''blocked''" and w1: "w1 = ?w0"
    using evaluate_settles [OF ev] assms(2) by (auto simp: resp step_advance_response_of_def)
  obtain via v where af: "after_decision a auth run sid d (emit_advance_event (ap_env a) r sid d w1) = finish_run (ap_env a) r sid via v"
    and via: "via = ''step_advance_approved'' \<or> via = ''step_advance_blocked''"
    and v: "\<And>k. get_run k v = get_run k (emit_advance_event (ap_env a) r sid d w1)"
    using after_decision_settled [OF st] id by metis
  have "get_run r v = get_run r ?w0" using st by (auto simp: v w1 emit_advance_event_def get_run_emit)
  then obtain run0 where run0: "get_run r v = Some run0" "rn_cancelled_at run0 = rn_cancelled_at run"
    using reopen_get [OF assms(3)] by metis
  then obtain run' where "get_run r (finish_run (ap_env a) r sid via v) = Some run'" "rn_status run' = ''completed''"
    "rn_completed_at run' \<noteq> None" "rn_cancelled_at run' = rn_cancelled_at run"
    by (metis finish_run_get)
  moreover have "saved w' = cur (finish_run (ap_env a) r sid via v)" by (simp add: w' af)
  ultimately show ?thesis
    using st via by (auto simp: get_run_def finish_run_log resp step_advance_response_of_def w')
qed

definition wizard_api :: api where
  "wizard_api = demo_api\<lparr>ap_env := wizard_env\<rparr>"

definition cancelled_session :: world where
  "cancelled_session = session_on (empty_db\<lparr>runs := [demo_run ''cancelled''], drafts := [demo_wizard_draft]\<rparr>)"

theorem settled_advance_completes_run_witness:
  "\<exists>resp w' run'. request_step_advance wizard_api demo_context ''r'' ''pricing'' cancelled_session = (Inr resp, w') \<and>
    row_find rn_id ''r'' (runs (saved w')) = Some run' \<and> rn_status run' = ''completed'' \<and> rn_cancelled_at run' = Some 0"
proof -
  have run: "get_run ''r'' cancelled_session = Some (demo_run ''cancelled'')"
    by (simp add: get_run_def cancelled_session_def session_on_def demo_run_def)
  then have own: "require_run demo_context ''r'' cancelled_session = Inr (demo_run ''cancelled'')"
    by (simp add: require_run_def) (simp add: demo_run_def demo_context_def)
  have dr: "get_draft (rn_conversation_id (demo_run ''cancelled'')) cancelled_session = Some demo_wizard_draft"
    by (simp add: get_draft_def cancelled_session_def session_on_def demo_wizard_draft_def demo_run_def)
  have re: "reopen_run e (demo_run ''cancelled'') w = w" for e w by (simp add: reopen_run_def demo_run_def)
  have load: "load_contract wizard_env ''demo'' ''v1'' = Inr demo_wizard"
    by (simp add: load_contract_def wizard_env_def)
  have step: "get_step demo_wizard ''pricing'' = Some (Some (JObj [(''id'', JStr ''pricing''), (''approval_mode'', JStr ''batch_at_submit'')]))"
    by (simp add: get_step_def demo_wizard_def is_step_def get_key_def d_get_def py)
  have "\<exists>d. (\<forall>w. evaluate_step_advance wizard_env demo_pydantic ''r'' ''pricing'' (Some demo_wizard_draft) w = (Inr d, w)) \<and>
      ad_status d = ''approved''"
    by (simp add: evaluate_step_advance_def demo_wizard_draft_def load step get_key_def d_get_Cons py immediate_def)
  then obtain d where ev: "\<And>w. evaluate_step_advance wizard_env demo_pydantic ''r'' ''pricing'' (Some demo_wizard_draft) w = (Inr d, w)"
    and d: "ad_status d = ''approved''" by blast
  have id: "rn_id (demo_run ''cancelled'') = ''r''" "rn_cancelled_at (demo_run ''cancelled'') = Some 0" by (simp_all add: demo_run_def)
  have env: "ap_env wizard_api = wizard_env" "ap_pyd wizard_api = demo_pydantic" by (simp_all add: wizard_api_def demo_api_def)
  obtain w' where go: "request_step_advance wizard_api demo_context ''r'' ''pricing'' cancelled_session =
      (Inr (step_advance_response_of ''pricing'' d), w')"
    by (simp add: request_step_advance_def own dr re ev id env Let_def advance_error_def)
  from settled_advance_completes_run [OF go _ run] go id show ?thesis
    by (auto simp: step_advance_response_of_def d)
qed

end
