(* ===== verification/RateLimit.thy ===== *)
theory RateLimit
  imports PyFloat PyText
begin

text \<open>
  The request limiter in front of the API (\<open>middleware/rate_limit.py\<close>): the limiter in process
  memory, the Redis script, the choice between them, the key of a request and the answer of the
  middleware.  Both limiters are shown to be the same sliding window, which is stated once as a
  locale over what \<open>expired\<close> means.
\<close>

section \<open>A sliding window\<close>

text \<open>
  The reference: a request is let through when fewer than \<open>limit\<close> of those let through before,
  for the same key, are still in the window.  A request is a key, a time and what else the
  limiter sees of it; the oldest comes first.
\<close>

fun window_decisions ::
    "('t \<Rightarrow> 't \<Rightarrow> bool) \<Rightarrow> int \<Rightarrow> (string \<times> 't) list \<Rightarrow> (string \<times> 't) list \<Rightarrow> bool list" where
  "window_decisions expired limit seen [] = []"
| "window_decisions expired limit seen ((k, t) # qs) =
     (let ok = int (length (filter (\<lambda>(k', h). k' = k \<and> \<not> expired t h) seen)) < limit
      in ok # window_decisions expired limit (if ok then seen @ [(k, t)] else seen) qs)"

text \<open>A limiter with one state for each key.\<close>

fun step_decisions :: "('q \<Rightarrow> 't \<Rightarrow> 's \<Rightarrow> bool \<times> 's) \<Rightarrow> (string \<Rightarrow> 's) \<Rightarrow> (string \<times> 't \<times> 'q) list \<Rightarrow> bool list" where
  "step_decisions step m [] = []"
| "step_decisions step m ((k, t, q) # qs) =
     (case step q t (m k) of (ok, s) \<Rightarrow> ok # step_decisions step (m(k := s)) qs)"

definition live :: "('t \<Rightarrow> 't \<Rightarrow> bool) \<Rightarrow> 't \<Rightarrow> 't list \<Rightarrow> 't list" where
  "live expired t hs = filter (\<lambda>h. \<not> expired t h) hs"

lemma live_Nil [simp]: "live ex t [] = []"
  by (simp add: live_def)

lemma live_append: "live ex t (hs @ hs') = live ex t hs @ live ex t hs'"
  by (simp add: live_def)

lemma dropWhile_live:
  "sorted hs \<Longrightarrow> (\<And>h h'. h \<le> h' \<Longrightarrow> ex t h' \<Longrightarrow> ex t h) \<Longrightarrow> dropWhile (ex t) hs = live ex t hs"
proof (induction hs)
  case (Cons h hs)
  then have "ex t h \<or> live ex t (h # hs) = h # hs"
    unfolding live_def by (auto simp: filter_id_conv)
  with Cons show ?case by (auto simp: live_def)
qed (simp add: live_def)

text \<open>
  What a limiter of one key promises: it keeps, up to what has left the window for good, the
  times it let through, and lets a request through when fewer than the limit of them are live.
\<close>

locale sliding_window =
  fixes expired :: "'t::linorder \<Rightarrow> 't \<Rightarrow> bool"
    and limit :: int
    and step :: "'q \<Rightarrow> 't \<Rightarrow> 's \<Rightarrow> bool \<times> 's"
    and kept :: "'s \<Rightarrow> 't list"
    and fine :: "'t \<Rightarrow> 's \<Rightarrow> bool"
    and fresh :: "'s \<Rightarrow> 'q \<Rightarrow> bool"
    and base :: 't
    and start :: 's
  assumes start: "kept start = []" "fine base start" "fresh start q"
    and later: "fine now s \<Longrightarrow> now \<le> t \<Longrightarrow> fine t s"
    and decides: "fine t s \<Longrightarrow> fresh s q \<Longrightarrow> fst (step q t s) \<longleftrightarrow> int (length (live expired t (kept s))) < limit"
    and keeps: "fine t s \<Longrightarrow> fresh s q \<Longrightarrow> fine t (snd (step q t s))"
      "fine t s \<Longrightarrow> fresh s q \<Longrightarrow> t \<le> u \<Longrightarrow>
        live expired u (kept (snd (step q t s))) = live expired u (kept s @ (if fst (step q t s) then [t] else []))"
      "fine t s \<Longrightarrow> fresh s q \<Longrightarrow> fresh s q' \<Longrightarrow> q' \<noteq> q \<Longrightarrow> fresh (snd (step q t s)) q'"
begin

definition agrees :: "'t \<Rightarrow> (string \<times> 't) list \<Rightarrow> (string \<Rightarrow> 's) \<Rightarrow> bool" where
  "agrees now seen m \<longleftrightarrow> (\<forall>k. fine now (m k) \<and>
     (\<forall>t \<ge> now. live expired t (kept (m k)) = live expired t (map snd (filter (\<lambda>(k', _). k' = k) seen))))"

lemma live_seen: "live expired t (map snd (filter (\<lambda>(k', _). k' = k) seen)) =
    map snd (filter (\<lambda>(k', h). k' = k \<and> \<not> expired t h) seen)"
  by (induction seen) (auto simp: live_def)

lemma agrees_step:
  assumes "agrees now seen m" and "now \<le> t" and "fresh (m k) q" and "step q t (m k) = (ok, s)"
  shows "ok \<longleftrightarrow> int (length (filter (\<lambda>(k', h). k' = k \<and> \<not> expired t h) seen)) < limit"
    and "agrees t (if ok then seen @ [(k, t)] else seen) (m(k := s))"
proof -
  have fine: "fine t (m j)" for j using assms(1,2) later unfolding agrees_def by blast
  have same: "live expired u (kept (m j)) = live expired u (map snd (filter (\<lambda>(k', _). k' = j) seen))" if "t \<le> u" for u j
    using assms(1,2) that by (auto simp: agrees_def)
  show "ok \<longleftrightarrow> int (length (filter (\<lambda>(k', h). k' = k \<and> \<not> expired t h) seen)) < limit"
    using decides [OF fine assms(3)] assms(4) same [of t k] by (simp add: live_seen)
  show "agrees t (if ok then seen @ [(k, t)] else seen) (m(k := s))"
    using keeps(1,2) [OF fine assms(3)] assms(4) same fine by (auto simp: agrees_def live_append)
qed

theorem same_decisions:
  assumes "agrees now seen m" and "sorted_wrt (\<le>) (now # map (fst \<circ> snd) qs)"
    and "distinct (map (snd \<circ> snd) qs)" and "\<forall>k. \<forall>q \<in> set qs. fresh (m k) (snd (snd q))"
  shows "step_decisions step m qs = window_decisions expired limit seen (map (\<lambda>(k, t, _). (k, t)) qs)"
  using assms
proof (induction qs arbitrary: now seen m)
  case (Cons x qs)
  obtain k t q where x: "x = (k, t, q)" by (cases x)
  obtain ok s where st: "step q t (m k) = (ok, s)" by fastforce
  from Cons.prems have t: "now \<le> t" and fr: "fresh (m k) q" by (auto simp: x)
  have "fine t (m k)" using Cons.prems(1) t later unfolding agrees_def by blast
  then have "fresh s (snd (snd q'))" if "q' \<in> set qs" for q'
    using keeps(3) [of t "m k" q] fr Cons.prems(3,4) st that by (auto simp: x rev_image_eqI)
  then have "\<forall>k'. \<forall>q \<in> set qs. fresh ((m(k := s)) k') (snd (snd q))" using Cons.prems(4) by (auto simp: x)
  then have "step_decisions step (m(k := s)) qs =
      window_decisions expired limit (if ok then seen @ [(k, t)] else seen) (map (\<lambda>(k, t, _). (k, t)) qs)"
    using Cons.prems(2,3) by (intro Cons.IH [OF agrees_step(2) [OF Cons.prems(1) t fr st]]) (simp_all add: x)
  with agrees_step(1) [OF Cons.prems(1) t fr st] show ?case by (simp add: x st Let_def)
qed simp

end

section \<open>The limiter in memory\<close>

record rl_settings =
  rl_enabled_redis :: bool
  rl_requests :: int
  rl_window :: int

text \<open>
  The accepted times of each key.  \<open>time.monotonic()\<close> is a finite float; the subtraction of the
  window rounds.
\<close>

definition window_start :: "rl_settings \<Rightarrow> rat \<Rightarrow> pyfloat" where
  "window_start st now = fsub (Fin now) (Fin (of_int (rl_window st)))"

definition memory_expired :: "rl_settings \<Rightarrow> rat \<Rightarrow> rat \<Rightarrow> bool" where
  "memory_expired st now h \<longleftrightarrow> flt (Fin h) (window_start st now)"

definition push_hit :: "rl_settings \<Rightarrow> rat \<Rightarrow> rat list \<Rightarrow> bool \<times> rat list" where
  "push_hit st now hits =
     (let hs = dropWhile (memory_expired st now) hits
      in if int (length hs) \<ge> rl_requests st then (False, hs) else (True, hs @ [now]))"

definition allow_memory :: "rl_settings \<Rightarrow> string \<Rightarrow> rat \<Rightarrow> (string \<Rightarrow> rat list) \<Rightarrow> bool \<times> (string \<Rightarrow> rat list)" where
  "allow_memory st key now hits = (case push_hit st now (hits key) of (ok, hs) \<Rightarrow> (ok, hits(key := hs)))"

section \<open>The Redis script\<close>

text \<open>
  The sorted set of a key as the list of its members and scores in the order of insertion, and
  the time at which Redis drops the key.  The commands are those the script calls.
\<close>

record zset =
  zs_members :: "(string \<times> int) list"
  zs_expires_at :: "int option"

definition empty_zset :: zset where "empty_zset = \<lparr>zs_members = [], zs_expires_at = None\<rparr>"

definition zremrangebyscore :: "int \<Rightarrow> int \<Rightarrow> zset \<Rightarrow> zset" where
  \<comment> \<open>A set that becomes empty is dropped with its expiry.\<close>
  "zremrangebyscore lo hi z =
     (let ms = filter (\<lambda>(_, s). \<not> (lo \<le> s \<and> s \<le> hi)) (zs_members z)
      in if ms = [] then empty_zset else z\<lparr>zs_members := ms\<rparr>)"

definition zcard :: "zset \<Rightarrow> int" where "zcard z = int (length (zs_members z))"

definition zadd :: "int \<Rightarrow> string \<Rightarrow> zset \<Rightarrow> zset" where
  "zadd score member z = z\<lparr>zs_members := filter (\<lambda>(m, _). m \<noteq> member) (zs_members z) @ [(member, score)]\<rparr>"

text \<open>\<open>EXPIRE\<close> counts in seconds, while every other number of the script is in milliseconds.\<close>

definition expire :: "int \<Rightarrow> int \<Rightarrow> zset \<Rightarrow> zset" where
  "expire now seconds z = z\<lparr>zs_expires_at := Some (now + 1000 * seconds)\<rparr>"

definition key_at :: "int \<Rightarrow> zset \<Rightarrow> zset" where
  "key_at now z = (case zs_expires_at z of Some t \<Rightarrow> if t \<le> now then empty_zset else z | None \<Rightarrow> z)"

definition sliding_window_lua :: "int \<Rightarrow> int \<Rightarrow> int \<Rightarrow> string \<Rightarrow> zset \<Rightarrow> bool \<times> zset" where
  "sliding_window_lua now window limit member z =
     (let z1 = zremrangebyscore 0 (now - window) (key_at now z)
      in if zcard z1 \<ge> limit then (False, z1) else (True, expire now window (zadd now member z1)))"

section \<open>The middleware\<close>

record rl_request =
  rq_forwarded_for :: "string option"
  rq_host :: "string option"
  rq_url_path :: string

definition client_id :: "rl_request \<Rightarrow> string" where
  "client_id rq = (case rq_forwarded_for rq of
      Some (c # cs) \<Rightarrow> str_strip (takeWhile (\<lambda>x. x \<noteq> CHR '','') (c # cs))
    | _ \<Rightarrow> (case rq_host rq of Some h \<Rightarrow> h | None \<Rightarrow> ''unknown''))"

definition rate_limit_key :: "rl_request \<Rightarrow> string" where
  "rate_limit_key rq = ''agent:rate:'' @ client_id rq @ '':'' @ rq_url_path rq"

record limiter =
  lm_hits :: "string \<Rightarrow> rat list"
  lm_zsets :: "string \<Rightarrow> zset"

text \<open>
  What the surroundings supply for one request: the two clocks, the identity of the request
  object, and whether the call to Redis raises a \<open>RedisError\<close>.
\<close>

record arrival =
  ar_request :: rl_request
  ar_now :: rat
  ar_now_ms :: int
  ar_member :: string
  ar_redis_up :: bool

definition allow_request :: "rl_settings \<Rightarrow> arrival \<Rightarrow> limiter \<Rightarrow> bool \<times> limiter" where
  "allow_request st a lm =
     (let key = rate_limit_key (ar_request a)
      in if rl_enabled_redis st \<and> ar_redis_up a
         then (case sliding_window_lua (ar_now_ms a) (rl_window st * 1000) (rl_requests st) (ar_member a) (lm_zsets lm key) of
                 (ok, z) \<Rightarrow> (ok, lm\<lparr>lm_zsets := (lm_zsets lm)(key := z)\<rparr>))
         else (case allow_memory st key (ar_now a) (lm_hits lm) of (ok, hits) \<Rightarrow> (ok, lm\<lparr>lm_hits := hits\<rparr>)))"

text \<open>The middleware: 429 with its header, or what the application answers (a status).\<close>

definition rate_limit_dispatch :: "rl_settings \<Rightarrow> (rl_request \<Rightarrow> int) \<Rightarrow> arrival \<Rightarrow> limiter \<Rightarrow> (int \<times> string option) \<times> limiter" where
  "rate_limit_dispatch st call_next a lm =
     (case allow_request st a lm of
        (False, lm') \<Rightarrow> ((429, Some (show_int (rl_window st))), lm')
      | (True, lm') \<Rightarrow> ((call_next (ar_request a), None), lm'))"

section \<open>Both limiters are the sliding window\<close>

text \<open>A hit is older than the window of the Redis script from this moment on.\<close>

definition redis_expired :: "int \<Rightarrow> int \<Rightarrow> int \<Rightarrow> bool" where
  "redis_expired window now score \<longleftrightarrow> score \<le> now - window"

lemma memory_expired_rat: "memory_expired st now h \<longleftrightarrow> (case window_start st now of Fin x \<Rightarrow> h < x | PInf \<Rightarrow> True | _ \<Rightarrow> False)"
  by (simp add: memory_expired_def split: pyfloat.split)

lemma window_start_mono:
  assumes "t \<le> t'" and "memory_expired st t h" shows "memory_expired st t' h"
proof -
  have "fl (t - of_int (rl_window st)) \<le> fl (t' - of_int (rl_window st))"
    using assms(1) by (intro fl_mono) simp
  with assms(2) show ?thesis
    unfolding memory_expired_rat window_start_def fsub_def
    by (auto simp: mk_float_def Let_def split: if_splits)
qed

lemma memory_expired_older: "h \<le> h' \<Longrightarrow> memory_expired st t h' \<Longrightarrow> memory_expired st t h"
  unfolding memory_expired_rat by (auto split: pyfloat.splits)

definition hits_fine :: "rat \<Rightarrow> rat list \<Rightarrow> bool" where
  "hits_fine t hs \<longleftrightarrow> sorted hs \<and> (\<forall>h \<in> set hs. h \<le> t)"

interpretation memory_window: sliding_window "memory_expired st" "rl_requests st" "\<lambda>q. push_hit st" id hits_fine "\<lambda>_ _. True" t0 "[]"
  for st t0
proof (unfold_locales, goal_cases)
  case 5 then show ?case
    by (auto simp: push_hit_def hits_fine_def dropWhile_live memory_expired_older Let_def)
next
  case (6 t s q)
  then have "sorted (live (memory_expired st) t s)" unfolding hits_fine_def live_def by (simp add: sorted_wrt_filter)
  with 6 show ?case
    by (auto simp: push_hit_def hits_fine_def dropWhile_live memory_expired_older Let_def sorted_append live_def)
next
  case (7 t s q u)
  then have "live (memory_expired st) u (live (memory_expired st) t s) = live (memory_expired st) u s"
    unfolding live_def filter_filter using window_start_mono by (intro filter_cong) auto
  with 7 show ?case
    by (auto simp: push_hit_def hits_fine_def dropWhile_live memory_expired_older Let_def live_append)
qed (auto simp: hits_fine_def)

text \<open>
  The set of a key is fine when its members and scores are those of requests seen, and it expires
  only after all of them have left the window.
\<close>

definition zset_fine :: "int \<Rightarrow> int \<Rightarrow> zset \<Rightarrow> bool" where
  "zset_fine window t z \<longleftrightarrow> 0 \<le> t \<and> (\<forall>(m, s) \<in> set (zs_members z). 0 \<le> s \<and> s \<le> t \<and>
     (case zs_expires_at z of None \<Rightarrow> True | Some e \<Rightarrow> s + window \<le> e))"

definition zset_fresh :: "zset \<Rightarrow> string \<Rightarrow> bool" where
  "zset_fresh z m \<longleftrightarrow> m \<notin> fst ` set (zs_members z)"

definition scores :: "zset \<Rightarrow> int list" where "scores z = map snd (zs_members z)"

lemma live_scores: "live ex t (scores z) = map snd (filter (\<lambda>(_, s). \<not> ex t s) (zs_members z))"
  by (simp add: live_def scores_def filter_map o_def case_prod_beta')

text \<open>What is left of a set after the removal is what is live of it, dropped key or not.\<close>

lemma live_members:
  assumes "zset_fine window t z" and "0 \<le> window"
  shows "zs_members (zremrangebyscore 0 (t - window) (key_at t z)) = filter (\<lambda>(_, s). \<not> redis_expired window t s) (zs_members z)"
proof -
  have m: "0 \<le> s \<and> s \<le> t \<and> (case zs_expires_at z of None \<Rightarrow> True | Some e \<Rightarrow> s + window \<le> e)"
    if "(k, s) \<in> set (zs_members z)" for k s using assms(1) that by (auto simp: zset_fine_def)
  have dropped: "redis_expired window t s" if "key_at t z \<noteq> z" and "(k, s) \<in> set (zs_members z)" for k s
    using m [OF that(2)] that(1) by (auto simp: key_at_def redis_expired_def split: option.splits if_splits)
  have none: "key_at t z \<noteq> z \<Longrightarrow> filter (\<lambda>(_, s). \<not> redis_expired window t s) (zs_members z) = []"
    using dropped by (auto simp: filter_empty_conv)
  have "zs_members (key_at t z) = (if key_at t z = z then zs_members z else [])"
    by (auto simp: key_at_def empty_zset_def split: option.split)
  moreover have "filter (\<lambda>(_, s). \<not> (0 \<le> s \<and> s \<le> t - window)) (zs_members z) = filter (\<lambda>(_, s). \<not> redis_expired window t s) (zs_members z)"
    using m by (intro filter_cong) (auto simp: redis_expired_def)
  ultimately show ?thesis
    using none by (cases "key_at t z = z") (auto simp: zremrangebyscore_def Let_def empty_zset_def)
qed

lemma lua_unfold:
  assumes "zset_fine window t z" and "0 \<le> window" and "zset_fresh z q"
  shows "sliding_window_lua t window limit q z = (let ms = filter (\<lambda>(_, s). \<not> redis_expired window t s) (zs_members z) in
    if int (length ms) \<ge> limit then (False, zremrangebyscore 0 (t - window) (key_at t z))
    else (True, \<lparr>zs_members = ms @ [(q, t)], zs_expires_at = Some (t + 1000 * window)\<rparr>))"
proof -
  have "filter (\<lambda>(m, _). m \<noteq> q) (filter (\<lambda>(_, s). \<not> redis_expired window t s) (zs_members z)) =
      filter (\<lambda>(_, s). \<not> redis_expired window t s) (zs_members z)"
    using assms(3) unfolding filter_id_conv by (auto simp: zset_fresh_def rev_image_eqI)
  then show ?thesis
    using live_members [OF assms(1,2)]
    by (simp add: sliding_window_lua_def Let_def zcard_def zadd_def expire_def)
qed

lemma removed_fine: "zset_fine window t z \<Longrightarrow> zset_fine window t (zremrangebyscore lo hi (key_at t z))"
  by (auto simp: zset_fine_def zremrangebyscore_def key_at_def empty_zset_def Let_def split: option.splits)

interpretation redis_window: sliding_window "redis_expired (int n)" limit
  "\<lambda>q t. sliding_window_lua t (int n) limit q" scores "zset_fine (int n)" zset_fresh 0 empty_zset
  for n limit
proof (unfold_locales, goal_cases)
  case (5 t s q)
  then show ?case by (simp add: lua_unfold Let_def live_scores)
next
  case (6 t s q)
  then show ?case
    by (auto simp: lua_unfold Let_def removed_fine) (auto simp: zset_fine_def)
next
  case (7 t s q u)
  have "live (redis_expired (int n)) u (live (redis_expired (int n)) t (scores s)) = live (redis_expired (int n)) u (scores s)"
    using 7 unfolding live_def filter_filter by (intro filter_cong) (auto simp: redis_expired_def)
  then have "live (redis_expired (int n)) u (map snd (filter (\<lambda>(_, h). \<not> redis_expired (int n) t h) (zs_members s))) =
      live (redis_expired (int n)) u (scores s)" by (simp add: live_scores)
  with 7 show ?case
    using live_members [of "int n" t s] by (simp add: lua_unfold Let_def scores_def live_append)
next
  case (8 t s q q')
  then show ?case
    using live_members [of "int n" t s] by (auto simp: lua_unfold Let_def zset_fresh_def)
qed (auto simp: zset_fine_def scores_def empty_zset_def zset_fresh_def)

fun decisions :: "rl_settings \<Rightarrow> limiter \<Rightarrow> arrival list \<Rightarrow> bool list" where
  "decisions st lm [] = []"
| "decisions st lm (a # as) = (case allow_request st a lm of (ok, lm') \<Rightarrow> ok # decisions st lm' as)"

definition new_limiter :: limiter where
  "new_limiter = \<lparr>lm_hits = (\<lambda>_. []), lm_zsets = (\<lambda>_. empty_zset)\<rparr>"

abbreviation arrival_key :: "arrival \<Rightarrow> string" where "arrival_key a \<equiv> rate_limit_key (ar_request a)"

lemma decisions_memory: "\<forall>a \<in> set as. \<not> (rl_enabled_redis st \<and> ar_redis_up a) \<Longrightarrow>
    decisions st lm as = step_decisions (\<lambda>_. push_hit st) (lm_hits lm) (map (\<lambda>(i, a). (arrival_key a, ar_now a, i)) (enumerate n as))"
proof (induction as arbitrary: lm n)
  case (Cons a as)
  obtain ok hs where "push_hit st (ar_now a) (lm_hits lm (arrival_key a)) = (ok, hs)" by fastforce
  moreover have "\<not> (rl_enabled_redis st \<and> ar_redis_up a)" using Cons.prems by simp
  ultimately show ?case
    using Cons.prems Cons.IH [of "lm\<lparr>lm_hits := (lm_hits lm)(arrival_key a := hs)\<rparr>" "Suc n"]
    by (auto simp: allow_request_def allow_memory_def Let_def simp del: fun_upd_apply)
qed simp

lemma decisions_redis: "rl_enabled_redis st \<Longrightarrow> \<forall>a \<in> set as. ar_redis_up a \<Longrightarrow>
    decisions st lm as = step_decisions (\<lambda>q t. sliding_window_lua t (rl_window st * 1000) (rl_requests st) q) (lm_zsets lm)
      (map (\<lambda>a. (arrival_key a, ar_now_ms a, ar_member a)) as)"
  by (induction as arbitrary: lm) (auto simp: allow_request_def Let_def split: prod.split)

lemma memory_decisions:
  assumes "sorted (map ar_now as)"
  shows "step_decisions (\<lambda>_. push_hit st) (\<lambda>_. []) (map (\<lambda>(i, a). (arrival_key a, ar_now a, i :: nat)) (enumerate 0 as)) =
    window_decisions (memory_expired st) (rl_requests st) [] (map (\<lambda>a. (arrival_key a, ar_now a)) as)"
proof -
  let ?qs = "map (\<lambda>(i, a). (arrival_key a, ar_now a, i)) (enumerate 0 as)"
  let ?t = "case as of [] \<Rightarrow> 0 | a # _ \<Rightarrow> ar_now a"
  have e: "map (\<lambda>x. f (snd x)) (enumerate 0 as) = map f as" for f :: "arrival \<Rightarrow> 'x"
    using map_map [of f snd "enumerate 0 as"] by (simp add: o_def)
  have m: "map (fst \<circ> snd) ?qs = map ar_now as" "map (snd \<circ> snd) ?qs = [0..<length as]"
    "map (\<lambda>(k, t, _). (k, t)) ?qs = map (\<lambda>a. (arrival_key a, ar_now a)) as"
    using e [of ar_now] e [of "\<lambda>a. (arrival_key a, ar_now a)"] map_fst_enumerate [of 0 as]
    by (simp_all add: case_prod_beta' o_def)
  have "memory_window.agrees st ?t [] (\<lambda>_. [])"
    by (simp add: memory_window.agrees_def hits_fine_def)
  then show ?thesis
    using memory_window.same_decisions [of st ?t "[]" "\<lambda>_. []" ?qs] assms unfolding m by (cases as) auto
qed

lemma redis_decisions:
  assumes "sorted (map ar_now_ms as)" and "\<forall>a \<in> set as. 0 \<le> ar_now_ms a" and "distinct (map ar_member as)" and "0 \<le> W"
  shows "step_decisions (\<lambda>q t. sliding_window_lua t W limit q) (\<lambda>_. empty_zset)
      (map (\<lambda>a. (arrival_key a, ar_now_ms a, ar_member a)) as) =
    window_decisions (redis_expired W) limit [] (map (\<lambda>a. (arrival_key a, ar_now_ms a)) as)"
proof -
  have m: "map (fst \<circ> snd) (map (\<lambda>a. (arrival_key a, ar_now_ms a, ar_member a)) as) = map ar_now_ms as"
    "map (snd \<circ> snd) (map (\<lambda>a. (arrival_key a, ar_now_ms a, ar_member a)) as) = map ar_member as"
    "map (\<lambda>(k, t, _). (k, t)) (map (\<lambda>a. (arrival_key a, ar_now_ms a, ar_member a)) as) = map (\<lambda>a. (arrival_key a, ar_now_ms a)) as"
    by (simp_all add: o_def)
  obtain n where W: "W = int n" using assms(4) by (metis nonneg_int_cases)
  have "redis_window.agrees n 0 [] (\<lambda>_. empty_zset)"
    using redis_window.start by (simp add: redis_window.agrees_def)
  then show ?thesis
    using redis_window.same_decisions [of n 0 "[]" "\<lambda>_. empty_zset"
        "map (\<lambda>a. (arrival_key a, ar_now_ms a, ar_member a)) as" limit] assms redis_window.start(3)
    unfolding m W by simp
qed

text \<open>
  C25: both limiters are the sliding window they are meant to be: on any sequence of requests in
  the order of the clock, the limiter in memory and the Redis script let a request through
  exactly when fewer requests than the limit, of the same client and path, were let through
  within the window before it.  That they forget old hits, and that Redis drops whole keys, never
  shows.
\<close>

theorem limiters_are_sliding_windows:
  assumes "sorted (map ar_now as)" and "sorted (map ar_now_ms as)" and "\<forall>a \<in> set as. 0 \<le> ar_now_ms a"
    and "distinct (map ar_member as)" and "0 \<le> rl_window st"
  shows "(rl_enabled_redis st \<and> (\<forall>a \<in> set as. ar_redis_up a) \<longrightarrow>
      decisions st new_limiter as = window_decisions (redis_expired (rl_window st * 1000)) (rl_requests st) []
        (map (\<lambda>a. (rate_limit_key (ar_request a), ar_now_ms a)) as)) \<and>
    ((\<forall>a \<in> set as. \<not> (rl_enabled_redis st \<and> ar_redis_up a)) \<longrightarrow>
      decisions st new_limiter as = window_decisions (memory_expired st) (rl_requests st) []
        (map (\<lambda>a. (rate_limit_key (ar_request a), ar_now a)) as))"
  using decisions_redis [of st as new_limiter] decisions_memory [of as st new_limiter 0]
    memory_decisions [OF assms(1)] redis_decisions [OF assms(2-4)] assms(5)
  by (simp add: new_limiter_def)

definition demo_arrival :: "int \<Rightarrow> string \<Rightarrow> arrival" where
  "demo_arrival t m = \<lparr>ar_request = \<lparr>rq_forwarded_for = None, rq_host = Some ''h'', rq_url_path = ''/p''\<rparr>,
     ar_now = 0, ar_now_ms = t, ar_member = m, ar_redis_up = True\<rparr>"

theorem limiters_are_sliding_windows_witness:
  "decisions \<lparr>rl_enabled_redis = True, rl_requests = 1, rl_window = 60\<rparr> new_limiter
     [demo_arrival 1 ''a'', demo_arrival 2 ''b'', demo_arrival 60001 ''c''] = [True, False, True]"
  using limiters_are_sliding_windows [of "[demo_arrival 1 ''a'', demo_arrival 2 ''b'', demo_arrival 60001 ''c'']"
      "\<lparr>rl_enabled_redis = True, rl_requests = 1, rl_window = 60\<rparr>"]
  by (simp add: demo_arrival_def Let_def redis_expired_def)

end
