(* ===== verification/Guided.thy ===== *)
theory Guided
  imports Tools RunEvents JsonParse PyTime Redact
begin

text \<open>
  The guided workflow of a pricing request as the agent loops see it (\<open>agent/guided_workflows.py\<close>):
  the phrases that start it, the submission of a filled form as a chat message, and the arguments
  of \<open>create_quotation\<close> made of it.  The texts of decoding errors are not modelled.
\<close>

section \<open>Messages and triggers\<close>

record content_block =
  cb_type :: string
  cb_payload :: dict

record chat_message =
  cm_role :: string
  cm_content :: "content_block list"

definition workflow_name :: string where "workflow_name = ''create_pricing_request''"
definition contract_version_v1 :: string where "contract_version_v1 = ''v1''"
definition initial_step :: string where "initial_step = ''summary''"
definition total_steps :: int where "total_steps = 7"
definition submission_prefix :: string where "submission_prefix = ''workflow:'' @ workflow_name"

definition generic_requests :: "string list" where
  "generic_requests = [''create a pricing request'', ''create pricing request'', ''start a pricing request'',
     ''start pricing request'', ''new pricing request'']"

definition block_text :: "content_block \<Rightarrow> string option" where
  "block_text b = (case d_get (cb_payload b) ''text'' of JStr s \<Rightarrow> Some s | _ \<Rightarrow> None)"

definition latest_user_text :: "chat_message list \<Rightarrow> string option" where
  "latest_user_text msgs =
     map_option (\<lambda>m. str_strip (str_join [char_of (10::nat)] (List.map_filter block_text (cm_content m))))
       (find (\<lambda>m. cm_role m = ''user'') (rev msgs))"

definition is_generic_create_pricing_request :: "string option \<Rightarrow> bool" where
  "is_generic_create_pricing_request text = (case text of
      None \<Rightarrow> False
    | Some t \<Rightarrow> str_join '' '' (str_split_ws (str_strip (str_lower t))) \<in> set generic_requests)"

section \<open>Event payloads\<close>

text \<open>\<open>utc_now().date().isoformat()\<close>\<close>

definition today_text :: "int \<Rightarrow> string" where "today_text now = take 10 (iso_utc now)"

definition workflow_head :: dict where
  "workflow_head = [(''workflow'', JStr workflow_name), (''contract_id'', JStr workflow_name),
     (''contract_version'', JStr contract_version_v1), (''step_id'', JStr initial_step), (''step_index'', JInt 0),
     (''total_steps'', JInt total_steps)]"

definition form_field :: "string \<Rightarrow> string \<Rightarrow> string \<Rightarrow> bool \<Rightarrow> dict \<Rightarrow> json" where
  "form_field i ty label req extra = JObj ([(''id'', JStr i), (''type'', JStr ty), (''label'', JStr label),
     (''required'', JBool req)] @ extra)"

definition create_pricing_request_input_payload :: "int \<Rightarrow> dict" where
  "create_pricing_request_input_payload now = workflow_head @
     [(''title'', JStr ''Create pricing request''),
      (''description'', JStr ''Confirm the basics. Defaults are prefilled so you can continue quickly.''),
      (''submit_label'', JStr ''Create draft proposal''),
      (''defaults'', JObj [(''name'', JStr (''Pricing request - '' @ today_text now)),
         (''opportunity_type'', JStr ''New partner''), (''currency'', JStr ''USD''), (''partner_name'', JStr []),
         (''salesforce_pr_id'', JStr []), (''regions'', JArr []), (''countries'', JArr [])]),
      (''fields'', JArr
        [form_field ''name'' ''text'' ''Request name'' True [],
         form_field ''opportunity_type'' ''single_select'' ''Opportunity type'' True
           [(''options'', jstrs [''New partner'', ''Pricing Change'', ''Upsell''])],
         form_field ''currency'' ''single_select'' ''Currency'' True
           [(''options'', jstrs [''USD'', ''EUR'', ''GBP'', ''SGD'', ''AUD''])],
         form_field ''partner_name'' ''text'' ''Customer / partner'' False [],
         form_field ''salesforce_pr_id'' ''text'' ''Salesforce PR ID'' False [],
         form_field ''regions'' ''multi_select'' ''Regions'' False [],
         form_field ''countries'' ''multi_select'' ''Countries'' False [(''depends_on'', jstrs [''regions''])]])]"

definition create_pricing_request_step_entered_payload :: dict where
  "create_pricing_request_step_entered_payload = workflow_head"

section \<open>The arguments of a submission\<close>

definition clean_string :: "json \<Rightarrow> string option" where
  "clean_string v = (case v of JStr s \<Rightarrow> if str_strip s = [] then None else Some (str_strip s) | _ \<Rightarrow> None)"

definition clean_string_list :: "json \<Rightarrow> string list" where
  "clean_string_list v = (case v of JArr xs \<Rightarrow> List.map_filter clean_string xs | _ \<Rightarrow> [])"

fun first_string_list :: "dict \<Rightarrow> string list \<Rightarrow> string list" where
  "first_string_list d [] = []"
| "first_string_list d (k # ks) =
     (let vs = clean_string_list (d_get d k) in if vs \<noteq> [] then vs else first_string_list d ks)"

text \<open>\<open>_clean_string(d.get(k1)) or _clean_string(d.get(k2)) or ...\<close>\<close>

fun first_clean :: "dict \<Rightarrow> string list \<Rightarrow> string option" where
  "first_clean d [] = None"
| "first_clean d (k # ks) = (case clean_string (d_get d k) of Some s \<Rightarrow> Some s | None \<Rightarrow> first_clean d ks)"

definition opt_str :: "string option \<Rightarrow> string \<Rightarrow> string" where
  "opt_str x dflt = (case x of Some s \<Rightarrow> s | None \<Rightarrow> dflt)"

definition summary_of :: "dict \<Rightarrow> dict" where
  "summary_of payload = (case d_get payload ''summary'' of JObj d \<Rightarrow> d | _ \<Rightarrow> payload)"

definition currency_of :: "dict \<Rightarrow> string" where
  "currency_of summary =
     take 3 (str_upper (opt_str (first_clean summary [''base_currency'', ''default_fee_currency'', ''currency'']) ''USD''))"

definition workflow_note :: "env \<Rightarrow> dict \<Rightarrow> string" where
  "workflow_note e payload = dumps (compact e) (JObj [(''workflow'', JStr workflow_name), (''payload'', JObj payload)])"

definition normalize_create_pricing_request_args :: "env \<Rightarrow> int \<Rightarrow> dict \<Rightarrow> dict" where
  "normalize_create_pricing_request_args e now payload =
     (let summary = summary_of payload;
          name = first_clean summary [''sending_partner_name'', ''opportunity_name'', ''name'', ''title''];
          opportunity = first_clean summary [''opportunity_type'', ''opportunityType''];
          partner = first_clean summary [''partner_name'', ''partnerName'', ''sending_partner_name''];
          salesforce = first_clean summary [''salesforce_pr_id'', ''salesforcePrId'', ''pr_code''];
          notes = clean_string (d_get payload ''notes'')
      in [(''name'', JStr (opt_str name (''Pricing request - '' @ today_text now))),
          (''opportunity_type'', JStr (opt_str opportunity ''New partner'')),
          (''currency'', JStr (currency_of summary)),
          (''regions'', jstrs (first_string_list summary [''corridor_regions'', ''regions''])),
          (''countries'', jstrs (first_string_list summary [''corridor_countries'', ''payout_countries'', ''countries'']))] @
         (case partner of Some s \<Rightarrow> [(''partner_name'', JStr s)] | None \<Rightarrow> []) @
         (case salesforce of Some s \<Rightarrow> [(''salesforce_pr_id'', JStr s)] | None \<Rightarrow> []) @
         [(''notes'', JStr (case notes of Some n \<Rightarrow> n @ [char_of (10::nat)] @ workflow_note e payload
                                       | None \<Rightarrow> workflow_note e payload))])"

definition parse_create_pricing_request_submission :: "env \<Rightarrow> int \<Rightarrow> string option \<Rightarrow> dict option res" where
  "parse_create_pricing_request_submission e now text = (case text of
      None \<Rightarrow> Inr None
    | Some t \<Rightarrow>
        let stripped = str_strip t
        in if \<not> starts_with (str_lower stripped) submission_prefix then Inr None
           else let raw = str_strip (drop (length submission_prefix) stripped)
           in if raw = [] then Inl (ValueError ''Create pricing request workflow payload is missing'')
              else (case json_loads raw of
                      None \<Rightarrow> Inl (ValueError [])
                    | Some (JObj d) \<Rightarrow> Inr (Some (normalize_create_pricing_request_args e now d))
                    | Some _ \<Rightarrow> Inl (ValueError ''Create pricing request workflow payload must be a JSON object'')))"

section \<open>What becomes of a submission\<close>

lemma clean_stringD: "clean_string v = Some s \<Longrightarrow> s \<noteq> [] \<and> str_strip s = s"
  by (auto simp: clean_string_def split: json.splits if_splits)

lemma first_cleanD: "first_clean d ks = Some s \<Longrightarrow> s \<noteq> [] \<and> str_strip s = s"
  by (induction ks) (auto dest: clean_stringD split: option.splits)

lemma upper_upper [simp]: "str_upper (str_upper s) = str_upper s"
  by (induction s) (auto simp: str_upper_def upper_char_def)

lemma upper_take: "str_upper (take n s) = take n (str_upper s)"
  by (simp add: str_upper_def take_map)

lemma currency_upper: "str_upper (currency_of d) = currency_of d"
  by (simp add: currency_of_def upper_take)

lemma validate_submission:
  assumes "pydantic_ok pyd" and "str_strip name \<noteq> []" and "opp \<noteq> []"
  shows "validate_quotation pyd ([(''name'', JStr name), (''opportunity_type'', JStr opp), (''currency'', JStr ccy),
      (''regions'', jstrs rs), (''countries'', jstrs cs)] @
      (case partner of Some s \<Rightarrow> [(''partner_name'', JStr s)] | None \<Rightarrow> []) @
      (case sf of Some s \<Rightarrow> [(''salesforce_pr_id'', JStr s)] | None \<Rightarrow> []) @ [(''notes'', JStr n)]) =
    (if length ccy = 3 then Some \<lparr>qi_name = str_strip name, qi_title = None, qi_opportunity_type = opp, qi_customer_id = None,
       qi_currency = str_upper ccy, qi_partner_name = partner, qi_salesforce_pr_id = sf, qi_regions = rs, qi_countries = cs,
       qi_notes = Some n\<rparr> else None)"
proof -
  have "name \<noteq> []" using assms(2) by auto
  with assms show ?thesis
    by (cases partner; cases sf)
      (simp_all add: validate_quotation_def pydantic_okD nullable_jopt str_list_jstrs opt_all_Some guard_def)
qed

lemma opt_clean_nonblank: "str_strip dflt \<noteq> [] \<Longrightarrow> str_strip (opt_str (first_clean d ks) dflt) \<noteq> []"
  by (cases "first_clean d ks") (auto simp: opt_str_def dest: first_cleanD)

lemma default_name: "str_strip (''Pricing request - '' @ t) \<noteq> []"
proof -
  have "lstrip (''Pricing request - '' @ t) = ''Pricing request - '' @ t"
    by (rule lstrip_id) (simp add: is_ws_def)
  moreover have "lstrip (rev (''Pricing request - '' @ t)) \<noteq> []"
    by (rule lstrip_rev_Nil) (simp_all add: is_ws_def)
  ultimately show ?thesis by (simp add: str_strip_def)
qed

text \<open>
  a submitted form becomes an acceptable \<open>create_quotation\<close> call exactly when its currency has at
  least three characters: whatever else the form holds, the arguments made of it validate to a
  quotation with the form's own values, the documented defaults standing in for missing ones.
\<close>

theorem submission_validates_iff:
  assumes "pydantic_ok pyd" and "summary = summary_of payload"
  shows "(validate_args pyd ''create_quotation'' (normalize_create_pricing_request_args e now payload) = None \<longleftrightarrow>
      length (currency_of summary) < 3) \<and>
    (\<forall>q. validate_args pyd ''create_quotation'' (normalize_create_pricing_request_args e now payload) =
        Some (CreateQuotationInput q) \<longrightarrow>
      qi_name q = str_strip (opt_str (first_clean summary [''sending_partner_name'', ''opportunity_name'', ''name'', ''title''])
        (''Pricing request - '' @ today_text now)) \<and>
      qi_currency q = currency_of summary \<and>
      qi_opportunity_type q = opt_str (first_clean summary [''opportunity_type'', ''opportunityType'']) ''New partner'' \<and>
      qi_partner_name q = first_clean summary [''partner_name'', ''partnerName'', ''sending_partner_name''] \<and>
      qi_regions q = first_string_list summary [''corridor_regions'', ''regions''])"
proof -
  let ?opp = "opt_str (first_clean summary [''opportunity_type'', ''opportunityType'']) ''New partner''"
  have "?opp \<noteq> []" by (cases "first_clean summary [''opportunity_type'', ''opportunityType'']")
      (auto simp: opt_str_def simp del: first_clean.simps dest: first_cleanD)
  then have v: "validate_args pyd ''create_quotation'' (normalize_create_pricing_request_args e now payload) =
      map_option CreateQuotationInput (validate_quotation pyd (normalize_create_pricing_request_args e now payload))"
    by (simp add: validate_tool)
  have "length (currency_of summary) \<le> 3" by (simp add: currency_of_def)
  moreover have "validate_quotation pyd (normalize_create_pricing_request_args e now payload) =
    (if length (currency_of summary) = 3 then Some
      \<lparr>qi_name = str_strip (opt_str (first_clean summary [''sending_partner_name'', ''opportunity_name'', ''name'', ''title''])
          (''Pricing request - '' @ today_text now)),
       qi_title = None, qi_opportunity_type = ?opp, qi_customer_id = None, qi_currency = str_upper (currency_of summary),
       qi_partner_name = first_clean summary [''partner_name'', ''partnerName'', ''sending_partner_name''],
       qi_salesforce_pr_id = first_clean summary [''salesforce_pr_id'', ''salesforcePrId'', ''pr_code''],
       qi_regions = first_string_list summary [''corridor_regions'', ''regions''],
       qi_countries = first_string_list summary [''corridor_countries'', ''payout_countries'', ''countries''],
       qi_notes = Some (case clean_string (d_get payload ''notes'') of Some n \<Rightarrow> n @ [char_of (10::nat)] @ workflow_note e payload
                                       | None \<Rightarrow> workflow_note e payload)\<rparr> else None)"
    unfolding normalize_create_pricing_request_args_def Let_def assms(2) [symmetric]
    by (rule validate_submission [OF assms(1) opt_clean_nonblank [OF default_name] \<open>?opp \<noteq> []\<close>])
  ultimately show ?thesis
    unfolding v by (auto simp: currency_upper simp del: first_clean.simps first_string_list.simps)
qed

definition demo_form_submission :: dict where
  "demo_form_submission = [(''summary'', JObj [(''name'', JStr '' Acme ''), (''currency'', JStr ''usd '')])]"

lemma upper_usd: "char_of (85::nat) = CHR ''U''" "char_of (83::nat) = CHR ''S''" "char_of (68::nat) = CHR ''D''"
  by code_simp+

lemma create_quotation_args: "validate_args pyd ''create_quotation'' d = map_option CreateQuotationInput (validate_quotation pyd d)"
  by (simp add: validate_tool)

theorem submission_validates_iff_witness:
  "\<exists>q. validate_args demo_pydantic ''create_quotation'' (normalize_create_pricing_request_args demo_env 0 demo_form_submission) =
      Some (CreateQuotationInput q) \<and> qi_currency q = ''USD'' \<and> qi_partner_name q = None"
proof -
  have c: "currency_of (summary_of demo_form_submission) = ''USD''"
    by (simp add: currency_of_def summary_of_def demo_form_submission_def d_get_def clean_string_def str_strip_def lstrip_def
        is_ws_def str_upper_def upper_char_def opt_str_def upper_usd)
  have p: "first_clean (summary_of demo_form_submission) [''partner_name'', ''partnerName'', ''sending_partner_name''] = None"
    by (simp add: summary_of_def demo_form_submission_def d_get_def clean_string_def)
  note t = submission_validates_iff [OF demo_pydantic_ok refl, of demo_env 0 demo_form_submission, unfolded c p]
  have "validate_args demo_pydantic ''create_quotation'' (normalize_create_pricing_request_args demo_env 0 demo_form_submission) \<noteq> None"
    using conjunct1 [OF t] by simp
  then obtain q where q: "validate_args demo_pydantic ''create_quotation'' (normalize_create_pricing_request_args demo_env 0 demo_form_submission) =
      Some (CreateQuotationInput q)"
    unfolding create_quotation_args by auto
  show ?thesis using conjunct2 [OF t, rule_format, OF q] q by blast
qed

definition million_form :: string where
  "million_form = submission_prefix @ ''{'' @ [CHR 0x22] @ ''volume'' @ [CHR 0x22] @ '':1000000}''"

definition masked_form :: string where
  "masked_form = submission_prefix @ ''{'' @ [CHR 0x22] @ ''volume'' @ [CHR 0x22] @ '':<PII:phone>}''"

lemma form_passes:
  "fst (sub_pass card_re ''<PII:card>'' ''card'' million_form) = million_form"
  "fst (sub_pass email_re ''<PII:email>'' ''email'' million_form) = million_form"
  by code_simp+

lemma form_masked:
  "fst (sub_pass phone_re ''<PII:phone>'' ''phone'' million_form) = masked_form"
  by code_simp

lemma masked_passes:
  "fst (sub_pass mfa_re ''<PII:code>'' ''code'' masked_form) = masked_form"
  "filter (\<lambda>c. \<not> control_char c) masked_form = masked_form"
  by code_simp+

lemmas read_number = parse_number_def int_part_def digits_def is_digit_def frac_part_def exp_part_def lower_char_def dec_value_def
lemmas read_json = json_loads_def skip_ws_def js_ws_def eval_nat_numeral parse_constant_def constants_def List.map_filter_def
  strip_prefix_def d_set_def

lemma million: "parse_number ''1000000}'' = Some (JInt 1000000, ''}'')" "parse_number ''<PII:phone>}'' = None"
  by (simp_all add: read_number)

lemma forms_read:
  "json_loads (''{'' @ [CHR 0x22] @ ''volume'' @ [CHR 0x22] @ '':1000000}'') = Some (JObj [(''volume'', JInt 1000000)])"
  "json_loads (''{'' @ [CHR 0x22] @ ''volume'' @ [CHR 0x22] @ '':<PII:phone>}'') = None"
  by (simp_all add: read_json million)

lemma submission_stripped:
  assumes "t \<noteq> []" and "\<not> is_ws (last t)" shows "str_strip (submission_prefix @ t) = submission_prefix @ t"
proof -
  have "lstrip (submission_prefix @ t) = submission_prefix @ t"
    by (rule lstrip_id) (simp add: submission_prefix_def is_ws_def)
  moreover have "lstrip (rev (submission_prefix @ t)) = rev (submission_prefix @ t)"
    using assms by (intro lstrip_id) (simp add: hd_rev)
  ultimately show ?thesis by (simp add: str_strip_def)
qed

text \<open>
  redaction runs before the form is read and takes every number of six to fifteen digits for a
  phone number, inside the JSON text too: a form with a volume of a million is refused as
  malformed by the deterministic loop, although the form itself reads well.
\<close>

theorem redaction_breaks_submission:
  "parse_create_pricing_request_submission e now (Some (rt_text (redact million_form))) = Inl (ValueError []) \<and>
    parse_create_pricing_request_submission e now (Some million_form) =
      Inr (Some (normalize_create_pricing_request_args e now [(''volume'', JInt 1000000)]))"
proof -
  have r: "rt_text (redact million_form) = masked_form"
    using form_passes form_masked masked_passes by (auto simp: redact_def split: prod.splits)
  have l: "starts_with (str_lower (submission_prefix @ t)) submission_prefix" for t
    by (simp add: starts_with_def submission_prefix_def workflow_name_def str_lower_def lower_char_def)
  have s: "str_strip million_form = million_form" "str_strip masked_form = masked_form"
    unfolding million_form_def masked_form_def by (rule submission_stripped; simp add: is_ws_def)+
  have d: "str_strip (drop (length submission_prefix) million_form) = ''{'' @ [CHR 0x22] @ ''volume'' @ [CHR 0x22] @ '':1000000}''"
    "str_strip (drop (length submission_prefix) masked_form) = ''{'' @ [CHR 0x22] @ ''volume'' @ [CHR 0x22] @ '':<PII:phone>}''"
    by (simp_all add: million_form_def masked_form_def str_strip_def lstrip_def is_ws_def)
  show ?thesis
    unfolding parse_create_pricing_request_submission_def r option.case Let_def s d forms_read
    using l by (simp add: million_form_def masked_form_def)
qed

end
