(* ===== verification/Budget.thy ===== *)
theory Budget
  imports PyFloat PyTime PyJson
begin

text \<open>
  The ceilings of one run (\<open>agent/budget.py\<close>): counters of steps, tool calls and tokens, the cost in
  floats, and the checks that raise \<open>BudgetExceededError\<close>.  A raised error is the cause and the text;
  the counters that were moved before the check stay moved.  \<open>perf_counter\<close> is an input.
\<close>

record loop_settings =
  max_steps_per_run :: int
  max_wall_clock_per_run_s :: int
  max_input_tokens_per_run :: int
  max_output_tokens_per_run :: int
  max_tool_calls_per_run :: int
  cost_soft_per_run_usd :: pyfloat
  cost_hard_per_run_usd :: pyfloat

record loop_budget =
  lb_started_at :: pyfloat
  lb_steps :: nat
  lb_tool_calls :: nat
  lb_input_tokens :: int
  lb_output_tokens :: int
  lb_cost_usd :: pyfloat

type_synonym budget_stop = "string \<times> string"

definition new_loop_budget :: "pyfloat \<Rightarrow> loop_budget" where
  "new_loop_budget now = \<lparr>lb_started_at = now, lb_steps = 0, lb_tool_calls = 0, lb_input_tokens = 0, lb_output_tokens = 0,
     lb_cost_usd = Fin 0\<rparr>"

text \<open>A decimal literal of the source, read as a float.\<close>

definition decimal :: "int \<Rightarrow> nat \<Rightarrow> pyfloat" where "decimal n places = mk_float (of_int n / 10 ^ places)"

definition model_cost_table :: "(string \<times> pyfloat \<times> pyfloat) list" where
  "model_cost_table = [(''gemini-2.5-flash'', decimal 1 4, decimal 4 4), (''gemini-1.5-flash'', decimal 75 6, decimal 3 4),
     (''claude-haiku-4-5'', decimal 8 4, decimal 4 3), (''claude-3-5-haiku'', decimal 8 4, decimal 4 3)]"

definition default_cost :: "pyfloat \<times> pyfloat" where "default_cost = (decimal 5 4, decimal 2 3)"

definition elapsed_seconds :: "pyfloat \<Rightarrow> loop_budget \<Rightarrow> pyfloat" where
  "elapsed_seconds now b = fsub now (lb_started_at b)"

text \<open>An int against a float compares exactly.\<close>

definition float_at_least :: "pyfloat \<Rightarrow> int \<Rightarrow> bool" where
  "float_at_least x n = (case x of Fin q \<Rightarrow> of_int n \<le> q | PInf \<Rightarrow> True | _ \<Rightarrow> False)"

definition begin_step :: "loop_settings \<Rightarrow> pyfloat \<Rightarrow> loop_budget \<Rightarrow> budget_stop option \<times> loop_budget" where
  "begin_step st now b =
     (if int (lb_steps b) \<ge> max_steps_per_run st
      then (Some (''step_budget_exceeded'', ''step ceiling '' @ show_int (max_steps_per_run st) @ '' reached''), b)
      else if float_at_least (elapsed_seconds now b) (max_wall_clock_per_run_s st)
      then (Some (''wall_clock_budget_exceeded'', ''wall-clock ceiling '' @ show_int (max_wall_clock_per_run_s st) @ ''s reached''), b)
      else (None, b\<lparr>lb_steps := Suc (lb_steps b)\<rparr>))"

definition record_tool_call :: "loop_settings \<Rightarrow> loop_budget \<Rightarrow> budget_stop option \<times> loop_budget" where
  "record_tool_call st b =
     (if int (lb_tool_calls b) \<ge> max_tool_calls_per_run st
      then (Some (''tool_call_budget_exceeded'', ''tool-call ceiling '' @ show_int (max_tool_calls_per_run st) @ '' reached''), b)
      else (None, b\<lparr>lb_tool_calls := Suc (lb_tool_calls b)\<rparr>))"

definition usage_cost :: "string \<Rightarrow> int \<Rightarrow> int \<Rightarrow> pyfloat option" where
  "usage_cost model input_tokens output_tokens =
     (case (case map_of model_cost_table model of Some r \<Rightarrow> r | None \<Rightarrow> default_cost) of (in_rate, out_rate) \<Rightarrow>
        case (float_of_int input_tokens, float_of_int output_tokens) of
          (Some i, Some j) \<Rightarrow> fdiv (fadd (fmul i in_rate) (fmul j out_rate)) (Fin 1000)
        | _ \<Rightarrow> None)"

text \<open>\<open>f"{x:.4f}"\<close> of a finite float.\<close>

definition fixed4 :: "pyfloat \<Rightarrow> string" where
  "fixed4 x = (case x of
      Fin q \<Rightarrow> let n = rne (\<bar>q\<bar> * 10000)
               in (if q < 0 then ''-'' else []) @ show_int (n div 10000) @ ''.'' @ zero_pad 4 (n mod 10000)
    | PInf \<Rightarrow> ''inf'' | NInf \<Rightarrow> ''-inf'' | NaN \<Rightarrow> ''nan'')"

text \<open>\<open>None\<close> when the token counts do not fit a float (OverflowError).\<close>

definition record_usage :: "loop_settings \<Rightarrow> string \<Rightarrow> int \<Rightarrow> int \<Rightarrow> loop_budget \<Rightarrow> (budget_stop option \<times> loop_budget) option" where
  "record_usage st model input_tokens output_tokens b =
     map_option (\<lambda>c.
       let b' = b\<lparr>lb_input_tokens := lb_input_tokens b + input_tokens, lb_output_tokens := lb_output_tokens b + output_tokens,
                  lb_cost_usd := fadd (lb_cost_usd b) c\<rparr>
       in (if lb_input_tokens b' > max_input_tokens_per_run st
           then Some (''input_token_budget_exceeded'', ''input token ceiling '' @ show_int (max_input_tokens_per_run st) @ '' reached'')
           else if lb_output_tokens b' > max_output_tokens_per_run st
           then Some (''output_token_budget_exceeded'', ''output token ceiling '' @ show_int (max_output_tokens_per_run st) @ '' reached'')
           else if flt (cost_hard_per_run_usd st) (lb_cost_usd b')
           then Some (''cost_budget_exceeded'', ''cost hard ceiling $'' @ fixed4 (cost_hard_per_run_usd st) @ '' reached'')
           else None, b'))
       (usage_cost model input_tokens output_tokens)"

definition soft_cost_breached :: "loop_settings \<Rightarrow> loop_budget \<Rightarrow> bool" where
  "soft_cost_breached st b \<longleftrightarrow> flt (cost_soft_per_run_usd st) (lb_cost_usd b)"

definition snapshot :: "pyfloat \<Rightarrow> loop_budget \<Rightarrow> dict" where
  "snapshot now b = [(''steps'', JInt (int (lb_steps b))), (''tool_calls'', JInt (int (lb_tool_calls b))),
     (''input_tokens'', JInt (lb_input_tokens b)), (''output_tokens'', JInt (lb_output_tokens b)),
     (''cost_usd'', JFlt (fround 6 (lb_cost_usd b))), (''elapsed_s'', JFlt (fround 3 (elapsed_seconds now b)))]"

section \<open>Ceilings hold\<close>

text \<open>A run that was never stopped has stayed below its ceilings.\<close>

definition under_ceilings :: "loop_settings \<Rightarrow> loop_budget \<Rightarrow> bool" where
  "under_ceilings st b \<longleftrightarrow> int (lb_steps b) \<le> max 0 (max_steps_per_run st) \<and> int (lb_tool_calls b) \<le> max 0 (max_tool_calls_per_run st)"

lemma ceilings_new: "under_ceilings st (new_loop_budget now)"
  by (simp add: under_ceilings_def new_loop_budget_def)

lemma ceilings_begin: "under_ceilings st b \<Longrightarrow> under_ceilings st (snd (begin_step st now b))"
  by (auto simp: under_ceilings_def begin_step_def)

lemma ceilings_tool_call: "under_ceilings st b \<Longrightarrow> under_ceilings st (snd (record_tool_call st b))"
  by (auto simp: under_ceilings_def record_tool_call_def)

lemma ceilings_usage: "record_usage st m i j b = Some (r, b') \<Longrightarrow> under_ceilings st b \<Longrightarrow> under_ceilings st b'"
  by (auto simp: under_ceilings_def record_usage_def Let_def)

lemma begin_step_None: "begin_step st now b = (None, b') \<Longrightarrow>
    lb_steps b' = Suc (lb_steps b) \<and> int (lb_steps b) < max_steps_per_run st"
  by (auto simp: begin_step_def split: if_splits)

end
