(* ===== verification/AgentLoop.thy ===== *)
theory AgentLoop
  imports Runs Guided Budget
begin

text \<open>
  The deterministic agent loop (\<open>agent/loop.py\<close>), which answers a queued run when no model provider
  is configured: it starts the conversational wizard, proposes the call of a submitted form or of
  a tool directive, or answers with a fixed text, and takes a note the user asks it to remember.
\<close>

record loop_cfg =
  lc_api :: api
  lc_settings :: loop_settings
  lc_perf :: "nat \<Rightarrow> pyfloat"

definition perf :: "loop_cfg \<Rightarrow> world \<Rightarrow> pyfloat" where "perf cfg w = lc_perf cfg (tick w)"

abbreviation cfg_env :: "loop_cfg \<Rightarrow> env" where "cfg_env cfg \<equiv> ap_env (lc_api cfg)"

section \<open>Rows of a run\<close>

definition open_step :: "env \<Rightarrow> string \<Rightarrow> nat \<Rightarrow> string \<Rightarrow> world \<Rightarrow> int \<times> world" where
  "open_step e run_id seq kind w =
     (case next_row w of (i, w1) \<Rightarrow> (case utc_now e w1 of (t, w2) \<Rightarrow>
        (i, add_step_row \<lparr>st_id = i, st_run_id = run_id, st_seq = int seq, st_kind = kind, st_status = ''running'',
              st_created_at = t, st_completed_at = None\<rparr> w2)))"

definition close_step :: "env \<Rightarrow> int \<Rightarrow> string \<Rightarrow> world \<Rightarrow> world" where
  "close_step e i status w = (case utc_now e w of (t, w1) \<Rightarrow>
     upd_step_row i (\<lambda>s. s\<lparr>st_status := status, st_completed_at := Some t\<rparr>) w1)"

definition assistant_message :: "env \<Rightarrow> agent_run \<Rightarrow> int \<Rightarrow> string \<Rightarrow> world \<Rightarrow> string \<times> world" where
  "assistant_message e run uid content w =
     (case new_id e w of (k, w1) \<Rightarrow> (case utc_now e w1 of (t, w2) \<Rightarrow>
        (k, add_message \<lparr>ms_id = k, ms_conversation_id = rn_conversation_id run, ms_user_id = uid, ms_role = ''assistant'',
              ms_content = content, ms_source = ''agent'', ms_run_id = Some (rn_id run), ms_created_at = t\<rparr> w2)))"

definition emit_delta :: "env \<Rightarrow> string \<Rightarrow> string \<Rightarrow> string \<Rightarrow> world \<Rightarrow> world" where
  "emit_delta e run_id message_id delta w =
     emit e run_id ''v1.message.delta'' [(''message_id'', JStr message_id), (''delta'', JStr delta)] w"

definition step_event :: "string \<Rightarrow> nat \<Rightarrow> string \<Rightarrow> dict \<Rightarrow> env \<Rightarrow> string \<Rightarrow> world \<Rightarrow> world" where
  "step_event ty n kind extra e run_id w = emit e run_id ty ([(''step'', JInt (int n)), (''kind'', JStr kind)] @ extra) w"

definition complete_and_touch :: "env \<Rightarrow> string \<Rightarrow> world \<Rightarrow> world" where
  "complete_and_touch e run_id w = touch_run e run_id (complete_run e run_id w)"

definition fail_run :: "env \<Rightarrow> string \<Rightarrow> string \<Rightarrow> world \<Rightarrow> world" where
  "fail_run e run_id message w = (case utc_now e w of (t1, w1) \<Rightarrow> (case utc_now e w1 of (t2, w2) \<Rightarrow>
     upd_run run_id (\<lambda>r. r\<lparr>rn_status := ''error'', rn_error := Some message, rn_completed_at := Some t1, rn_updated_at := t2\<rparr>) w2))"

definition finalize_error :: "loop_cfg \<Rightarrow> string \<Rightarrow> loop_budget \<Rightarrow> string \<Rightarrow> string \<Rightarrow> world \<Rightarrow> world" where
  "finalize_error cfg run_id b cause message w =
     (let w1 = fail_run (cfg_env cfg) run_id message w
      in emit (cfg_env cfg) run_id ''v1.run.error'' [(''cause'', JStr cause), (''message'', JStr message),
           (''budget'', JObj (snapshot (perf cfg w1) b))] w1)"

definition finalize_tool_error :: "env \<Rightarrow> string \<Rightarrow> string \<Rightarrow> string \<Rightarrow> world \<Rightarrow> world" where
  "finalize_tool_error e run_id cause message w =
     emit e run_id ''v1.run.error'' [(''cause'', JStr cause), (''message'', JStr message)] (fail_run e run_id message w)"

definition await_decision :: "env \<Rightarrow> string \<Rightarrow> world \<Rightarrow> world" where
  "await_decision e run_id w = (case utc_now e w of (t, w1) \<Rightarrow>
     upd_run run_id (\<lambda>r. r\<lparr>rn_status := ''awaiting_decision'', rn_updated_at := t\<rparr>) w1)"

definition observe_run :: "nat \<Rightarrow> string \<Rightarrow> world \<Rightarrow> world" where
  "observe_run n model w = record_metric (RunLatency model) (record_metric (StepCount n) w)"

section \<open>Reading the message\<close>

definition memory_marker :: string where "memory_marker = ''remember that ''"

definition extract_memory :: "string \<Rightarrow> string option" where
  "extract_memory content =
     (let normalized = str_strip content
      in case str_find (str_lower normalized) memory_marker of
           None \<Rightarrow> None
         | Some i \<Rightarrow> let memory = str_strip (drop (i + length memory_marker) normalized)
                    in if memory = [] then None else Some (take 1000 memory))"

definition extract_tool_directive :: "string \<Rightarrow> (string \<times> dict) option" where
  "extract_tool_directive content =
     (let normalized = str_strip content
      in if \<not> starts_with (str_lower normalized) ''tool:'' then None
         else (case json_loads (str_strip (drop 5 normalized)) of
                 Some (JObj d) \<Rightarrow> (case (d_get d ''name'', d_get d ''args'') of
                     (JStr n, JObj args) \<Rightarrow> Some (n, args) | _ \<Rightarrow> None)
               | _ \<Rightarrow> None))"

definition build_tool_proposal :: "pydantic \<Rightarrow> auth_context \<Rightarrow> string \<Rightarrow> (string \<times> dict) option" where
  "build_tool_proposal pyd auth content =
     (case extract_tool_directive content of
        None \<Rightarrow> None
      | Some (n, args) \<Rightarrow>
          (case registry_get n of
             None \<Rightarrow> None
           | Some t \<Rightarrow>
               if tl_risk t = READ \<or> \<not> has_permission auth (tl_permission t) then None
               else map_option (\<lambda>parsed. (tl_name t, dump_args parsed)) (validate_args pyd n args)))"

definition deterministic_response :: "string \<Rightarrow> auth_context \<Rightarrow> (string \<times> dict) option \<Rightarrow> string" where
  "deterministic_response content auth proposal = (case proposal of
      Some (n, _) \<Rightarrow> ''I prepared `'' @ n @ ''` for approval. Review the proposed tool call before it is executed.''
    | None \<Rightarrow> ''I received your pricing request and created a durable run. Available permissions for this session: '' @
        str_join '', '' (permissions auth) @ ''. Request: '' @ content)"

definition summarize_memory :: "env \<Rightarrow> auth_context \<Rightarrow> string \<Rightarrow> string \<Rightarrow> world \<Rightarrow> world" where
  "summarize_memory e auth run_id content w = (case extract_memory content of
      None \<Rightarrow> w
    | Some memory \<Rightarrow>
        (case new_id e w of (k, w1) \<Rightarrow> (case utc_now e w1 of (t1, w2) \<Rightarrow> (case utc_now e w2 of (t2, w3) \<Rightarrow>
           emit e run_id ''v1.memory.updated'' [(''key'', JStr ''user_note'')]
             (add_memory \<lparr>um_id = k, um_user_id = user_id auth, um_key = ''user_note'', um_value = memory, um_source = ''summarizer'',
                um_metadata = [(''run_id'', JStr run_id)], um_created_at = t1, um_updated_at = t2\<rparr> w3)))))"

section \<open>Proposing a call\<close>

definition add_proposed_call :: "env \<Rightarrow> string \<Rightarrow> int \<Rightarrow> tool \<Rightarrow> dict \<Rightarrow> world \<Rightarrow> string \<times> world" where
  "add_proposed_call e run_id step t args w =
     (case new_id e w of (k, w1) \<Rightarrow> (case utc_now e w1 of (now, w2) \<Rightarrow>
        (k, add_tool_call \<lparr>tc_id = k, tc_run_id = run_id, tc_step_id = Some step, tc_tool_name = tl_name t,
              tc_status = (if requires_approval t then ''proposed'' else ''pending''), tc_args = args, tc_result = None,
              tc_error = None, tc_requires_approval = requires_approval t, tc_audit_log_id = None, tc_approved_at = None,
              tc_rejected_at = None, tc_created_at = now, tc_completed_at = None\<rparr> w2)))"

definition emit_proposed :: "env \<Rightarrow> string \<Rightarrow> string \<Rightarrow> tool \<Rightarrow> dict \<Rightarrow> world \<Rightarrow> world" where
  "emit_proposed e run_id k t args w = emit e run_id ''v1.tool.proposed''
     [(''tool_call_id'', JStr k), (''tool_name'', JStr (tl_name t)), (''args'', JObj args),
      (''requires_approval'', JBool (requires_approval t))] w"

text \<open>The run and its log once the call is stored.\<close>

definition after_proposal :: "env \<Rightarrow> string \<Rightarrow> int \<Rightarrow> string \<Rightarrow> tool \<Rightarrow> dict \<Rightarrow> string option \<Rightarrow> world \<Rightarrow> world" where
  "after_proposal e run_id step k t args output_id w2 =
     (let w3 = upd_run run_id (\<lambda>r. r\<lparr>rn_output_message_id := output_id,
                 rn_status := (if requires_approval t then ''awaiting_decision'' else ''running'')\<rparr>) w2;
          w4 = emit_proposed e run_id k t args (touch_run e run_id w3)
      in if requires_approval t
         then close_step e step ''awaiting_decision'' (emit e run_id ''v1.run.awaiting_decision'' [(''tool_call_id'', JStr k)] w4)
         else emit e run_id ''v1.run.awaiting_decision'' [(''tool_call_id'', JStr k), (''auto_approved'', JBool True)]
                (await_decision e run_id (close_step e step ''pending'' w4)))"

definition propose_tool_call ::
    "loop_cfg \<Rightarrow> auth_context \<Rightarrow> string \<Rightarrow> loop_budget \<Rightarrow> string \<Rightarrow> dict \<Rightarrow> string \<Rightarrow> string option \<Rightarrow> world \<Rightarrow> unit res \<times> world" where
  "propose_tool_call cfg auth run_id b tool_name args model output_id w =
     (let e = cfg_env cfg
      in case record_tool_call (lc_settings cfg) b of
           (Some (cause, message), b1) \<Rightarrow> (Inr (), commit (finalize_error cfg run_id b1 cause message w))
         | (None, b1) \<Rightarrow>
             (case registry_get tool_name of
                None \<Rightarrow> (Inr (), commit (finalize_tool_error e run_id ''tool_unavailable''
                          (''Tool '' @ quoted tool_name @ '' is not available to this user.'') w))
              | Some t \<Rightarrow>
                  if \<not> has_permission auth (tl_permission t)
                  then (Inr (), commit (finalize_tool_error e run_id ''tool_unavailable''
                          (''Tool '' @ quoted tool_name @ '' is not available to this user.'') w))
                  else (case validate_args (ap_pyd (lc_api cfg)) tool_name args of
                          None \<Rightarrow> (Inl (ValueError []), w)
                        | Some parsed \<Rightarrow>
                            let (step, w1) = open_step e run_id (lb_steps b1) ''tool_call'' w;
                                (k, w2) = add_proposed_call e run_id step t (dump_args parsed) w1;
                                w3 = after_proposal e run_id step k t (dump_args parsed) output_id w2
                            in (Inr (), commit (observe_run (lb_steps b1) model w3)))))"

section \<open>The conversational wizard\<close>

definition greeting :: string where
  "greeting = ''Let'' @ [CHR 0x27] @ ''s set up your pricing request. I'' @ [CHR 0x27] @ ''ll ask you a few quick questions.''"
definition resume_greeting :: string where
  "resume_greeting = ''Welcome back! Picking up your pricing request where you left off.''"

text \<open>The draft to go on with, new or saved; a saved one past its first field changes the greeting.\<close>

definition wizard_draft :: "env \<Rightarrow> agent_run \<Rightarrow> string \<Rightarrow> world \<Rightarrow> (json \<times> dict) res \<times> world" where
  "wizard_draft e run message_id w = (case get_draft (rn_conversation_id run) w of
      Some dr \<Rightarrow>
        (case get_cursor (dr_payload dr) of
           None \<Rightarrow> (Inl PyError, w)
         | Some c \<Rightarrow>
             let w1 = (if c = Cursor 0 0 then w
                       else emit_delta e (rn_id run) message_id resume_greeting
                              (upd_message message_id (\<lambda>m. m\<lparr>ms_content := resume_greeting\<rparr>) w))
             in (ebind (load_contract e (dr_contract_id dr) (dr_contract_version dr)) (\<lambda>ct. Inr (ct, dr_payload dr)), w1))
    | None \<Rightarrow>
        sbind (load_contract e workflow_name contract_version_v1, w) (\<lambda>ct w.
        sbind (of_opt init_conversation_draft_payload, w) (\<lambda>payload w.
          (Inr (ct, payload), snd (seed_draft e (rn_conversation_id run) payload w)))))"

text \<open>The prompt is best effort: whatever it raises, the run completes.\<close>

definition best_effort_prompt :: "env \<Rightarrow> pf_client option \<Rightarrow> auth_context \<Rightarrow> string \<Rightarrow> json \<Rightarrow> dict \<Rightarrow> world \<Rightarrow> world" where
  "best_effort_prompt e client auth run_id ct payload w = (case get_cursor payload of
      None \<Rightarrow> w | Some c \<Rightarrow> snd (emit_next_prompt e client auth run_id ct payload c w))"

definition finish_wizard :: "env \<Rightarrow> string \<Rightarrow> world \<Rightarrow> world" where
  "finish_wizard e run_id w =
     emit e run_id ''v1.run.completed'' [(''workflow'', JStr workflow_name)] (complete_and_touch e run_id w)"

definition greet :: "env \<Rightarrow> auth_context \<Rightarrow> agent_run \<Rightarrow> world \<Rightarrow> string \<times> world" where
  "greet e auth run w = (case assistant_message e run (user_id auth) greeting w of (k, w1) \<Rightarrow>
     (k, emit_delta e (rn_id run) k greeting (upd_run (rn_id run) (\<lambda>r. r\<lparr>rn_output_message_id := Some k\<rparr>) w1)))"

definition loop_wizard ::
    "loop_cfg \<Rightarrow> auth_context \<Rightarrow> agent_run \<Rightarrow> loop_budget \<Rightarrow> int \<Rightarrow> world \<Rightarrow> unit res \<times> world" where
  "loop_wizard cfg auth run b step w =
     (let e = cfg_env cfg;
          (k, w1) = greet e auth run w;
          w2 = step_event ''v1.step.completed'' (lb_steps b) ''model'' [] e (rn_id run) (close_step e step ''completed'' w1)
      in sbind (wizard_draft e run k w2) (\<lambda>(ct, payload) w3.
           let w4 = best_effort_prompt e (Some (from_settings e [])) auth (rn_id run) ct payload w3;
               w5 = finish_wizard e (rn_id run) w4
           in (Inr (), commit (observe_run (lb_steps b) ''conversation-v1'' w5))))"

section \<open>A run\<close>

definition loop_answer ::
    "loop_cfg \<Rightarrow> auth_context \<Rightarrow> agent_run \<Rightarrow> loop_budget \<Rightarrow> int \<Rightarrow> string \<Rightarrow> world \<Rightarrow> unit res \<times> world" where
  "loop_answer cfg auth run b step content w =
     (let e = cfg_env cfg; r = rn_id run;
          proposal = build_tool_proposal (ap_pyd (lc_api cfg)) auth content;
          answer = deterministic_response content auth proposal;
          (k, w1) = assistant_message e run (user_id auth) answer w;
          w2 = close_step e step ''completed'' (emit_delta e r k answer w1);
          w3 = step_event ''v1.step.completed'' (lb_steps b) ''model'' [] e r w2;
          w4 = summarize_memory e auth r content w3
      in case proposal of
           Some (n, args) \<Rightarrow> propose_tool_call cfg auth r b n args ''deterministic-phase-e'' (Some k) w4
         | None \<Rightarrow>
             let w5 = complete_and_touch e r (upd_run r (\<lambda>q. q\<lparr>rn_output_message_id := Some k\<rparr>) w4);
                 w6 = emit e r ''v1.run.completed''
                        [(''message_id'', JStr k), (''budget'', JObj (snapshot (perf cfg w5) b))] w5
             in (Inr (), commit (observe_run (lb_steps b) ''deterministic-phase-d'' w6)))"

text \<open>From the redacted message on: a submitted form, the wizard, or the fixed answer.\<close>

definition loop_body ::
    "loop_cfg \<Rightarrow> auth_context \<Rightarrow> agent_run \<Rightarrow> loop_budget \<Rightarrow> int \<Rightarrow> string \<Rightarrow> world \<Rightarrow> unit res \<times> world" where
  "loop_body cfg auth run b step content w =
     (let e = cfg_env cfg; r = rn_id run;
          guided = (case get_conversation (rn_conversation_id run) w of
              Some conv \<Rightarrow> cv_kind conv = Some workflow_name | None \<Rightarrow> False)
      in if \<not> guided then loop_answer cfg auth run b step content w
         else case parse_create_pricing_request_submission e (clock e (tick w)) (Some content) of
           Inl exc \<Rightarrow> (Inr (), commit (finalize_tool_error e r ''workflow_payload_invalid'' (exc_text exc) (close_step e step ''error'' w)))
         | Inr (Some args) \<Rightarrow>
             let w1 = step_event ''v1.step.completed'' (lb_steps b) ''model'' [] e r
                        (close_step e step ''completed'' (w\<lparr>tick := Suc (tick w)\<rparr>))
             in propose_tool_call cfg auth r b ''create_quotation'' args ''deterministic-guided-workflow'' None w1
         | Inr None \<Rightarrow>
             if is_generic_create_pricing_request (Some content) then loop_wizard cfg auth run b step w
             else loop_answer cfg auth run b step content w)"

definition start_run_row :: "env \<Rightarrow> string \<Rightarrow> world \<Rightarrow> world" where
  "start_run_row e run_id w = (case utc_now e w of (t1, w1) \<Rightarrow> (case utc_now e w1 of (t2, w2) \<Rightarrow>
     upd_run run_id (\<lambda>r. r\<lparr>rn_status := ''running'', rn_started_at := Some t1, rn_updated_at := t2\<rparr>) w2))"

definition agent_loop_run :: "loop_cfg \<Rightarrow> auth_context \<Rightarrow> string \<Rightarrow> world \<Rightarrow> unit res \<times> world" where
  "agent_loop_run cfg auth run_id w =
     (let e = cfg_env cfg
      in case get_run run_id w of
           None \<Rightarrow> (Inl (ValueError (''Run not found: '' @ run_id)), w)
         | Some run \<Rightarrow>
             if rn_status run = ''cancelled'' then (Inr (), w)
             else
               let w1 = emit e run_id ''v1.run.started'' [] (start_run_row e run_id w)
               in case begin_step (lc_settings cfg) (perf cfg w1) (new_loop_budget (perf cfg w1)) of
                    (Some (cause, message), b) \<Rightarrow> (Inr (), commit (finalize_error cfg run_id b cause message w1))
                  | (None, b) \<Rightarrow>
                      let (step, w2) = open_step e run_id (lb_steps b) ''model'' w1;
                          w3 = step_event ''v1.step.started'' (lb_steps b) ''model'' [] e run_id w2
                      in case Option.bind (rn_input_message_id run) (\<lambda>k. get_message k w3) of
                           None \<Rightarrow> (Inl PyError, w3)
                         | Some msg \<Rightarrow> loop_body cfg auth run b step (rt_text (redact (ms_content msg))) w3)"

end
