(* ===== verification/AgentLoopLaws.thy ===== *)
theory AgentLoopLaws
  imports AgentLoop RunsApi
begin

text \<open>
  What a pass of the deterministic loop may do and where it ends. \<open>loop_frame\<close> bounds what any part
  of it touches, \<open>run_settled\<close> is the state of a run whose client may close its event stream.
\<close>

section \<open>What a pass may touch\<close>

text \<open>Reads of PriceFRAME, rows of this run and of its conversation; no tool call, no other run.\<close>

definition loop_frame :: "string \<Rightarrow> world \<Rightarrow> world \<Rightarrow> bool" where
  "loop_frame r w w' \<longleftrightarrow> only_requests is_get w w' \<and> saved w' = saved w \<and>
     tool_calls (cur w') = tool_calls (cur w) \<and> audit_log (cur w') = audit_log (cur w) \<and>
     conversations (cur w') = conversations (cur w) \<and> idempotency_keys (cur w') = idempotency_keys (cur w) \<and>
     (\<forall>k. k \<noteq> r \<longrightarrow> run_log k (cur w') = run_log k (cur w) \<and> get_run k w' = get_run k w) \<and>
     prefix (run_log r (cur w)) (run_log r (cur w')) \<and> (get_run r w = None \<longleftrightarrow> get_run r w' = None)"

named_theorems loop_steps "steps that keep the frame of a pass"

lemma frame_refl [loop_steps]: "loop_frame r w w"
  by (simp add: loop_frame_def only_requests_def)

lemma frame_trans: "loop_frame r w v \<Longrightarrow> loop_frame r v u \<Longrightarrow> loop_frame r w u"
  unfolding loop_frame_def using only_requests_trans prefix_order.trans by metis

lemma logs_requests: "logs r P w w' \<Longrightarrow> only_requests P w w'"
  by (simp add: logs_def)

lemma frame_logs: "logs r is_get v u \<Longrightarrow> loop_frame r w v \<Longrightarrow> loop_frame r w u"
  by (erule frame_trans) (simp add: loop_frame_def logs_frame logs_lookups logs_other_run logs_prefix logs_requests)

lemma frame_emit [loop_steps]: "loop_frame r w v \<Longrightarrow> loop_frame r w (emit e r ty p v)"
  by (rule frame_logs [OF emit_logs])

lemma frame_run: "(\<And>q. rn_id (f q) = rn_id q) \<Longrightarrow> loop_frame r w v \<Longrightarrow> loop_frame r w (upd_run r f v)"
  by (rule frame_trans, assumption)
    (simp add: loop_frame_def run_rows.get_upd, simp add: upd_run_def in_db_def only_requests_def)

text \<open>A change of the messages, the steps, the drafts or the memory alone, and of the counters.\<close>

lemma frame_rows:
  assumes "loop_frame r w v" and "sent u = sent v" and "saved u = saved v" and "runs (cur u) = runs (cur v)"
    and "run_events (cur u) = run_events (cur v)" and "tool_calls (cur u) = tool_calls (cur v)"
    and "audit_log (cur u) = audit_log (cur v)" and "conversations (cur u) = conversations (cur v)"
    and "idempotency_keys (cur u) = idempotency_keys (cur v)"
  shows "loop_frame r w u"
  by (rule frame_trans [OF assms(1)]) (simp add: loop_frame_def assms only_requests_def run_log_def get_run_def)

lemma frame_parts [loop_steps]:
  "loop_frame r w v \<Longrightarrow> loop_frame r w (snd (open_step e k n kind v))"
  "loop_frame r w v \<Longrightarrow> loop_frame r w (close_step e i st v)"
  "loop_frame r w v \<Longrightarrow> loop_frame r w (snd (assistant_message e run uid content v))"
  "loop_frame r w v \<Longrightarrow> loop_frame r w (snd (seed_draft e c payload v))"
  "loop_frame r w v \<Longrightarrow> loop_frame r w (observe_run n model v)"
  "loop_frame r w v \<Longrightarrow> loop_frame r w (upd_message k f v)"
  "loop_frame r w v \<Longrightarrow> loop_frame r w (v\<lparr>tick := t\<rparr>)"
  by (erule frame_rows; simp add: open_step_def close_step_def assistant_message_def seed_draft_def observe_run_def
      next_row_def utc_now_def new_id_def record_metric_def table_defs Let_def)+

lemma frame_row_changes [loop_steps]:
  "loop_frame r w v \<Longrightarrow> loop_frame r w (touch_run e r v)"
  "loop_frame r w v \<Longrightarrow> loop_frame r w (complete_run e r v)"
  "loop_frame r w v \<Longrightarrow> loop_frame r w (fail_run e r m v)"
  "loop_frame r w v \<Longrightarrow> loop_frame r w (await_decision e r v)"
  "loop_frame r w v \<Longrightarrow> loop_frame r w (start_run_row e r v)"
  "loop_frame r w v \<Longrightarrow> loop_frame r w (upd_run r (\<lambda>q. q\<lparr>rn_output_message_id := x, rn_status := y\<rparr>) v)"
  "loop_frame r w v \<Longrightarrow> loop_frame r w (upd_run r (\<lambda>q. q\<lparr>rn_output_message_id := x\<rparr>) v)"
  by (simp_all add: touch_run_def complete_run_def fail_run_def await_decision_def start_run_row_def utc_now_def frame_run frame_parts)

lemma frame_composed [loop_steps]:
  "loop_frame r w v \<Longrightarrow> loop_frame r w (emit_delta e r k d v)"
  "loop_frame r w v \<Longrightarrow> loop_frame r w (step_event ty n kind extra e r v)"
  "loop_frame r w v \<Longrightarrow> loop_frame r w (complete_and_touch e r v)"
  "loop_frame r w v \<Longrightarrow> loop_frame r w (finalize_error cfg r b c m v)"
  "loop_frame r w v \<Longrightarrow> loop_frame r w (finalize_tool_error e r c m v)"
  "loop_frame r w v \<Longrightarrow> loop_frame r w (finish_wizard e r v)"
  "loop_frame r w v \<Longrightarrow> loop_frame r w (emit_proposed e r k t args v)"
  by (simp_all add: emit_delta_def step_event_def complete_and_touch_def finalize_error_def finalize_tool_error_def
      finish_wizard_def emit_proposed_def Let_def frame_emit frame_row_changes)

lemma frame_memory [loop_steps]: "loop_frame r w v \<Longrightarrow> loop_frame r w (summarize_memory e auth r content v)"
  by (auto simp: summarize_memory_def new_id_def utc_now_def split: option.split
      intro!: frame_emit elim!: frame_rows) (simp_all add: add_memory_def in_db_def)

lemma frame_prompt [loop_steps]: "loop_frame r w v \<Longrightarrow> loop_frame r w (best_effort_prompt e cl auth r ct payload v)"
  by (auto simp: best_effort_prompt_def split: option.split intro: frame_logs [OF emit_next_prompt_logs])

lemma frame_greet [loop_steps]: "rn_id run = r \<Longrightarrow> loop_frame r w v \<Longrightarrow> loop_frame r w (snd (greet e auth run v))"
  by (simp add: greet_def split_def loop_steps)

lemma frame_draft [loop_steps]: "rn_id run = r \<Longrightarrow> loop_frame r w v \<Longrightarrow> loop_frame r w (snd (wizard_draft e run k v))"
  by (auto simp: wizard_draft_def Let_def sbind_def of_opt_def intro!: loop_steps split: option.split sum.split)

section \<open>What a pass may add\<close>

definition proposal_ok :: "pydantic \<Rightarrow> auth_context \<Rightarrow> string \<Rightarrow> agent_tool_call \<Rightarrow> bool" where
  "proposal_ok pyd auth r tc \<longleftrightarrow> tc_run_id tc = r \<and> tc_result tc = None \<and>
     (\<exists>t args parsed. registry_get (tc_tool_name tc) = Some t \<and> has_permission auth (tl_permission t) \<and>
        validate_args pyd (tc_tool_name tc) args = Some parsed \<and> tc_args tc = dump_args parsed \<and>
        tc_requires_approval tc = requires_approval t \<and>
        tc_status tc = (if requires_approval t then ''proposed'' else ''pending''))"

text \<open>Reads only, this run's log only, and at most one new tool call, which waits for its decision.\<close>

definition loop_effect :: "pydantic \<Rightarrow> auth_context \<Rightarrow> string \<Rightarrow> world \<Rightarrow> world \<Rightarrow> bool" where
  "loop_effect pyd auth r w w' \<longleftrightarrow> only_requests is_get w w' \<and> audit_log (cur w') = audit_log (cur w) \<and>
     idempotency_keys (cur w') = idempotency_keys (cur w) \<and>
     (\<forall>k. k \<noteq> r \<longrightarrow> run_log k (cur w') = run_log k (cur w) \<and> get_run k w' = get_run k w) \<and>
     (\<exists>tcs. tool_calls (cur w') = tool_calls (cur w) @ tcs \<and> length tcs \<le> 1 \<and> list_all (proposal_ok pyd auth r) tcs)"

named_theorems effect_steps "steps that keep the effect of a pass"

lemma effect_frame: "loop_frame r w v \<Longrightarrow> loop_effect pyd auth r w v"
  unfolding loop_effect_def loop_frame_def by (intro conjI exI [of _ "[]"]) simp_all

lemma effect_then_frame: "loop_frame r v u \<Longrightarrow> loop_effect pyd auth r w v \<Longrightarrow> loop_effect pyd auth r w u"
  unfolding loop_effect_def loop_frame_def using only_requests_trans by metis

lemma effect_commit [simp]: "loop_effect pyd auth r w (commit v) = loop_effect pyd auth r w v"
  by (simp add: loop_effect_def commit_def only_requests_def get_run_def)

lemma effect_add: "loop_frame r w v \<Longrightarrow> proposal_ok pyd auth r tc \<Longrightarrow> loop_effect pyd auth r w (add_tool_call tc v)"
  unfolding loop_effect_def loop_frame_def
  by (intro conjI exI [of _ "[tc]"]) (simp_all add: only_requests_def table_defs run_log_def)

section \<open>Where a pass ends\<close>

definition settled_pairs :: "(string \<times> string) set" where
  "settled_pairs = {(''completed'', ''v1.run.completed''), (''awaiting_decision'', ''v1.run.awaiting_decision''),
     (''error'', ''v1.run.error'')}"

definition run_settled :: "string \<Rightarrow> db \<Rightarrow> bool" where
  "run_settled r d \<longleftrightarrow> (\<exists>run before ev. row_find rn_id r (runs d) = Some run \<and> run_log r d = before @ [ev] \<and>
     (rn_status run, ev_type ev) \<in> settled_pairs)"

lemma not_None_exE: "x \<noteq> None \<Longrightarrow> (\<And>y. x = Some y \<Longrightarrow> P) \<Longrightarrow> P"
  by blast

lemma settle_emit:
  assumes "get_run r w = Some run" and "(rn_status run, ty) \<in> settled_pairs"
  shows "run_settled r (cur (emit e r ty p w))"
  unfolding run_settled_def
proof (intro exI conjI)
  show "row_find rn_id r (runs (cur (emit e r ty p w))) = Some run"
    using assms(1) by (simp add: frame get_run_def)
  show "run_log r (cur (emit e r ty p w)) = run_log r (cur w) @ [new_event e r ty p w]" by (simp add: run_log_emit)
  show "(rn_status run, ev_type (new_event e r ty p w)) \<in> settled_pairs" using assms(2) by simp
qed

lemma settle_emits:
  assumes "\<exists>run. get_run r w = Some run \<and> rn_status run = st" and "(st, ty) \<in> settled_pairs"
  shows "run_settled r (cur (emit e r ty p w))"
proof -
  from assms(1) obtain run where run: "get_run r w = Some run" and st: "st = rn_status run" by blast
  show ?thesis by (rule settle_emit [OF run assms(2) [unfolded st]])
qed

lemma settled_rows: "runs d' = runs d \<Longrightarrow> run_events d' = run_events d \<Longrightarrow> run_settled r d' = run_settled r d"
  by (simp add: run_settled_def run_log_def)

lemma settled_parts [simp]:
  "run_settled r (cur (commit w)) = run_settled r (cur w)"
  "run_settled r (cur (observe_run n model w)) = run_settled r (cur w)"
  "run_settled r (cur (close_step e i st w)) = run_settled r (cur w)"
  by (rule settled_rows; simp add: commit_def observe_run_def record_metric_def close_step_def utc_now_def upd_step_row_def in_db_def)+

lemma fail_run_get: "get_run r w = Some run \<Longrightarrow> \<exists>run'. get_run r (fail_run e r m w) = Some run' \<and> rn_status run' = ''error''"
  by (auto simp: fail_run_def utc_now_def run_rows.get_upd)

lemma await_get: "get_run r w = Some run \<Longrightarrow> \<exists>run'. get_run r (await_decision e r w) = Some run' \<and> rn_status run' = ''awaiting_decision''"
  by (auto simp: await_decision_def utc_now_def run_rows.get_upd)

lemma complete_and_touch_get: "get_run r w = Some run \<Longrightarrow>
    \<exists>run'. get_run r (complete_and_touch e r w) = Some run' \<and> rn_status run' = ''completed''"
  by (auto simp: complete_and_touch_def touch_run_get complete_run_get)

lemma settled_error: "get_run r w \<noteq> None \<Longrightarrow> run_settled r (cur (finalize_error cfg r b c m w))"
  "get_run r w \<noteq> None \<Longrightarrow> run_settled r (cur (finalize_tool_error e r c m w))"
  unfolding finalize_error_def finalize_tool_error_def Let_def
  by (erule not_None_exE; rule settle_emits, erule fail_run_get, simp add: settled_pairs_def)+

lemma settled_completed: "get_run r w \<noteq> None \<Longrightarrow> run_settled r (cur (emit e' r ''v1.run.completed'' p (complete_and_touch e r w)))"
  by (erule not_None_exE; rule settle_emits, erule complete_and_touch_get, simp add: settled_pairs_def)

lemma settled_wizard: "get_run r w \<noteq> None \<Longrightarrow> run_settled r (cur (finish_wizard e r w))"
  unfolding finish_wizard_def by (rule settled_completed)

section \<open>The parts of a pass\<close>

definition pass_ok :: "pydantic \<Rightarrow> auth_context \<Rightarrow> string \<Rightarrow> world \<Rightarrow> unit res \<times> world \<Rightarrow> bool" where
  "pass_ok pyd auth r w m \<longleftrightarrow> loop_effect pyd auth r w (snd m) \<and>
     (fst m = Inr () \<longrightarrow> saved (snd m) = cur (snd m) \<and> run_settled r (cur (snd m)))"

lemma pass_failed: "loop_frame r w v \<Longrightarrow> pass_ok pyd auth r w (Inl x, v)"
  by (simp add: pass_ok_def effect_frame)

lemma pass_settled: "loop_effect pyd auth r w v \<Longrightarrow> run_settled r (cur v) \<Longrightarrow> pass_ok pyd auth r w (Inr (), commit v)"
  by (simp add: pass_ok_def saved_commit)

lemma pass_framed: "loop_frame r w v \<Longrightarrow> run_settled r (cur v) \<Longrightarrow> pass_ok pyd auth r w (Inr (), commit v)"
  by (simp add: pass_settled effect_frame)

lemma frame_exists: "loop_frame r w v \<Longrightarrow> get_run r w \<noteq> None \<Longrightarrow> get_run r v \<noteq> None"
  by (simp add: loop_frame_def)

lemma pass_errors:
  assumes "loop_frame r w v" and "get_run r w \<noteq> None"
  shows "pass_ok pyd auth r w (Inr (), commit (finalize_error cfg r b c m v))"
    "pass_ok pyd auth r w (Inr (), commit (finalize_tool_error e r c m v))"
  using assms by (auto intro!: pass_framed settled_error dest: frame_exists simp: loop_steps)

text \<open>A proposed call.\<close>

definition proposed_row :: "env \<Rightarrow> string \<Rightarrow> int \<Rightarrow> tool \<Rightarrow> dict \<Rightarrow> world \<Rightarrow> agent_tool_call" where
  "proposed_row e r step t args w = \<lparr>tc_id = fresh_id e (idn w), tc_run_id = r, tc_step_id = Some step, tc_tool_name = tl_name t,
     tc_status = (if requires_approval t then ''proposed'' else ''pending''), tc_args = args, tc_result = None,
     tc_error = None, tc_requires_approval = requires_approval t, tc_audit_log_id = None, tc_approved_at = None,
     tc_rejected_at = None, tc_created_at = clock e (tick w), tc_completed_at = None\<rparr>"

lemma add_proposed_eq: "add_proposed_call e r step t args w = (fresh_id e (idn w),
    add_tool_call (proposed_row e r step t args w) (w\<lparr>idn := Suc (idn w), tick := Suc (tick w)\<rparr>))"
  by (simp add: add_proposed_call_def new_id_def utc_now_def proposed_row_def)

lemma proposed_row_ok:
  assumes "registry_get n = Some t" and "has_permission auth (tl_permission t)" and "validate_args pyd n args = Some parsed"
  shows "proposal_ok pyd auth r (proposed_row e r step t (dump_args parsed) w)"
  using assms registry_get_name [OF assms(1)] by (auto simp: proposal_ok_def proposed_row_def)

lemma add_proposed_effect:
  assumes "registry_get n = Some t" and "has_permission auth (tl_permission t)" and "validate_args pyd n args = Some parsed"
    and "loop_frame r w v"
  shows "loop_effect pyd auth r w (snd (add_proposed_call e r step t (dump_args parsed) v))"
  unfolding add_proposed_eq snd_conv
  by (rule effect_add [OF frame_rows [OF assms(4)] proposed_row_ok [OF assms(1-3)]]) simp_all

text \<open>Everything after the new row is a frame, so its parts chain on the effect.\<close>

lemma effect_chain: "(\<And>v. loop_frame r v (g v)) \<Longrightarrow> loop_effect pyd auth r w v \<Longrightarrow> loop_effect pyd auth r w (g v)"
  using effect_then_frame by blast

lemma after_proposal_frame: "loop_frame r w (after_proposal e r step k t args out w)"
  by (simp add: after_proposal_def Let_def loop_steps)

lemma emit_proposed_get: "get_run k (emit_proposed e r c t args w) = get_run k w"
  by (simp add: emit_proposed_def get_run_emit)

lemma close_step_get: "get_run k (close_step e i st w) = get_run k w"
  by (simp add: close_step_def utc_now_def upd_step_row_def in_db_def get_run_def)

lemma after_proposal_settled: "get_run r w \<noteq> None \<Longrightarrow> run_settled r (cur (after_proposal e r step k t args out w))"
  by (auto simp: after_proposal_def Let_def emit_proposed_get close_step_get touch_run_get run_rows.get_upd await_decision_def utc_now_def
      settled_pairs_def intro!: settle_emits)

lemma propose_ok:
  assumes "loop_frame r w v" and "get_run r w \<noteq> None"
  shows "pass_ok (ap_pyd (lc_api cfg)) auth r w (propose_tool_call cfg auth r b n args model out v)"
proof -
  have ex: "get_run r v \<noteq> None" by (rule frame_exists [OF assms])
  have new: "pass_ok (ap_pyd (lc_api cfg)) auth r w
      (Inr (), commit (observe_run i model (after_proposal e r step k t (dump_args parsed) out u)))"
    if "registry_get n = Some t" "has_permission auth (tl_permission t)" "validate_args (ap_pyd (lc_api cfg)) n args = Some parsed"
      and "add_proposed_call e r step t (dump_args parsed) x = (k, u)" "loop_frame r w x"
    for e step k t parsed u x i
  proof (rule pass_settled)
    have eff: "loop_effect (ap_pyd (lc_api cfg)) auth r w u"
      using add_proposed_effect [OF that(1-3,5), of e step] that(4) by simp
    then show "loop_effect (ap_pyd (lc_api cfg)) auth r w (observe_run i model (after_proposal e r step k t (dump_args parsed) out u))"
      by (intro effect_then_frame [OF frame_parts(5) [OF after_proposal_frame]])
    have "get_run r u = get_run r x" using that(4) by (auto simp: add_proposed_eq add_tool_call_def in_db_def get_run_def)
    then show "run_settled r (cur (observe_run i model (after_proposal e r step k t (dump_args parsed) out u)))"
      using frame_exists [OF that(5) assms(2)] by (simp add: after_proposal_settled)
  qed
  show ?thesis
  proof (cases "record_tool_call (lc_settings cfg) b")
    case (Pair stop b1)
    then show ?thesis using assms ex
      by (auto simp: propose_tool_call_def Let_def split_def prod.collapse pass_failed loop_steps
        intro!: pass_errors new [OF _ _ _ prod.collapse [symmetric]] split: option.split)
  qed
qed

lemma greet_get: "rn_id run = r \<Longrightarrow> get_run r w \<noteq> None \<Longrightarrow> get_run r (snd (greet e auth run w)) \<noteq> None"
  by (rule frame_exists [OF frame_greet [OF _ frame_refl]]) simp_all

lemma wizard_ok:
  assumes "loop_frame r w v" and "get_run r w \<noteq> None" and "rn_id run = r"
  shows "pass_ok pyd auth' r w (loop_wizard cfg auth run b step v)"
proof -
  define e where "e = cfg_env cfg"
  obtain k w1 where g: "greet e auth run v = (k, w1)" by fastforce
  define w2 where "w2 = step_event ''v1.step.completed'' (lb_steps b) ''model'' [] e r (close_step e step ''completed'' w1)"
  have w1: "loop_frame r w w1" using frame_greet [OF assms(3,1), of e auth] g by simp
  then have w2: "loop_frame r w w2" by (simp add: w2_def loop_steps)
  show ?thesis
  proof (cases "wizard_draft e run k w2")
    case (Pair d w3)
    have w3: "loop_frame r w w3" using frame_draft [OF assms(3) w2, of e k] Pair by simp
    show ?thesis
    proof (cases d)
      case (Inl x)
      with w3 Pair show ?thesis by (simp add: loop_wizard_def Let_def assms(3) g Pair flip: e_def w2_def) (rule pass_failed)
    next
      case (Inr cp)
      obtain ct payload where cp: "cp = (ct, payload)" by fastforce
      let ?w4 = "best_effort_prompt e (Some (from_settings e [])) auth r ct payload w3"
      have w4: "loop_frame r w ?w4" by (rule frame_prompt [OF w3])
      have "pass_ok pyd auth' r w (Inr (), commit (observe_run (lb_steps b) ''conversation-v1'' (finish_wizard e r ?w4)))"
        by (rule pass_framed) (simp_all add: loop_steps w4 settled_wizard frame_exists [OF w4 assms(2)])
      then show ?thesis by (simp add: loop_wizard_def Let_def assms(3) g Pair Inr cp flip: e_def w2_def)
    qed
  qed
qed

lemma answer_ok:
  assumes "loop_frame r w v" and "get_run r w \<noteq> None" and "rn_id run = r"
  shows "pass_ok (ap_pyd (lc_api cfg)) auth r w (loop_answer cfg auth run b step content v)"
proof -
  define e where "e = cfg_env cfg"
  define proposal where "proposal = build_tool_proposal (ap_pyd (lc_api cfg)) auth content"
  define answer where "answer = deterministic_response content auth proposal"
  obtain k w1 where m: "assistant_message e run (user_id auth) answer v = (k, w1)" by fastforce
  define w4 where "w4 = summarize_memory e auth r content (step_event ''v1.step.completed'' (lb_steps b) ''model'' [] e r
      (close_step e step ''completed'' (emit_delta e r k answer w1)))"
  have "loop_frame r w w1" using frame_parts(3) [OF assms(1), of e run "user_id auth" answer] m by simp
  then have w4: "loop_frame r w w4" by (simp add: w4_def loop_steps)
  define w5 where "w5 = complete_and_touch e r (upd_run r (\<lambda>q. q\<lparr>rn_output_message_id := Some k\<rparr>) w4)"
  define w6 where "w6 = emit e r ''v1.run.completed''
      [(''message_id'', JStr k), (''budget'', JObj (snapshot (perf cfg w5) b))] w5"
  have w6: "loop_frame r w w6" by (simp add: w6_def w5_def loop_steps w4)
  have "get_run r (upd_run r (\<lambda>q. q\<lparr>rn_output_message_id := Some k\<rparr>) w4) \<noteq> None"
    by (rule frame_exists [OF _ assms(2)]) (simp add: loop_steps w4)
  then have st: "run_settled r (cur w6)" unfolding w6_def w5_def by (rule settled_completed)
  have eq: "loop_answer cfg auth run b step content v = (case proposal of
      Some (n, args) \<Rightarrow> propose_tool_call cfg auth r b n args ''deterministic-phase-e'' (Some k) w4
    | None \<Rightarrow> (Inr (), commit (observe_run (lb_steps b) ''deterministic-phase-d'' w6)))"
    unfolding loop_answer_def Let_def assms(3) e_def [symmetric] proposal_def [symmetric] answer_def [symmetric] m prod.case
      w4_def [symmetric] w5_def [symmetric] w6_def [symmetric] by (rule refl)
  show ?thesis
    by (simp add: eq split: option.split)
      (auto intro!: propose_ok [OF w4 assms(2)] pass_framed simp: loop_steps w6 st)
qed

lemma body_ok:
  assumes "loop_frame r w v" and "get_run r w \<noteq> None" and "rn_id run = r"
  shows "pass_ok (ap_pyd (lc_api cfg)) auth r w (loop_body cfg auth run b step content v)"
  using assms wizard_ok [OF assms] answer_ok [OF assms]
  by (auto simp: loop_body_def Let_def assms(3) loop_steps intro!: propose_ok pass_errors split: sum.split option.split)

lemma run_id_of: "get_run k w = Some run \<Longrightarrow> rn_id run = k"
  by (rule run_rows.get_key)

lemma loop_run_ok:
  assumes "get_run r w = Some run" and "rn_status run \<noteq> ''cancelled''"
  shows "pass_ok (ap_pyd (lc_api cfg)) auth r w (agent_loop_run cfg auth r w)"
proof -
  define w1 where "w1 = emit (cfg_env cfg) r ''v1.run.started'' [] (start_run_row (cfg_env cfg) r w)"
  have w1: "loop_frame r w w1" by (simp add: w1_def loop_steps)
  have ex: "get_run r w \<noteq> None" by (simp add: assms)
  obtain stop b where b: "begin_step (lc_settings cfg) (perf cfg w1) (new_loop_budget (perf cfg w1)) = (stop, b)" by fastforce
  obtain step w2 where s: "open_step (cfg_env cfg) r (lb_steps b) ''model'' w1 = (step, w2)" by fastforce
  define w3 where "w3 = step_event ''v1.step.started'' (lb_steps b) ''model'' [] (cfg_env cfg) r w2"
  have "loop_frame r w w2" using frame_parts(1) [OF w1, of "cfg_env cfg" r "lb_steps b" "''model''"] s by simp
  then have w3: "loop_frame r w w3" by (simp add: w3_def loop_steps)
  show ?thesis
    using body_ok [OF w3 ex run_id_of [OF assms(1)], of cfg auth b step]
    by (auto simp: agent_loop_run_def Let_def assms b s pass_failed [OF w3] simp flip: w1_def w3_def
        intro!: pass_errors [OF w1 ex] split: option.split)
qed

section \<open>A pass that answers\<close>

lemma propose_returns:
  assumes "registry_get n = Some t" and "has_permission auth (tl_permission t)"
    and "validate_args (ap_pyd (lc_api cfg)) n args \<noteq> None"
  shows "fst (propose_tool_call cfg auth r b n args model out v) = Inr ()"
  using assms by (auto simp: propose_tool_call_def Let_def split: prod.split option.split)

lemma proposal_validates:
  assumes "build_tool_proposal pyd auth content = Some (n, args)" and "pydantic_ok pyd"
  obtains t where "registry_get n = Some t" and "has_permission auth (tl_permission t)" and "validate_args pyd n args \<noteq> None"
proof -
  obtain n' d t parsed where "registry_get n' = Some t" "has_permission auth (tl_permission t)" "n = tl_name t"
    "validate_args pyd n' d = Some parsed" "args = dump_args parsed"
    using assms(1) by (auto simp: build_tool_proposal_def split: option.splits prod.splits if_splits)
  then show thesis using that [of t] validate_dump_args [OF assms(2)] registry_get_name by fastforce
qed

lemma answer_returns:
  assumes "pydantic_ok (ap_pyd (lc_api cfg))"
  shows "fst (loop_answer cfg auth run b step content v) = Inr ()"
proof (cases "build_tool_proposal (ap_pyd (lc_api cfg)) auth content")
  case None
  then show ?thesis by (simp add: loop_answer_def Let_def split: prod.split)
next
  case (Some na)
  obtain n args where na: "na = (n, args)" by fastforce
  show ?thesis
    by (rule proposal_validates [OF Some [unfolded na] assms])
      (simp add: loop_answer_def Let_def Some na propose_returns split: prod.split)
qed

lemma opened_rows: "messages (cur (start_run_row e r w)) = messages (cur w)"
  "conversations (cur (start_run_row e r w)) = conversations (cur w)"
  "messages (cur (step_event ty n kind extra e r w)) = messages (cur w)"
  "conversations (cur (step_event ty n kind extra e r w)) = conversations (cur w)"
  "messages (cur (snd (open_step e r n kind w))) = messages (cur w)"
  "conversations (cur (snd (open_step e r n kind w))) = conversations (cur w)"
  by (simp_all add: start_run_row_def step_event_def open_step_def utc_now_def next_row_def upd_run_def add_step_row_def in_db_def
      frame)

lemma loop_run_returns:
  assumes "get_run r w = Some run" and "rn_status run \<noteq> ''cancelled''" and "pydantic_ok (ap_pyd (lc_api cfg))"
    and "rn_input_message_id run = Some k" and "get_message k w \<noteq> None"
    and "\<And>conv. get_conversation (rn_conversation_id run) w = Some conv \<Longrightarrow> cv_kind conv \<noteq> Some workflow_name"
  shows "fst (agent_loop_run cfg auth r w) = Inr ()"
proof -
  have body: "fst (loop_body cfg auth run b step content v) = Inr ()"
    if "get_conversation (rn_conversation_id run) v = get_conversation (rn_conversation_id run) w" for b step content v
    using that assms(6) answer_returns [OF assms(3)] by (auto simp: loop_body_def Let_def split: option.split)
  show ?thesis
    using assms(4,5)
    by (auto simp: agent_loop_run_def Let_def assms(1,2) split_def get_message_def get_conversation_def frame opened_rows
        intro!: body split: option.split)
qed

section \<open>Properties\<close>

lemma loop_run_effect: "loop_effect (ap_pyd (lc_api cfg)) auth r w (snd (agent_loop_run cfg auth r w))"
proof (cases "get_run r w")
  case None
  then show ?thesis by (simp add: agent_loop_run_def Let_def effect_frame frame_refl)
next
  case (Some run)
  then show ?thesis
    using loop_run_ok [OF Some] by (cases "rn_status run = ''cancelled''")
      (simp_all add: pass_ok_def agent_loop_run_def Let_def effect_frame frame_refl)
qed

text \<open>
  C9: the deterministic loop proposes and never executes: whatever the message says and however the
  pass ends, only reads reach PriceFRAME, no audit entry and no event or row of another run appears,
  and at most one tool call is added. That call is of a registered tool the user may use, carries
  arguments its input model accepted and has no result; it is proposed when the tool needs an
  approval and pending otherwise.
\<close>

theorem loop_never_executes:
  assumes "agent_loop_run cfg auth r w = (res, w')"
  shows "only_requests is_get w w' \<and> audit_log (cur w') = audit_log (cur w) \<and>
    (\<forall>k. k \<noteq> r \<longrightarrow> run_log k (cur w') = run_log k (cur w) \<and> get_run k w' = get_run k w) \<and>
    (\<exists>tcs. tool_calls (cur w') = tool_calls (cur w) @ tcs \<and> length tcs \<le> 1 \<and>
       list_all (proposal_ok (ap_pyd (lc_api cfg)) auth r) tcs)"
  using loop_run_effect [of cfg auth r w] unfolding assms snd_conv loop_effect_def by blast

text \<open>
  C10: a pass of the loop that returns leaves a committed run whose status and last event agree
  (completed, waiting for a decision, or failed), so a client that follows the stream is always told
  how it ended. A pass over an ordinary conversation does return whenever the message exists, whatever
  the message says and whatever the budget allows.
\<close>

theorem loop_settles_run:
  assumes "get_run r w = Some run" and "rn_status run \<noteq> ''cancelled''"
  shows "(agent_loop_run cfg auth r w = (Inr (), w') \<longrightarrow> cur w' = saved w' \<and> run_settled r (saved w')) \<and>
    (pydantic_ok (ap_pyd (lc_api cfg)) \<and> (\<exists>k. rn_input_message_id run = Some k \<and> get_message k w \<noteq> None) \<and>
     (\<forall>conv. get_conversation (rn_conversation_id run) w = Some conv \<longrightarrow> cv_kind conv \<noteq> Some workflow_name) \<longrightarrow>
       (\<exists>w'. agent_loop_run cfg auth r w = (Inr (), w')))"
proof -
  have "cur w' = saved w' \<and> run_settled r (saved w')" if "agent_loop_run cfg auth r w = (Inr (), w')"
    using loop_run_ok [OF assms, of cfg auth] that by (simp add: pass_ok_def)
  moreover have "\<exists>w'. agent_loop_run cfg auth r w = (Inr (), w')" if "fst (agent_loop_run cfg auth r w) = Inr ()"
    using that by (cases "agent_loop_run cfg auth r w") simp
  ultimately show ?thesis using loop_run_returns [OF assms] by blast
qed

text \<open>A queued run of the demo user with the message it answers.\<close>

definition loop_demo :: loop_cfg where
  "loop_demo = \<lparr>lc_api = demo_api, lc_settings = \<lparr>max_steps_per_run = 8, max_wall_clock_per_run_s = 60,
     max_input_tokens_per_run = 100000, max_output_tokens_per_run = 20000, max_tool_calls_per_run = 4,
     cost_soft_per_run_usd = Fin 1, cost_hard_per_run_usd = Fin 2\<rparr>, lc_perf = (\<lambda>_. Fin 0)\<rparr>"

definition loop_session :: world where
  "loop_session = session_on (empty_db\<lparr>runs := [(demo_run ''queued'')\<lparr>rn_input_message_id := Some ''m''\<rparr>],
     messages := [\<lparr>ms_id = ''m'', ms_conversation_id = ''c'', ms_user_id = 7, ms_role = ''user'', ms_content = ''remember that fees vary'',
       ms_source = ''user'', ms_run_id = Some ''r'', ms_created_at = 0\<rparr>]\<rparr>)"

lemma loop_session_run: "get_run ''r'' loop_session = Some ((demo_run ''queued'')\<lparr>rn_input_message_id := Some ''m''\<rparr>)"
  by (simp add: get_run_def loop_session_def session_on_def demo_run_def)

theorem loop_settles_run_witness:
  "\<exists>w'. agent_loop_run loop_demo demo_context ''r'' loop_session = (Inr (), w') \<and> cur w' = saved w' \<and> run_settled ''r'' (saved w')"
proof -
  note settles = loop_settles_run [OF loop_session_run, of loop_demo demo_context]
  have "get_message ''m'' loop_session \<noteq> None" by (simp add: get_message_def loop_session_def session_on_def)
  moreover have "get_conversation k loop_session = None" for k
    by (simp add: get_conversation_def loop_session_def session_on_def empty_db_def)
  moreover have "pydantic_ok (ap_pyd (lc_api loop_demo))" by (simp add: loop_demo_def demo_api_def demo_pydantic_ok)
  ultimately have "(agent_loop_run loop_demo demo_context ''r'' loop_session = (Inr (), w') \<longrightarrow>
      cur w' = saved w' \<and> run_settled ''r'' (saved w')) \<and>
    (\<exists>w'. agent_loop_run loop_demo demo_context ''r'' loop_session = (Inr (), w'))" for w'
    using settles [of w'] by (simp add: demo_run_def)
  then show ?thesis by blast
qed

theorem loop_never_executes_witness:
  "\<exists>res w'. agent_loop_run loop_demo demo_context ''r'' loop_session = (res, w') \<and> only_requests is_get loop_session w' \<and>
     run_log ''q'' (cur w') = run_log ''q'' (cur loop_session)"
proof -
  obtain res w' where run: "agent_loop_run loop_demo demo_context ''r'' loop_session = (res, w')" by fastforce
  from loop_never_executes [OF run] run show ?thesis by simp
qed

end
