(* ===== verification/Provider.thy ===== *)
theory Provider
  imports Guided
begin

text \<open>
  The provider router (\<open>provider/base.py\<close>, \<open>provider/factory.py\<close>): providers are tried in priority
  order, one that fails or times out is quarantined, and what a provider has already delivered is
  handed to the consumer before the next one starts over. A provider is a parameter: the events
  it yields for a request and how its stream ends, which may differ from call to call.
\<close>

section \<open>Providers\<close>

record stream_event =
  se_kind :: string
  se_payload :: dict

text \<open>How a stream ends: drained, by a \<open>ProviderError\<close>, by the timeout, or by anything else.\<close>

datatype stream_end = Drained | ProviderFailed string bool | TimedOut string | Crashed

record model_request =
  mq_messages :: "chat_message list"
  mq_tools :: "tool list"
  mq_model :: string
  mq_max_output_tokens :: int

record provider =
  pv_name :: string
  pv_stream :: "nat \<Rightarrow> model_request \<Rightarrow> stream_event list \<times> stream_end"

type_synonym health = "string \<rightharpoonup> int"

text \<open>The epochs of \<open>ProviderHealth\<close> in microseconds; a provider without an entry has epoch 0.\<close>

definition healthy_at :: "health \<Rightarrow> int \<Rightarrow> provider \<Rightarrow> bool" where
  "healthy_at h now p \<longleftrightarrow> (case h (pv_name p) of None \<Rightarrow> 0 | Some t \<Rightarrow> t) \<le> now"

definition healthy_providers :: "env \<Rightarrow> provider list \<Rightarrow> health \<Rightarrow> world \<Rightarrow> provider list \<times> world" where
  "healthy_providers e ps h w = (case utc_now e w of (t, w1) \<Rightarrow> (filter (healthy_at h t) ps, w1))"

definition mark_unhealthy :: "env \<Rightarrow> int \<Rightarrow> string \<Rightarrow> health \<Rightarrow> world \<Rightarrow> health \<times> world" where
  "mark_unhealthy e secs name h w = (case utc_now e w of (t, w1) \<Rightarrow> (h(name \<mapsto> t + secs * 1000000), w1))"

section \<open>The stream of the router\<close>

text \<open>The consumer of the stream works on a value of its own and on the session, event by event.\<close>

type_synonym 's consumer = "stream_event \<Rightarrow> 's \<Rightarrow> world \<Rightarrow> 's res \<times> world"

primrec consume_all :: "'s consumer \<Rightarrow> stream_event list \<Rightarrow> 's \<Rightarrow> world \<Rightarrow> 's res \<times> world" where
  "consume_all f [] s w = (Inr s, w)"
| "consume_all f (ev # evs) s w = (case f ev s w of
      (Inl x, w1) \<Rightarrow> (Inl x, w1) | (Inr s1, w1) \<Rightarrow> consume_all f evs s1 w1)"

definition all_failed :: "(string \<times> string) list \<Rightarrow> exc" where
  "all_failed failures = (if failures = [] then ProviderError ''No healthy provider is available'' True
     else ProviderError (''All providers failed: '' @ str_join ''; '' (map (\<lambda>(n, m). n @ '': '' @ m) failures)) True)"

primrec try_providers ::
    "env \<Rightarrow> int \<Rightarrow> model_request \<Rightarrow> 's consumer \<Rightarrow> provider list \<Rightarrow> (string \<times> string) list \<Rightarrow> health \<Rightarrow> 's \<Rightarrow> world \<Rightarrow>
     's res \<times> health \<times> world" where
  "try_providers e secs rq f [] failures h s w = (Inl (all_failed failures), h, w)"
| "try_providers e secs rq f (p # ps) failures h s w =
     (case pv_stream p (tick w) rq of (evs, fin) \<Rightarrow>
      case consume_all f evs s w of
        (Inl x, w1) \<Rightarrow> (Inl x, h, w1)
      | (Inr s1, w1) \<Rightarrow>
          (case fin of
             Drained \<Rightarrow> (Inr s1, h, w1)
           | Crashed \<Rightarrow> (Inl PyError, h, w1)
           | ProviderFailed m failover \<Rightarrow>
               if \<not> failover then (Inl (ProviderError m False), h, w1)
               else (case mark_unhealthy e secs (pv_name p) h w1 of (h1, w2) \<Rightarrow>
                 try_providers e secs rq f ps (failures @ [(pv_name p, m)]) h1 s1 w2)
           | TimedOut m \<Rightarrow>
               (case mark_unhealthy e secs (pv_name p) h w1 of (h1, w2) \<Rightarrow>
                 try_providers e secs rq f ps (failures @ [(pv_name p, ''timed out: '' @ m)]) h1 s1 w2)))"

definition router_stream ::
    "env \<Rightarrow> int \<Rightarrow> provider list \<Rightarrow> model_request \<Rightarrow> 's consumer \<Rightarrow> health \<Rightarrow> 's \<Rightarrow> world \<Rightarrow> 's res \<times> health \<times> world" where
  "router_stream e secs ps rq f h s w = (case healthy_providers e ps h w of (qs, w1) \<Rightarrow>
     try_providers e secs rq f qs [] h s w1)"

section \<open>The configured router\<close>

record provider_settings =
  gemini_vertex_project :: "string option"
  gemini_developer_api_key :: "string option"
  anthropic_api_key :: "string option"

definition configured :: "string option \<Rightarrow> bool" where
  "configured v \<longleftrightarrow> (case v of None \<Rightarrow> False | Some s \<Rightarrow> s \<noteq> [])"

text \<open>The three adapters are given; \<open>None\<close> when nothing is configured.\<close>

definition build_router :: "provider_settings \<Rightarrow> provider \<Rightarrow> provider \<Rightarrow> provider \<Rightarrow> provider list option" where
  "build_router st vertex aistudio anthropic =
     (let ps = (if configured (gemini_vertex_project st) then [vertex] else []) @
               (if configured (gemini_developer_api_key st) then [aistudio] else []) @
               (if configured (anthropic_api_key st) then [anthropic] else [])
      in if ps = [] then None else Some ps)"

section \<open>What a consumer keeps, the router keeps\<close>

definition router_error :: "exc \<Rightarrow> bool" where
  "router_error x \<longleftrightarrow> (case x of PyError \<Rightarrow> True | ProviderError m fo \<Rightarrow> True | _ \<Rightarrow> False)"

lemma router_error_simps [simp]: "router_error PyError" "router_error (ProviderError m fo)"
  by (simp_all add: router_error_def)

locale stream_consumer =
  fixes f :: "'s consumer" and R :: "world \<Rightarrow> world \<Rightarrow> bool" and J :: "'s \<Rightarrow> bool"
  assumes consumed: "J s \<Longrightarrow> R w (snd (f ev s w)) \<and> (case fst (f ev s w) of Inl x \<Rightarrow> x = PyError | Inr s1 \<Rightarrow> J s1)"
    and stays: "R w w" and follows: "R w v \<Longrightarrow> R v u \<Longrightarrow> R w u" and clock_free: "R w (w\<lparr>tick := t\<rparr>)"
begin

lemma consume_all_keeps:
  "J s \<Longrightarrow> R w (snd (consume_all f evs s w)) \<and>
     (case fst (consume_all f evs s w) of Inl x \<Rightarrow> x = PyError | Inr s1 \<Rightarrow> J s1)"
proof (induction evs arbitrary: s w)
  case Nil
  then show ?case by (simp add: stays)
next
  case (Cons ev evs)
  obtain r w1 where st: "f ev s w = (r, w1)" by fastforce
  show ?case
  proof (cases r)
    case (Inl x)
    then show ?thesis using consumed [OF Cons.prems, of w ev] by (simp add: st)
  next
    case (Inr s1)
    then have "R w w1" and "J s1" using consumed [OF Cons.prems, of w ev] by (simp_all add: st)
    then show ?thesis using Cons.IH [of s1 w1] follows [of w w1] by (simp add: st Inr)
  qed
qed

text \<open>The router itself raises nothing but \<open>ProviderError\<close>s.\<close>

lemma try_keeps:
  "J s \<Longrightarrow> R w (snd (snd (try_providers e secs rq f ps failures h s w))) \<and>
     (case fst (try_providers e secs rq f ps failures h s w) of
        Inl x \<Rightarrow> router_error x | Inr s1 \<Rightarrow> J s1)"
proof (induction ps arbitrary: failures h s w)
  case Nil
  then show ?case by (simp add: stays all_failed_def)
next
  case (Cons p ps)
  obtain evs fin where pv: "pv_stream p (tick w) rq = (evs, fin)" by fastforce
  obtain r w1 where ca: "consume_all f evs s w = (r, w1)" by fastforce
  have keep: "R w w1" and res: "case r of Inl x \<Rightarrow> x = PyError | Inr s1 \<Rightarrow> J s1"
    using consume_all_keeps [OF Cons.prems, of w evs] by (simp_all add: ca)
  show ?case
  proof (cases r)
    case (Inl x)
    then show ?thesis using keep res by (simp add: pv ca)
  next
    case (Inr s1)
    have J: "J s1" using res Inr by simp
    have marked: "R w (w1\<lparr>tick := t\<rparr>)" for t using keep clock_free follows by blast
    have rest: "R w (snd (snd (try_providers e secs rq f ps fs h' s1 (w1\<lparr>tick := t\<rparr>)))) \<and>
        (case fst (try_providers e secs rq f ps fs h' s1 (w1\<lparr>tick := t\<rparr>)) of
           Inl x \<Rightarrow> router_error x | Inr s1 \<Rightarrow> J s1)" for fs h' t
      using Cons.IH [OF J, where w = "w1\<lparr>tick := t\<rparr>" and failures = fs and h = h'] follows [OF marked] by blast
    show ?thesis
      using keep J rest by (cases fin) (simp_all add: pv ca Inr mark_unhealthy_def utc_now_def)
  qed
qed

lemma router_keeps:
  assumes "J s"
  shows "R w (snd (snd (router_stream e secs ps rq f h s w)))"
    and "case fst (router_stream e secs ps rq f h s w) of
        Inl x \<Rightarrow> router_error x | Inr s1 \<Rightarrow> J s1"
  using try_keeps [OF assms, where w = "w\<lparr>tick := Suc (tick w)\<rparr>" and ps = "filter (healthy_at h (clock e (tick w))) ps"]
    follows [OF clock_free]
  by (simp_all add: router_stream_def healthy_providers_def utc_now_def) blast

end

end
