(* ===== verification/ModelRunner.thy ===== *)
theory ModelRunner
  imports AgentLoopLaws Provider
begin

text \<open>
  The model loop (\<open>agent/runner.py\<close>) and the choice between the two loops (\<open>agent/dispatch.py\<close>,
  \<open>agent/history.py\<close>). A turn streams a reply of the provider, announces its text while it arrives,
  runs the tool calls that need no approval and goes round again with their results; a call that
  needs one pauses the run. Readers run in the order they were asked for.
\<close>

record runner_cfg =
  mr_api :: api
  mr_settings :: loop_settings
  mr_perf :: "nat \<Rightarrow> pyfloat"
  mr_providers :: "provider list"
  mr_unhealthy_seconds :: int
  mr_model :: string
  mr_prompt :: "auth_context \<Rightarrow> string"
  mr_client :: "pf_client option"

abbreviation mr_env :: "runner_cfg \<Rightarrow> env" where "mr_env cfg \<equiv> ap_env (mr_api cfg)"

text \<open>The loop configuration of the deterministic loop with the same settings.\<close>

definition loop_part :: "runner_cfg \<Rightarrow> loop_cfg" where
  "loop_part cfg = \<lparr>lc_api = mr_api cfg, lc_settings = mr_settings cfg, lc_perf = mr_perf cfg\<rparr>"

record proposed_call =
  pc_name :: string
  pc_args :: dict
  pc_call_id :: string

record tool_execution_result =
  te_proposal :: proposed_call
  te_output :: dict
  te_risk :: risk

definition build_error_result :: "proposed_call \<Rightarrow> string \<Rightarrow> string \<Rightarrow> tool_execution_result" where
  "build_error_result p cause detail = \<lparr>te_proposal = p,
     te_output = [(''error'', JObj [(''cause'', JStr cause), (''detail'', JStr detail)])], te_risk = READ\<rparr>"

section \<open>Streaming a reply\<close>

text \<open>What one call of the provider has delivered so far, and how many characters were announced.\<close>

record turn =
  tn_proposals :: "proposed_call list"
  tn_text :: string
  tn_usage :: "int \<times> int"
  tn_emitted :: nat

definition new_turn :: turn where
  "new_turn = \<lparr>tn_proposals = [], tn_text = [], tn_usage = (0, 0), tn_emitted = 0\<rparr>"

definition payload_or :: "dict \<Rightarrow> string \<Rightarrow> json \<Rightarrow> json" where
  "payload_or d k dflt = (if d_has d k then d_get d k else dflt)"

definition consume_event :: "env \<Rightarrow> stream_event \<Rightarrow> turn \<Rightarrow> turn option" where
  "consume_event e ev tn = (let p = se_payload ev in
     if se_kind ev = ''text_delta''
     then Some (tn\<lparr>tn_text := tn_text tn @ py_str (float_text e) (payload_or p ''delta'' (JStr []))\<rparr>)
     else if se_kind ev = ''tool_use''
     then if \<not> d_has p ''name'' then None
          else map_option (\<lambda>args. tn\<lparr>tn_proposals := tn_proposals tn @
                 [\<lparr>pc_name = py_str (float_text e) (d_get p ''name''), pc_args = args,
                   pc_call_id = py_str (float_text e) (payload_or p ''call_id'' (JStr []))\<rparr>]\<rparr>)
               (py_dict (payload_or p ''args'' (JObj [])))
     else if se_kind ev = ''usage''
     then (case (py_int (payload_or p ''input_tokens'' (JInt (fst (tn_usage tn)))),
                 py_int (payload_or p ''output_tokens'' (JInt (snd (tn_usage tn))))) of
             (Some i, Some j) \<Rightarrow> Some (tn\<lparr>tn_usage := (i, j)\<rparr>) | _ \<Rightarrow> None)
     else Some tn)"

definition holdback :: nat where "holdback = 64"

definition safe_len :: "nat \<Rightarrow> string \<Rightarrow> nat" where
  "safe_len emitted redacted = max emitted (length redacted - holdback)"

definition emit_now :: "env \<Rightarrow> string \<Rightarrow> string \<Rightarrow> string \<Rightarrow> world \<Rightarrow> world" where
  "emit_now e run_id message_id delta w = commit (emit_delta e run_id message_id delta w)"

definition on_text :: "env \<Rightarrow> string \<Rightarrow> string \<Rightarrow> turn \<Rightarrow> world \<Rightarrow> turn \<times> world" where
  "on_text e run_id message_id tn w =
     (let red = rt_text (redact (tn_text tn)); n = safe_len (tn_emitted tn) red
      in if n \<le> tn_emitted tn then (tn, w)
         else (tn\<lparr>tn_emitted := n\<rparr>, emit_now e run_id message_id (take (n - tn_emitted tn) (drop (tn_emitted tn) red)) w))"

definition on_event :: "env \<Rightarrow> string \<Rightarrow> string \<Rightarrow> turn consumer" where
  "on_event e run_id message_id ev tn w = (case consume_event e ev tn of
      None \<Rightarrow> (Inl PyError, w)
    | Some tn1 \<Rightarrow> if tn_text tn1 \<noteq> tn_text tn then apfst Inr (on_text e run_id message_id tn1 w) else (Inr tn1, w))"

definition finish_stream :: "env \<Rightarrow> string \<Rightarrow> string \<Rightarrow> nat \<Rightarrow> string \<Rightarrow> world \<Rightarrow> world" where
  "finish_stream e run_id message_id emitted final w =
     (if length final > emitted then emit_now e run_id message_id (drop emitted final) w
      else if emitted = 0 then emit_now e run_id message_id [] w
      else w)"

section \<open>The state of a run\<close>

record runner_state =
  rs_budget :: loop_budget
  rs_health :: health
  rs_messages :: "chat_message list"
  rs_recent :: "(string \<times> string) list"

type_synonym 'a step = "runner_state \<Rightarrow> world \<Rightarrow> 'a res \<times> runner_state \<times> world"

definition then_step :: "'a res \<times> runner_state \<times> world \<Rightarrow> ('a \<Rightarrow> 'b step) \<Rightarrow> 'b res \<times> runner_state \<times> world" where
  "then_step m f = (case m of (Inl x, s, w) \<Rightarrow> (Inl x, s, w) | (Inr a, s, w) \<Rightarrow> f a s w)"

definition begin_turn :: "runner_cfg \<Rightarrow> nat step" where
  "begin_turn cfg s w = (case begin_step (mr_settings cfg) (mr_perf cfg (tick w)) (rs_budget s) of
      (Some (cause, m), b) \<Rightarrow> (Inl (BudgetExceededError cause m), s\<lparr>rs_budget := b\<rparr>, w)
    | (None, b) \<Rightarrow> (Inr (lb_steps b), s\<lparr>rs_budget := b\<rparr>, w))"

definition count_tool_call :: "runner_cfg \<Rightarrow> unit step" where
  "count_tool_call cfg s w = (case record_tool_call (mr_settings cfg) (rs_budget s) of
      (Some (cause, m), b) \<Rightarrow> (Inl (BudgetExceededError cause m), s\<lparr>rs_budget := b\<rparr>, w)
    | (None, b) \<Rightarrow> (Inr (), s\<lparr>rs_budget := b\<rparr>, w))"

definition count_usage :: "runner_cfg \<Rightarrow> int \<times> int \<Rightarrow> unit step" where
  "count_usage cfg u s w = (case record_usage (mr_settings cfg) (mr_model cfg) (fst u) (snd u) (rs_budget s) of
      None \<Rightarrow> (Inl PyError, s, w)
    | Some (Some (cause, m), b) \<Rightarrow> (Inl (BudgetExceededError cause m), s\<lparr>rs_budget := b\<rparr>, w)
    | Some (None, b) \<Rightarrow> (Inr (), s\<lparr>rs_budget := b\<rparr>, w))"

definition call_provider :: "runner_cfg \<Rightarrow> auth_context \<Rightarrow> string \<Rightarrow> string \<Rightarrow> turn step" where
  "call_provider cfg auth run_id message_id s w =
     (let rq = \<lparr>mq_messages = rs_messages s, mq_tools = available_for auth, mq_model = mr_model cfg,
               mq_max_output_tokens = max_output_tokens_per_run (mr_settings cfg)\<rparr>
      in case router_stream (mr_env cfg) (mr_unhealthy_seconds cfg) (mr_providers cfg) rq
                (on_event (mr_env cfg) run_id message_id) (rs_health s) new_turn w of
           (r, h, w1) \<Rightarrow> then_step (r, s\<lparr>rs_health := h\<rparr>, w1) (\<lambda>tn s w.
             then_step (count_usage cfg (tn_usage tn) s w) (\<lambda>_ s w. (Inr tn, s, w))))"

section \<open>Loop detection\<close>

definition sig_cfg :: "env \<Rightarrow> dump_cfg" where
  "sig_cfg e = \<lparr>item_sep = '', '', key_sep = '': '', sort_keys = True, ensure_ascii = True, float_repr = float_text e\<rparr>"

definition signature :: "env \<Rightarrow> proposed_call \<Rightarrow> string \<times> string" where
  "signature e p = (pc_name p, dumps (sig_cfg e) (JObj (pc_args p)))"

definition last3 :: "'a list \<Rightarrow> 'a list" where "last3 xs = drop (length xs - 3) xs"

primrec detect_loop :: "env \<Rightarrow> proposed_call list \<Rightarrow> (string \<times> string) list \<Rightarrow> (string \<times> string) list res" where
  "detect_loop e [] recent = Inr recent"
| "detect_loop e (p # ps) recent =
     (let recent' = last3 (recent @ [signature e p])
      in if length recent' = 3 \<and> list_all (\<lambda>x. x = hd recent') recent' then Inl (LoopDetectedError (pc_name p))
         else detect_loop e ps recent')"

section \<open>Running tools\<close>

definition record_tool_failure ::
    "env \<Rightarrow> string \<Rightarrow> proposed_call \<Rightarrow> tool \<Rightarrow> string \<Rightarrow> string \<Rightarrow> string \<Rightarrow> world \<Rightarrow> tool_execution_result \<times> world" where
  "record_tool_failure e run_id p t k cause detail w = (case utc_now e w of (now, w1) \<Rightarrow>
     (build_error_result p cause detail,
      emit e run_id ''v1.tool.error'' [(''tool_call_id'', JStr k), (''tool_name'', JStr (tl_name t)),
          (''cause'', JStr cause), (''detail'', JStr detail)]
        (upd_tool_call k (\<lambda>tc. tc\<lparr>tc_status := ''failed'', tc_error := Some detail, tc_completed_at := Some now\<rparr>) w1)))"

definition record_tool_success ::
    "env \<Rightarrow> string \<Rightarrow> proposed_call \<Rightarrow> tool \<Rightarrow> string \<Rightarrow> dict \<Rightarrow> world \<Rightarrow> tool_execution_result \<times> world" where
  "record_tool_success e run_id p t k dumped w = (case utc_now e w of (now, w1) \<Rightarrow>
     let projected = project_for_model (tl_name t) dumped in
     (\<lparr>te_proposal = p, te_output = projected, te_risk = tl_risk t\<rparr>,
      emit e run_id ''v1.tool.completed'' [(''tool_call_id'', JStr k), (''result'', JObj projected)]
        (upd_tool_call k (\<lambda>tc. tc\<lparr>tc_status := ''succeeded'', tc_result := Some dumped, tc_completed_at := Some now\<rparr>) w1)))"

definition execute_one ::
    "runner_cfg \<Rightarrow> auth_context \<Rightarrow> string \<Rightarrow> proposed_call \<Rightarrow> tool \<Rightarrow> string \<Rightarrow> tool_input \<Rightarrow> world \<Rightarrow>
     tool_execution_result res \<times> world" where
  "execute_one cfg auth run_id p t k parsed w = (let e = mr_env cfg in
     case mr_client cfg of
       None \<Rightarrow> (Inl (ProviderError ''PriceFrameClient is required to execute tools'' True), w)
     | Some c \<Rightarrow>
         (case execute e c auth t parsed (emit e run_id ''v1.tool.started'' [(''tool_call_id'', JStr k), (''tool_name'', JStr (tl_name t))] w) of
            (Inl (PriceFrameError kd m st), w1) \<Rightarrow> apfst Inr (record_tool_failure e run_id p t k ''priceframe_error'' m w1)
          | (Inl (ValueError m), w1) \<Rightarrow> apfst Inr (record_tool_failure e run_id p t k ''tool_validation_error'' m w1)
          | (Inl x, w1) \<Rightarrow> (Inl x, w1)
          | (Inr dumped, w1) \<Rightarrow> apfst Inr (record_tool_success e run_id p t k dumped w1)))"

text \<open>The calls of one reply that are ready to run, with the tool-call row each has.\<close>

record ready_calls =
  rc_readers :: "(proposed_call \<times> tool \<times> string \<times> tool_input) list"
  rc_writers :: "(proposed_call \<times> tool \<times> string \<times> dict) list"
  rc_errors :: "tool_execution_result list"

definition add_error :: "proposed_call \<Rightarrow> string \<Rightarrow> string \<Rightarrow> ready_calls \<Rightarrow> ready_calls" where
  "add_error p cause detail rc = rc\<lparr>rc_errors := rc_errors rc @ [build_error_result p cause detail]\<rparr>"

definition add_ready :: "proposed_call \<Rightarrow> tool \<Rightarrow> string \<Rightarrow> tool_input \<Rightarrow> ready_calls \<Rightarrow> ready_calls" where
  "add_ready p t k parsed rc = (if tl_risk t = READ then rc\<lparr>rc_readers := rc_readers rc @ [(p, t, k, parsed)]\<rparr>
     else rc\<lparr>rc_writers := rc_writers rc @ [(p, t, k, dump_args parsed)]\<rparr>)"

definition unknown_detail :: "string \<Rightarrow> string" where
  "unknown_detail n = ''Tool '' @ quoted n @ '' is not registered or not available to this user.''"

definition pause_for :: "env \<Rightarrow> string \<Rightarrow> int \<Rightarrow> string \<Rightarrow> world \<Rightarrow> world" where
  "pause_for e run_id step k w = emit e run_id ''v1.run.awaiting_decision'' [(''tool_call_id'', JStr k)]
     (await_decision e run_id (close_step e step ''awaiting_decision'' w))"

text \<open>\<open>None\<close> when a call that needs an approval has paused the run.\<close>

primrec sort_calls ::
    "runner_cfg \<Rightarrow> auth_context \<Rightarrow> string \<Rightarrow> proposed_call list \<Rightarrow> ready_calls \<Rightarrow> ready_calls option step" where
  "sort_calls cfg auth run_id [] rc s w = (Inr (Some rc), s, w)"
| "sort_calls cfg auth run_id (p # ps) rc s w = (let e = mr_env cfg in
     case registry_get (pc_name p) of
       None \<Rightarrow> sort_calls cfg auth run_id ps (add_error p ''unknown_tool'' (unknown_detail (pc_name p)) rc) s
                (emit e run_id ''v1.tool.error'' [(''cause'', JStr ''unknown_tool''), (''name'', JStr (pc_name p))] w)
     | Some t \<Rightarrow>
         (case validate_args (ap_pyd (mr_api cfg)) (pc_name p) (pc_args p) of
            None \<Rightarrow> sort_calls cfg auth run_id ps (add_error p ''schema_validation_failed'' [] rc) s
                (emit e run_id ''v1.tool.error'' [(''cause'', JStr ''schema_validation_failed''), (''name'', JStr (pc_name p)),
                   (''detail'', JStr [])] w)
          | Some parsed \<Rightarrow> then_step (count_tool_call cfg s w) (\<lambda>_ s w.
              let (step, w1) = open_step e run_id (lb_steps (rs_budget s)) ''tool_call'' w;
                  (k, w2) = add_proposed_call e run_id step t (dump_args parsed) w1;
                  w3 = emit_proposed e run_id k t (dump_args parsed) w2
              in if requires_approval t then (Inr None, s, pause_for e run_id step k w3)
                 else sort_calls cfg auth run_id ps (add_ready p t k parsed rc) s w3)))"

primrec run_readers ::
    "runner_cfg \<Rightarrow> auth_context \<Rightarrow> string \<Rightarrow> (proposed_call \<times> tool \<times> string \<times> tool_input) list \<Rightarrow> world \<Rightarrow>
     tool_execution_result list res \<times> world" where
  "run_readers cfg auth run_id [] w = (Inr [], w)"
| "run_readers cfg auth run_id (c # cs) w = (case c of (p, t, k, parsed) \<Rightarrow>
     sbind (execute_one cfg auth run_id p t k parsed w) (\<lambda>r w.
     sbind (run_readers cfg auth run_id cs w) (\<lambda>rs w. (Inr (r # rs), w))))"

primrec run_writers ::
    "runner_cfg \<Rightarrow> auth_context \<Rightarrow> string \<Rightarrow> (proposed_call \<times> tool \<times> string \<times> dict) list \<Rightarrow> world \<Rightarrow>
     tool_execution_result list res \<times> world" where
  "run_writers cfg auth run_id [] w = (Inr [], w)"
| "run_writers cfg auth run_id (c # cs) w = (case c of (p, t, k, args) \<Rightarrow>
     (case validate_args (ap_pyd (mr_api cfg)) (tl_name t) args of
        None \<Rightarrow> (Inl (ValueError []), w)
      | Some parsed \<Rightarrow>
          sbind (execute_one cfg auth run_id p t k parsed w) (\<lambda>r w.
          sbind (run_writers cfg auth run_id cs w) (\<lambda>rs w. (Inr (r # rs), w)))))"

definition dispatch_proposals ::
    "runner_cfg \<Rightarrow> auth_context \<Rightarrow> string \<Rightarrow> proposed_call list \<Rightarrow> tool_execution_result list option step" where
  "dispatch_proposals cfg auth run_id ps s w =
     then_step (sort_calls cfg auth run_id ps \<lparr>rc_readers = [], rc_writers = [], rc_errors = []\<rparr> s w) (\<lambda>rc s w.
       case rc of
         None \<Rightarrow> (Inr None, s, w)
       | Some rc \<Rightarrow>
           (case sbind (run_readers cfg auth run_id (rc_readers rc) w) (\<lambda>rs w.
                 sbind (run_writers cfg auth run_id (rc_writers rc) w) (\<lambda>ws w. (Inr (rc_errors rc @ rs @ ws), w))) of
              (r, w1) \<Rightarrow> (map_sum id Some r, s, w1)))"

definition tool_message :: "env \<Rightarrow> tool_execution_result \<Rightarrow> chat_message" where
  "tool_message e r = \<lparr>cm_role = ''tool'', cm_content = [\<lparr>cb_type = ''tool_result'', cb_payload =
     [(''tool_call_id'', JStr (pc_call_id (te_proposal r))),
      (''wrapped'', JStr (wrap_tool_output (float_text e) (pc_name (te_proposal r)) (pc_call_id (te_proposal r)) (JObj (te_output r))))]\<rparr>]\<rparr>"

section \<open>A turn of the loop\<close>

definition store_text :: "env \<Rightarrow> string \<Rightarrow> string \<Rightarrow> turn \<Rightarrow> world \<Rightarrow> world" where
  "store_text e run_id message_id tn w =
     (if tn_text tn = [] then del_message message_id w
      else let final = rt_text (redact (tn_text tn))
           in upd_run run_id (\<lambda>r. r\<lparr>rn_output_message_id := Some message_id\<rparr>)
                (finish_stream e run_id message_id (tn_emitted tn) final
                  (upd_message message_id (\<lambda>m. m\<lparr>ms_content := final\<rparr>) w)))"

definition complete_model_run :: "runner_cfg \<Rightarrow> string \<Rightarrow> loop_budget \<Rightarrow> world \<Rightarrow> world" where
  "complete_model_run cfg run_id b w = (let w1 = complete_and_touch (mr_env cfg) run_id w
     in commit (emit (mr_env cfg) run_id ''v1.run.completed'' [(''budget'', JObj (snapshot (mr_perf cfg (tick w1)) b))] w1))"

definition usage_payload :: "int \<times> int \<Rightarrow> dict" where
  "usage_payload u = [(''usage'', JObj [(''input_tokens'', JInt (fst u)), (''output_tokens'', JInt (snd u))])]"

text \<open>Whether the loop is left: the reply asked for no tool, or a call has paused the run.\<close>

definition after_reply :: "runner_cfg \<Rightarrow> auth_context \<Rightarrow> string \<Rightarrow> proposed_call list \<Rightarrow> bool step" where
  "after_reply cfg auth run_id ps s w =
     (if ps = [] then (Inr True, s, complete_model_run cfg run_id (rs_budget s) w)
      else case detect_loop (mr_env cfg) ps (rs_recent s) of
        Inl x \<Rightarrow> (Inl x, s, w)
      | Inr recent \<Rightarrow> then_step (dispatch_proposals cfg auth run_id ps (s\<lparr>rs_recent := recent\<rparr>) w) (\<lambda>rs s w.
          case rs of
            None \<Rightarrow> (Inr True, s, commit w)
          | Some rs \<Rightarrow> (Inr False, s\<lparr>rs_messages := rs_messages s @ map (tool_message (mr_env cfg)) rs\<rparr>, w)))"

definition model_turn :: "runner_cfg \<Rightarrow> auth_context \<Rightarrow> agent_run \<Rightarrow> bool step" where
  "model_turn cfg auth run s w = (let e = mr_env cfg; r = rn_id run in
     then_step (begin_turn cfg s w) (\<lambda>n s w.
       case open_step e r n ''model_call'' w of (step, w1) \<Rightarrow>
       case assistant_message e run (user_id auth) [] (step_event ''v1.step.started'' n ''model_call'' [] e r w1) of (k, w2) \<Rightarrow>
       then_step (call_provider cfg auth r k s w2) (\<lambda>tn s w.
         after_reply cfg auth r (tn_proposals tn) s
           (step_event ''v1.step.completed'' n ''model_call'' (usage_payload (tn_usage tn)) e r
             (close_step e step ''completed'' (store_text e r k tn w))))))"

text \<open>Every turn that goes on has used up a step of the budget.\<close>

abbreviation steps_of :: "'a res \<times> runner_state \<times> world \<Rightarrow> nat" where "steps_of m \<equiv> lb_steps (rs_budget (fst (snd m)))"

lemma then_step_steps:
  assumes "steps_of m = n" and "\<And>a s w. m = (Inr a, s, w) \<Longrightarrow> steps_of (f a s w) = lb_steps (rs_budget s)"
  shows "steps_of (then_step m f) = n"
proof (cases m)
  case (fields r s w)
  with assms show ?thesis by (cases r) (auto simp: then_step_def)
qed

lemma count_steps [simp]: "steps_of (count_tool_call cfg s w) = lb_steps (rs_budget s)"
  "steps_of (count_usage cfg u s w) = lb_steps (rs_budget s)"
  by (auto simp: count_tool_call_def count_usage_def record_tool_call_def record_usage_def Let_def split: prod.splits if_splits option.splits)

lemma sort_calls_steps [simp]: "steps_of (sort_calls cfg auth r ps rc s w) = lb_steps (rs_budget s)"
proof (induction ps arbitrary: rc s w)
  case (Cons p ps)
  then show ?case
    by (auto simp: Let_def split_def split: option.splits intro!: then_step_steps)
qed simp

lemma dispatch_steps [simp]: "steps_of (dispatch_proposals cfg auth r ps s w) = lb_steps (rs_budget s)"
  unfolding dispatch_proposals_def by (rule then_step_steps) (auto split: option.splits prod.splits)

lemma call_provider_steps [simp]: "steps_of (call_provider cfg auth r k s w) = lb_steps (rs_budget s)"
  unfolding call_provider_def Let_def
  by (auto split: prod.splits intro!: then_step_steps)

lemma after_reply_steps [simp]: "steps_of (after_reply cfg auth r ps s w) = lb_steps (rs_budget s)"
  by (auto simp: after_reply_def split: sum.splits option.splits intro!: then_step_steps)

lemma begin_turn_steps: "begin_turn cfg s w = (Inr n, s1, w1) \<Longrightarrow>
    int (lb_steps (rs_budget s)) < max_steps_per_run (mr_settings cfg) \<and> lb_steps (rs_budget s1) = Suc (lb_steps (rs_budget s)) \<and>
    n = Suc (lb_steps (rs_budget s)) \<and> w1 = w"
  by (auto simp: begin_turn_def begin_step_def split: if_splits)

lemma model_turn_steps:
  assumes "model_turn cfg auth run s w = (Inr x, s2, w2)"
  shows "int (lb_steps (rs_budget s)) < max_steps_per_run (mr_settings cfg) \<and> lb_steps (rs_budget s2) = Suc (lb_steps (rs_budget s))"
proof (cases "begin_turn cfg s w")
  case (fields r s1 w1)
  show ?thesis
  proof (cases r)
    case (Inl y)
    with assms fields show ?thesis by (simp add: model_turn_def Let_def then_step_def)
  next
    case (Inr n)
    have "steps_of (model_turn cfg auth run s w) = lb_steps (rs_budget s1)"
      by (auto simp: model_turn_def Let_def then_step_def [of "(Inr n, s1, w1)"] fields Inr split_def intro!: then_step_steps)
    with begin_turn_steps [OF fields [unfolded Inr]] assms show ?thesis by simp
  qed
qed

section \<open>The loop\<close>

function model_loop :: "runner_cfg \<Rightarrow> auth_context \<Rightarrow> agent_run \<Rightarrow> unit step" where
  "model_loop cfg auth run s w = (case model_turn cfg auth run s w of
      (Inl x, s1, w1) \<Rightarrow> (Inl x, s1, w1)
    | (Inr True, s1, w1) \<Rightarrow> (Inr (), s1, w1)
    | (Inr False, s1, w1) \<Rightarrow> model_loop cfg auth run s1 w1)"
  by pat_completeness auto

termination
  by (relation "measure (\<lambda>(cfg, a, run, s, w). nat (max_steps_per_run (mr_settings cfg) - int (lb_steps (rs_budget s))))")
    (auto dest!: model_turn_steps [OF sym])

declare model_loop.simps [simp del]

text \<open>The exceptions that end a run as failed; any other leaves the run as it is.\<close>

definition failed_run :: "runner_cfg \<Rightarrow> string \<Rightarrow> loop_budget \<Rightarrow> string \<Rightarrow> string \<Rightarrow> world \<Rightarrow> unit res \<times> world" where
  "failed_run cfg run_id b cause m w = (Inr (), commit (finalize_error (loop_part cfg) run_id b cause m w))"

definition end_run :: "runner_cfg \<Rightarrow> string \<Rightarrow> unit res \<times> runner_state \<times> world \<Rightarrow> unit res \<times> world" where
  "end_run cfg run_id m = (case m of
      (Inr u, s, w) \<Rightarrow> (Inr u, w)
    | (Inl (BudgetExceededError cause msg), s, w) \<Rightarrow> failed_run cfg run_id (rs_budget s) cause msg w
    | (Inl (LoopDetectedError n), s, w) \<Rightarrow> failed_run cfg run_id (rs_budget s) ''loop_detected'' (''loop detected on tool '' @ n) w
    | (Inl (ProviderError msg fo), s, w) \<Rightarrow> failed_run cfg run_id (rs_budget s) ''provider_error'' msg w
    | (Inl x, s, w) \<Rightarrow> (Inl x, w))"

section \<open>Guided conversations\<close>

text \<open>\<open>run.started_at = run.started_at or utc_now()\<close>.\<close>

definition mark_started :: "env \<Rightarrow> string \<Rightarrow> world \<Rightarrow> world" where
  "mark_started e run_id w = (case get_run run_id w of
      Some r \<Rightarrow> if rn_started_at r = None
                then (case utc_now e w of (t, w1) \<Rightarrow> upd_run run_id (\<lambda>r. r\<lparr>rn_started_at := Some t\<rparr>) w1) else w
    | None \<Rightarrow> w)"

definition request_create_pricing_inputs :: "runner_cfg \<Rightarrow> auth_context \<Rightarrow> agent_run \<Rightarrow> world \<Rightarrow> unit res \<times> world" where
  "request_create_pricing_inputs cfg auth run w =
     (let e = mr_env cfg
      in case greet e auth run (mark_started e (rn_id run) w) of (k, w1) \<Rightarrow>
         sbind (wizard_draft e run k w1) (\<lambda>(ct, payload) w2.
           (Inr (), commit (finish_wizard e (rn_id run)
                      (best_effort_prompt e (mr_client cfg) auth (rn_id run) ct payload w2)))))"

definition propose_guided_create_quotation :: "runner_cfg \<Rightarrow> agent_run \<Rightarrow> dict \<Rightarrow> world \<Rightarrow> unit res \<times> world" where
  "propose_guided_create_quotation cfg run args w =
     (let e = mr_env cfg; r = rn_id run; w = mark_started e r w
      in case registry_get ''create_quotation'' of
           None \<Rightarrow> (Inl (ProviderError ''create_quotation tool is not registered'' True), w)
         | Some t \<Rightarrow>
             (case validate_args (ap_pyd (mr_api cfg)) ''create_quotation'' args of
                None \<Rightarrow> (Inl (ValueError []), w)
              | Some parsed \<Rightarrow>
                  let (step, w1) = open_step e r 1 ''tool_call'' w;
                      (k, w2) = add_proposed_call e r step t (dump_args parsed) w1;
                      w3 = pause_for e r step k (emit_proposed e r k t (dump_args parsed) w2)
                  in (Inr (), commit w3)))"

section \<open>A run\<close>

definition system_message :: "runner_cfg \<Rightarrow> auth_context \<Rightarrow> chat_message" where
  "system_message cfg auth = \<lparr>cm_role = ''system'', cm_content = [\<lparr>cb_type = ''text'', cb_payload = [(''text'', JStr (mr_prompt cfg auth))]\<rparr>]\<rparr>"

definition opening_messages :: "runner_cfg \<Rightarrow> auth_context \<Rightarrow> bool \<Rightarrow> chat_message list \<Rightarrow> chat_message list" where
  "opening_messages cfg auth guided history =
     (if guided \<or> history = [] then system_message cfg auth # history else history)"

definition fresh_state :: "runner_cfg \<Rightarrow> chat_message list \<Rightarrow> world \<Rightarrow> runner_state" where
  "fresh_state cfg msgs w = \<lparr>rs_budget = new_loop_budget (mr_perf cfg (tick w)), rs_health = Map.empty, rs_messages = msgs, rs_recent = []\<rparr>"

definition model_run :: "runner_cfg \<Rightarrow> auth_context \<Rightarrow> agent_run \<Rightarrow> chat_message list \<Rightarrow> world \<Rightarrow> unit res \<times> world" where
  "model_run cfg auth run history w =
     (let e = mr_env cfg; r = rn_id run;
          guided = (case get_conversation (rn_conversation_id run) w of
              Some conv \<Rightarrow> cv_kind conv = Some workflow_name | None \<Rightarrow> False);
          msgs = opening_messages cfg auth guided history;
          s = fresh_state cfg msgs w
      in if \<not> guided then end_run cfg r (model_loop cfg auth run s w)
         else case parse_create_pricing_request_submission e (clock e (tick w)) (latest_user_text msgs) of
           Inl exc \<Rightarrow> failed_run cfg r (rs_budget s) ''workflow_payload_invalid'' (exc_text exc) w
         | Inr (Some args) \<Rightarrow> propose_guided_create_quotation cfg run args (w\<lparr>tick := Suc (tick w)\<rparr>)
         | Inr None \<Rightarrow>
             if is_generic_create_pricing_request (latest_user_text msgs) then request_create_pricing_inputs cfg auth run w
             else end_run cfg r (model_loop cfg auth run s w))"

section \<open>History and dispatch\<close>

definition recent_messages :: "string \<Rightarrow> nat \<Rightarrow> db \<Rightarrow> agent_message list" where
  "recent_messages c limit d = rev (take limit (rev (sort_key ms_created_at (filter (\<lambda>m. ms_conversation_id m = c) (messages d)))))"

definition text_message :: "string \<Rightarrow> string \<Rightarrow> chat_message" where
  "text_message role text = \<lparr>cm_role = role, cm_content = [\<lparr>cb_type = ''text'', cb_payload = [(''text'', JStr text)]\<rparr>]\<rparr>"

definition load_history :: "string \<Rightarrow> nat \<Rightarrow> db \<Rightarrow> chat_message list" where
  "load_history c limit d = map (\<lambda>m. text_message (ms_role m) (ms_content m))
     (filter (\<lambda>m. ms_role m = ''user'' \<or> ms_role m = ''assistant'') (recent_messages c limit d))"

text \<open>The deterministic loop without a provider, the model loop with the configured ones.\<close>

definition execute_run :: "runner_cfg \<Rightarrow> provider list option \<Rightarrow> auth_context \<Rightarrow> string \<Rightarrow> world \<Rightarrow> unit res \<times> world" where
  "execute_run cfg router auth run_id w = (case router of
      None \<Rightarrow> agent_loop_run (loop_part cfg) auth run_id w
    | Some ps \<Rightarrow>
        (case get_run run_id w of
           None \<Rightarrow> (Inl (ValueError (''Run not found: '' @ run_id)), w)
         | Some run \<Rightarrow>
             model_run (cfg\<lparr>mr_providers := ps, mr_client := Some (from_settings (mr_env cfg) [])\<rparr>) auth run
               (load_history (rn_conversation_id run) 50 (cur w)) w))"

end
