(* ===== verification/ModelRunnerLaws.thy ===== *)
theory ModelRunnerLaws
  imports ModelRunner
begin

text \<open>
  What a run of the model loop may do, whatever the provider says (\<open>runner_frame\<close>), and that a
  run that returns has settled.
\<close>

section \<open>What a run may touch\<close>

definition runner_frame :: "string \<Rightarrow> world \<Rightarrow> world \<Rightarrow> bool" where
  "runner_frame r w w' \<longleftrightarrow> only_requests harmless w w' \<and> audit_log (cur w') = audit_log (cur w) \<and>
     idempotency_keys (cur w') = idempotency_keys (cur w) \<and>
     (\<forall>k. k \<noteq> r \<longrightarrow> run_log k (cur w') = run_log k (cur w) \<and> get_run k w' = get_run k w) \<and>
     prefix (run_log r (cur w)) (run_log r (cur w')) \<and> (get_run r w = None \<longleftrightarrow> get_run r w' = None)"

named_theorems run_steps_ok "steps that keep the frame of a model run"

lemma runner_refl [run_steps_ok]: "runner_frame r w w"
  by (simp add: runner_frame_def)

lemma runner_trans: "runner_frame r w v \<Longrightarrow> runner_frame r v u \<Longrightarrow> runner_frame r w u"
  unfolding runner_frame_def using only_requests_trans prefix_order.trans by metis

lemma get_harmless: "only_requests is_get w v \<Longrightarrow> only_requests harmless w v"
  by (auto simp: only_requests_def list_all_iff is_get_def harmless_def)

lemma runner_loop: "runner_frame r w v \<Longrightarrow> loop_frame r v u \<Longrightarrow> runner_frame r w u"
  by (erule runner_trans) (simp add: loop_frame_def runner_frame_def get_harmless)

lemma runner_commit [run_steps_ok]: "runner_frame r w v \<Longrightarrow> runner_frame r w (commit v)"
  by (erule runner_trans) (simp add: runner_frame_def commit_def only_requests_def get_run_def)

text \<open>A change of rows other than runs, events and audit entries, or of the counters.\<close>

lemma runner_rows:
  assumes "runner_frame r w v" and "sent u = sent v" and "runs (cur u) = runs (cur v)"
    and "run_events (cur u) = run_events (cur v)" and "audit_log (cur u) = audit_log (cur v)"
    and "idempotency_keys (cur u) = idempotency_keys (cur v)"
  shows "runner_frame r w u"
  by (rule runner_trans [OF assms(1)]) (simp add: runner_frame_def assms only_requests_def run_log_def get_run_def)

lemma runner_of_loop [run_steps_ok]:
  "runner_frame r w v \<Longrightarrow> runner_frame r w (emit e r ty p v)"
  "runner_frame r w v \<Longrightarrow> runner_frame r w (snd (open_step e k n kind v))"
  "runner_frame r w v \<Longrightarrow> runner_frame r w (close_step e i st v)"
  "runner_frame r w v \<Longrightarrow> runner_frame r w (snd (assistant_message e run uid content v))"
  "runner_frame r w v \<Longrightarrow> runner_frame r w (upd_message k f v)"
  "runner_frame r w v \<Longrightarrow> runner_frame r w (v\<lparr>tick := t\<rparr>)"
  "runner_frame r w v \<Longrightarrow> runner_frame r w (await_decision e r v)"
  "runner_frame r w v \<Longrightarrow> runner_frame r w (emit_delta e r k d v)"
  "runner_frame r w v \<Longrightarrow> runner_frame r w (step_event ty n kind extra e r v)"
  "runner_frame r w v \<Longrightarrow> runner_frame r w (complete_and_touch e r v)"
  "runner_frame r w v \<Longrightarrow> runner_frame r w (finalize_error lcfg r b c m v)"
  "runner_frame r w v \<Longrightarrow> runner_frame r w (finish_wizard e r v)"
  "runner_frame r w v \<Longrightarrow> runner_frame r w (emit_proposed e r k tool args v)"
  "runner_frame r w v \<Longrightarrow> runner_frame r w (best_effort_prompt e cl auth r ct payload v)"
  "runner_frame r w v \<Longrightarrow> runner_frame r w (upd_run r (\<lambda>q. q\<lparr>rn_output_message_id := x\<rparr>) v)"
  by (erule runner_loop; simp add: loop_steps)+

lemma runner_new_rows [run_steps_ok]:
  "runner_frame r w v \<Longrightarrow> runner_frame r w (upd_tool_call k g v)"
  "runner_frame r w v \<Longrightarrow> runner_frame r w (snd (add_proposed_call e r' step t args v))"
  "runner_frame r w v \<Longrightarrow> runner_frame r w (del_message k v)"
  by (erule runner_rows; simp add: add_proposed_eq table_defs)+

lemma runner_started [run_steps_ok]: "runner_frame r w v \<Longrightarrow> runner_frame r w (mark_started e r v)"
  by (erule runner_loop)
    (simp add: mark_started_def utc_now_def loop_steps frame_run split: option.split)

lemma runner_composed [run_steps_ok]:
  "runner_frame r w v \<Longrightarrow> runner_frame r w (emit_now e r k d v)"
  "runner_frame r w v \<Longrightarrow> runner_frame r w (pause_for e r step k v)"
  "runner_frame r w v \<Longrightarrow> runner_frame r w (complete_model_run cfg r b v)"
  by (simp_all add: emit_now_def pause_for_def complete_model_run_def Let_def run_steps_ok)

lemma runner_finish [run_steps_ok]:
  "runner_frame r w v \<Longrightarrow> runner_frame r w (finish_stream e r k n final v)"
  "runner_frame r w v \<Longrightarrow> runner_frame r w (store_text e r k tn v)"
  by (simp_all add: finish_stream_def store_text_def Let_def run_steps_ok)

lemma runner_then:
  assumes "runner_frame r w (snd (snd m))"
    and "\<And>a s v. m = (Inr a, s, v) \<Longrightarrow> runner_frame r w v \<Longrightarrow> runner_frame r w (snd (snd (f a s v)))"
  shows "runner_frame r w (snd (snd (then_step m f)))"
proof (cases m)
  case (fields x s v)
  with assms show ?thesis by (cases x) (simp_all add: then_step_def)
qed

lemma runner_sbind:
  assumes "runner_frame r w (snd m)" and "\<And>a v. m = (Inr a, v) \<Longrightarrow> runner_frame r w v \<Longrightarrow> runner_frame r w (snd (f a v))"
  shows "runner_frame r w (snd (sbind m f))"
proof (cases m)
  case (Pair x v)
  with assms show ?thesis by (cases x) (simp_all add: sbind_def)
qed

section \<open>The parts of a turn\<close>

interpretation streaming: stream_consumer "on_event e r k" "runner_frame r" "\<lambda>_. True" for e r k
proof (unfold_locales, goal_cases)
  case (1 tn w ev)
  show ?case
    by (auto simp: on_event_def on_text_def Let_def run_steps_ok split: option.split)
next
  case 2 then show ?case by (rule runner_refl)
next
  case 3 then show ?case by (rule runner_trans)
next
  case 4 then show ?case by (simp add: run_steps_ok)
qed

lemma counting_world [simp]: "snd (snd (count_tool_call cfg s w)) = w" "snd (snd (count_usage cfg u s w)) = w"
  by (auto simp: count_tool_call_def count_usage_def split: prod.splits option.splits)

lemma begin_turn_world [simp]: "snd (snd (begin_turn cfg s w)) = w"
  by (auto simp: begin_turn_def split: prod.splits option.splits)

lemma call_provider_ok:
  assumes "runner_frame r w v"
  shows "runner_frame r w (snd (snd (call_provider cfg auth r k s v)))"
proof -
  define rq where "rq = \<lparr>mq_messages = rs_messages s, mq_tools = available_for auth, mq_model = mr_model cfg,
      mq_max_output_tokens = max_output_tokens_per_run (mr_settings cfg)\<rparr>"
  obtain x h v1 where st: "router_stream (mr_env cfg) (mr_unhealthy_seconds cfg) (mr_providers cfg) rq
      (on_event (mr_env cfg) r k) (rs_health s) new_turn v = (x, h, v1)" using prod_cases3 by blast
  have "runner_frame r v (snd (snd (router_stream (mr_env cfg) (mr_unhealthy_seconds cfg) (mr_providers cfg) rq
      (on_event (mr_env cfg) r k) (rs_health s) new_turn v)))"
    by (rule streaming.router_keeps(1)) simp
  with assms have v1: "runner_frame r w v1" unfolding st snd_conv by (rule runner_trans)
  show ?thesis
    unfolding call_provider_def Let_def rq_def [symmetric] st prod.case
    by (rule runner_then) (auto intro!: runner_then simp: v1)
qed

lemma execute_automatic:
  assumes "registry_get n = Some t" and "\<not> requires_approval t" and "validate_args pyd n d = Some a"
  shows "only_requests harmless w (snd (execute e c auth t a w))"
proof -
  have "tl_name t = n" using registry_get_SomeD [OF assms(1)] by simp
  then show ?thesis
    using calls_once_requests [OF automatic_body_harmless [OF validate_args_shape [OF assms(3)] automatic_tools [OF assms(1,2)]]]
    by (simp add: execute_def)
qed

lemma execute_one_ok:
  assumes "runner_frame r w v" and "registry_get n = Some t" and "\<not> requires_approval t"
    and "validate_args pyd n d = Some parsed"
  shows "runner_frame r w (snd (execute_one cfg auth r p t k parsed v))"
proof (cases "mr_client cfg")
  case None
  then show ?thesis using assms(1) by (simp add: execute_one_def Let_def)
next
  case (Some c)
  define v0 where "v0 = emit (mr_env cfg) r ''v1.tool.started'' [(''tool_call_id'', JStr k), (''tool_name'', JStr (tl_name t))] v"
  obtain x v1 where ex: "execute (mr_env cfg) c auth t parsed v0 = (x, v1)" by fastforce
  have "only_sends v0 (snd (execute (mr_env cfg) c auth t parsed v0))" by (rule priceframe_tools.reach)
  then have "only_sends v0 v1" by (simp add: ex)
  moreover have "only_requests harmless v0 v1" using execute_automatic [OF assms(2-4), of v0 "mr_env cfg" c auth] ex by simp
  ultimately have "runner_frame r v0 v1"
    by (simp add: runner_frame_def only_sends_def get_run_def)
  moreover have "runner_frame r w v0" by (simp add: v0_def run_steps_ok assms(1))
  ultimately have v1: "runner_frame r w v1" by (rule runner_trans [rotated])
  have recorded: "runner_frame r w (snd (record_tool_failure e r p t k cause detail v1))"
    "runner_frame r w (snd (record_tool_success e r p t k dumped v1))" for e cause detail dumped
    by (simp_all add: record_tool_failure_def record_tool_success_def utc_now_def Let_def run_steps_ok v1)
  show ?thesis
    using recorded v1 by (simp add: execute_one_def Let_def Some ex flip: v0_def split: sum.split exc.split)
qed

text \<open>The calls that are ready to run need no approval and passed their input model.\<close>

definition automatic_call :: "pydantic \<Rightarrow> tool \<Rightarrow> bool" where
  "automatic_call pyd t \<longleftrightarrow> registry_get (tl_name t) = Some t \<and> \<not> requires_approval t"

definition ready_ok :: "pydantic \<Rightarrow> ready_calls \<Rightarrow> bool" where
  "ready_ok pyd rc \<longleftrightarrow> (\<forall>(p, t, k, parsed) \<in> set (rc_readers rc). automatic_call pyd t \<and>
       (\<exists>d. validate_args pyd (tl_name t) d = Some parsed)) \<and>
     (\<forall>(p, t, k, args) \<in> set (rc_writers rc). automatic_call pyd t)"

definition announced :: "env \<Rightarrow> string \<Rightarrow> nat \<Rightarrow> tool \<Rightarrow> dict \<Rightarrow> world \<Rightarrow> world" where
  "announced e r n t args v = (case open_step e r n ''tool_call'' v of (st, w1) \<Rightarrow>
     (case add_proposed_call e r st t args w1 of (k, w2) \<Rightarrow> emit_proposed e r k t args w2))"

lemma announced_ok [run_steps_ok]: "runner_frame r w v \<Longrightarrow> runner_frame r w (announced e r n t args v)"
  by (simp add: announced_def split_def run_steps_ok)

text \<open>A tool call is counted below the ceiling, or it stops the run.\<close>

definition counted_call :: "runner_cfg \<Rightarrow> runner_state \<Rightarrow> runner_state \<Rightarrow> bool" where
  "counted_call cfg s s1 \<longleftrightarrow> lb_tool_calls (rs_budget s1) = Suc (lb_tool_calls (rs_budget s)) \<and>
     lb_steps (rs_budget s1) = lb_steps (rs_budget s) \<and> int (lb_tool_calls (rs_budget s)) < max_tool_calls_per_run (mr_settings cfg)"

lemma count_call_cases:
  obtains (stopped) y s1 where "count_tool_call cfg s w = (Inl y, s1, w)" and "rs_budget s1 = rs_budget s"
  | (counted) s1 where "count_tool_call cfg s w = (Inr (), s1, w)" and "counted_call cfg s s1"
  by (cases "int (lb_tool_calls (rs_budget s)) \<ge> max_tool_calls_per_run (mr_settings cfg)")
    (auto simp: count_tool_call_def record_tool_call_def counted_call_def)

text \<open>What becomes of the first call of a reply.\<close>

lemma sort_calls_Cons:
  obtains (failed) cause detail ty pl where "sort_calls cfg auth r (p # ps) rc s v =
      sort_calls cfg auth r ps (add_error p cause detail rc) s (emit (mr_env cfg) r ty pl v)"
  | (stopped) y s1 where "sort_calls cfg auth r (p # ps) rc s v = (Inl y, s1, v)" and "rs_budget s1 = rs_budget s"
  | (paused) t args s1 n st k where "counted_call cfg s s1" and "sort_calls cfg auth r (p # ps) rc s v =
      (Inr None, s1, pause_for (mr_env cfg) r st k (announced (mr_env cfg) r n t args v))"
  | (ready) t parsed s1 n k where "registry_get (pc_name p) = Some t" and "\<not> requires_approval t"
      and "validate_args (ap_pyd (mr_api cfg)) (pc_name p) (pc_args p) = Some parsed"
      and "counted_call cfg s s1" and "sort_calls cfg auth r (p # ps) rc s v =
        sort_calls cfg auth r ps (add_ready p t k parsed rc) s1 (announced (mr_env cfg) r n t (dump_args parsed) v)"
proof (cases "registry_get (pc_name p)")
  case None
  then show thesis by (intro failed) (simp add: Let_def)
next
  case t: (Some t)
  show thesis
  proof (cases "validate_args (ap_pyd (mr_api cfg)) (pc_name p) (pc_args p)")
    case None
    with t show thesis by (intro failed) (simp add: Let_def)
  next
    case parsed: (Some parsed)
    show thesis
    proof (cases rule: count_call_cases [of cfg s v])
      case ct: (stopped y s1)
      show thesis by (rule stopped [OF _ ct(2)]) (simp add: Let_def t parsed ct(1) then_step_def)
    next
      case ct: (counted s1)
      let ?n = "lb_steps (rs_budget s1)"
      obtain st v1 where os: "open_step (mr_env cfg) r ?n ''tool_call'' v = (st, v1)" by fastforce
      obtain k v2 where ap: "add_proposed_call (mr_env cfg) r st t (dump_args parsed) v1 = (k, v2)" by fastforce
      have an: "announced (mr_env cfg) r ?n t (dump_args parsed) v = emit_proposed (mr_env cfg) r k t (dump_args parsed) v2"
        by (simp add: announced_def os ap)
      have eq: "sort_calls cfg auth r (p # ps) rc s v = (if requires_approval t
          then (Inr None, s1, pause_for (mr_env cfg) r st k (announced (mr_env cfg) r ?n t (dump_args parsed) v))
          else sort_calls cfg auth r ps (add_ready p t k parsed rc) s1 (announced (mr_env cfg) r ?n t (dump_args parsed) v))"
        unfolding sort_calls.simps Let_def t parsed option.case ct(1) then_step_def prod.case sum.case os ap an by (rule refl)
      show thesis
      proof (cases "requires_approval t")
        case True
        then show thesis using eq by (intro paused [OF ct(2)]) simp
      next
        case False
        then show thesis using eq by (intro ready [OF t False parsed ct(2)]) simp
      qed
    qed
  qed
qed

lemma sort_calls_ok:
  assumes "runner_frame r w v" and "ready_ok (ap_pyd (mr_api cfg)) rc"
  shows "runner_frame r w (snd (snd (sort_calls cfg auth r ps rc s v))) \<and>
    (\<forall>rc' s'. sort_calls cfg auth r ps rc s v = (Inr (Some rc'), s', snd (snd (sort_calls cfg auth r ps rc s v))) \<longrightarrow>
       ready_ok (ap_pyd (mr_api cfg)) rc')"
  using assms
proof (induction ps arbitrary: rc s v)
  case (Cons p ps)
  show ?case
  proof (cases rule: sort_calls_Cons [of cfg auth r p ps rc s v])
    case (failed cause detail ty pl)
    have "ready_ok (ap_pyd (mr_api cfg)) (add_error p cause detail rc)" using Cons.prems(2) by (simp add: add_error_def ready_ok_def)
    then show ?thesis unfolding failed by (intro Cons.IH) (simp_all add: run_steps_ok Cons.prems(1))
  next
    case (stopped y s1)
    then show ?thesis using Cons.prems(1) by simp
  next
    case (paused t args s1 n st k)
    then show ?thesis using Cons.prems(1) by (simp add: run_steps_ok)
  next
    case (ready t parsed s1 n k)
    have "ready_ok (ap_pyd (mr_api cfg)) (add_ready p t k parsed rc)"
      using Cons.prems(2) ready(1-3) registry_get_name [OF ready(1)] by (auto simp: ready_ok_def add_ready_def automatic_call_def)
    then show ?thesis unfolding ready(5) by (intro Cons.IH) (simp_all add: run_steps_ok Cons.prems(1))
  qed
qed simp

lemma run_readers_ok:
  assumes "\<forall>(p, t, k, parsed) \<in> set cs. automatic_call pyd t \<and> (\<exists>d. validate_args pyd (tl_name t) d = Some parsed)"
    and "runner_frame r w v"
  shows "runner_frame r w (snd (run_readers cfg auth r cs v))"
  using assms
proof (induction cs arbitrary: v)
  case (Cons c cs)
  obtain p t k parsed where c: "c = (p, t, k, parsed)" using prod_cases4 by blast
  obtain d where t: "registry_get (tl_name t) = Some t" "\<not> requires_approval t" "validate_args pyd (tl_name t) d = Some parsed"
    using Cons.prems(1) by (auto simp: c automatic_call_def)
  show ?case
    unfolding run_readers.simps c prod.case
    using Cons.IH Cons.prems(1)
    by (intro runner_sbind execute_one_ok [OF Cons.prems(2) t]) auto
qed simp

lemma run_writers_ok:
  assumes "\<forall>(p, t, k, args) \<in> set cs. automatic_call (ap_pyd (mr_api cfg)) t" and "runner_frame r w v"
  shows "runner_frame r w (snd (run_writers cfg auth r cs v))"
  using assms
proof (induction cs arbitrary: v)
  case (Cons c cs)
  obtain p t k args where c: "c = (p, t, k, args)" using prod_cases4 by blast
  have t: "registry_get (tl_name t) = Some t" "\<not> requires_approval t"
    using Cons.prems(1) by (auto simp: c automatic_call_def)
  show ?case
  proof (cases "validate_args (ap_pyd (mr_api cfg)) (tl_name t) args")
    case None
    then show ?thesis using Cons.prems(2) by (simp add: c)
  next
    case (Some parsed)
    show ?thesis
      unfolding run_writers.simps c prod.case Some option.case
      using Cons.IH Cons.prems(1)
      by (intro runner_sbind execute_one_ok [OF Cons.prems(2) t Some]) auto
  qed
qed simp

lemma dispatch_ok:
  assumes "runner_frame r w v"
  shows "runner_frame r w (snd (snd (dispatch_proposals cfg auth r ps s v)))"
proof -
  let ?rc = "\<lparr>rc_readers = [], rc_writers = [], rc_errors = []\<rparr> :: ready_calls"
  have e: "ready_ok (ap_pyd (mr_api cfg)) ?rc" by (simp add: ready_ok_def)
  obtain x s1 v1 where sc: "sort_calls cfg auth r ps ?rc s v = (x, s1, v1)" using prod_cases3 by blast
  have v1: "runner_frame r w v1" and ok: "x = Inr (Some rc) \<Longrightarrow> ready_ok (ap_pyd (mr_api cfg)) rc" for rc
    using sort_calls_ok [OF assms e, of auth ps s] by (simp_all add: sc)
  have run: "runner_frame r w (snd (sbind (run_readers cfg auth r (rc_readers rc) v1) (\<lambda>rs w.
                 sbind (run_writers cfg auth r (rc_writers rc) w) (\<lambda>ws w. (Inr (rc_errors rc @ rs @ ws), w)))))"
    if "x = Inr (Some rc)" for rc
    using ok [OF that] v1 unfolding ready_ok_def
    by (intro runner_sbind run_readers_ok [of _ "ap_pyd (mr_api cfg)"] run_writers_ok) auto
  show ?thesis
    unfolding dispatch_proposals_def sc
    by (rule runner_then) (auto simp: v1 run split_def split: option.split)
qed

lemma after_reply_ok:
  assumes "runner_frame r w v"
  shows "runner_frame r w (snd (snd (after_reply cfg auth r ps s v)))"
  unfolding after_reply_def
  by (auto split: sum.split option.split intro!: runner_then dispatch_ok simp: assms run_steps_ok)

lemma model_turn_ok:
  assumes "runner_frame (rn_id run) w v"
  shows "runner_frame (rn_id run) w (snd (snd (model_turn cfg auth run s v)))"
  unfolding model_turn_def Let_def split_def
  by (intro runner_then call_provider_ok after_reply_ok) (simp_all add: assms run_steps_ok)

lemma model_loop_ok:
  "runner_frame (rn_id run) w v \<Longrightarrow> runner_frame (rn_id run) w (snd (snd (model_loop cfg auth run s v)))"
proof (induction cfg auth run s v rule: model_loop.induct)
  case (1 cfg auth run s v)
  obtain x s1 v1 where t: "model_turn cfg auth run s v = (x, s1, v1)" using prod_cases3 by blast
  have v1: "runner_frame (rn_id run) w v1" using model_turn_ok [OF 1(2), of cfg auth s] by (simp add: t)
  show ?case
    using v1 1(1) [OF t [symmetric] _ _ refl v1] by (auto simp: model_loop.simps [of cfg auth run s v] t split: sum.split bool.split)
qed

lemma failed_run_ok: "runner_frame r w v \<Longrightarrow> runner_frame r w (snd (failed_run cfg r b c m v))"
  by (simp add: failed_run_def run_steps_ok)

lemma end_run_ok: "runner_frame r w (snd (snd m)) \<Longrightarrow> runner_frame r w (snd (end_run cfg r m))"
  by (auto simp: end_run_def failed_run_ok split: prod.split sum.split exc.split)

lemma greet_ok: "runner_frame (rn_id run) w v \<Longrightarrow> runner_frame (rn_id run) w (snd (greet e auth run v))"
  by (erule runner_loop) (simp add: loop_steps)

lemma wizard_draft_ok: "runner_frame (rn_id run) w v \<Longrightarrow> runner_frame (rn_id run) w (snd (wizard_draft e run k v))"
  by (erule runner_loop) (simp add: loop_steps)

lemma request_inputs_ok:
  assumes "runner_frame (rn_id run) w v"
  shows "runner_frame (rn_id run) w (snd (request_create_pricing_inputs cfg auth run v))"
  unfolding request_create_pricing_inputs_def Let_def split_def
  by (intro runner_sbind wizard_draft_ok greet_ok) (auto simp: run_steps_ok assms)

lemma propose_guided_ok:
  assumes "runner_frame (rn_id run) w v"
  shows "runner_frame (rn_id run) w (snd (propose_guided_create_quotation cfg run args v))"
  using assms by (auto simp: propose_guided_create_quotation_def Let_def split_def run_steps_ok split: option.split)

lemma model_run_ok: "runner_frame (rn_id run) w (snd (model_run cfg auth run history w))"
  by (auto simp: model_run_def Let_def run_steps_ok split: sum.split option.split
      intro!: end_run_ok model_loop_ok failed_run_ok request_inputs_ok propose_guided_ok)

section \<open>Where a run ends\<close>

definition run_done :: "string \<Rightarrow> unit res \<times> world \<Rightarrow> bool" where
  "run_done r m \<longleftrightarrow> (fst m = Inr () \<longrightarrow> saved (snd m) = cur (snd m) \<and> run_settled r (cur (snd m)))"

lemma runner_exists: "runner_frame r w v \<Longrightarrow> get_run r w \<noteq> None \<Longrightarrow> get_run r v \<noteq> None"
  by (simp add: runner_frame_def)

lemma paused_settled: "get_run r v \<noteq> None \<Longrightarrow> run_settled r (cur (pause_for e r step k v))"
  unfolding pause_for_def
  by (erule not_None_exE; rule settle_emits, rule await_get, simp add: close_step_get, simp add: settled_pairs_def)

lemma completed_settled: "get_run r v \<noteq> None \<Longrightarrow> run_settled r (cur (complete_model_run cfg r b v))"
  by (simp add: complete_model_run_def Let_def settled_completed)

text \<open>A pause leaves the run waiting; what comes after in the reply is not looked at.\<close>

lemma sort_calls_paused:
  assumes "sort_calls cfg auth r ps rc s v = (Inr None, s1, v1)" and "get_run r v \<noteq> None"
  shows "run_settled r (cur v1)"
  using assms
proof (induction ps arbitrary: rc s v)
  case (Cons p ps)
  have new: "get_run r (announced e r n t args v) \<noteq> None" for e n t args
    by (rule runner_exists [OF announced_ok [OF runner_refl] Cons.prems(2)])
  show ?case
  proof (cases rule: sort_calls_Cons [of cfg auth r p ps rc s v])
    case (failed cause detail ty pl)
    then show ?thesis using Cons by (simp add: get_run_emit)
  next
    case (stopped y s1)
    with Cons.prems(1) show ?thesis by simp
  next
    case (paused t args s1 n st k)
    with Cons.prems(1) show ?thesis using paused_settled [OF new] by simp
  next
    case (ready t parsed s1 n k)
    with Cons.prems(1) show ?thesis by (intro Cons.IH [OF _ new]) simp
  qed
qed simp

lemma then_stepE:
  assumes "then_step m f = (Inr b, s2, w2)"
  obtains a s1 w1 where "m = (Inr a, s1, w1)" and "f a s1 w1 = (Inr b, s2, w2)"
  using assms by (auto simp: then_step_def split: prod.splits sum.splits)

definition left_settled :: "string \<Rightarrow> world \<Rightarrow> bool" where
  "left_settled r w \<longleftrightarrow> saved w = cur w \<and> run_settled r (cur w)"

lemma settled_commit: "run_settled r (cur w) \<Longrightarrow> left_settled r (commit w)"
  by (simp add: left_settled_def saved_commit)

lemma map_sum_Some [simp]: "map_sum f Some x \<noteq> Inr None"
  by (cases x) simp_all

lemma dispatch_paused:
  assumes "dispatch_proposals cfg auth r ps s v = (Inr None, s1, v1)" and "get_run r v \<noteq> None"
  shows "run_settled r (cur v1)"
  using assms(1) unfolding dispatch_proposals_def
  by (rule then_stepE) (auto split: option.splits prod.splits sum.splits intro: sort_calls_paused [OF _ assms(2)])

lemma complete_left: "get_run r v \<noteq> None \<Longrightarrow> left_settled r (complete_model_run cfg r b v)"
  unfolding complete_model_run_def Let_def by (rule settled_commit) (rule settled_completed)

lemma after_reply_left:
  assumes "after_reply cfg auth r ps s v = (Inr True, s1, v1)" and "get_run r v \<noteq> None"
  shows "left_settled r v1"
proof (cases "ps = []")
  case True
  with assms show ?thesis by (auto simp: after_reply_def complete_left)
next
  case False
  then obtain recent where "detect_loop (mr_env cfg) ps (rs_recent s) = Inr recent"
    using assms(1) by (auto simp: after_reply_def split: sum.splits)
  with False assms(1) have "then_step (dispatch_proposals cfg auth r ps (s\<lparr>rs_recent := recent\<rparr>) v) (\<lambda>rs s w.
      case rs of None \<Rightarrow> (Inr True, s, commit w)
      | Some rs \<Rightarrow> (Inr False, s\<lparr>rs_messages := rs_messages s @ map (tool_message (mr_env cfg)) rs\<rparr>, w)) = (Inr True, s1, v1)"
    by (simp add: after_reply_def)
  then show ?thesis
    by (rule then_stepE) (auto split: option.splits intro: settled_commit dispatch_paused [OF _ assms(2)])
qed

lemma model_turn_left:
  assumes "model_turn cfg auth run s v = (Inr True, s1, v1)" and "get_run (rn_id run) v \<noteq> None"
  shows "left_settled (rn_id run) v1"
  using assms(1) unfolding model_turn_def Let_def split_def
proof (rule then_stepE)
  fix n s0 w0
  let ?w1 = "snd (assistant_message (mr_env cfg) run (user_id auth) [] (step_event ''v1.step.started'' n ''model_call'' [] (mr_env cfg)
      (rn_id run) (snd (open_step (mr_env cfg) (rn_id run) n ''model_call'' w0))))"
  let ?k = "fst (assistant_message (mr_env cfg) run (user_id auth) [] (step_event ''v1.step.started'' n ''model_call'' [] (mr_env cfg)
      (rn_id run) (snd (open_step (mr_env cfg) (rn_id run) n ''model_call'' w0))))"
  let ?i = "fst (open_step (mr_env cfg) (rn_id run) n ''model_call'' w0)"
  assume bt: "begin_turn cfg s v = (Inr n, s0, w0)"
    and rest: "then_step (call_provider cfg auth (rn_id run) ?k s0 ?w1) (\<lambda>tn s w. after_reply cfg auth (rn_id run) (tn_proposals tn) s
        (step_event ''v1.step.completed'' n ''model_call'' (usage_payload (tn_usage tn)) (mr_env cfg) (rn_id run)
          (close_step (mr_env cfg) ?i ''completed'' (store_text (mr_env cfg) (rn_id run) ?k tn w)))) = (Inr True, s1, v1)"
  have "w0 = v" using begin_turn_world [of cfg s v] by (simp add: bt)
  then have w1: "runner_frame (rn_id run) v ?w1" by (simp add: run_steps_ok)
  from rest show ?thesis
  proof (rule then_stepE)
    fix tn s2 w2
    assume cp: "call_provider cfg auth (rn_id run) ?k s0 ?w1 = (Inr tn, s2, w2)"
      and ar: "after_reply cfg auth (rn_id run) (tn_proposals tn) s2
        (step_event ''v1.step.completed'' n ''model_call'' (usage_payload (tn_usage tn)) (mr_env cfg) (rn_id run)
          (close_step (mr_env cfg) ?i ''completed'' (store_text (mr_env cfg) (rn_id run) ?k tn w2))) = (Inr True, s1, v1)"
    have "runner_frame (rn_id run) v w2" using call_provider_ok [OF w1, of cfg auth ?k s0] cp by simp
    then have "get_run (rn_id run) (step_event ''v1.step.completed'' n ''model_call'' (usage_payload (tn_usage tn)) (mr_env cfg) (rn_id run)
          (close_step (mr_env cfg) ?i ''completed'' (store_text (mr_env cfg) (rn_id run) ?k tn w2))) \<noteq> None"
      by (intro runner_exists [OF _ assms(2)]) (simp add: run_steps_ok)
    with ar show ?thesis by (rule after_reply_left)
  qed
qed

lemma model_loop_left:
  "model_loop cfg auth run s v = (Inr (), s1, v1) \<Longrightarrow> get_run (rn_id run) v \<noteq> None \<Longrightarrow> left_settled (rn_id run) v1"
proof (induction cfg auth run s v rule: model_loop.induct)
  case (1 cfg auth run s v)
  obtain x s2 v2 where t: "model_turn cfg auth run s v = (x, s2, v2)" using prod_cases3 by blast
  have v2: "get_run (rn_id run) v2 \<noteq> None"
    using runner_exists [OF model_turn_ok [OF runner_refl] 1(3), of cfg auth s] by (simp add: t)
  show ?case
    using 1(2) 1(1) [OF t [symmetric] _ _ refl _ v2] model_turn_left [of cfg auth run s v] 1(3)
    by (auto simp: model_loop.simps [of cfg auth run s v] t split: sum.splits bool.splits)
qed

lemma failed_left: "get_run r w \<noteq> None \<Longrightarrow> left_settled r (snd (failed_run cfg r b c m w))"
  by (simp add: failed_run_def settled_commit settled_error)

lemma end_run_left:
  assumes "end_run cfg (rn_id run) (model_loop cfg auth run s v) = (Inr (), v')" and "get_run (rn_id run) v \<noteq> None"
  shows "left_settled (rn_id run) v'"
proof -
  obtain x s1 v1 where m: "model_loop cfg auth run s v = (x, s1, v1)" using prod_cases3 by blast
  have v1: "get_run (rn_id run) v1 \<noteq> None"
    using runner_exists [OF model_loop_ok [OF runner_refl] assms(2), of cfg auth s] by (simp add: m)
  have f: "left_settled (rn_id run) u" if "failed_run cfg (rn_id run) b c msg v1 = (y, u)" for b c msg y u
    using failed_left [OF v1, of cfg b c msg] that by simp
  show ?thesis
    using assms m model_loop_left [of cfg auth run s v]
    by (auto simp: end_run_def split: sum.splits exc.splits intro: f)
qed

lemma request_inputs_left:
  assumes "request_create_pricing_inputs cfg auth run v = (Inr (), v')" and "get_run (rn_id run) v \<noteq> None"
  shows "left_settled (rn_id run) v'"
proof -
  have eq: "sbind m f = (Inr (), v') \<Longrightarrow> \<exists>a w1. m = (Inr a, w1) \<and> f a w1 = (Inr (), v')" for m and f :: "json \<times> dict \<Rightarrow> world \<Rightarrow> unit res \<times> world"
    by (auto simp: sbind_def split: prod.splits sum.splits)
  define g where "g = greet (mr_env cfg) auth run (mark_started (mr_env cfg) (rn_id run) v)"
  obtain ct payload w2 where wd: "wizard_draft (mr_env cfg) run (fst g) (snd g) = (Inr (ct, payload), w2)"
    and v': "v' = commit (finish_wizard (mr_env cfg) (rn_id run) (best_effort_prompt (mr_env cfg) (mr_client cfg) auth (rn_id run) ct payload w2))"
    using assms(1) by (auto simp: request_create_pricing_inputs_def Let_def split_def g_def dest!: eq)
  have "runner_frame (rn_id run) v (snd g)" by (simp add: g_def greet_ok run_steps_ok)
  from wizard_draft_ok [OF this, of "mr_env cfg" "fst g"] have "runner_frame (rn_id run) v w2" by (simp add: wd)
  then have "get_run (rn_id run) (best_effort_prompt (mr_env cfg) (mr_client cfg) auth (rn_id run) ct payload w2) \<noteq> None"
    by (intro runner_exists [OF _ assms(2)]) (simp add: run_steps_ok)
  then show ?thesis unfolding v' by (intro settled_commit settled_wizard)
qed

lemma propose_guided_left:
  assumes "propose_guided_create_quotation cfg run args v = (Inr (), v')" and "get_run (rn_id run) v \<noteq> None"
  shows "left_settled (rn_id run) v'"
proof -
  let ?w = "mark_started (mr_env cfg) (rn_id run) v"
  have ex: "get_run (rn_id run) (emit_proposed e (rn_id run) k t a (snd (add_proposed_call e (rn_id run) st t a
      (snd (open_step e (rn_id run) n kd ?w))))) \<noteq> None" for e k t a st n kd
    by (rule runner_exists [OF _ assms(2)]) (simp add: run_steps_ok)
  show ?thesis
    using assms(1) by (auto simp: propose_guided_create_quotation_def Let_def split_def split: option.splits
      intro!: settled_commit paused_settled ex)
qed

lemma model_run_left:
  assumes "get_run (rn_id run) w \<noteq> None" and "model_run cfg auth run history w = (Inr (), w')"
  shows "left_settled (rn_id run) w'"
proof -
  have tick: "get_run (rn_id run) (w\<lparr>tick := t\<rparr>) \<noteq> None" for t using assms(1) by simp
  show ?thesis
    using assms(2) assms(1) failed_left [OF assms(1)]
    by (auto simp: model_run_def Let_def split: if_splits sum.splits option.splits
        intro: end_run_left request_inputs_left propose_guided_left [OF _ tick]) (metis snd_conv)+
qed

section \<open>Replies of text\<close>

definition text_only :: "provider \<Rightarrow> bool" where
  "text_only p \<longleftrightarrow> (\<forall>n rq. list_all (\<lambda>ev. se_kind ev = ''text_delta'') (fst (pv_stream p n rq)) \<and> snd (pv_stream p n rq) \<noteq> Crashed)"

definition plain_turn :: "turn \<Rightarrow> bool" where
  "plain_turn tn \<longleftrightarrow> tn_proposals tn = [] \<and> tn_usage tn = (0, 0)"

definition plain_result :: "turn res \<Rightarrow> bool" where
  "plain_result x \<longleftrightarrow> (case x of Inl err \<Rightarrow> (case err of ProviderError m fo \<Rightarrow> True | _ \<Rightarrow> False) | Inr tn \<Rightarrow> plain_turn tn)"

lemma consume_text:
  "list_all (\<lambda>ev. se_kind ev = ''text_delta'') evs \<Longrightarrow> plain_turn tn \<Longrightarrow>
    \<exists>tn1 w1. consume_all (on_event e r k) evs tn w = (Inr tn1, w1) \<and> plain_turn tn1"
proof (induction evs arbitrary: tn w)
  case (Cons ev evs)
  then have "\<exists>tn1 w1. on_event e r k ev tn w = (Inr tn1, w1) \<and> plain_turn tn1"
    by (auto simp: on_event_def consume_event_def on_text_def Let_def plain_turn_def)
  with Cons show ?case by auto
qed simp

lemma try_text:
  "\<forall>p \<in> set ps. text_only p \<Longrightarrow> plain_turn tn \<Longrightarrow> plain_result (fst (try_providers e secs rq (on_event e r k) ps fs h tn w))"
proof (induction ps arbitrary: fs h tn w)
  case Nil
  then show ?case by (simp add: plain_result_def all_failed_def)
next
  case (Cons p ps)
  obtain evs fin where pv: "pv_stream p (tick w) rq = (evs, fin)" by fastforce
  have t: "list_all (\<lambda>ev. se_kind ev = ''text_delta'') evs" "fin \<noteq> Crashed"
    using Cons.prems(1) pv unfolding text_only_def by (metis fst_conv list.set_intros(1), metis snd_conv list.set_intros(1))
  obtain tn1 w1 where c: "consume_all (on_event e r k) evs tn w = (Inr tn1, w1)" "plain_turn tn1"
    using consume_text [OF t(1) Cons.prems(2)] by blast
  show ?case
    using Cons.IH [OF _ c(2)] Cons.prems(1) t(2) c(2)
    by (cases fin) (auto simp: pv c(1) mark_unhealthy_def utc_now_def plain_result_def)
qed

lemma free_usage: "usage_cost m 0 0 \<noteq> None"
  by (auto simp: usage_cost_def float_of_int_def split: option.split prod.split)

lemma call_text:
  assumes "\<forall>p \<in> set (mr_providers cfg). text_only p" and "call_provider cfg auth r k s w = (x, s1, w1)"
  shows "(\<exists>tn. x = Inr tn \<and> tn_proposals tn = []) \<or> (\<exists>c m. x = Inl (BudgetExceededError c m)) \<or> (\<exists>m fo. x = Inl (ProviderError m fo))"
proof -
  define rq where "rq = \<lparr>mq_messages = rs_messages s, mq_tools = available_for auth, mq_model = mr_model cfg,
      mq_max_output_tokens = max_output_tokens_per_run (mr_settings cfg)\<rparr>"
  obtain y h w2 where st: "router_stream (mr_env cfg) (mr_unhealthy_seconds cfg) (mr_providers cfg) rq
      (on_event (mr_env cfg) r k) (rs_health s) new_turn w = (y, h, w2)" using prod_cases3 by blast
  define qs where "qs = filter (healthy_at (rs_health s) (clock (mr_env cfg) (tick w))) (mr_providers cfg)"
  have "plain_result (fst (try_providers (mr_env cfg) (mr_unhealthy_seconds cfg) rq (on_event (mr_env cfg) r k) qs []
      (rs_health s) new_turn (w\<lparr>tick := Suc (tick w)\<rparr>)))"
    by (rule try_text) (simp_all add: qs_def assms(1) plain_turn_def new_turn_def)
  then have y: "plain_result y"
    using st by (simp add: router_stream_def healthy_providers_def utc_now_def qs_def)
  show ?thesis
  proof (cases y)
    case (Inl err)
    with y assms(2) show ?thesis
      unfolding call_provider_def Let_def rq_def [symmetric] st by (auto simp: then_step_def plain_result_def split: exc.splits)
  next
    case (Inr tn)
    with y have tn: "tn_proposals tn = []" "tn_usage tn = (0, 0)" by (simp_all add: plain_result_def plain_turn_def)
    have "record_usage (mr_settings cfg) (mr_model cfg) 0 0 (rs_budget s) \<noteq> None"
      using free_usage [of "mr_model cfg"] by (simp add: record_usage_def)
    then obtain res where res: "record_usage (mr_settings cfg) (mr_model cfg) 0 0 (rs_budget s) = Some res" by blast
    show ?thesis
      using assms(2) unfolding call_provider_def Let_def rq_def [symmetric] st
      by (auto simp: then_step_def Inr tn count_usage_def res split: prod.splits option.splits)
  qed
qed

lemma text_turn:
  assumes "\<forall>p \<in> set (mr_providers cfg). text_only p"
  shows "case fst (model_turn cfg auth run s w) of
      Inl x \<Rightarrow> (\<exists>c m. x = BudgetExceededError c m) \<or> (\<exists>m fo. x = ProviderError m fo) | Inr go \<Rightarrow> go"
proof (cases "begin_turn cfg s w")
  case (fields x s0 w0)
  show ?thesis
  proof (cases x)
    case (Inl y)
    then show ?thesis using fields by (auto simp: model_turn_def Let_def then_step_def begin_turn_def split: prod.splits option.splits)
  next
    case (Inr n)
    obtain i w1 where os: "open_step (mr_env cfg) (rn_id run) n ''model_call'' w0 = (i, w1)" by fastforce
    obtain k w2 where am: "assistant_message (mr_env cfg) run (user_id auth) []
        (step_event ''v1.step.started'' n ''model_call'' [] (mr_env cfg) (rn_id run) w1) = (k, w2)" by fastforce
    obtain y s1 w3 where cp: "call_provider cfg auth (rn_id run) k s0 w2 = (y, s1, w3)" using prod_cases3 by blast
    show ?thesis
      using call_text [OF assms cp]
      by (auto simp: model_turn_def Let_def fields Inr os am cp then_step_def after_reply_def)
  qed
qed

lemma text_run:
  assumes "\<forall>p \<in> set (mr_providers cfg). text_only p"
  shows "fst (end_run cfg r (model_loop cfg auth run s w)) = Inr ()"
proof (cases "model_turn cfg auth run s w")
  case (fields x s1 w1)
  then show ?thesis
    using text_turn [OF assms, of auth run s w]
    by (cases x) (auto simp: model_loop.simps [of cfg auth run s w] end_run_def failed_run_def)
qed

lemma text_model_run:
  assumes "\<forall>p \<in> set (mr_providers cfg). text_only p"
    and "\<forall>conv. get_conversation (rn_conversation_id run) w = Some conv \<longrightarrow> cv_kind conv \<noteq> Some workflow_name"
  shows "\<exists>w'. model_run cfg auth run history w = (Inr (), w')"
proof -
  have "fst (model_run cfg auth run history w) = Inr ()"
    using assms(2) text_run [OF assms(1)] by (auto simp: model_run_def Let_def split: option.split)
  then show ?thesis by (cases "model_run cfg auth run history w") simp
qed

section \<open>Properties\<close>

text \<open>A run of an ordinary conversation answered by a provider that says one thing.\<close>

definition runner_demo :: runner_cfg where
  "runner_demo = \<lparr>mr_api = demo_api, mr_settings = lc_settings loop_demo, mr_perf = (\<lambda>_. Fin 0),
     mr_providers = [\<lparr>pv_name = ''p'', pv_stream = (\<lambda>_ _. ([\<lparr>se_kind = ''text_delta'', se_payload = [(''delta'', JStr ''Hi'')]\<rparr>], Drained))\<rparr>],
     mr_unhealthy_seconds = 300, mr_model = ''m'', mr_prompt = (\<lambda>_. []), mr_client = None\<rparr>"

abbreviation queued_demo :: agent_run where
  "queued_demo \<equiv> (demo_run ''queued'')\<lparr>rn_input_message_id := Some ''m''\<rparr>"

text \<open>
  C11: whatever the model replies, which tools it calls and in which order, and whatever PriceFRAME
  answers, a run of the model loop sends PriceFRAME only reads, previews and recalculations; it
  writes no audit entry and touches no event and no row of another run.
\<close>

theorem model_run_never_writes:
  assumes "model_run cfg auth run history w = (res, w')"
  shows "only_requests harmless w w' \<and> audit_log (cur w') = audit_log (cur w) \<and>
    (\<forall>k. k \<noteq> rn_id run \<longrightarrow> run_log k (cur w') = run_log k (cur w) \<and> get_run k w' = get_run k w) \<and>
    prefix (run_log (rn_id run) (cur w)) (run_log (rn_id run) (cur w'))"
  using model_run_ok [of run w cfg auth history] unfolding assms snd_conv runner_frame_def by blast

text \<open>
  C12: a run of the model loop that returns has committed a run whose status and last event agree,
  and this whatever the status was when it started: a run cancelled while it was queued is
  overwritten. With providers that answer in text, however often they fail, a run of an ordinary
  conversation does return.
\<close>

theorem model_run_settles:
  assumes "get_run (rn_id run) w \<noteq> None"
  shows "(model_run cfg auth run history w = (Inr (), w') \<longrightarrow>
      cur w' = saved w' \<and> run_settled (rn_id run) (saved w') \<and>
      (\<exists>run'. row_find rn_id (rn_id run) (runs (saved w')) = Some run' \<and> rn_status run' \<noteq> ''cancelled'')) \<and>
    ((\<forall>p \<in> set (mr_providers cfg). text_only p) \<and>
     (\<forall>conv. get_conversation (rn_conversation_id run) w = Some conv \<longrightarrow> cv_kind conv \<noteq> Some workflow_name) \<longrightarrow>
      (\<exists>w'. model_run cfg auth run history w = (Inr (), w')))"
proof -
  note left = model_run_left [OF assms, of cfg auth history w']
  have st: "rn_status run' \<noteq> ''cancelled''" if "run_settled (rn_id run) d" "row_find rn_id (rn_id run) (runs d) = Some run'" for d run'
    using that by (auto simp: run_settled_def settled_pairs_def)
  from text_model_run [of cfg run w auth history] show ?thesis using left st unfolding left_settled_def by (metis run_settled_def)
qed

lemma queued_demo_id: "rn_id queued_demo = ''r''"
  by (simp add: demo_run_def)

theorem model_run_never_writes_witness:
  "\<exists>res w'. model_run runner_demo demo_context queued_demo [text_message ''user'' ''Hello''] loop_session = (res, w') \<and>
     only_requests harmless loop_session w' \<and> run_log ''q'' (cur w') = run_log ''q'' (cur loop_session)"
proof -
  obtain res w' where run: "model_run runner_demo demo_context queued_demo [text_message ''user'' ''Hello''] loop_session = (res, w')"
    by fastforce
  have "''q'' \<noteq> rn_id queued_demo" unfolding queued_demo_id by simp
  with model_run_never_writes [OF run] run show ?thesis by blast
qed

theorem model_run_settles_witness:
  "\<exists>w'. model_run runner_demo demo_context queued_demo [text_message ''user'' ''Hello''] loop_session = (Inr (), w') \<and>
     cur w' = saved w' \<and> run_settled ''r'' (saved w')"
proof -
  have run: "get_run (rn_id queued_demo) loop_session \<noteq> None" unfolding queued_demo_id using loop_session_run by simp
  have "\<forall>p \<in> set (mr_providers runner_demo). text_only p" by (simp add: runner_demo_def text_only_def)
  moreover have "get_conversation k loop_session = None" for k
    by (simp add: get_conversation_def loop_session_def session_on_def empty_db_def)
  ultimately obtain w' where "model_run runner_demo demo_context queued_demo [text_message ''user'' ''Hello''] loop_session = (Inr (), w')"
    using model_run_settles [OF run, of runner_demo demo_context "[text_message ''user'' ''Hello'']"] by force
  with model_run_settles [OF run, of runner_demo demo_context "[text_message ''user'' ''Hello'']" w'] show ?thesis
    unfolding queued_demo_id by blast
qed

end
