(* ===== verification/Streaming.thy ===== *)
theory Streaming
  imports ModelRunnerLaws
begin

text \<open>
  What a client sees of a reply while it is streamed, and what a failover does to it.
\<close>

section \<open>Announced text\<close>

definition delta_of :: "string \<Rightarrow> agent_run_event \<Rightarrow> string" where
  "delta_of k ev = (if ev_type ev = ''v1.message.delta'' \<and> d_get (ev_payload ev) ''message_id'' = JStr k
     then (case d_get (ev_payload ev) ''delta'' of JStr s \<Rightarrow> s | _ \<Rightarrow> []) else [])"

text \<open>The text of message \<open>k\<close> as a client puts it together from the log.\<close>

definition streamed :: "string \<Rightarrow> string \<Rightarrow> db \<Rightarrow> string" where
  "streamed r k d = concat (map (delta_of k) (run_log r d))"

lemma streamed_emit_now: "streamed r k (cur (emit_now e r k delta w)) = streamed r k (cur w) @ delta"
  by (simp add: streamed_def emit_now_def commit_def emit_delta_def run_log_emit delta_of_def d_get_def)

text \<open>What the comment on the hold-back relies on: the part that may be announced does not change later.\<close>

definition stable_text :: "string \<Rightarrow> bool" where
  "stable_text t \<longleftrightarrow> (\<forall>n. let red = rt_text (redact (take n t))
     in prefix (take (length red - holdback) red) (rt_text (redact t)))"

definition announced_ok_at :: "string \<Rightarrow> string \<Rightarrow> string \<Rightarrow> turn \<Rightarrow> world \<Rightarrow> bool" where
  "announced_ok_at r k t tn w \<longleftrightarrow> tn_emitted tn \<le> length (rt_text (redact t)) \<and>
     streamed r k (cur w) = take (tn_emitted tn) (rt_text (redact t))"

lemma on_text_announces:
  assumes "stable_text t" and "prefix (tn_text tn) t" and "announced_ok_at r k t tn w"
  shows "announced_ok_at r k t (fst (on_text e r k tn w)) (snd (on_text e r k tn w))"
proof -
  define red where "red = rt_text (redact (tn_text tn))"
  define full where "full = rt_text (redact t)"
  define n where "n = safe_len (tn_emitted tn) red"
  have em: "tn_emitted tn \<le> length full" "streamed r k (cur w) = take (tn_emitted tn) full"
    using assms(3) by (simp_all add: announced_ok_at_def full_def)
  show ?thesis
  proof (cases "n \<le> tn_emitted tn")
    case True
    then show ?thesis using assms(3) by (simp add: on_text_def Let_def flip: red_def n_def)
  next
    case False
    then have n: "n = length red - holdback" by (simp add: n_def safe_len_def max_def split: if_splits)
    have "take (length (tn_text tn)) t = tn_text tn" using assms(2) by (auto simp: prefix_def)
    then have "prefix (take n red) full"
      using assms(1) unfolding stable_text_def Let_def full_def red_def n by metis
    moreover have len: "length (take n red) = n" by (simp add: n)
    ultimately have nf: "n \<le> length full" and t: "take n red = take n full"
      by (auto simp: prefix_def)
    have "take (n - tn_emitted tn) (drop (tn_emitted tn) red) = drop (tn_emitted tn) (take n full)"
      by (simp add: drop_take flip: t)
    moreover have "take (tn_emitted tn) full @ drop (tn_emitted tn) (take n full) = take n full"
      using False by (metis append_take_drop_id min.absorb1 nle_le take_take)
    ultimately show ?thesis
      using False nf em(2) unfolding announced_ok_at_def full_def [symmetric]
      by (simp add: on_text_def Let_def streamed_emit_now flip: red_def n_def)
  qed
qed

lemma consume_event_text: "consume_event e ev tn = Some tn1 \<Longrightarrow> prefix (tn_text tn) (tn_text tn1) \<and> tn_emitted tn1 = tn_emitted tn"
  by (auto simp: consume_event_def Let_def split: if_splits option.splits)

lemma on_text_keeps: "tn_text (fst (on_text e r k tn w)) = tn_text tn"
  by (simp add: on_text_def Let_def)

lemma on_event_text: "on_event e r k ev tn w = (Inr tn1, w1) \<Longrightarrow> prefix (tn_text tn) (tn_text tn1)"
  using consume_event_text on_text_keeps
  by (fastforce simp: on_event_def apfst_def map_prod_def split_def split: option.splits if_splits)

lemma on_event_announces:
  assumes "stable_text t" and "on_event e r k ev tn w = (Inr tn1, w1)" and "prefix (tn_text tn1) t"
    and "announced_ok_at r k t tn w"
  shows "announced_ok_at r k t tn1 w1"
proof -
  obtain tn2 where c: "consume_event e ev tn = Some tn2"
    using assms(2) by (auto simp: on_event_def split: option.splits)
  then have ok: "announced_ok_at r k t tn2 w" using assms(4) consume_event_text by (simp add: announced_ok_at_def)
  show ?thesis
  proof (cases "tn_text tn2 = tn_text tn")
    case True
    then show ?thesis using assms(2) ok by (simp add: on_event_def c)
  next
    case False
    then have "(tn1, w1) = on_text e r k tn2 w"
      using assms(2) by (cases "on_text e r k tn2 w") (simp add: on_event_def c)
    then have eq: "tn1 = fst (on_text e r k tn2 w)" "w1 = snd (on_text e r k tn2 w)" by (metis fst_conv, metis snd_conv)
    show ?thesis
      using on_text_announces [OF assms(1) _ ok, of e] assms(3) unfolding eq by (simp add: on_text_keeps)
  qed
qed

lemma consume_text_grows: "consume_all (on_event e r k) evs tn w = (Inr tn1, w1) \<Longrightarrow> prefix (tn_text tn) (tn_text tn1)"
proof (induction evs arbitrary: tn w)
  case (Cons ev evs)
  then obtain tn2 w2 where "on_event e r k ev tn w = (Inr tn2, w2)" "consume_all (on_event e r k) evs tn2 w2 = (Inr tn1, w1)"
    by (auto split: prod.splits sum.splits)
  with Cons.IH show ?case using on_event_text prefix_order.trans by blast
qed simp

lemma consume_announces:
  assumes "stable_text t"
  shows "consume_all (on_event e r k) evs tn w = (Inr tn1, w1) \<Longrightarrow> prefix (tn_text tn1) t \<Longrightarrow>
    announced_ok_at r k t tn w \<Longrightarrow> announced_ok_at r k t tn1 w1"
proof (induction evs arbitrary: tn w)
  case (Cons ev evs)
  from Cons.prems(1) obtain tn2 w2 where ev: "on_event e r k ev tn w = (Inr tn2, w2)"
    and rest: "consume_all (on_event e r k) evs tn2 w2 = (Inr tn1, w1)" by (auto split: prod.splits sum.splits)
  have "prefix (tn_text tn2) t" using consume_text_grows [OF rest] Cons.prems(2) by (rule prefix_order.trans)
  from on_event_announces [OF assms ev this Cons.prems(3)] rest Cons.prems(2) show ?case by (intro Cons.IH)
qed simp

lemma announced_tick [simp]: "announced_ok_at r k t tn (w\<lparr>tick := n\<rparr>) = announced_ok_at r k t tn w"
  by (simp add: announced_ok_at_def)

text \<open>A provider of the list either ends the search or hands over to the rest.\<close>

lemma try_cases:
  assumes "try_providers e secs rq f (p # ps) fs h s w = (Inr s1, h1, w1)"
  obtains (drained) evs where "consume_all f evs s w = (Inr s1, w1)"
  | (next_one) evs s2 w2 fs2 h2 t where "consume_all f evs s w = (Inr s2, w2)"
      and "try_providers e secs rq f ps fs2 h2 s2 (w2\<lparr>tick := t\<rparr>) = (Inr s1, h1, w1)"
  using assms by (auto simp: mark_unhealthy_def utc_now_def split: prod.splits sum.splits stream_end.splits if_splits)

lemma try_text_grows: "try_providers e' secs rq (on_event e r k) ps fs h tn w = (Inr tn1, h1, w1) \<Longrightarrow> prefix (tn_text tn) (tn_text tn1)"
proof (induction ps arbitrary: fs h tn w)
  case (Cons p ps)
  from Cons.prems show ?case
  proof (cases rule: try_cases)
    case (drained evs) then show ?thesis by (rule consume_text_grows)
  next
    case (next_one evs s2 w2 fs2 h2 t)
    then show ?thesis using Cons.IH consume_text_grows prefix_order.trans by blast
  qed
qed simp

lemma try_announces:
  assumes "stable_text t"
  shows "try_providers e' secs rq (on_event e r k) ps fs h tn w = (Inr tn1, h1, w1) \<Longrightarrow> prefix (tn_text tn1) t \<Longrightarrow>
    announced_ok_at r k t tn w \<Longrightarrow> announced_ok_at r k t tn1 w1"
proof (induction ps arbitrary: fs h tn w)
  case (Cons p ps)
  from Cons.prems(1) show ?case
  proof (cases rule: try_cases)
    case (drained evs)
    then show ?thesis using consume_announces [OF assms] Cons.prems(2,3) by blast
  next
    case (next_one evs s2 w2 fs2 h2 t')
    have "prefix (tn_text s2) t" using try_text_grows [OF next_one(2)] Cons.prems(2) by (rule prefix_order.trans)
    then have "announced_ok_at r k t s2 w2" using consume_announces [OF assms next_one(1)] Cons.prems(3) by blast
    then show ?thesis using Cons.IH [OF next_one(2) Cons.prems(2)] by simp
  qed
qed simp

lemma finish_announces:
  assumes "announced_ok_at r k t tn w" and "final = rt_text (redact t)"
  shows "streamed r k (cur (finish_stream e r k (tn_emitted tn) final w)) = final"
  using assms by (auto simp: finish_stream_def announced_ok_at_def streamed_emit_now)

section \<open>Replies as they are delivered\<close>

datatype delivered = Says string | Calls proposed_call

fun event_of :: "delivered \<Rightarrow> stream_event" where
  "event_of (Says s) = \<lparr>se_kind = ''text_delta'', se_payload = [(''delta'', JStr s)]\<rparr>"
| "event_of (Calls p) = \<lparr>se_kind = ''tool_use'', se_payload = [(''name'', JStr (pc_name p)), (''args'', JObj (pc_args p)),
     (''call_id'', JStr (pc_call_id p))]\<rparr>"

definition said :: "delivered list \<Rightarrow> string" where
  "said xs = concat (map (\<lambda>x. case x of Says s \<Rightarrow> s | Calls p \<Rightarrow> []) xs)"

definition called :: "delivered list \<Rightarrow> proposed_call list" where
  "called xs = concat (map (\<lambda>x. case x of Says s \<Rightarrow> [] | Calls p \<Rightarrow> [p]) xs)"

lemma py_str_JStr [simp]: "py_str f (JStr s) = s"
  by (simp add: py_str_def)

lemma consume_delivered: "\<exists>tn1. consume_event e (event_of x) tn = Some tn1 \<and> tn_text tn1 = tn_text tn @ said [x] \<and>
    tn_proposals tn1 = tn_proposals tn @ called [x]"
  by (cases x) (simp_all add: consume_event_def payload_or_def d_has_def d_get_def said_def called_def py_dict_JObj)

lemma on_text_proposals: "tn_proposals (fst (on_text e r k tn w)) = tn_proposals tn"
  by (simp add: on_text_def Let_def)

lemma consume_reply: "\<exists>tn1 w1. consume_all (on_event e r k) (map event_of xs) tn w = (Inr tn1, w1) \<and>
    tn_text tn1 = tn_text tn @ said xs \<and> tn_proposals tn1 = tn_proposals tn @ called xs"
proof (induction xs arbitrary: tn w)
  case (Cons x xs)
  obtain tn2 where c: "consume_event e (event_of x) tn = Some tn2" "tn_text tn2 = tn_text tn @ said [x]"
    "tn_proposals tn2 = tn_proposals tn @ called [x]" using consume_delivered by blast
  have "\<exists>tn3 w3. on_event e r k (event_of x) tn w = (Inr tn3, w3) \<and> tn_text tn3 = tn_text tn @ said [x] \<and>
      tn_proposals tn3 = tn_proposals tn @ called [x]"
    using c on_text_keeps [of e r k tn2 w] on_text_proposals [of e r k tn2 w]
    by (cases "on_text e r k tn2 w") (auto simp: on_event_def)
  then obtain tn3 w3 where "on_event e r k (event_of x) tn w = (Inr tn3, w3)" "tn_text tn3 = tn_text tn @ said [x]"
    "tn_proposals tn3 = tn_proposals tn @ called [x]" by blast
  then show ?case using Cons.IH [of tn3 w3] by (simp add: said_def called_def)
qed (simp add: said_def called_def)

section \<open>Properties\<close>

text \<open>
  C17: the deltas of a streamed reply add up to its redacted text, exactly once, however the text
  was cut into chunks and whichever providers it came from, as long as the part of the redacted
  text before the hold-back never changes when more text arrives.
\<close>

theorem streamed_deltas_add_up:
  assumes "router_stream e' secs ps rq (on_event e r k) h new_turn w = (Inr tn, h', w')"
    and "stable_text (tn_text tn)" and "streamed r k (cur w) = []"
  shows "streamed r k (cur (finish_stream e r k (tn_emitted tn) (rt_text (redact (tn_text tn))) w')) = rt_text (redact (tn_text tn))"
proof -
  obtain qs where "try_providers e' secs rq (on_event e r k) qs [] h new_turn (w\<lparr>tick := Suc (tick w)\<rparr>) = (Inr tn, h', w')"
    using assms(1) by (simp add: router_stream_def healthy_providers_def utc_now_def)
  moreover have "announced_ok_at r k (tn_text tn) new_turn (w\<lparr>tick := Suc (tick w)\<rparr>)"
    using assms(3) by (simp add: announced_ok_at_def new_turn_def)
  ultimately have "announced_ok_at r k (tn_text tn) tn w'"
    using try_announces [OF assms(2)] by blast
  then show ?thesis by (rule finish_announces) (rule refl)
qed

definition steady :: "string \<Rightarrow> delivered list \<Rightarrow> stream_end \<Rightarrow> provider" where
  "steady n xs fin = \<lparr>pv_name = n, pv_stream = (\<lambda>_ _. (map event_of xs, fin))\<rparr>"

definition demo_request :: model_request where
  "demo_request = \<lparr>mq_messages = [text_message ''user'' ''Hello''], mq_tools = [], mq_model = ''m'', mq_max_output_tokens = 100\<rparr>"

theorem streamed_deltas_add_up_witness:
  "\<exists>tn h' w'. router_stream demo_env 300 [steady ''p'' [Says ''o'', Says ''k''] Drained] demo_request (on_event demo_env ''r'' ''m'') Map.empty new_turn
      (session_on empty_db) = (Inr tn, h', w') \<and>
    streamed ''r'' ''m'' (cur (finish_stream demo_env ''r'' ''m'' (tn_emitted tn) (rt_text (redact (tn_text tn))) w')) = ''ok''"
proof -
  let ?w = "(session_on empty_db)\<lparr>tick := Suc 0\<rparr>"
  have healthy: "healthy_providers demo_env [steady ''p'' xs Drained] Map.empty (session_on empty_db) = ([steady ''p'' xs Drained], ?w)" for xs
    by (simp add: healthy_providers_def utc_now_def healthy_at_def demo_env_def session_on_def)
  obtain tn w' where c: "consume_all (on_event demo_env ''r'' ''m'') (map event_of [Says ''o'', Says ''k'']) new_turn ?w = (Inr tn, w')"
    "tn_text tn = tn_text new_turn @ said [Says ''o'', Says ''k'']"
    using consume_reply by blast
  have t: "tn_text tn = ''ok''" using c(2) by (simp add: new_turn_def said_def)
  have run: "router_stream demo_env 300 [steady ''p'' [Says ''o'', Says ''k''] Drained] demo_request (on_event demo_env ''r'' ''m'') Map.empty new_turn
      (session_on empty_db) = (Inr tn, Map.empty, w')"
    unfolding router_stream_def healthy prod.case by (simp only: try_providers.simps steady_def provider.simps prod.case c(1) sum.case stream_end.case)
  have r: "rt_text (redact ''ok'') = ''ok''" "rt_text (redact ''o'') = ''o''" "rt_text (redact []) = []" by code_simp+
  have "length (rt_text (redact (take n ''ok''))) - holdback = 0" for n
  proof (cases n)
    case (Suc m)
    then show ?thesis by (cases m) (simp_all add: r holdback_def)
  qed (simp add: r holdback_def)
  then have "stable_text (tn_text tn)" by (simp add: stable_text_def t Let_def)
  moreover have "streamed ''r'' ''m'' (cur (session_on empty_db)) = []"
    by (simp add: streamed_def run_log_def session_on_def empty_db_def)
  ultimately have "streamed ''r'' ''m'' (cur (finish_stream demo_env ''r'' ''m'' (tn_emitted tn) (rt_text (redact (tn_text tn))) w')) =
      rt_text (redact (tn_text tn))" by (rule streamed_deltas_add_up [OF run])
  with run t r show ?thesis by auto
qed

text \<open>
  A provider that fails after it has begun to answer is not undone: the next provider answers
  the same request from the start, so the reply the run works with is both texts one after the
  other and the tool calls of both, every one of them twice when the two agree.
\<close>

theorem failover_repeats_reply:
  assumes "\<forall>n. pv_stream p n rq = (map event_of xs, ProviderFailed m True)" and "\<forall>n. pv_stream q n rq = (map event_of ys, Drained)"
    and "healthy_at h (clock e' (tick w)) p" and "healthy_at h (clock e' (tick w)) q"
  shows "\<exists>tn h' w'. router_stream e' secs [p, q] rq (on_event e r k) h new_turn w = (Inr tn, h', w') \<and>
    tn_text tn = said xs @ said ys \<and> tn_proposals tn = called xs @ called ys \<and> h' (pv_name p) \<noteq> None"
proof -
  define w0 where "w0 = w\<lparr>tick := Suc (tick w)\<rparr>"
  obtain tn1 w1 where a: "consume_all (on_event e r k) (map event_of xs) new_turn w0 = (Inr tn1, w1)"
    "tn_text tn1 = said xs" "tn_proposals tn1 = called xs"
    using consume_reply [of e r k xs new_turn w0] by (auto simp: new_turn_def)
  define w2 where "w2 = w1\<lparr>tick := Suc (tick w1)\<rparr>"
  obtain tn2 w3 where b: "consume_all (on_event e r k) (map event_of ys) tn1 w2 = (Inr tn2, w3)"
    "tn_text tn2 = said xs @ said ys" "tn_proposals tn2 = called xs @ called ys"
    using consume_reply [of e r k ys tn1 w2] a by auto
  show ?thesis
    using assms b
    by (simp add: router_stream_def healthy_providers_def utc_now_def mark_unhealthy_def a(1) flip: w0_def w2_def)
qed

theorem failover_repeats_reply_witness:
  "\<exists>tn h' w'. router_stream demo_env 300 [steady ''p'' [Says ''Hi''] (ProviderFailed ''429'' True), steady ''q'' [Says ''Hi''] Drained] demo_request
      (on_event demo_env ''r'' ''m'') Map.empty new_turn (session_on empty_db) = (Inr tn, h', w') \<and> tn_text tn = ''HiHi''"
proof -
  have "\<exists>tn h' w'. router_stream demo_env 300 [steady ''p'' [Says ''Hi''] (ProviderFailed ''429'' True), steady ''q'' [Says ''Hi''] Drained] demo_request
      (on_event demo_env ''r'' ''m'') Map.empty new_turn (session_on empty_db) = (Inr tn, h', w') \<and>
      tn_text tn = said [Says ''Hi''] @ said [Says ''Hi''] \<and> tn_proposals tn = called [Says ''Hi''] @ called [Says ''Hi''] \<and>
      h' (pv_name (steady ''p'' [Says ''Hi''] (ProviderFailed ''429'' True))) \<noteq> None"
    by (rule failover_repeats_reply [where m = "''429''"]) (simp_all add: steady_def healthy_at_def demo_env_def session_on_def)
  then show ?thesis by (auto simp: said_def)
qed

end
