(* ===== verification/RunnerBounds.thy ===== *)
theory RunnerBounds
  imports ModelRunnerLaws
begin

text \<open>
  The budget of a run bounds what it leaves behind: every tool call of a model run is paid for by
  one count of the budget and every step row by a turn or a tool call.
\<close>

definition sizes :: "world \<Rightarrow> nat \<times> nat" where
  "sizes w = (length (tool_calls (cur w)), length (run_steps (cur w)))"

lemma sizes_rows: "length (tool_calls (cur v)) = length (tool_calls (cur w)) \<Longrightarrow> length (run_steps (cur v)) = length (run_steps (cur w)) \<Longrightarrow>
    sizes v = sizes w"
  by (simp add: sizes_def)

lemma sizes_emit [simp]: "sizes (emit e r ty p w) = sizes w"
  by (simp add: sizes_def frame)

lemma sizes_logs: "logs r P w v \<Longrightarrow> sizes v = sizes w"
  by (simp add: sizes_def logs_frame)

lemma sizes_sends: "only_sends w v \<Longrightarrow> sizes v = sizes w"
  by (simp add: sizes_def only_sends_def)

lemma sizes_parts [simp]:
  "sizes (commit w) = sizes w" "sizes (w\<lparr>tick := t\<rparr>) = sizes w" "sizes (upd_run r f w) = sizes w"
  "sizes (upd_message k g w) = sizes w" "sizes (del_message k w) = sizes w" "sizes (upd_tool_call k h w) = sizes w"
  "sizes (close_step e i st w) = sizes w" "sizes (snd (assistant_message e run uid content w)) = sizes w"
  "sizes (await_decision e r w) = sizes w" "sizes (touch_run e r w) = sizes w" "sizes (complete_run e r w) = sizes w"
  "sizes (fail_run e r m w) = sizes w" "sizes (snd (seed_draft e c payload w)) = sizes w" "sizes (mark_started e r w) = sizes w"
  by (rule sizes_rows; simp add: commit_def table_defs close_step_def assistant_message_def await_decision_def touch_run_def
      complete_run_def fail_run_def seed_draft_def mark_started_def utc_now_def new_id_def Let_def split: option.split)+

lemma sizes_composed [simp]:
  "sizes (emit_delta e r k d w) = sizes w" "sizes (step_event ty n kind extra e r w) = sizes w"
  "sizes (complete_and_touch e r w) = sizes w" "sizes (finalize_error cfg r b c m w) = sizes w"
  "sizes (finish_wizard e r w) = sizes w" "sizes (emit_proposed e r k t args w) = sizes w"
  by (simp_all add: emit_delta_def step_event_def complete_and_touch_def finalize_error_def finish_wizard_def emit_proposed_def Let_def)

lemma sizes_stream [simp]:
  "sizes (emit_now e r k d w) = sizes w" "sizes (pause_for e r i k w) = sizes w" "sizes (complete_model_run cfg r b w) = sizes w"
  "sizes (finish_stream e r k n final w) = sizes w" "sizes (store_text e r k tn w) = sizes w" "sizes (snd (on_text e r k tn w)) = sizes w"
  by (simp_all add: emit_now_def pause_for_def complete_model_run_def finish_stream_def store_text_def on_text_def Let_def)

lemma sizes_new [simp]:
  "sizes (snd (open_step e r n kind w)) = (fst (sizes w), Suc (snd (sizes w)))"
  "sizes (snd (add_proposed_call e r i t args w)) = (Suc (fst (sizes w)), snd (sizes w))"
  by (simp_all add: sizes_def open_step_def next_row_def utc_now_def add_proposed_eq table_defs)

lemma sizes_announced [simp]: "sizes (announced e r n t args w) = (Suc (fst (sizes w)), Suc (snd (sizes w)))"
  by (simp add: announced_def split_def)

interpretation size_stream: stream_consumer "on_event e r k" "\<lambda>w v. sizes v = sizes w" "\<lambda>_. True" for e r k
  by unfold_locales (auto simp: on_event_def apfst_def map_prod_def split_def split: option.split)

section \<open>The account of a run\<close>

text \<open>What is stored beyond what the budget counts; a turn that returns leaves it as it was.\<close>

definition account :: "runner_state \<Rightarrow> world \<Rightarrow> int \<times> int" where
  "account s w = (int (fst (sizes w)) - int (lb_tool_calls (rs_budget s)),
     int (snd (sizes w)) - int (lb_tool_calls (rs_budget s)) - int (lb_steps (rs_budget s)))"

definition balanced :: "runner_cfg \<Rightarrow> int \<times> int \<Rightarrow> 'a res \<times> runner_state \<times> world \<Rightarrow> bool" where
  "balanced cfg a m \<longleftrightarrow> account (fst (snd m)) (snd (snd m)) = a \<and> under_ceilings (mr_settings cfg) (rs_budget (fst (snd m)))"

lemma balanced_triple [simp]: "balanced cfg a (x, s, w) \<longleftrightarrow> account s w = a \<and> under_ceilings (mr_settings cfg) (rs_budget s)"
  by (simp add: balanced_def)

lemma account_same: "sizes w1 = sizes w \<Longrightarrow> rs_budget s1 = rs_budget s \<Longrightarrow> account s1 w1 = account s w"
  by (simp add: account_def)

lemma balanced_then:
  assumes "balanced cfg a m" and "\<And>x s w. account s w = a \<Longrightarrow> under_ceilings (mr_settings cfg) (rs_budget s) \<Longrightarrow> balanced cfg a (f x s w)"
  shows "balanced cfg a (then_step m f)"
proof (cases m)
  case (fields x s w)
  then have "account s w = a" "under_ceilings (mr_settings cfg) (rs_budget s)" using assms(1) by simp_all
  then show ?thesis using fields assms(2) by (cases x) (simp_all add: then_step_def)
qed

text \<open>A counted call is balanced by its rows.\<close>

lemma counted_ceilings: "counted_call cfg s s1 \<Longrightarrow> under_ceilings (mr_settings cfg) (rs_budget s) \<Longrightarrow> under_ceilings (mr_settings cfg) (rs_budget s1)"
  by (simp add: counted_call_def under_ceilings_def)

lemma counted_account: "counted_call cfg s s1 \<Longrightarrow> sizes w1 = (Suc (fst (sizes w)), Suc (snd (sizes w))) \<Longrightarrow> account s1 w1 = account s w"
  by (simp add: counted_call_def account_def)

lemma sort_calls_balanced:
  "under_ceilings (mr_settings cfg) (rs_budget s) \<Longrightarrow> balanced cfg (account s w) (sort_calls cfg auth r ps rc s w)"
proof (induction ps arbitrary: rc s w)
  case (Cons p ps)
  show ?case
  proof (cases rule: sort_calls_Cons [of cfg auth r p ps rc s w])
    case (failed cause detail ty pl)
    have "account s (emit (mr_env cfg) r ty pl w) = account s w" by (rule account_same) simp_all
    with Cons.IH [OF Cons.prems, of "emit (mr_env cfg) r ty pl w" "add_error p cause detail rc"] show ?thesis unfolding failed by simp
  next
    case (stopped y s1)
    then show ?thesis using Cons.prems by (simp add: account_def)
  next
    case (paused t args s1 n st k)
    then show ?thesis using counted_ceilings [OF paused(1) Cons.prems] by (simp add: counted_account [OF paused(1)])
  next
    case (ready t parsed s1 n k)
    let ?w1 = "announced (mr_env cfg) r n t (dump_args parsed) w"
    have "account s1 ?w1 = account s w" by (rule counted_account [OF ready(4)]) simp
    with Cons.IH [OF counted_ceilings [OF ready(4) Cons.prems], of ?w1 "add_ready p t k parsed rc"] show ?thesis unfolding ready(5) by simp
  qed
qed simp

lemma execute_one_sizes [simp]: "sizes (snd (execute_one cfg auth r p t k parsed w)) = sizes w"
proof (cases "mr_client cfg")
  case (Some c)
  define w0 where "w0 = emit (mr_env cfg) r ''v1.tool.started'' [(''tool_call_id'', JStr k), (''tool_name'', JStr (tl_name t))] w"
  obtain x w1 where ex: "execute (mr_env cfg) c auth t parsed w0 = (x, w1)" by fastforce
  have "only_sends w0 (snd (execute (mr_env cfg) c auth t parsed w0))" by (rule priceframe_tools.reach)
  then have "sizes w1 = sizes w0" unfolding ex snd_conv by (rule sizes_sends)
  then have w1: "sizes w1 = sizes w" by (simp add: w0_def)
  show ?thesis
    by (simp add: execute_one_def Let_def Some ex w1 record_tool_failure_def record_tool_success_def utc_now_def
        flip: w0_def split: sum.split exc.split)
qed (simp add: execute_one_def Let_def)

lemma sbind_sizes: "sizes (snd m) = n \<Longrightarrow> (\<And>a v. sizes v = n \<Longrightarrow> sizes (snd (f a v)) = n) \<Longrightarrow> sizes (snd (sbind m f)) = n"
  by (auto simp: sbind_def split: prod.split sum.split)

lemma run_readers_sizes [simp]: "sizes (snd (run_readers cfg auth r cs w)) = sizes w"
  by (induction cs arbitrary: w) (auto simp: split_def intro!: sbind_sizes)

lemma run_writers_sizes [simp]: "sizes (snd (run_writers cfg auth r ws w)) = sizes w"
  by (induction ws arbitrary: w) (auto simp: split_def intro!: sbind_sizes split: option.split)

lemma dispatch_balanced:
  assumes "under_ceilings (mr_settings cfg) (rs_budget s)"
  shows "balanced cfg (account s w) (dispatch_proposals cfg auth r ps s w)"
  unfolding dispatch_proposals_def
proof (rule balanced_then [OF sort_calls_balanced [OF assms]])
  fix rc s1 w1
  assume acc: "account s1 w1 = account s w" and under: "under_ceilings (mr_settings cfg) (rs_budget s1)"
  show "balanced cfg (account s w) (case rc of None \<Rightarrow> (Inr None, s1, w1) | Some rc \<Rightarrow>
     (case sbind (run_readers cfg auth r (rc_readers rc) w1) (\<lambda>rs w.
             sbind (run_writers cfg auth r (rc_writers rc) w) (\<lambda>ws w. (Inr (rc_errors rc @ rs @ ws), w))) of
        (r, w1) \<Rightarrow> (map_sum id Some r, s1, w1)))"
  proof (cases rc)
    case (Some c)
    define m where "m = sbind (run_readers cfg auth r (rc_readers c) w1) (\<lambda>rs w.
        sbind (run_writers cfg auth r (rc_writers c) w) (\<lambda>ws w. (Inr (rc_errors c @ rs @ ws), w)))"
    have "sizes (snd m) = sizes w1" unfolding m_def by (intro sbind_sizes) simp_all
    then show ?thesis using acc under by (simp add: Some split_def account_def flip: m_def)
  qed (simp add: acc under)
qed

lemma count_usage_balanced:
  assumes "under_ceilings (mr_settings cfg) (rs_budget s)"
  shows "balanced cfg (account s w) (count_usage cfg u s w)"
proof (cases "record_usage (mr_settings cfg) (mr_model cfg) (fst u) (snd u) (rs_budget s)")
  case None
  then show ?thesis using assms by (simp add: count_usage_def)
next
  case (Some m)
  obtain st b where m: "m = (st, b)" by fastforce
  have "lb_tool_calls b = lb_tool_calls (rs_budget s)" "lb_steps b = lb_steps (rs_budget s)"
    using Some m by (auto simp: record_usage_def Let_def)
  moreover have "under_ceilings (mr_settings cfg) b" using ceilings_usage [OF Some [unfolded m] assms] .
  ultimately show ?thesis by (simp add: count_usage_def Some m account_def split: option.split prod.split)
qed

lemma call_provider_balanced:
  assumes "under_ceilings (mr_settings cfg) (rs_budget s)"
  shows "balanced cfg (account s w) (call_provider cfg auth r k s w)"
proof -
  define rq where "rq = \<lparr>mq_messages = rs_messages s, mq_tools = available_for auth, mq_model = mr_model cfg,
      mq_max_output_tokens = max_output_tokens_per_run (mr_settings cfg)\<rparr>"
  obtain x h w1 where st: "router_stream (mr_env cfg) (mr_unhealthy_seconds cfg) (mr_providers cfg) rq
      (on_event (mr_env cfg) r k) (rs_health s) new_turn w = (x, h, w1)" using prod_cases3 by blast
  have "sizes (snd (snd (router_stream (mr_env cfg) (mr_unhealthy_seconds cfg) (mr_providers cfg) rq
      (on_event (mr_env cfg) r k) (rs_health s) new_turn w))) = sizes w"
    by (rule size_stream.router_keeps(1)) simp
  then have "balanced cfg (account s w) (x, s\<lparr>rs_health := h\<rparr>, w1)" using assms by (simp add: st account_def)
  then show ?thesis
    unfolding call_provider_def Let_def rq_def [symmetric] st prod.case
  proof (rule balanced_then)
    fix tn s2 w2
    assume acc: "account s2 w2 = account s w" "under_ceilings (mr_settings cfg) (rs_budget s2)"
    show "balanced cfg (account s w) (then_step (count_usage cfg (tn_usage tn) s2 w2) (\<lambda>_ s w. (Inr tn, s, w)))"
      by (rule balanced_then) (use count_usage_balanced [OF acc(2), of w2 "tn_usage tn"] acc in simp_all)
  qed
qed

lemma after_reply_balanced:
  assumes "under_ceilings (mr_settings cfg) (rs_budget s)"
  shows "balanced cfg (account s w) (after_reply cfg auth r ps s w)"
proof -
  have "balanced cfg (account s w) (dispatch_proposals cfg auth r ps (s\<lparr>rs_recent := x\<rparr>) w)" for x
    using dispatch_balanced [of cfg "s\<lparr>rs_recent := x\<rparr>" w auth r ps] assms by (simp add: account_def)
  then show ?thesis
    using assms by (auto simp: after_reply_def account_def split: sum.split option.split intro!: balanced_then)
qed


text \<open>A turn counts a step and opens its row.\<close>

lemma begin_turn_cases:
  obtains (stopped) y s1 where "begin_turn cfg s w = (Inl y, s1, w)" and "rs_budget s1 = rs_budget s"
  | (begun) n s1 where "begin_turn cfg s w = (Inr n, s1, w)" and "lb_tool_calls (rs_budget s1) = lb_tool_calls (rs_budget s)"
      and "lb_steps (rs_budget s1) = Suc (lb_steps (rs_budget s))"
      and "under_ceilings (mr_settings cfg) (rs_budget s) \<longrightarrow> under_ceilings (mr_settings cfg) (rs_budget s1)"
proof -
  obtain st b where bs: "begin_step (mr_settings cfg) (mr_perf cfg (tick w)) (rs_budget s) = (st, b)" by fastforce
  have u: "under_ceilings (mr_settings cfg) (rs_budget s) \<longrightarrow> under_ceilings (mr_settings cfg) b"
    using ceilings_begin [of "mr_settings cfg" "rs_budget s"] by (metis bs snd_conv)
  show thesis
  proof (cases st)
    case None
    then have "lb_tool_calls b = lb_tool_calls (rs_budget s)" "lb_steps b = Suc (lb_steps (rs_budget s))"
      using bs by (auto simp: begin_step_def split: if_splits)
    then show thesis using u by (intro begun [of "lb_steps b" "s\<lparr>rs_budget := b\<rparr>"]) (simp_all add: begin_turn_def bs None)
  next
    case (Some cm)
    then have "b = rs_budget s" using bs by (auto simp: begin_step_def split: if_splits)
    then show thesis by (cases cm) (auto intro!: stopped simp: begin_turn_def bs Some)
  qed
qed

lemma model_turn_balanced:
  assumes "under_ceilings (mr_settings cfg) (rs_budget s)"
  shows "balanced cfg (account s w) (model_turn cfg auth run s w)"
proof (cases rule: begin_turn_cases [of cfg s w])
  case (stopped y s1)
  then show ?thesis using assms by (simp add: model_turn_def Let_def then_step_def account_def)
next
  case (begun n s1)
  obtain i w1 where os: "open_step (mr_env cfg) (rn_id run) n ''model_call'' w = (i, w1)" by fastforce
  obtain k w2 where am: "assistant_message (mr_env cfg) run (user_id auth) []
      (step_event ''v1.step.started'' n ''model_call'' [] (mr_env cfg) (rn_id run) w1) = (k, w2)" by fastforce
  have "sizes w1 = (fst (sizes w), Suc (snd (sizes w)))"
    using sizes_new(1) [of "mr_env cfg" "rn_id run" n "''model_call''" w] by (simp add: os)
  moreover have "sizes w2 = sizes w1"
    using sizes_parts(8) [of "mr_env cfg" run "user_id auth" "[]" "step_event ''v1.step.started'' n ''model_call'' [] (mr_env cfg) (rn_id run) w1"]
    by (simp add: am)
  ultimately have acc: "account s1 w2 = account s w" by (simp add: account_def begun)
  have under: "under_ceilings (mr_settings cfg) (rs_budget s1)" using begun(4) assms by simp
  have after: "balanced cfg (account s w) (after_reply cfg auth (rn_id run) (tn_proposals tn) s2
      (step_event ''v1.step.completed'' n ''model_call'' (usage_payload (tn_usage tn)) (mr_env cfg) (rn_id run)
        (close_step (mr_env cfg) i ''completed'' (store_text (mr_env cfg) (rn_id run) k tn w3))))"
    if "account s2 w3 = account s w" "under_ceilings (mr_settings cfg) (rs_budget s2)" for tn s2 w3
    using after_reply_balanced [OF that(2)] that(1) by (simp add: account_def) (metis sizes_composed(2) sizes_parts(7) sizes_stream(5))
  have call: "balanced cfg (account s w) (call_provider cfg auth (rn_id run) k s1 w2)"
    using call_provider_balanced [OF under] acc by metis
  show ?thesis
    unfolding model_turn_def Let_def begun(1)
    using balanced_then [OF call after] by (simp add: then_step_def [of "(Inr n, s1, w)"] os am)
qed

lemma model_loop_balanced:
  "under_ceilings (mr_settings cfg) (rs_budget s) \<Longrightarrow> balanced cfg (account s w) (model_loop cfg auth run s w)"
proof (induction cfg auth run s w rule: model_loop.induct)
  case (1 cfg auth run s w)
  obtain x s1 w1 where t: "model_turn cfg auth run s w = (x, s1, w1)" using prod_cases3 by blast
  have b: "account s1 w1 = account s w" "under_ceilings (mr_settings cfg) (rs_budget s1)"
    using model_turn_balanced [OF 1(2), of w auth run] by (simp_all add: t)
  show ?case
    using 1(1) [OF t [symmetric] _ _ refl b(2)] b
    by (auto simp: model_loop.simps [of cfg auth run s w] t split: sum.split bool.split)
qed

text \<open>How much a run that starts with a fresh budget may add.\<close>

definition within_ceilings :: "loop_settings \<Rightarrow> world \<Rightarrow> world \<Rightarrow> bool" where
  "within_ceilings st w w' \<longleftrightarrow> fst (sizes w') \<le> fst (sizes w) + max 1 (nat (max_tool_calls_per_run st)) \<and>
     snd (sizes w') \<le> snd (sizes w) + max 1 (nat (max_steps_per_run st) + nat (max_tool_calls_per_run st))"

lemma failed_run_sizes [simp]: "sizes (snd (failed_run cfg r b c m w)) = sizes w"
  by (simp add: failed_run_def)

lemma end_run_sizes [simp]: "sizes (snd (end_run cfg r m)) = sizes (snd (snd m))"
  by (auto simp: end_run_def split: prod.split sum.split exc.split)

lemma loop_within:
  assumes "s = fresh_state cfg msgs w0"
  shows "within_ceilings (mr_settings cfg) w (snd (end_run cfg r (model_loop cfg auth run s w)))"
proof -
  have s: "under_ceilings (mr_settings cfg) (rs_budget s)" "lb_steps (rs_budget s) = 0" "lb_tool_calls (rs_budget s) = 0"
    using ceilings_new by (simp_all add: assms fresh_state_def new_loop_budget_def)
  obtain x s1 w1 where m: "model_loop cfg auth run s w = (x, s1, w1)" using prod_cases3 by blast
  have "account s1 w1 = account s w" "under_ceilings (mr_settings cfg) (rs_budget s1)"
    using model_loop_balanced [OF s(1), of w auth run] by (simp_all add: m)
  then show ?thesis unfolding within_ceilings_def m account_def s under_ceilings_def end_run_sizes snd_conv prod.inject by linarith
qed

lemma wizard_sizes [simp]: "sizes (snd (greet e auth run w)) = sizes w" "sizes (snd (wizard_draft e run k w)) = sizes w"
  "sizes (best_effort_prompt e cl auth r ct payload w) = sizes w"
proof -
  show "sizes (snd (greet e auth run w)) = sizes w" by (simp add: greet_def split_def)
  show "sizes (snd (wizard_draft e run k w)) = sizes w"
    by (auto simp: wizard_draft_def Let_def of_opt_def split_def intro!: sbind_sizes split: option.split sum.split)
  show "sizes (best_effort_prompt e cl auth r ct payload w) = sizes w"
    by (auto simp: best_effort_prompt_def intro: sizes_logs [OF emit_next_prompt_logs] split: option.split)
qed

lemma request_inputs_sizes [simp]: "sizes (snd (request_create_pricing_inputs cfg auth run w)) = sizes w"
  by (auto simp: request_create_pricing_inputs_def Let_def split_def intro!: sbind_sizes)

lemma propose_guided_within: "sizes w = sizes v \<Longrightarrow> within_ceilings st v (snd (propose_guided_create_quotation cfg run args w))"
  by (auto simp: propose_guided_create_quotation_def Let_def split_def within_ceilings_def split: option.split)

lemma within_same: "sizes w' = sizes w \<Longrightarrow> within_ceilings st w w'"
  by (simp add: within_ceilings_def)

section \<open>The property\<close>

text \<open>
  C13: whatever the model replies and however long, a run stores at most as many tool calls as the
  tool-call ceiling allows (or the single one of a submitted form) and as many steps as turns and
  tool calls together: the budget is counted before anything is written.
\<close>

theorem model_run_bounded:
  "length (tool_calls (cur (snd (model_run cfg auth run history w)))) \<le>
     length (tool_calls (cur w)) + max 1 (nat (max_tool_calls_per_run (mr_settings cfg))) \<and>
   length (run_steps (cur (snd (model_run cfg auth run history w)))) \<le>
     length (run_steps (cur w)) + max 1 (nat (max_steps_per_run (mr_settings cfg)) + nat (max_tool_calls_per_run (mr_settings cfg)))"
proof -
  have "within_ceilings (mr_settings cfg) w (snd (model_run cfg auth run history w))"
    using loop_within [OF refl]
    by (auto simp: model_run_def Let_def within_same [OF failed_run_sizes] within_same [OF request_inputs_sizes] propose_guided_within
        split: sum.split option.split)
  then show ?thesis by (simp add: within_ceilings_def sizes_def)
qed

end
