(* ===== verification/ConversationsApi.thy ===== *)
theory ConversationsApi
  imports ModelRunnerLaws
begin

text \<open>
  The endpoints of \<open>api/v1/conversations.py\<close> and \<open>api/v1/memory.py\<close>, the idempotency records of
  \<open>agent/idempotency.py\<close> and the jobs of \<open>worker.py\<close>. A handler works on a session as in \<open>Runs\<close>. The
  time texts pydantic writes into a stored answer are a parameter; the queue is one, too.
\<close>

section \<open>Configuration\<close>

record queued_job =
  qj_run_id :: string
  qj_context :: auth_context

record conv_cfg =
  cc_runner :: runner_cfg
  cc_router :: "provider list option"
  cc_ttl_seconds :: int
  cc_inline :: bool
  cc_enqueue :: "nat \<Rightarrow> queued_job \<Rightarrow> unit res"
  cc_dt_text :: "int \<Rightarrow> string"
  cc_dt_read :: "string \<Rightarrow> int option"

abbreviation cc_env :: "conv_cfg \<Rightarrow> env" where "cc_env cfg \<equiv> mr_env (cc_runner cfg)"

definition dt_ok :: "conv_cfg \<Rightarrow> bool" where
  "dt_ok cfg \<longleftrightarrow> (\<forall>t. cc_dt_read cfg (cc_dt_text cfg t) = Some t)"

section \<open>Idempotency records\<close>

definition find_key :: "int \<Rightarrow> string \<Rightarrow> db \<Rightarrow> agent_idempotency_key option" where
  "find_key uid key d = find (\<lambda>r. ik_user_id r = uid \<and> ik_key r = key) (idempotency_keys d)"

definition get_replay :: "env \<Rightarrow> int \<Rightarrow> string option \<Rightarrow> world \<Rightarrow> agent_idempotency_key option \<times> world" where
  "get_replay e uid key w = (case key of
      None \<Rightarrow> (None, w)
    | Some k \<Rightarrow>
        if k = [] then (None, w)
        else case find_key uid k (cur w) of
          None \<Rightarrow> (None, w)
        | Some rec \<Rightarrow> (case utc_now e w of (now, w1) \<Rightarrow> (if ik_expires_at rec \<le> now then None else Some rec, w1)))"

definition add_key :: "agent_idempotency_key \<Rightarrow> world \<Rightarrow> world" where
  "add_key r = in_db (\<lambda>d. d\<lparr>idempotency_keys := idempotency_keys d @ [r]\<rparr>)"

text \<open>The row is inserted with the commit that follows, which fails when its primary key is taken.\<close>

definition store_replay ::
    "env \<Rightarrow> int \<Rightarrow> string option \<Rightarrow> string \<Rightarrow> string \<Rightarrow> json \<Rightarrow> int \<Rightarrow> world \<Rightarrow> unit res \<times> world" where
  "store_replay e uid key kind resource_id payload ttl w = (case key of
      None \<Rightarrow> (Inr (), w)
    | Some k \<Rightarrow>
        if k = [] then (Inr (), w)
        else case utc_now e w of (now, w1) \<Rightarrow> case utc_now e w1 of (created, w2) \<Rightarrow>
          if find_key uid k (cur w) \<noteq> None then (Inl PyError, w2)
          else (Inr (), add_key \<lparr>ik_user_id = uid, ik_key = k, ik_resource_kind = kind, ik_resource_id = resource_id,
                  ik_response_payload = payload, ik_expires_at = now + ttl * 1000000, ik_created_at = created\<rparr> w2))"

section \<open>Answers\<close>

record conversation_response =
  co_id :: string
  co_title :: string
  co_kind :: string
  co_pinned :: bool
  co_archived :: bool
  co_created_at :: int
  co_updated_at :: int

record message_response =
  me_id :: string
  me_conversation_id :: string
  me_role :: string
  me_content :: string
  me_source :: string
  me_run_id :: "string option"
  me_created_at :: int

record run_create_response =
  rc_run_id :: string
  rc_status :: string

text \<open>Status, the header \<open>Idempotency-Replayed\<close>, and the body.\<close>

record 'a reply =
  rp_status :: int
  rp_replayed :: bool
  rp_body :: 'a

definition reply :: "int \<Rightarrow> bool \<Rightarrow> 'a \<Rightarrow> 'a reply" where
  "reply st replayed body = \<lparr>rp_status = st, rp_replayed = replayed, rp_body = body\<rparr>"

definition conversation_response_of :: "agent_conversation \<Rightarrow> conversation_response" where
  "conversation_response_of c = \<lparr>co_id = cv_id c, co_title = cv_title c,
     co_kind = (case cv_kind c of None \<Rightarrow> ''general'' | Some k \<Rightarrow> if k = [] then ''general'' else k),
     co_pinned = cv_pinned c, co_archived = cv_archived c, co_created_at = cv_created_at c, co_updated_at = cv_updated_at c\<rparr>"

definition message_response_of :: "agent_message \<Rightarrow> message_response" where
  "message_response_of m = \<lparr>me_id = ms_id m, me_conversation_id = ms_conversation_id m, me_role = ms_role m,
     me_content = ms_content m, me_source = ms_source m, me_run_id = ms_run_id m, me_created_at = ms_created_at m\<rparr>"

text \<open>What a record stores and how a replay reads it back; the payloads are those stored here.\<close>

definition conversation_json :: "conv_cfg \<Rightarrow> conversation_response \<Rightarrow> json" where
  "conversation_json cfg r = JObj [(''id'', JStr (co_id r)), (''title'', JStr (co_title r)), (''kind'', JStr (co_kind r)),
     (''pinned'', JBool (co_pinned r)), (''archived'', JBool (co_archived r)),
     (''created_at'', JStr (cc_dt_text cfg (co_created_at r))), (''updated_at'', JStr (cc_dt_text cfg (co_updated_at r)))]"

definition run_create_json :: "run_create_response \<Rightarrow> json" where
  "run_create_json r = JObj [(''run_id'', JStr (rc_run_id r)), (''status'', JStr (rc_status r))]"

definition str_at :: "json \<Rightarrow> string \<Rightarrow> string option" where
  "str_at v k = (case get_key v k of JStr s \<Rightarrow> Some s | _ \<Rightarrow> None)"

definition bool_at :: "json \<Rightarrow> string \<Rightarrow> bool option" where
  "bool_at v k = (case get_key v k of JBool b \<Rightarrow> Some b | _ \<Rightarrow> None)"

definition conversation_of_json :: "conv_cfg \<Rightarrow> json \<Rightarrow> conversation_response option" where
  "conversation_of_json cfg v = do {
     i \<leftarrow> str_at v ''id''; t \<leftarrow> str_at v ''title''; k \<leftarrow> str_at v ''kind'';
     p \<leftarrow> bool_at v ''pinned''; a \<leftarrow> bool_at v ''archived'';
     c \<leftarrow> Option.bind (str_at v ''created_at'') (cc_dt_read cfg); u \<leftarrow> Option.bind (str_at v ''updated_at'') (cc_dt_read cfg);
     Some \<lparr>co_id = i, co_title = t, co_kind = k, co_pinned = p, co_archived = a, co_created_at = c, co_updated_at = u\<rparr> }"

definition run_create_of_json :: "json \<Rightarrow> run_create_response option" where
  "run_create_of_json v = do {
     i \<leftarrow> str_at v ''run_id''; s \<leftarrow> str_at v ''status''; Some \<lparr>rc_run_id = i, rc_status = s\<rparr> }"

text \<open>A stored payload of another endpoint fails validation, which no handler catches.\<close>

definition replayed :: "int \<Rightarrow> 'a option \<Rightarrow> 'a reply res" where
  "replayed st body = (case body of None \<Rightarrow> Inl (ValueError []) | Some b \<Rightarrow> Inr (reply st True b))"

section \<open>Conversations\<close>

definition require_conversation :: "auth_context \<Rightarrow> string \<Rightarrow> world \<Rightarrow> agent_conversation res" where
  "require_conversation auth k w = (case get_conversation k w of
      Some c \<Rightarrow> if cv_user_id c \<noteq> user_id auth \<or> cv_deleted_at c \<noteq> None then Inl (not_found ''Conversation not found'') else Inr c
    | None \<Rightarrow> Inl (not_found ''Conversation not found''))"

definition new_conversation :: "env \<Rightarrow> auth_context \<Rightarrow> string \<Rightarrow> string \<Rightarrow> world \<Rightarrow> agent_conversation \<times> world" where
  "new_conversation e auth title kind w =
     (case new_id e w of (k, w1) \<Rightarrow> case utc_now e w1 of (c, w2) \<Rightarrow> case utc_now e w2 of (u, w3) \<Rightarrow>
        let row = \<lparr>cv_id = k, cv_user_id = user_id auth, cv_title = title, cv_kind = Some kind, cv_pinned = False,
                   cv_archived = False, cv_deleted_at = None, cv_created_at = c, cv_updated_at = u\<rparr>
        in (row, add_conversation row w3))"

definition create_conversation ::
    "conv_cfg \<Rightarrow> auth_context \<Rightarrow> string \<Rightarrow> string \<Rightarrow> string option \<Rightarrow> world \<Rightarrow> conversation_response reply res \<times> world" where
  "create_conversation cfg auth title kind key w =
     (case get_replay (cc_env cfg) (user_id auth) key w of
        (Some rec, w1) \<Rightarrow> (replayed 200 (conversation_of_json cfg (ik_response_payload rec)), w1)
      | (None, w1) \<Rightarrow>
          (case new_conversation (cc_env cfg) auth title kind w1 of (c, w2) \<Rightarrow>
             sbind (store_replay (cc_env cfg) (user_id auth) key ''conversation'' (cv_id c)
                     (conversation_json cfg (conversation_response_of c)) (cc_ttl_seconds cfg) w2) (\<lambda>_ w3.
               (Inr (reply 201 False (conversation_response_of c)), commit w3))))"

record conversation_page =
  cp_conversations :: "conversation_response list"
  cp_next_cursor :: "string option"
  cp_has_more :: bool

definition in_listing :: "auth_context \<Rightarrow> string option \<Rightarrow> agent_conversation \<Rightarrow> bool" where
  "in_listing auth cursor c \<longleftrightarrow> cv_user_id c = user_id auth \<and> cv_deleted_at c = None \<and>
     (case cursor of None \<Rightarrow> True | Some k \<Rightarrow> cv_id c < k)"

definition list_conversations :: "auth_context \<Rightarrow> nat \<Rightarrow> string option \<Rightarrow> world \<Rightarrow> conversation_page" where
  "list_conversations auth limit cursor w =
     (let rows = take (limit + 1) (rev (sort_key cv_id (filter (in_listing auth cursor) (conversations (cur w)))));
          has_more = length rows > limit; page = take limit rows
      in \<lparr>cp_conversations = map conversation_response_of page,
          cp_next_cursor = (if has_more \<and> page \<noteq> [] then Some (cv_id (last page)) else None),
          cp_has_more = has_more\<rparr>)"

record conversation_detail =
  cd_conversation :: conversation_response
  cd_messages :: "message_response list"

definition get_conversation_endpoint :: "auth_context \<Rightarrow> string \<Rightarrow> world \<Rightarrow> conversation_detail res \<times> world" where
  "get_conversation_endpoint auth k w =
     sbind (require_conversation auth k w, w) (\<lambda>c w.
       (Inr \<lparr>cd_conversation = conversation_response_of c,
             cd_messages = map message_response_of (take 50 (sort_key ms_created_at
               (filter (\<lambda>m. ms_conversation_id m = cv_id c) (messages (cur w)))))\<rparr>, w))"

record conversation_update =
  cu_title :: "string option"
  cu_pinned :: "bool option"
  cu_archived :: "bool option"

definition or_old :: "'a option \<Rightarrow> 'a \<Rightarrow> 'a" where
  "or_old v old = (case v of None \<Rightarrow> old | Some x \<Rightarrow> x)"

definition updated_conversation :: "conversation_update \<Rightarrow> int \<Rightarrow> agent_conversation \<Rightarrow> agent_conversation" where
  "updated_conversation p now c = c\<lparr>cv_title := or_old (cu_title p) (cv_title c), cv_pinned := or_old (cu_pinned p) (cv_pinned c),
     cv_archived := or_old (cu_archived p) (cv_archived c), cv_updated_at := now\<rparr>"

definition update_conversation ::
    "conv_cfg \<Rightarrow> auth_context \<Rightarrow> string \<Rightarrow> conversation_update \<Rightarrow> world \<Rightarrow> conversation_response res \<times> world" where
  "update_conversation cfg auth k p w =
     sbind (require_conversation auth k w, w) (\<lambda>c w.
       case utc_now (cc_env cfg) w of (now, w1) \<Rightarrow>
         (Inr (conversation_response_of (updated_conversation p now c)), commit (upd_conversation k (updated_conversation p now) w1)))"

definition delete_conversation :: "conv_cfg \<Rightarrow> auth_context \<Rightarrow> string \<Rightarrow> world \<Rightarrow> unit res \<times> world" where
  "delete_conversation cfg auth k w =
     sbind (require_conversation auth k w, w) (\<lambda>c w.
       case utc_now (cc_env cfg) w of (d, w1) \<Rightarrow> case utc_now (cc_env cfg) w1 of (u, w2) \<Rightarrow>
         (Inr (), commit (upd_conversation k (\<lambda>c. c\<lparr>cv_deleted_at := Some d, cv_updated_at := u\<rparr>) w2)))"

section \<open>Workflow drafts\<close>

record draft_save =
  ds_contract_id :: string
  ds_contract_version :: string
  ds_current_step_id :: string
  ds_payload :: dict
  ds_step_status :: dict

record draft_response =
  wd_conversation_id :: string
  wd_saved :: draft_save
  wd_created_at :: int
  wd_updated_at :: int
  wd_expires_at :: int

definition draft_response_of :: "agent_workflow_draft \<Rightarrow> draft_response" where
  "draft_response_of d = \<lparr>wd_conversation_id = dr_conversation_id d,
     wd_saved = \<lparr>ds_contract_id = dr_contract_id d, ds_contract_version = dr_contract_version d,
       ds_current_step_id = dr_current_step_id d, ds_payload = dr_payload d, ds_step_status = dr_step_status d\<rparr>,
     wd_created_at = dr_created_at d, wd_updated_at = dr_updated_at d, wd_expires_at = dr_expires_at d\<rparr>"

definition draft_expired :: "agent_workflow_draft \<Rightarrow> int \<Rightarrow> bool" where
  "draft_expired d now \<longleftrightarrow> dr_expires_at d < now"

definition draft_lifetime :: int where "draft_lifetime = 7 * day_us"

definition get_workflow_draft :: "conv_cfg \<Rightarrow> auth_context \<Rightarrow> string \<Rightarrow> world \<Rightarrow> draft_response res \<times> world" where
  "get_workflow_draft cfg auth k w =
     sbind (require_conversation auth k w, w) (\<lambda>c w.
       case get_draft (cv_id c) w of
         None \<Rightarrow> (Inl (not_found ''Workflow draft not found''), w)
       | Some d \<Rightarrow> (case utc_now (cc_env cfg) w of (now, w1) \<Rightarrow>
           if draft_expired d now then (Inl (HTTPException 410 ''Workflow draft expired''), commit (del_draft (cv_id c) w1))
           else (Inr (draft_response_of d), record_metric DraftResume w1)))"

definition saved_draft :: "draft_save \<Rightarrow> int \<Rightarrow> agent_workflow_draft \<Rightarrow> agent_workflow_draft" where
  "saved_draft p now d = d\<lparr>dr_contract_id := ds_contract_id p, dr_contract_version := ds_contract_version p,
     dr_current_step_id := ds_current_step_id p, dr_payload := ds_payload p, dr_step_status := ds_step_status p,
     dr_updated_at := now, dr_expires_at := now + draft_lifetime\<rparr>"

definition new_draft :: "string \<Rightarrow> draft_save \<Rightarrow> int \<Rightarrow> agent_workflow_draft" where
  "new_draft k p now = \<lparr>dr_conversation_id = k, dr_contract_id = ds_contract_id p, dr_contract_version = ds_contract_version p,
     dr_current_step_id = ds_current_step_id p, dr_payload = ds_payload p, dr_step_status = ds_step_status p,
     dr_created_at = now, dr_updated_at = now, dr_expires_at = now + draft_lifetime\<rparr>"

definition save_workflow_draft ::
    "conv_cfg \<Rightarrow> auth_context \<Rightarrow> string \<Rightarrow> draft_save \<Rightarrow> world \<Rightarrow> draft_response res \<times> world" where
  "save_workflow_draft cfg auth k p w =
     sbind (require_conversation auth k w, w) (\<lambda>c w.
       case utc_now (cc_env cfg) w of (now, w1) \<Rightarrow>
       let touch = upd_conversation k (\<lambda>c. c\<lparr>cv_updated_at := now\<rparr>)
       in case get_draft (cv_id c) w of
            None \<Rightarrow> (Inr (draft_response_of (new_draft (cv_id c) p now)), commit (touch (add_draft (new_draft (cv_id c) p now) w1)))
          | Some d \<Rightarrow> (Inr (draft_response_of (saved_draft p now d)), commit (touch (upd_draft (cv_id c) (saved_draft p now) w1))))"

definition delete_workflow_draft :: "conv_cfg \<Rightarrow> auth_context \<Rightarrow> string \<Rightarrow> world \<Rightarrow> unit res \<times> world" where
  "delete_workflow_draft cfg auth k w =
     sbind (require_conversation auth k w, w) (\<lambda>c w.
       if get_draft (cv_id c) w = None then (Inr (), w)
       else case utc_now (cc_env cfg) w of (now, w1) \<Rightarrow>
         (Inr (), commit (upd_conversation k (\<lambda>c. c\<lparr>cv_updated_at := now\<rparr>) (del_draft (cv_id c) w1))))"

text \<open>The nightly job, with the clock of the database.\<close>

definition purge_expired_workflow_drafts :: "int \<Rightarrow> world \<Rightarrow> nat \<times> world" where
  "purge_expired_workflow_drafts now w =
     (length (filter (\<lambda>d. dr_expires_at d < now) (drafts (cur w))),
      commit (in_db (\<lambda>db. db\<lparr>drafts := filter (\<lambda>d. \<not> dr_expires_at d < now) (drafts db)\<rparr>) w))"

section \<open>Messages and runs\<close>

definition user_message :: "env \<Rightarrow> auth_context \<Rightarrow> string \<Rightarrow> string \<Rightarrow> string \<Rightarrow> world \<Rightarrow> string \<times> world" where
  "user_message e auth c content source w =
     (case new_id e w of (k, w1) \<Rightarrow> case utc_now e w1 of (t, w2) \<Rightarrow>
        (k, add_message \<lparr>ms_id = k, ms_conversation_id = c, ms_user_id = user_id auth, ms_role = ''user'', ms_content = content,
              ms_source = source, ms_run_id = None, ms_created_at = t\<rparr> w2))"

definition queued_run :: "env \<Rightarrow> auth_context \<Rightarrow> string \<Rightarrow> string \<Rightarrow> world \<Rightarrow> string \<times> world" where
  "queued_run e auth c message_id w =
     (case new_id e w of (k, w1) \<Rightarrow> case utc_now e w1 of (t, w2) \<Rightarrow> case utc_now e w2 of (u, w3) \<Rightarrow>
        (k, add_run \<lparr>rn_id = k, rn_conversation_id = c, rn_user_id = user_id auth, rn_status = ''queued'',
              rn_input_message_id = Some message_id, rn_output_message_id = None, rn_error = None, rn_created_at = t,
              rn_updated_at = u, rn_started_at = None, rn_completed_at = None, rn_cancelled_at = None\<rparr> w3))"

definition create_run_record ::
    "env \<Rightarrow> auth_context \<Rightarrow> string \<Rightarrow> string \<Rightarrow> string \<Rightarrow> world \<Rightarrow> string res \<times> world" where
  "create_run_record e auth k content source w =
     sbind (require_conversation auth k w, w) (\<lambda>c w.
       case user_message e auth (cv_id c) content source w of (m, w1) \<Rightarrow>
       case queued_run e auth (cv_id c) m w1 of (r, w2) \<Rightarrow>
       case utc_now e (upd_message m (\<lambda>q. q\<lparr>ms_run_id := Some r\<rparr>) w2) of (now, w3) \<Rightarrow>
         (Inr r, upd_conversation k (\<lambda>c. c\<lparr>cv_updated_at := now\<rparr>) w3))"

definition run_answer :: "string \<Rightarrow> world \<Rightarrow> run_create_response res" where
  "run_answer r w = (case get_run r w of None \<Rightarrow> Inl PyError | Some run \<Rightarrow> Inr \<lparr>rc_run_id = r, rc_status = rn_status run\<rparr>)"

definition store_run_answer ::
    "conv_cfg \<Rightarrow> auth_context \<Rightarrow> string option \<Rightarrow> string \<Rightarrow> run_create_response \<Rightarrow> world \<Rightarrow> unit res \<times> world" where
  "store_run_answer cfg auth key kind ans w =
     sbind (store_replay (cc_env cfg) (user_id auth) key kind (rc_run_id ans) (run_create_json ans) (cc_ttl_seconds cfg) w)
       (\<lambda>_ w. (Inr (), commit w))"

definition send_message ::
    "conv_cfg \<Rightarrow> auth_context \<Rightarrow> string \<Rightarrow> string \<Rightarrow> string \<Rightarrow> string option \<Rightarrow> world \<Rightarrow> run_create_response reply res \<times> world" where
  "send_message cfg auth k content source key w =
     (case get_replay (cc_env cfg) (user_id auth) key w of
        (Some rec, w1) \<Rightarrow> (replayed 200 (run_create_of_json (ik_response_payload rec)), w1)
      | (None, w1) \<Rightarrow>
          sbind (create_run_record (cc_env cfg) auth k content source w1) (\<lambda>r w2.
          sbind (execute_run (cc_runner cfg) (cc_router cfg) auth r w2) (\<lambda>_ w3.
          sbind (run_answer r w3, w3) (\<lambda>ans w3.
          sbind (store_run_answer cfg auth key ''message_run'' ans w3) (\<lambda>_ w4. (Inr (reply 200 False ans), w4))))))"

definition start_run ::
    "conv_cfg \<Rightarrow> auth_context \<Rightarrow> string \<Rightarrow> string \<Rightarrow> string \<Rightarrow> string option \<Rightarrow> world \<Rightarrow> run_create_response reply res \<times> world" where
  "start_run cfg auth k content source key w =
     (case get_replay (cc_env cfg) (user_id auth) key w of
        (Some rec, w1) \<Rightarrow> (replayed 202 (run_create_of_json (ik_response_payload rec)), w1)
      | (None, w1) \<Rightarrow>
          sbind (create_run_record (cc_env cfg) auth k content source w1) (\<lambda>r w2.
          sbind (run_answer r w2, w2) (\<lambda>ans w2.
          sbind (store_run_answer cfg auth key ''run'' ans w2) (\<lambda>_ w3.
          sbind (if cc_inline cfg then execute_run (cc_runner cfg) (cc_router cfg) auth r w3
                 else (cc_enqueue cfg (tick w3) \<lparr>qj_run_id = r, qj_context = auth\<rparr>, w3)) (\<lambda>_ w4.
            (Inr (reply 202 False ans), w4))))))"

text \<open>A queued job opens a session of its own.\<close>

definition run_agent_job :: "conv_cfg \<Rightarrow> queued_job \<Rightarrow> world \<Rightarrow> unit res \<times> world" where
  "run_agent_job cfg job w =
     served (execute_run (cc_runner cfg) (cc_router cfg) (qj_context job) (qj_run_id job) (close_session w))"

section \<open>Memory\<close>

record memory_response =
  mm_id :: string
  mm_key :: string
  mm_value :: string
  mm_source :: string
  mm_created_at :: int
  mm_updated_at :: int

definition memory_response_of :: "agent_user_memory \<Rightarrow> memory_response" where
  "memory_response_of m = \<lparr>mm_id = um_id m, mm_key = um_key m, mm_value = um_value m, mm_source = um_source m,
     mm_created_at = um_created_at m, mm_updated_at = um_updated_at m\<rparr>"

definition list_memory :: "auth_context \<Rightarrow> world \<Rightarrow> memory_response list" where
  "list_memory auth w = map memory_response_of (rev (sort_key um_updated_at
     (filter (\<lambda>m. um_user_id m = user_id auth) (user_memory (cur w)))))"

definition delete_memory :: "auth_context \<Rightarrow> string \<Rightarrow> world \<Rightarrow> unit res \<times> world" where
  "delete_memory auth k w = (case get_memory k w of
      None \<Rightarrow> (Inl (not_found ''Memory not found''), w)
    | Some m \<Rightarrow> if um_user_id m \<noteq> user_id auth then (Inl (not_found ''Memory not found''), w)
                else (Inr (), commit (del_memory k w)))"

end
