(* ===== verification/ConversationsLaws.thy ===== *)
theory ConversationsLaws
  imports ConversationsApi
begin

text \<open>
  Properties of the conversations API: ownership, paging, replayed requests, drafts and what is left
  of a message that was answered.
\<close>

section \<open>Ownership\<close>

definition unreachable :: "auth_context \<Rightarrow> string \<Rightarrow> world \<Rightarrow> bool" where
  "unreachable auth k w \<longleftrightarrow> (\<forall>c. get_conversation k w = Some c \<longrightarrow> cv_user_id c \<noteq> user_id auth \<or> cv_deleted_at c \<noteq> None)"

lemma unreachable_denied: "unreachable auth k w \<Longrightarrow> require_conversation auth k w = Inl (not_found ''Conversation not found'')"
  by (auto simp: unreachable_def require_conversation_def split: option.split)

lemma reachable_found: "require_conversation auth k w = Inr c \<Longrightarrow> get_conversation k w = Some c \<and> cv_id c = k \<and>
    cv_user_id c = user_id auth \<and> cv_deleted_at c = None"
  using conversation_rows.get_key by (auto simp: require_conversation_def split: option.splits if_splits)

lemma replay_db: "get_replay e uid key w = (x, w1) \<Longrightarrow> cur w1 = cur w \<and> saved w1 = saved w \<and> sent w1 = sent w \<and> idn w1 = idn w"
  by (auto simp: get_replay_def utc_now_def split: option.splits if_splits)

lemma require_rows: "cur w1 = cur w \<Longrightarrow> require_conversation auth k w1 = require_conversation auth k w"
  by (simp add: require_conversation_def get_conversation_def)

section \<open>Paging\<close>

primrec follow_pages :: "nat \<Rightarrow> auth_context \<Rightarrow> nat \<Rightarrow> string option \<Rightarrow> world \<Rightarrow> conversation_response list" where
  "follow_pages 0 auth limit cursor w = []"
| "follow_pages (Suc n) auth limit cursor w = (let page = list_conversations auth limit cursor w in
     cp_conversations page @ (case cp_next_cursor page of None \<Rightarrow> [] | Some k \<Rightarrow> follow_pages n auth limit (Some k) w))"

definition listing :: "auth_context \<Rightarrow> string option \<Rightarrow> world \<Rightarrow> agent_conversation list" where
  "listing auth cursor w = rev (sort_key cv_id (filter (in_listing auth cursor) (conversations (cur w))))"

lemma listing_cursor: "listing auth (Some k) w = filter (\<lambda>c. cv_id c < k) (listing auth None w)"
proof -
  have "filter (in_listing auth (Some k)) cs = filter (\<lambda>c. cv_id c < k) (filter (in_listing auth None) cs)" for cs
    by (induction cs) (auto simp: in_listing_def)
  then show ?thesis unfolding listing_def by (simp only: filter_sort [symmetric] rev_filter)
qed

lemma listing_sorted: "distinct (map cv_id (conversations (cur w))) \<Longrightarrow> sorted_wrt (\<lambda>c d. cv_id d < cv_id c) (listing auth None w)"
proof -
  assume d: "distinct (map cv_id (conversations (cur w)))"
  let ?xs = "sort_key cv_id (filter (in_listing auth None) (conversations (cur w)))"
  have "distinct (map cv_id ?xs)"
    using d by (simp add: distinct_map inj_on_def)
  then have "sorted_wrt (<) (map cv_id ?xs)" by (simp add: strict_sorted_iff)
  then show ?thesis by (simp add: listing_def sorted_wrt_rev sorted_wrt_map)
qed

lemma below_nth: "sorted_wrt (\<lambda>c d. f d < f c) xs \<Longrightarrow> n < length xs \<Longrightarrow> filter (\<lambda>c. f c < (f (xs ! n) :: 'b :: linorder)) xs = drop (Suc n) xs"
proof (induction xs arbitrary: n)
  case (Cons x xs)
  show ?case
  proof (cases n)
    case 0
    then show ?thesis using Cons.prems(1) by (auto simp: filter_id_conv)
  next
    case (Suc m)
    then have "f (xs ! m) < f x" and "m < length xs" using Cons.prems by simp_all
    then show ?thesis using Cons.IH [of m] Cons.prems(1) Suc by (simp add: less_imp_not_less)
  qed
qed simp

lemma page_step:
  "cp_conversations (list_conversations auth limit cursor w) = map conversation_response_of (take limit (listing auth cursor w))"
  "cp_next_cursor (list_conversations auth limit cursor w) =
     (if limit < length (listing auth cursor w) \<and> 0 < limit then Some (cv_id (listing auth cursor w ! (limit - 1))) else None)"
  by (auto simp: list_conversations_def Let_def listing_def [symmetric] min_def last_conv_nth)

lemma follow_drop:
  assumes "sorted_wrt (\<lambda>c d. cv_id d < cv_id c) (listing auth None w)" and "0 < limit"
  shows "listing auth cursor w = drop m (listing auth None w) \<Longrightarrow> length (listing auth cursor w) \<le> n \<Longrightarrow>
    follow_pages (Suc n) auth limit cursor w = map conversation_response_of (listing auth cursor w)"
proof (induction n arbitrary: cursor m)
  case 0
  then show ?case by (simp add: page_step)
next
  case (Suc n)
  let ?L = "listing auth None w" and ?D = "listing auth cursor w"
  show ?case
  proof (cases "limit < length ?D")
    case True
    let ?k = "cv_id (?D ! (limit - 1))"
    have "?D ! (limit - 1) = ?L ! (m + (limit - 1))" using True Suc.prems(1) by simp
    moreover have "m + (limit - 1) < length ?L" using True Suc.prems(1) by simp
    ultimately have next_D: "listing auth (Some ?k) w = drop (m + limit) ?L"
      using below_nth [OF assms(1)] assms(2) by (simp add: listing_cursor)
    have "follow_pages (Suc n) auth limit (Some ?k) w = map conversation_response_of (listing auth (Some ?k) w)"
      using Suc.prems assms(2) True unfolding next_D by (intro Suc.IH [OF next_D, unfolded next_D]) simp
    moreover have "listing auth (Some ?k) w = drop limit ?D" using next_D Suc.prems(1) by (simp add: add.commute)
    ultimately show ?thesis
      using True assms(2) by (simp add: follow_pages.simps(2) [of "Suc n"] page_step Let_def flip: map_append del: follow_pages.simps)
  next
    case False
    then show ?thesis by (simp add: page_step)
  qed
qed

text \<open>
  C23: following the cursor of the conversation list shows every live conversation of the user
  exactly once, newest id first, whatever the page size.
\<close>

theorem paging_lists_each_once:
  assumes "distinct (map cv_id (conversations (cur w)))" and "0 < limit"
  shows "follow_pages (Suc (length (conversations (cur w)))) auth limit None w =
    map conversation_response_of (rev (sort_key cv_id
      (filter (\<lambda>c. cv_user_id c = user_id auth \<and> cv_deleted_at c = None) (conversations (cur w)))))"
proof -
  have "length (listing auth None w) \<le> length (conversations (cur w))" by (simp add: listing_def)
  then have "follow_pages (Suc (length (conversations (cur w)))) auth limit None w = map conversation_response_of (listing auth None w)"
    using follow_drop [OF listing_sorted [OF assms(1)] assms(2), where cursor = None and m = 0] by simp
  moreover have "filter (in_listing auth None) cs = filter (\<lambda>c. cv_user_id c = user_id auth \<and> cv_deleted_at c = None) cs" for cs
    by (induction cs) (simp_all add: in_listing_def)
  ultimately show ?thesis by (simp only: listing_def)
qed

section \<open>Requests for another user's conversation\<close>

lemma create_run_denied: "unreachable auth k w \<Longrightarrow> create_run_record e auth k content source w = (Inl (not_found ''Conversation not found''), w)"
  by (simp add: create_run_record_def unreachable_denied)


lemma row_modify_at: "d \<in> set (row_modify key k f rows) \<Longrightarrow> (\<And>r. key (f r) = key r) \<Longrightarrow> key d = k \<Longrightarrow> \<exists>r \<in> set rows. d = f r"
  by (induction rows) (auto simp: row_modify_def split: if_splits)

text \<open>
  a deleted conversation is gone from every conversation endpoint and from the list, for its
  owner as for anyone else, but its runs stay as they were, and the runs API still serves them.
\<close>

theorem deleted_conversation_is_gone:
  assumes "delete_conversation cfg auth k w = (Inr (), w')"
  shows "unreachable auth' k w' \<and> cur w' = saved w' \<and> runs (saved w') = runs (cur w) \<and>
    k \<notin> co_id ` set (cp_conversations (list_conversations auth' limit cursor w')) \<and>
    (\<forall>r. require_run auth r w' = require_run auth r w)"

proof -
  obtain c where c: "require_conversation auth k w = Inr c"
    using assms by (cases "require_conversation auth k w") (auto simp: delete_conversation_def)
  define f :: "agent_conversation \<Rightarrow> agent_conversation" where "f = (\<lambda>c. c\<lparr>cv_deleted_at := Some (clock (cc_env cfg) (tick w)), cv_updated_at := clock (cc_env cfg) (Suc (tick w))\<rparr>)"
  define w0 where "w0 = w\<lparr>tick := Suc (Suc (tick w))\<rparr>"
  have w': "w' = commit (upd_conversation k f w0)"
    using assms by (auto simp: delete_conversation_def c utc_now_def f_def w0_def)
  have key: "cv_id (f d) = cv_id d" for d by (simp add: f_def)
  have gone: "cv_deleted_at d \<noteq> None" if "d \<in> set (conversations (cur w'))" "cv_id d = k" for d
  proof -
    have "d \<in> set (row_modify cv_id k f (conversations (cur w0)))"
      using that(1) by (simp add: w' commit_def upd_conversation_def in_db_def)
    from row_modify_at [OF this key that(2)] show ?thesis by (auto simp: f_def)
  qed
  have "unreachable auth' k w'"
    using gone row_find_SomeD by (fastforce simp: unreachable_def get_conversation_def)
  moreover have "k \<notin> co_id ` set (cp_conversations (list_conversations auth' limit cursor w'))"
    using gone by (fastforce simp: page_step conversation_response_of_def listing_def in_listing_def dest!: in_set_takeD)
  moreover have "runs (cur w') = runs (cur w)" "cur w' = saved w'"
    by (simp_all add: w' commit_def upd_conversation_def in_db_def w0_def)
  ultimately show ?thesis by (simp add: require_run_def get_run_def)
qed

section \<open>Replays\<close>

lemma find_app: "find P (xs @ ys) = (case find P xs of Some x \<Rightarrow> Some x | None \<Rightarrow> find P ys)"
  by (induction xs) simp_all

lemma find_key_add: "find_key uid k (cur (add_key r w)) = (case find_key uid k (cur w) of
    Some x \<Rightarrow> Some x | None \<Rightarrow> if ik_user_id r = uid \<and> ik_key r = k then Some r else None)"
  by (simp add: find_key_def add_key_def in_db_def find_app split: option.split)

lemma conversation_json_read: "dt_ok cfg \<Longrightarrow> conversation_of_json cfg (conversation_json cfg r) = Some r"
  by (simp add: conversation_of_json_def conversation_json_def str_at_def bool_at_def get_key_def d_get_def dt_ok_def)

lemma run_create_json_read: "run_create_of_json (run_create_json r) = Some r"
  by (simp add: run_create_of_json_def run_create_json_def str_at_def get_key_def d_get_def)

text \<open>
  C20: a creation request repeated with its idempotency key before the record expires creates
  nothing: it answers 200 with the stored conversation, whatever title it asks for now.
\<close>

theorem creation_is_replayed:
  assumes "create_conversation cfg auth title kind (Some key) w = (Inr ans, w1)" and "find_key (user_id auth) key (cur w) = None"
    and "key \<noteq> []" and "dt_ok cfg" and "idempotency_keys (cur w2) = idempotency_keys (saved w1)"
    and "clock (cc_env cfg) (tick w2) < clock (cc_env cfg) (tick w + 2) + cc_ttl_seconds cfg * 1000000"
  shows "create_conversation cfg auth title' kind' (Some key) w2 = (Inr (reply 200 True (rp_body ans)), w2\<lparr>tick := Suc (tick w2)\<rparr>)"
proof -
  obtain c w0 where nc: "new_conversation (cc_env cfg) auth title kind w = (c, w0)" by fastforce
  have w0: "tick w0 = tick w + 2" "idempotency_keys (cur w0) = idempotency_keys (cur w)"
    using nc by (auto simp: new_conversation_def new_id_def utc_now_def Let_def add_conversation_def in_db_def)
  define row where "row = \<lparr>ik_user_id = user_id auth, ik_key = key, ik_resource_kind = ''conversation'', ik_resource_id = cv_id c,
      ik_response_payload = conversation_json cfg (conversation_response_of c),
      ik_expires_at = clock (cc_env cfg) (tick w + 2) + cc_ttl_seconds cfg * 1000000, ik_created_at = clock (cc_env cfg) (tick w + 3)\<rparr>"
  have none: "find_key (user_id auth) key (cur w0) = None" using assms(2) w0(2) by (simp add: find_key_def)
  have "create_conversation cfg auth title kind (Some key) w =
      (Inr (reply 201 False (conversation_response_of c)), commit (add_key row (w0\<lparr>tick := tick w + 4\<rparr>)))"
    using assms(2,3) none by (simp add: create_conversation_def get_replay_def nc store_replay_def utc_now_def w0 row_def eval_nat_numeral)
  then have ans: "rp_body ans = conversation_response_of c" and "cur w1 = cur (add_key row (w0\<lparr>tick := tick w + 4\<rparr>))"
    and sv: "saved w1 = cur w1"
    using assms(1) by (auto simp: reply_def commit_def)
  then have "find_key (user_id auth) key (saved w1) = Some row"
    using none by (simp add: find_key_add row_def)
  then have "find_key (user_id auth) key (cur w2) = Some row" using assms(5) by (simp add: find_key_def)
  then show ?thesis
    using assms(3,6) by (simp add: create_conversation_def get_replay_def utc_now_def row_def conversation_json_read [OF assms(4)] replayed_def ans)
qed

lemma store_replay_taken:
  assumes "find_key uid key (cur w) \<noteq> None" and "key \<noteq> []"
  shows "\<exists>v. store_replay e uid (Some key) kind i payload ttl w = (Inl PyError, v) \<and> saved v = saved w \<and> sent v = sent w"
  using assms by (simp add: store_replay_def utc_now_def)

lemma store_answer_taken:
  assumes "find_key (user_id auth) key (cur w) \<noteq> None" and "key \<noteq> []"
  shows "\<exists>v. store_run_answer cfg auth (Some key) kind a w = (Inl PyError, v) \<and> saved v = saved w \<and> sent v = sent w"
  using store_replay_taken [OF assms, of "cc_env cfg" kind "rc_run_id a" "run_create_json a" "cc_ttl_seconds cfg"]
  by (auto simp: store_run_answer_def)

lemma create_run_frame: "create_run_record e auth k content source w = (x, v) \<Longrightarrow>
    saved v = saved w \<and> sent v = sent w \<and> idempotency_keys (cur v) = idempotency_keys (cur w)"
  by (cases "require_conversation auth k w")
    (auto simp: create_run_record_def user_message_def queued_run_def new_id_def utc_now_def table_defs)

lemma execute_run_keys: "idempotency_keys (cur (snd (execute_run cfg router auth r w))) = idempotency_keys (cur w)"
proof (cases router)
  case None
  then show ?thesis using loop_run_effect [of "loop_part cfg" auth r w] by (simp add: execute_run_def loop_effect_def)
next
  case (Some ps)
  then show ?thesis using model_run_ok by (simp add: execute_run_def runner_frame_def split: option.split)
qed

text \<open>The three requests that store a record, under a key whose record has expired.\<close>

lemma create_spent:
  assumes "get_replay (cc_env cfg) (user_id auth) (Some key) w = (None, w\<lparr>tick := Suc (tick w)\<rparr>)"
    and "find_key (user_id auth) key (cur w) \<noteq> None" and "key \<noteq> []"
  shows "\<exists>v. create_conversation cfg auth title kind (Some key) w = (Inl PyError, v) \<and> saved v = saved w"
proof -
  obtain c w0 where nc: "new_conversation (cc_env cfg) auth title kind (w\<lparr>tick := Suc (tick w)\<rparr>) = (c, w0)" by fastforce
  have w0: "saved w0 = saved w" "idempotency_keys (cur w0) = idempotency_keys (cur w)"
    using nc by (auto simp: new_conversation_def new_id_def utc_now_def Let_def add_conversation_def in_db_def)
  then have taken: "find_key (user_id auth) key (cur w0) \<noteq> None" using assms(2) by (simp add: find_key_def)
  obtain v where "store_replay (cc_env cfg) (user_id auth) (Some key) ''conversation'' (cv_id c)
      (conversation_json cfg (conversation_response_of c)) (cc_ttl_seconds cfg) w0 = (Inl PyError, v)" "saved v = saved w"
    using store_replay_taken [OF taken assms(3)] w0(1) by metis
  then show ?thesis by (simp add: create_conversation_def assms(1) nc)
qed

lemma start_spent:
  assumes "get_replay (cc_env cfg) (user_id auth) (Some key) w = (None, w\<lparr>tick := Suc (tick w)\<rparr>)"
    and "find_key (user_id auth) key (cur w) \<noteq> None" and "key \<noteq> []"
  shows "\<exists>err v. start_run cfg auth k content source (Some key) w = (Inl err, v) \<and> saved v = saved w \<and> sent v = sent w"
proof -
  obtain q v where cr: "create_run_record (cc_env cfg) auth k content source (w\<lparr>tick := Suc (tick w)\<rparr>) = (q, v)" by fastforce
  note f = create_run_frame [OF cr]
  then have taken: "find_key (user_id auth) key (cur v) \<noteq> None" using assms(2) by (simp add: find_key_def)
  show ?thesis
  proof (cases q)
    case (Inl err)
    then show ?thesis using f by (simp add: start_run_def assms(1) cr)
  next
    case (Inr r)
    show ?thesis
    proof (cases "run_answer r v")
      case (Inl err)
      then show ?thesis using f by (simp add: start_run_def assms(1) cr Inr)
    next
      case ans: (Inr a)
      from store_answer_taken [OF taken assms(3), of cfg "''run''" a] f show ?thesis
        by (auto simp: start_run_def assms(1) cr Inr ans)
    qed
  qed
qed

lemma send_spent:
  assumes "get_replay (cc_env cfg) (user_id auth) (Some key) w = (None, w\<lparr>tick := Suc (tick w)\<rparr>)"
    and "find_key (user_id auth) key (cur w) \<noteq> None" and "key \<noteq> []"
    and cr: "create_run_record (cc_env cfg) auth k content source (w\<lparr>tick := Suc (tick w)\<rparr>) = (Inr r, w3)"
    and ex: "execute_run (cc_runner cfg) (cc_router cfg) auth r w3 = (Inr (), w4)"
  shows "\<exists>w5. send_message cfg auth k content source (Some key) w = (Inl PyError, w5) \<and> saved w5 = saved w4"
proof -
  have "idempotency_keys (cur w4) = idempotency_keys (cur w)"
    using create_run_frame [OF cr] execute_run_keys [of "cc_runner cfg" "cc_router cfg" auth r w3] ex by simp
  then have taken: "find_key (user_id auth) key (cur w4) \<noteq> None" using assms(2) by (simp add: find_key_def)
  show ?thesis
  proof (cases "run_answer r w4")
    case (Inl err)
    then show ?thesis using cr ex by (auto simp: send_message_def assms(1) run_answer_def split: option.splits)
  next
    case (Inr a)
    from store_answer_taken [OF taken assms(3), of cfg "''message_run''" a] show ?thesis
      using cr ex by (auto simp: send_message_def assms(1) Inr)
  qed
qed

text \<open>
  C21: once its record has expired, an idempotency key is spent: the record is still there, so
  storing a new one breaks its primary key. Creating a conversation or starting a run under it fails
  with nothing saved; a message is answered and its run committed, and then the request fails, again
  at every retry.
\<close>

theorem expired_key_is_spent:
  assumes "find_key (user_id auth) key (cur w) = Some rec" and "key \<noteq> []" and "ik_expires_at rec \<le> clock (cc_env cfg) (tick w)"
  shows "(create_conversation cfg auth title kind (Some key) w = (x, w1) \<longrightarrow> x = Inl PyError \<and> saved w1 = saved w) \<and>
    (start_run cfg auth k content source (Some key) w = (y, w2) \<longrightarrow> (\<exists>err. y = Inl err) \<and> saved w2 = saved w \<and> sent w2 = sent w) \<and>
    (create_run_record (cc_env cfg) auth k content source (w\<lparr>tick := Suc (tick w)\<rparr>) = (Inr r, w3) \<and>
     execute_run (cc_runner cfg) (cc_router cfg) auth r w3 = (Inr (), w4) \<longrightarrow>
       (\<exists>w5. send_message cfg auth k content source (Some key) w = (Inl PyError, w5) \<and> saved w5 = saved w4))"

proof -
  have rep: "get_replay (cc_env cfg) (user_id auth) (Some key) w = (None, w\<lparr>tick := Suc (tick w)\<rparr>)"
    using assms by (simp add: get_replay_def utc_now_def)
  have taken: "find_key (user_id auth) key (cur w) \<noteq> None" using assms(1) by simp
  note spent = rep taken assms(2)
  show ?thesis
    using create_spent [OF spent, of title kind] start_spent [OF spent, of k content source] send_spent [OF spent, of k content source r w3 w4]
    by auto
qed

section \<open>Drafts\<close>

text \<open>
  C22: a saved wizard draft is given back as it was saved for seven days, and each such answer counts
  as a resume; afterwards the request answers 410 once and deletes the draft.
\<close>

theorem saved_draft_is_resumed:
  assumes "save_workflow_draft cfg auth k p w = (Inr ans, w1)" and "cur w2 = saved w1"
  shows "wd_saved ans = p \<and> wd_expires_at ans = clock (cc_env cfg) (tick w) + draft_lifetime \<and>
    (if clock (cc_env cfg) (tick w2) \<le> clock (cc_env cfg) (tick w) + draft_lifetime
     then get_workflow_draft cfg auth k w2 = (Inr ans, record_metric DraftResume (w2\<lparr>tick := Suc (tick w2)\<rparr>))
     else \<exists>w3. get_workflow_draft cfg auth k w2 = (Inl (HTTPException 410 ''Workflow draft expired''), w3) \<and>
       get_draft k w3 = None \<and> cur w3 = saved w3)"

proof -
  obtain c where c: "require_conversation auth k w = Inr c"
    using assms by (cases "require_conversation auth k w") (auto simp: save_workflow_draft_def)
  note found = reachable_found [OF c]
  define now where "now = clock (cc_env cfg) (tick w)"
  define d where "d = (case get_draft k w of None \<Rightarrow> new_draft k p now | Some d \<Rightarrow> saved_draft p now d)"
  define u where "u = (case get_draft k w of None \<Rightarrow> add_draft (new_draft k p now) | Some _ \<Rightarrow> upd_draft k (saved_draft p now)) (w\<lparr>tick := Suc (tick w)\<rparr>)"
  have "save_workflow_draft cfg auth k p w = (Inr (draft_response_of d), commit (upd_conversation k (\<lambda>c. c\<lparr>cv_updated_at := now\<rparr>) u))"
    using c found by (simp add: save_workflow_draft_def utc_now_def Let_def d_def u_def now_def split: option.split)
  then have ans: "ans = draft_response_of d" and w2: "cur w2 = cur (upd_conversation k (\<lambda>c. c\<lparr>cv_updated_at := now\<rparr>) u)"
    using assms by (auto simp: commit_def)
  have dr: "get_draft k w2 = Some d"
    using w2 draft_rows.get_key [of k w] by (auto simp: u_def d_def table_defs new_draft_def saved_draft_def row_find_append row_find_modify split: option.split)
  have "require_conversation auth k w2 = Inr (c\<lparr>cv_updated_at := now\<rparr>)"
    using w2 found by (auto simp: require_conversation_def u_def table_defs row_find_modify split: option.split)
  moreover have "wd_saved ans = p" "dr_expires_at d = now + draft_lifetime" "wd_expires_at ans = dr_expires_at d"
    by (simp_all add: ans d_def draft_response_of_def new_draft_def saved_draft_def split: option.split)
  ultimately show ?thesis
    using dr found by (auto simp: get_workflow_draft_def utc_now_def draft_expired_def now_def ans commit_def del_draft_def in_db_def get_draft_def row_find_remove)
qed

section \<open>Answered messages\<close>

lemma create_run_row:
  assumes "create_run_record e auth k content source w = (Inr r, v)"
  shows "r = fresh_id e (Suc (idn w)) \<and> (get_run r w = None \<longrightarrow> (\<exists>run. get_run r v = Some run \<and> rn_status run = ''queued''))"
proof (cases "require_conversation auth k w")
  case (Inl x)
  then show ?thesis using assms by (simp add: create_run_record_def)
next
  case (Inr c)
  then show ?thesis using assms
    by (auto simp: create_run_record_def user_message_def queued_run_def new_id_def utc_now_def table_defs row_find_append)
qed

lemma execute_run_left:
  assumes "get_run r w = Some run" and "rn_status run \<noteq> ''cancelled''" and "execute_run cfg router auth r w = (Inr (), w')"
  shows "left_settled r w'"
proof (cases router)
  case None
  then show ?thesis using loop_run_ok [OF assms(1,2), of "loop_part cfg" auth] assms(3)
    by (simp add: execute_run_def pass_ok_def left_settled_def)
next
  case (Some ps)
  have "rn_id run = r" by (rule run_rows.get_key [OF assms(1)])
  then show ?thesis using model_run_left [of run w] assms Some by (auto simp: execute_run_def)
qed

lemma store_answer_rows:
  assumes "store_run_answer cfg auth key kind a w = (Inr (), v)"
  shows "cur v = saved v \<and> runs (cur v) = runs (cur w) \<and> run_events (cur v) = run_events (cur w)"
  using assms by (auto simp: store_run_answer_def sbind_def store_replay_def utc_now_def commit_def add_key_def in_db_def
      split: option.splits if_splits prod.splits)

text \<open>
  C18: a message the API has accepted and answered belongs to a committed run that has settled, in
  the status the answer reports, whichever loop has run it.
\<close>

theorem answered_message_has_settled:
  assumes "send_message cfg auth k content source key w = (Inr ans, w')" and "rp_replayed ans = False"
    and "get_run (fresh_id (cc_env cfg) (Suc (idn w))) w = None"
  shows "cur w' = saved w' \<and> run_settled (rc_run_id (rp_body ans)) (saved w') \<and>
    (\<exists>run. row_find rn_id (rc_run_id (rp_body ans)) (runs (saved w')) = Some run \<and> rn_status run = rc_status (rp_body ans))"

proof -
  obtain x w0 where rep: "get_replay (cc_env cfg) (user_id auth) key w = (x, w0)" by fastforce
  have x: "x = None" using assms(1,2) by (cases x) (auto simp: send_message_def rep replayed_def reply_def split: option.splits)
  note db = replay_db [OF rep]
  obtain r w1 where cr: "create_run_record (cc_env cfg) auth k content source w0 = (Inr r, w1)"
    using assms(1) by (cases "create_run_record (cc_env cfg) auth k content source w0") (auto simp: send_message_def rep x sbind_def split: sum.splits)
  obtain w2 where ex: "execute_run (cc_runner cfg) (cc_router cfg) auth r w1 = (Inr (), w2)"
    using assms(1) by (cases "execute_run (cc_runner cfg) (cc_router cfg) auth r w1") (auto simp: send_message_def rep x cr sbind_def split: sum.splits)
  obtain a where a: "run_answer r w2 = Inr a"
    using assms(1) by (cases "run_answer r w2") (auto simp: send_message_def rep x cr ex)
  have st: "store_run_answer cfg auth key ''message_run'' a w2 = (Inr (), w')" and ans: "rp_body ans = a"
    using assms(1) by (cases "store_run_answer cfg auth key ''message_run'' a w2", auto simp: send_message_def rep x cr ex a sbind_def reply_def split: sum.splits)+
  obtain run where "get_run r w1 = Some run" "rn_status run = ''queued''"
    using create_run_row [OF cr] assms(3) db by (auto simp: get_run_def)
  then have "left_settled r w2" using execute_run_left [OF _ _ ex] by simp
  moreover have "cur w' = saved w'" "runs (cur w') = runs (cur w2)" "run_events (cur w') = run_events (cur w2)"
    using store_answer_rows [OF st] by blast+
  ultimately show ?thesis
    using a by (auto simp: ans left_settled_def run_settled_def run_answer_def get_run_def run_log_def split: option.splits)
qed

section \<open>Concrete sessions\<close>

text \<open>Times as signed tallies, a provider that answers in text, and two users with three conversations.\<close>

definition tally :: "int \<Rightarrow> string" where
  "tally t = (if t < 0 then CHR ''-'' else CHR ''+'') # replicate (nat \<bar>t\<bar>) (CHR ''1'')"

definition tally_read :: "string \<Rightarrow> int option" where
  "tally_read s = (case s of [] \<Rightarrow> None | c # cs \<Rightarrow> Some (if c = CHR ''-'' then - int (length cs) else int (length cs)))"

definition conv_demo :: conv_cfg where
  "conv_demo = \<lparr>cc_runner = runner_demo, cc_router = Some (mr_providers runner_demo), cc_ttl_seconds = 600, cc_inline = True,
     cc_enqueue = (\<lambda>_ _. Inr ()), cc_dt_text = tally, cc_dt_read = tally_read\<rparr>"

definition demo_conversation :: "string \<Rightarrow> int \<Rightarrow> agent_conversation" where
  "demo_conversation k uid = \<lparr>cv_id = k, cv_user_id = uid, cv_title = ''Fees'', cv_kind = None, cv_pinned = False,
     cv_archived = False, cv_deleted_at = None, cv_created_at = 0, cv_updated_at = 0\<rparr>"

definition conv_db :: db where
  "conv_db = empty_db\<lparr>conversations := [demo_conversation ''a'' 7, demo_conversation ''b'' 9, demo_conversation ''c'' 7],
     idempotency_keys := [\<lparr>ik_user_id = 7, ik_key = ''old'', ik_resource_kind = ''conversation'', ik_resource_id = ''a'',
       ik_response_payload = JNull, ik_expires_at = 0, ik_created_at = 0\<rparr>]\<rparr>"

lemma conv_demo_ok: "dt_ok conv_demo"
  by (simp add: dt_ok_def conv_demo_def tally_def tally_read_def)

lemma conv_demo_env: "cc_env conv_demo = demo_env"
  by (simp add: conv_demo_def runner_demo_def demo_api_def)

lemma conv_demo_ttl: "cc_ttl_seconds conv_demo = 600"
  by (simp add: conv_demo_def)

lemma session_parts [simp]: "cur (session_on d) = d" "saved (session_on d) = d" "tick (session_on d) = 0"
  by (simp_all add: session_on_def)

lemma no_demo_draft: "get_draft k (session_on conv_db) = None"
  by (simp add: get_draft_def conv_db_def empty_db_def)

lemmas conv_demo_rows = conv_db_def session_on_def empty_db_def demo_conversation_def demo_context_def

lemma demo_conversations: "get_conversation ''a'' (session_on conv_db) = Some (demo_conversation ''a'' 7)"
  "get_conversation ''b'' (session_on conv_db) = Some (demo_conversation ''b'' 9)"
  by (simp_all add: get_conversation_def conv_demo_rows)

lemma own_conversation: "require_conversation demo_context ''a'' (session_on conv_db) = Inr (demo_conversation ''a'' 7)"
  by (simp add: require_conversation_def demo_conversations) (simp add: demo_conversation_def demo_context_def)


theorem deleted_conversation_is_gone_witness:
  "\<exists>w'. delete_conversation conv_demo demo_context ''a'' (session_on conv_db) = (Inr (), w') \<and> unreachable demo_context ''a'' w'"
proof -
  obtain w' where del: "delete_conversation conv_demo demo_context ''a'' (session_on conv_db) = (Inr (), w')"
    by (simp add: delete_conversation_def own_conversation utc_now_def)
  from deleted_conversation_is_gone [OF del] del show ?thesis by blast
qed

theorem paging_lists_each_once_witness:
  "follow_pages (Suc (length (conversations conv_db))) demo_context 1 None (session_on conv_db) =
     map conversation_response_of [demo_conversation ''c'' 7, demo_conversation ''a'' 7]"
proof -
  have d: "distinct (map cv_id (conversations (cur (session_on conv_db))))" by (simp add: conv_demo_rows)
  have "rev (sort_key cv_id (filter (\<lambda>c. cv_user_id c = user_id demo_context \<and> cv_deleted_at c = None)
      (conversations (cur (session_on conv_db))))) = [demo_conversation ''c'' 7, demo_conversation ''a'' 7]"
    by code_simp
  with paging_lists_each_once [OF d, of 1 demo_context] show ?thesis by (simp add: session_on_def)
qed

theorem creation_is_replayed_witness:
  "\<exists>ans w1. create_conversation conv_demo demo_context ''Fees'' ''general'' (Some ''k'') (session_on conv_db) = (Inr ans, w1) \<and>
     create_conversation conv_demo demo_context ''Other'' ''general'' (Some ''k'') (close_session w1) =
       (Inr (reply 200 True (rp_body ans)), (close_session w1)\<lparr>tick := Suc (tick w1)\<rparr>)"
proof -
  have none: "find_key (user_id demo_context) ''k'' (cur (session_on conv_db)) = None" by (simp add: find_key_def conv_demo_rows)
  obtain ans w1 where cr: "create_conversation conv_demo demo_context ''Fees'' ''general'' (Some ''k'') (session_on conv_db) = (Inr ans, w1)"
    and tick: "tick w1 = 4"
    using none by (simp add: create_conversation_def get_replay_def new_conversation_def store_replay_def new_id_def utc_now_def Let_def
        add_conversation_def in_db_def commit_def add_key_def find_key_def session_on_def)
  have "create_conversation conv_demo demo_context ''Other'' ''general'' (Some ''k'') (close_session w1) =
       (Inr (reply 200 True (rp_body ans)), (close_session w1)\<lparr>tick := Suc (tick (close_session w1))\<rparr>)"
    by (rule creation_is_replayed [OF cr none _ conv_demo_ok])
      (simp_all add: close_session_def conv_demo_env conv_demo_ttl demo_env_def tick)
  with cr show ?thesis by (auto simp: close_session_def)
qed

theorem expired_key_is_spent_witness:
  "\<exists>w1. create_conversation conv_demo demo_context ''Fees'' ''general'' (Some ''old'') (session_on conv_db) = (Inl PyError, w1) \<and>
     saved w1 = conv_db"
proof -
  obtain x w1 where cr: "create_conversation conv_demo demo_context ''Fees'' ''general'' (Some ''old'') (session_on conv_db) = (x, w1)"
    by fastforce
  obtain rec where "find_key (user_id demo_context) ''old'' (cur (session_on conv_db)) = Some rec" and "ik_expires_at rec = 0"
    by (simp add: find_key_def conv_demo_rows)
  from expired_key_is_spent [OF this(1), of conv_demo] this(2) cr show ?thesis
    by (auto simp: conv_demo_env demo_env_def)
qed

definition demo_save :: draft_save where
  "demo_save = \<lparr>ds_contract_id = workflow_name, ds_contract_version = ''v1'', ds_current_step_id = ''summary'',
     ds_payload = [(''summary'', JObj [(''quote_name'', JStr ''Fees'')])], ds_step_status = []\<rparr>"

theorem saved_draft_is_resumed_witness:
  "\<exists>ans w1. save_workflow_draft conv_demo demo_context ''a'' demo_save (session_on conv_db) = (Inr ans, w1) \<and>
     get_workflow_draft conv_demo demo_context ''a'' (close_session w1) =
       (Inr ans, record_metric DraftResume ((close_session w1)\<lparr>tick := Suc (tick (close_session w1))\<rparr>))"
proof -
  have "cv_id (demo_conversation ''a'' 7) = ''a''" by (simp add: demo_conversation_def)
  then obtain ans w1 where sv: "save_workflow_draft conv_demo demo_context ''a'' demo_save (session_on conv_db) = (Inr ans, w1)"
    and tick: "tick w1 = 1"
    using no_demo_draft by (auto simp: save_workflow_draft_def own_conversation utc_now_def Let_def commit_def upd_conversation_def
        add_draft_def in_db_def)
  have now: "clock (cc_env conv_demo) (tick (close_session w1)) \<le> clock (cc_env conv_demo) (tick (session_on conv_db)) + draft_lifetime"
    by (simp add: conv_demo_env demo_env_def close_session_def tick draft_lifetime_def day_us_def)
  have "cur (close_session w1) = saved w1" by (simp add: close_session_def)
  from saved_draft_is_resumed [OF sv this] now sv show ?thesis by simp
qed

theorem answered_message_has_settled_witness:
  "\<exists>ans w'. send_message conv_demo demo_context ''a'' ''Hello'' ''text'' None (session_on conv_db) = (Inr ans, w') \<and>
     run_settled (rc_run_id (rp_body ans)) (saved w')"
proof -
  have cid: "cv_id (demo_conversation ''a'' 7) = ''a''" by (simp add: demo_conversation_def)
  obtain r w1 where cr: "create_run_record (cc_env conv_demo) demo_context ''a'' ''Hello'' ''text'' (session_on conv_db) = (Inr r, w1)"
    by (simp add: create_run_record_def own_conversation split_def)
  have new: "get_run k (session_on conv_db) = None" for k by (simp add: get_run_def conv_demo_rows)
  obtain run where run: "get_run r w1 = Some run" "rn_status run = ''queued''" using create_run_row [OF cr] new [of r] by blast
  obtain n where "conversations (cur w1) = row_modify cv_id ''a'' (\<lambda>c. c\<lparr>cv_updated_at := n\<rparr>) (conversations conv_db)"
    using cr cid by (auto simp: create_run_record_def own_conversation user_message_def queued_run_def new_id_def utc_now_def table_defs)
  then have "\<forall>c \<in> set (conversations (cur w1)). cv_kind c = None"
    by (simp add: row_modify_def conv_db_def demo_conversation_def)
  then have plain: "cv_kind c = None" if "get_conversation k w1 = Some c" for k c
    using that row_find_SomeD unfolding get_conversation_def by fastforce
  have "\<forall>p \<in> set (mr_providers (cc_runner conv_demo\<lparr>mr_providers := mr_providers runner_demo, mr_client := cl\<rparr>)). text_only p" for cl
    by (simp add: runner_demo_def text_only_def)
  from text_model_run [OF this, of run w1] plain obtain w2 where
    ex: "execute_run (cc_runner conv_demo) (cc_router conv_demo) demo_context r w1 = (Inr (), w2)"
    using run by (fastforce simp: execute_run_def conv_demo_def)
  have "left_settled r w2" using execute_run_left [OF run(1) _ ex] run(2) by simp
  then obtain q where "get_run r w2 = Some q" by (auto simp: left_settled_def run_settled_def get_run_def)
  then obtain ans w' where sm: "send_message conv_demo demo_context ''a'' ''Hello'' ''text'' None (session_on conv_db) = (Inr ans, w')"
    and unreplayed: "rp_replayed ans = False"
    using cr ex by (simp add: send_message_def get_replay_def run_answer_def store_run_answer_def store_replay_def reply_def)
  from answered_message_has_settled [OF sm unreplayed new] sm show ?thesis by blast
qed

end
