(* ===== verification/Adapters.thy ===== *)
theory Adapters
  imports ModelRunner JsonParse
begin

text \<open>
  The provider adapters: \<open>provider/gemini_aistudio.py\<close>, \<open>provider/anthropic.py\<close>,
  \<open>provider/gemini_vertex.py\<close>, and the free-form assistant \<open>agent/conversation/assist.py\<close>. What
  is behind an adapter is a parameter: the replies of the Gemini endpoint, the events of the
  Anthropic SDK, the chunks of the Gen AI SDK, and the schema and description of a tool.
\<close>

section \<open>Messages\<close>

definition block_wrapped :: "env \<Rightarrow> content_block \<Rightarrow> string list" where
  "block_wrapped e b = (let p = cb_payload b in
     if d_has p ''wrapped'' then [py_str (float_text e) (d_get p ''wrapped'')]
     else if d_has p ''text'' then [py_str (float_text e) (d_get p ''text'')] else [])"

definition join_lines :: "string list \<Rightarrow> string" where
  "join_lines = str_join [CHR 0x0A]"

definition message_text :: "env \<Rightarrow> chat_message \<Rightarrow> string" where
  "message_text e m = join_lines (concat (map (block_wrapped e) (cm_content m)))"

definition vertex_message_text :: "env \<Rightarrow> chat_message \<Rightarrow> string" where
  "vertex_message_text e m = join_lines (concat (map (\<lambda>b.
     if cb_type b = ''text'' \<or> cb_type b = ''tool_result'' then block_wrapped e b else []) (cm_content m)))"

definition vertex_role :: "string \<Rightarrow> string" where
  "vertex_role r = (if r = ''assistant'' then ''model'' else if r = ''tool'' then ''function'' else r)"

definition anthropic_message :: "env \<Rightarrow> chat_message \<Rightarrow> json" where
  "anthropic_message e m = JObj [
     (''role'', JStr (if cm_role m = ''user'' \<or> cm_role m = ''tool'' \<or> cm_role m = ''system'' then ''user'' else ''assistant'')),
     (''content'', JStr (message_text e m))]"

definition gemini_content :: "env \<Rightarrow> chat_message \<Rightarrow> json" where
  "gemini_content e m = JObj [(''role'', JStr (if cm_role m = ''assistant'' then ''model'' else ''user'')),
     (''parts'', JArr [JObj [(''text'', JStr (message_text e m))]])]"

text \<open>What the registry declares of a tool besides its name.\<close>

record tool_docs =
  td_description :: "tool \<Rightarrow> string"
  td_schema :: "tool \<Rightarrow> json"

definition gemini_payload :: "env \<Rightarrow> tool_docs \<Rightarrow> model_request \<Rightarrow> json" where
  "gemini_payload e td rq = JObj (
     [(''contents'', JArr (map (gemini_content e) (mq_messages rq))),
      (''generationConfig'', JObj [(''maxOutputTokens'', JInt (mq_max_output_tokens rq))])] @
     (if mq_tools rq = [] then []
      else [(''tools'', JArr [JObj [(''functionDeclarations'', JArr (map (\<lambda>t. JObj
              [(''name'', JStr (tl_name t)), (''description'', JStr (td_description td t)), (''parametersJsonSchema'', td_schema td t)])
              (mq_tools rq)))]])]))"

section \<open>AI Studio\<close>

record studio_reply =
  gr_status :: int
  gr_retry_after :: "string option"
  gr_body :: "json option"
  gr_text :: string

datatype gemini_outcome = GeminiDown string | GeminiReply studio_reply

record gemini_settings =
  gs_allow_real_data :: bool
  gs_api_key :: "string option"
  gs_max_retries :: int
  gs_retry_base_delay :: pyfloat

definition transient_status :: "int \<Rightarrow> bool" where
  "transient_status st \<longleftrightarrow> st \<in> {429, 500, 502, 503, 504}"

definition transient_outcome :: "gemini_outcome \<Rightarrow> bool" where
  "transient_outcome o1 \<longleftrightarrow> (case o1 of GeminiReply r \<Rightarrow> transient_status (gr_status r) | GeminiDown m \<Rightarrow> False)"

text \<open>\<open>post i\<close> is the outcome of attempt \<open>i\<close>; the second argument counts the retries left.\<close>

primrec post_with_retries :: "(nat \<Rightarrow> gemini_outcome) \<Rightarrow> nat \<Rightarrow> nat \<Rightarrow> gemini_outcome" where
  "post_with_retries post i 0 = post i"
| "post_with_retries post i (Suc k) = (if transient_outcome (post i) then post_with_retries post (Suc i) k else post i)"

definition max_retry_delay :: pyfloat where "max_retry_delay = Fin 5"

text \<open>\<open>None\<close> when \<open>2 ** attempt_index\<close> does not fit a float.\<close>

definition retry_delay_seconds :: "studio_reply \<Rightarrow> nat \<Rightarrow> pyfloat \<Rightarrow> pyfloat option" where
  "retry_delay_seconds r attempt base = (let cap = (\<lambda>d. if flt max_retry_delay d then max_retry_delay else d) in
     case Option.bind (gr_retry_after r) parse_float of
       Some d \<Rightarrow> Some (cap d)
     | None \<Rightarrow> map_option (\<lambda>p. cap (fmul base p)) (float_of_int (2 ^ attempt)))"

definition as_mapping :: "json \<Rightarrow> dict" where
  "as_mapping v = (case v of JObj d \<Rightarrow> d | _ \<Rightarrow> [])"

definition as_mappings :: "json \<Rightarrow> dict list" where
  "as_mappings v = (case v of JArr xs \<Rightarrow> concat (map (\<lambda>x. case x of JObj d \<Rightarrow> [d] | _ \<Rightarrow> []) xs) | _ \<Rightarrow> [])"

definition count_of :: "json \<Rightarrow> int" where
  "count_of v = (case v of JInt i \<Rightarrow> i | _ \<Rightarrow> 0)"

definition text_event :: "string \<Rightarrow> stream_event" where
  "text_event s = \<lparr>se_kind = ''text_delta'', se_payload = [(''delta'', JStr s)]\<rparr>"

definition call_event :: "string \<Rightarrow> json \<Rightarrow> string \<Rightarrow> stream_event" where
  "call_event name args call_id = \<lparr>se_kind = ''tool_use'', se_payload =
     [(''name'', JStr name), (''args'', args), (''call_id'', JStr call_id)]\<rparr>"

definition usage_event :: "int \<Rightarrow> int \<Rightarrow> stream_event" where
  "usage_event i out = \<lparr>se_kind = ''usage'', se_payload = [(''input_tokens'', JInt i), (''output_tokens'', JInt out)]\<rparr>"

definition part_events :: "env \<Rightarrow> dict \<Rightarrow> stream_event list" where
  "part_events e part =
     (case d_get part ''text'' of JStr s \<Rightarrow> if s = [] then [] else [text_event s] | _ \<Rightarrow> []) @
     (let call = as_mapping (d_get part ''functionCall'') in
      case d_get call ''name'' of
        JStr n \<Rightarrow> if n = [] then [] else
          [call_event n (case d_get call ''args'' of JObj a \<Rightarrow> JObj a | _ \<Rightarrow> JObj [])
             (py_str (float_text e) (py_or (d_get call ''id'') (JStr n)))]
      | _ \<Rightarrow> [])"

definition events_from_response :: "env \<Rightarrow> dict \<Rightarrow> stream_event list" where
  "events_from_response e data =
     concat (map (\<lambda>cand. concat (map (part_events e) (as_mappings (d_get (as_mapping (d_get cand ''content'')) ''parts''))))
       (as_mappings (d_get data ''candidates''))) @
     (let u = as_mapping (d_get data ''usageMetadata'') in
      if u = [] then [] else [usage_event (count_of (d_get u ''promptTokenCount'')) (count_of (d_get u ''candidatesTokenCount''))])"

text \<open>\<open>None\<close> when the body of an error reply is JSON but not an object.\<close>

definition response_error :: "studio_reply \<Rightarrow> string option" where
  "response_error r = (let http = ''HTTP '' @ show_int (gr_status r) in
     case gr_body r of
       None \<Rightarrow> Some (if gr_text r = [] then http else gr_text r)
     | Some (JObj d) \<Rightarrow> Some (case d_get (as_mapping (d_get d ''error'')) ''message'' of JStr m \<Rightarrow> m | _ \<Rightarrow> http)
     | Some v \<Rightarrow> None)"

definition gemini_failed :: "string \<Rightarrow> stream_end" where
  "gemini_failed m = ProviderFailed (''Gemini API call failed: '' @ m) True"

definition aistudio_stream ::
    "env \<Rightarrow> tool_docs \<Rightarrow> gemini_settings \<Rightarrow> (nat \<Rightarrow> string \<Rightarrow> json \<Rightarrow> nat \<Rightarrow> gemini_outcome) \<Rightarrow> nat \<Rightarrow> model_request \<Rightarrow>
     stream_event list \<times> stream_end" where
  "aistudio_stream e td gs post n rq =
     (if gs_api_key gs = Some ''__stream_test__'' then ([usage_event 0 0], Drained)
      else case post_with_retries (post n (mq_model rq) (gemini_payload e td rq)) 0 (nat (gs_max_retries gs)) of
        GeminiDown m \<Rightarrow> ([], gemini_failed m)
      | GeminiReply r \<Rightarrow>
          if 200 \<le> gr_status r \<and> gr_status r < 300
          then (case gr_body r of Some (JObj d) \<Rightarrow> (events_from_response e d, Drained) | _ \<Rightarrow> ([], Crashed))
          else (case response_error r of Some m \<Rightarrow> ([], gemini_failed m) | None \<Rightarrow> ([], Crashed)))"

definition aistudio_init :: "gemini_settings \<Rightarrow> unit res" where
  "aistudio_init gs =
     (if gs_allow_real_data gs then Inl (ProviderError ''AI Studio provider refuses to start when ALLOW_REAL_DATA=true'' True)
      else if \<not> configured (gs_api_key gs) then Inl (ProviderError ''GEMINI_API_KEY is not configured'' True)
      else Inr ())"

definition aistudio_provider ::
    "env \<Rightarrow> tool_docs \<Rightarrow> gemini_settings \<Rightarrow> (nat \<Rightarrow> string \<Rightarrow> json \<Rightarrow> nat \<Rightarrow> gemini_outcome) \<Rightarrow> provider" where
  "aistudio_provider e td gs post = \<lparr>pv_name = ''gemini-api'', pv_stream = aistudio_stream e td gs post\<rparr>"

section \<open>Anthropic\<close>

text \<open>
  The events of the SDK's stream, as far as the adapter looks at them: the start of a block (of a
  tool call with its name and id, or another), a piece of text or of a call's arguments, the end of
  a block. Then the stream ends, with the usage of the final message, or raises.
\<close>

datatype sdk_event =
    BlockStart "(string \<times> string) option"
  | TextDelta string
  | JsonDelta string
  | BlockStop
  | OtherEvent

datatype sdk_end = SdkDone "(int \<times> int) option" | SdkRaised string

record pending_tool =
  pq_name :: string
  pq_call_id :: string
  pq_buffer :: string

definition call_args :: "string \<Rightarrow> json" where
  "call_args buffer = (case json_loads (if buffer = [] then ''{}'' else buffer) of Some v \<Rightarrow> v | None \<Rightarrow> JObj [])"

fun sdk_step :: "pending_tool option \<Rightarrow> sdk_event \<Rightarrow> pending_tool option \<times> stream_event list" where
  "sdk_step p (BlockStart (Some (n, i))) = (Some \<lparr>pq_name = n, pq_call_id = i, pq_buffer = []\<rparr>, [])"
| "sdk_step p (TextDelta s) = (p, [text_event s])"
| "sdk_step (Some p) (JsonDelta s) = (Some (p\<lparr>pq_buffer := pq_buffer p @ s\<rparr>), [])"
| "sdk_step (Some p) BlockStop = (None, [call_event (pq_name p) (call_args (pq_buffer p)) (pq_call_id p)])"
| "sdk_step p ev = (p, [])"

primrec sdk_events :: "pending_tool option \<Rightarrow> sdk_event list \<Rightarrow> stream_event list" where
  "sdk_events p [] = []"
| "sdk_events p (ev # evs) = (case sdk_step p ev of (p1, out) \<Rightarrow> out @ sdk_events p1 evs)"

definition anthropic_tool :: "tool_docs \<Rightarrow> tool \<Rightarrow> json" where
  "anthropic_tool td t = JObj [(''name'', JStr (tl_name t)), (''description'', JStr (td_description td t)), (''input_schema'', td_schema td t)]"

text \<open>The SDK gets the messages and the tools, none standing for the omitted parameter.\<close>

definition anthropic_stream ::
    "env \<Rightarrow> tool_docs \<Rightarrow> string \<Rightarrow> (nat \<Rightarrow> string \<Rightarrow> int \<Rightarrow> json list \<Rightarrow> json list \<Rightarrow> sdk_event list \<times> sdk_end) \<Rightarrow> nat \<Rightarrow> model_request \<Rightarrow>
     stream_event list \<times> stream_end" where
  "anthropic_stream e td key sdk n rq =
     (if key = ''__stream_test__'' then ([usage_event 0 0], Drained)
      else case sdk n (mq_model rq) (mq_max_output_tokens rq) (map (anthropic_message e) (mq_messages rq))
                  (map (anthropic_tool td) (mq_tools rq)) of
        (evs, SdkDone u) \<Rightarrow> (sdk_events None evs @ (case u of None \<Rightarrow> [] | Some (i, out) \<Rightarrow> [usage_event i out]), Drained)
      | (evs, SdkRaised m) \<Rightarrow> (sdk_events None evs, ProviderFailed (''Anthropic call failed: '' @ m) True))"

definition anthropic_provider ::
    "env \<Rightarrow> tool_docs \<Rightarrow> string \<Rightarrow> (nat \<Rightarrow> string \<Rightarrow> int \<Rightarrow> json list \<Rightarrow> json list \<Rightarrow> sdk_event list \<times> sdk_end) \<Rightarrow> provider" where
  "anthropic_provider e td key sdk = \<lparr>pv_name = ''anthropic'', pv_stream = anthropic_stream e td key sdk\<rparr>"

section \<open>Vertex\<close>

record vertex_call =
  vc_name :: string
  vc_args :: dict
  vc_id :: string

record vertex_part =
  vp_text :: string
  vp_call :: "vertex_call option"

record vertex_chunk =
  vk_candidates :: "vertex_part list list"
  vk_usage :: "(int \<times> int) option"

text \<open>The call itself may be refused; an exception while the chunks arrive is not caught.\<close>

datatype vertex_reply = VertexRefused string | VertexChunks "vertex_chunk list" bool

definition vertex_part_events :: "vertex_part \<Rightarrow> stream_event list" where
  "vertex_part_events p = (if vp_text p = [] then [] else [text_event (vp_text p)]) @
     (case vp_call p of None \<Rightarrow> []
      | Some c \<Rightarrow> [call_event (vc_name c) (JObj (vc_args c)) (if vc_id c = [] then vc_name c else vc_id c)])"

definition chunk_events :: "vertex_chunk \<Rightarrow> stream_event list" where
  "chunk_events ch = concat (map (\<lambda>parts. concat (map vertex_part_events parts)) (vk_candidates ch))"

definition last_usage :: "vertex_chunk list \<Rightarrow> (int \<times> int) option" where
  "last_usage chs = foldl (\<lambda>u ch. case vk_usage ch of None \<Rightarrow> u | Some v \<Rightarrow> Some v) None chs"

definition vertex_contents :: "env \<Rightarrow> chat_message list \<Rightarrow> (string \<times> string) list" where
  "vertex_contents e ms = map (\<lambda>m. (vertex_role (cm_role m), vertex_message_text e m)) ms"

definition vertex_stream ::
    "env \<Rightarrow> string \<Rightarrow> (nat \<Rightarrow> string \<Rightarrow> int \<Rightarrow> (string \<times> string) list \<Rightarrow> tool list \<Rightarrow> vertex_reply) \<Rightarrow> nat \<Rightarrow> model_request \<Rightarrow>
     stream_event list \<times> stream_end" where
  "vertex_stream e project sdk n rq =
     (if project = ''__stream_test__'' then ([usage_event 0 0], Drained)
      else case sdk n (mq_model rq) (mq_max_output_tokens rq) (vertex_contents e (mq_messages rq)) (mq_tools rq) of
        VertexRefused m \<Rightarrow> ([], ProviderFailed (''Vertex Gemini call failed: '' @ m) True)
      | VertexChunks chs whole \<Rightarrow>
          if whole
          then (concat (map chunk_events chs) @ (case last_usage chs of None \<Rightarrow> [] | Some (i, out) \<Rightarrow> [usage_event i out]), Drained)
          else (concat (map chunk_events chs), Crashed))"

definition vertex_provider ::
    "env \<Rightarrow> string \<Rightarrow> (nat \<Rightarrow> string \<Rightarrow> int \<Rightarrow> (string \<times> string) list \<Rightarrow> tool list \<Rightarrow> vertex_reply) \<Rightarrow> provider" where
  "vertex_provider e project sdk = \<lparr>pv_name = ''gemini-vertex'', pv_stream = vertex_stream e project sdk\<rparr>"

section \<open>The router with its adapters\<close>

text \<open>
  The adapters are constructed while the list is built, so a constructor that raises ends
  \<open>build_router\<close>. Only that of AI Studio can: the others check what was just checked.
\<close>

definition router_from_settings ::
    "provider_settings \<Rightarrow> gemini_settings \<Rightarrow> provider \<Rightarrow> provider \<Rightarrow> provider \<Rightarrow> provider list option res" where
  "router_from_settings st gs vertex aistudio anthropic =
     (if configured (gemini_developer_api_key st)
      then ebind (aistudio_init gs) (\<lambda>_. Inr (build_router st vertex aistudio anthropic))
      else Inr (build_router st vertex aistudio anthropic))"

section \<open>Free-form replies\<close>

record assist_action =
  aa_action :: json
  aa_field_id :: json
  aa_value :: json
  aa_text :: json
  aa_degraded :: bool

definition keep_text :: "string consumer" where
  "keep_text ev acc w = (Inr (if se_kind ev = ''text_delta''
     then (case payload_or (se_payload ev) ''delta'' (JStr []) of JStr s \<Rightarrow> acc @ s | _ \<Rightarrow> acc) else acc), w)"

definition call_llm :: "runner_cfg \<Rightarrow> provider list option \<Rightarrow> string \<Rightarrow> world \<Rightarrow> string res \<times> world" where
  "call_llm cfg router prompt w = (case router of
      None \<Rightarrow> (Inl PyError, w)
    | Some ps \<Rightarrow>
        (case router_stream (mr_env cfg) (mr_unhealthy_seconds cfg) ps
                \<lparr>mq_messages = [text_message ''user'' prompt], mq_tools = [], mq_model = mr_model cfg, mq_max_output_tokens = 512\<rparr>
                keep_text Map.empty [] w of (r, _, w1) \<Rightarrow> (r, w1)))"

definition assist_prompt :: "string \<Rightarrow> string option \<Rightarrow> string" where
  "assist_prompt text field =
     ''You route a user'' @ [CHR 0x27] @ ''s chat reply during a structured pricing-request form.'' @ [CHR 0x0A] @
     ''Current field: '' @ (case field of None \<Rightarrow> ''None'' | Some f \<Rightarrow> f) @ ''. Reply JSON only with keys '' @
     ''{action: set_field|explain|navigate, field_id?, value?, text?}.'' @ [CHR 0x0A] @ ''User said: '' @ repr_str text"

text \<open>The dash of the source is outside Latin-1.\<close>

definition degraded_action :: assist_action where
  "degraded_action = \<lparr>aa_action = JStr ''explain'', aa_field_id = JNull, aa_value = JNull,
     aa_text = JStr (''Let'' @ [CHR 0x27] @ ''s keep going - you can pick a value below.''), aa_degraded = True\<rparr>"

definition interpret_freeform ::
    "runner_cfg \<Rightarrow> provider list option \<Rightarrow> string \<Rightarrow> string option \<Rightarrow> world \<Rightarrow> assist_action \<times> world" where
  "interpret_freeform cfg router text field w = (case call_llm cfg router (assist_prompt text field) w of
      (Inl x, w1) \<Rightarrow> (degraded_action, w1)
    | (Inr raw, w1) \<Rightarrow>
        (case json_loads raw of
           Some (JObj d) \<Rightarrow> (\<lparr>aa_action = payload_or d ''action'' (JStr ''explain''), aa_field_id = d_get d ''field_id'',
               aa_value = d_get d ''value'', aa_text = d_get d ''text'', aa_degraded = False\<rparr>, w1)
         | _ \<Rightarrow> (degraded_action, w1)))"

end
