(* ===== verification/AdapterLaws.thy ===== *)
theory AdapterLaws
  imports Adapters ModelRunnerLaws
begin

text \<open>
  What the adapters hand to the model loop, how the Anthropic stream is put together again, how
  often AI Studio is asked, and what becomes of a run whose Vertex stream breaks.
\<close>

section \<open>Events the loop understands\<close>

definition acceptable :: "env \<Rightarrow> stream_event \<Rightarrow> bool" where
  "acceptable e ev \<longleftrightarrow> (\<forall>tn. consume_event e ev tn \<noteq> None)"

lemma event_kinds [simp]:
  "acceptable e (text_event s)" "acceptable e (usage_event i out)" "acceptable e (call_event n (JObj d) c)"
  by (simp_all add: acceptable_def consume_event_def text_event_def usage_event_def call_event_def payload_or_def d_has_def d_get_def
      py_int_def py_dict_JObj Let_def)

lemma vertex_part_acceptable: "list_all (acceptable e) (vertex_part_events p)"
  by (simp add: vertex_part_events_def split: option.split)

lemma list_all_concat_map: "(\<And>x. list_all P (f x)) \<Longrightarrow> list_all P (concat (map f xs))"
  by (induction xs) simp_all

lemma chunk_acceptable: "list_all (acceptable e) (chunk_events ch)"
  unfolding chunk_events_def by (intro list_all_concat_map vertex_part_acceptable)

lemma vertex_acceptable: "list_all (acceptable e) (fst (vertex_stream e' project sdk n rq))"
  by (auto simp: vertex_stream_def intro!: list_all_concat_map chunk_acceptable split: vertex_reply.split option.split)

lemma part_acceptable: "list_all (acceptable e) (part_events e' part)"
  by (auto simp: part_events_def Let_def split: json.split)

lemma response_acceptable: "list_all (acceptable e) (events_from_response e' d)"
  by (auto simp: events_from_response_def Let_def intro!: list_all_concat_map part_acceptable)

lemma aistudio_acceptable: "list_all (acceptable e) (fst (aistudio_stream e' td gs post n rq))"
  by (auto simp: aistudio_stream_def response_acceptable split: gemini_outcome.split option.split json.split)

definition odd_call :: "stream_event \<Rightarrow> bool" where
  "odd_call ev \<longleftrightarrow> (\<exists>n v c. ev = call_event n v c \<and> \<not> is_obj v)"

lemma call_acceptable: "acceptable e (call_event n v c) \<or> odd_call (call_event n v c)"
proof (cases "is_obj v")
  case True
  then show ?thesis by (cases v) (simp_all add: is_obj_def)
next
  case False
  then show ?thesis unfolding odd_call_def by blast
qed

lemma sdk_step_acceptable: "list_all (\<lambda>ev. acceptable e ev \<or> odd_call ev) (snd (sdk_step p ev))"
  using call_acceptable by (cases "(p, ev)" rule: sdk_step.cases) simp_all

lemma sdk_acceptable: "list_all (\<lambda>ev. acceptable e ev \<or> odd_call ev) (sdk_events p evs)"
proof (induction evs arbitrary: p)
  case (Cons ev evs)
  then show ?case using sdk_step_acceptable [of e p ev] by (simp add: split_def)
qed simp

lemma accepted_consumed:
  "list_all (acceptable e) evs \<Longrightarrow> \<exists>tn1 w1. consume_all (on_event e r k) evs tn w = (Inr tn1, w1)"
proof (induction evs arbitrary: tn w)
  case (Cons ev evs)
  then have "consume_event e ev tn \<noteq> None" by (simp add: acceptable_def)
  then have "\<exists>tn1 w1. on_event e r k ev tn w = (Inr tn1, w1)"
    by (auto simp: on_event_def apfst_def map_prod_def split_def)
  with Cons show ?case by auto
qed simp


text \<open>An empty list of arguments is one that \<open>dict()\<close> still takes, a list of numbers is not.\<close>

lemma list_arguments_crash: "consume_event e (call_event n (call_args ''[1]'') c) tn = None"
proof -
  have "call_args ''[1]'' = JArr [JInt 1]" by code_simp
  then show ?thesis by (simp add: consume_event_def call_event_def payload_or_def d_has_def d_get_def Let_def py_dict_def py_iter_def py_pair_def)
qed

section \<open>Putting the Anthropic stream together\<close>

text \<open>A reply in blocks, each delivered in pieces of any size.\<close>

datatype reply_block = TextBlock "string list" | ToolBlock string string "string list"

fun delivered_as :: "reply_block \<Rightarrow> sdk_event list" where
  "delivered_as (TextBlock ss) = BlockStart None # map TextDelta ss @ [BlockStop]"
| "delivered_as (ToolBlock n i ss) = BlockStart (Some (n, i)) # map JsonDelta ss @ [BlockStop]"

fun block_events :: "reply_block \<Rightarrow> stream_event list" where
  "block_events (TextBlock ss) = map text_event ss"
| "block_events (ToolBlock n i ss) = [call_event n (call_args (concat ss)) i]"

lemma sdk_text: "sdk_events None (map TextDelta ss @ evs) = map text_event ss @ sdk_events None evs"
  by (induction ss) simp_all

lemma sdk_json: "sdk_events (Some p) (map JsonDelta ss @ evs) = sdk_events (Some (p\<lparr>pq_buffer := pq_buffer p @ concat ss\<rparr>)) evs"
  by (induction ss arbitrary: p) simp_all

text \<open>
  C15: the Anthropic adapter puts a streamed reply together again: whatever pieces the text and the
  arguments of the calls arrive in, every piece of text is passed on in order and every tool call
  comes out once, at the end of its block, with the arguments the pieces add up to.
\<close>

theorem anthropic_reassembles:
  "sdk_events None (concat (map delivered_as bs)) = concat (map block_events bs)"
proof (induction bs)
  case (Cons b bs)
  then show ?case by (cases b) (simp_all add: sdk_text sdk_json)
qed simp

section \<open>Asking AI Studio\<close>

lemma post_attempts:
  "\<exists>n \<le> k. post_with_retries post i k = post (i + n) \<and> (\<forall>j < n. transient_outcome (post (i + j))) \<and>
     (transient_outcome (post (i + n)) \<longrightarrow> n = k)"
proof (induction k arbitrary: i)
  case (Suc k)
  show ?case
  proof (cases "transient_outcome (post i)")
    case True
    obtain n where n: "n \<le> k" "post_with_retries post (Suc i) k = post (Suc i + n)"
      "\<forall>j < n. transient_outcome (post (Suc i + j))" "transient_outcome (post (Suc i + n)) \<longrightarrow> n = k"
      using Suc.IH by blast
    have "\<forall>j < Suc n. transient_outcome (post (i + j))"
      using True n(3) by (auto simp: less_Suc_eq_0_disj)
    then show ?thesis using True n by (intro exI [of _ "Suc n"]) simp
  next
    case False
    then show ?thesis by (intro exI [of _ 0]) simp
  qed
qed simp

lemma retry_delay_capped: "retry_delay_seconds r i base = Some d \<Longrightarrow> \<not> flt max_retry_delay d"
proof -
  have "\<not> flt max_retry_delay (if flt max_retry_delay x then max_retry_delay else x)" for x
    by (simp add: max_retry_delay_def)
  then show "retry_delay_seconds r i base = Some d \<Longrightarrow> \<not> flt max_retry_delay d"
    by (auto simp only: retry_delay_seconds_def Let_def map_option_eq_Some option.inject split: option.splits)
qed

lemma studio_key_blocks_router:
  "configured (gemini_developer_api_key st) \<Longrightarrow> gs_allow_real_data gs \<Longrightarrow>
     router_from_settings st gs vertex aistudio anthropic =
       Inl (ProviderError ''AI Studio provider refuses to start when ALLOW_REAL_DATA=true'' True)"
  by (simp add: router_from_settings_def aistudio_init_def)

section \<open>A broken stream\<close>

lemma vertex_broken:
  assumes "project \<noteq> ''__stream_test__''" and "\<forall>n m k c ts. \<exists>chs. sdk n m k c ts = VertexChunks chs False"
  shows "\<exists>evs. vertex_stream e project sdk n rq = (evs, Crashed) \<and> list_all (acceptable e') evs"
proof -
  obtain chs where "sdk n (mq_model rq) (mq_max_output_tokens rq) (vertex_contents e (mq_messages rq)) (mq_tools rq) = VertexChunks chs False"
    using assms(2) by blast
  then show ?thesis using assms(1) by (auto simp: vertex_stream_def intro!: list_all_concat_map chunk_acceptable)
qed

lemma broken_call:
  assumes "mr_providers cfg = vertex_provider e project sdk # ps" and "project \<noteq> ''__stream_test__''"
    and "\<forall>n m k c ts. \<exists>chs. sdk n m k c ts = VertexChunks chs False" and "rs_health s = Map.empty" and "\<forall>n. 0 \<le> clock (mr_env cfg) n"
  shows "fst (call_provider cfg auth r k s w) = Inl PyError"
proof -
  define rq where "rq = \<lparr>mq_messages = rs_messages s, mq_tools = available_for auth, mq_model = mr_model cfg,
      mq_max_output_tokens = max_output_tokens_per_run (mr_settings cfg)\<rparr>"
  obtain evs where evs: "vertex_stream e project sdk (Suc (tick w)) rq = (evs, Crashed)" "list_all (acceptable (mr_env cfg)) evs"
    using vertex_broken [OF assms(2,3)] by blast
  obtain tn1 w1 where "consume_all (on_event (mr_env cfg) r k) evs new_turn (w\<lparr>tick := Suc (tick w)\<rparr>) = (Inr tn1, w1)"
    using accepted_consumed [OF evs(2)] by blast
  then have "fst (router_stream (mr_env cfg) (mr_unhealthy_seconds cfg) (mr_providers cfg) rq (on_event (mr_env cfg) r k)
      (rs_health s) new_turn w) = Inl PyError"
    using assms(5) by (simp add: router_stream_def healthy_providers_def utc_now_def assms(1,4) healthy_at_def vertex_provider_def evs(1))
  then show ?thesis
    unfolding call_provider_def Let_def rq_def [symmetric] by (auto simp: then_step_def split: prod.split)
qed


definition broken_demo :: runner_cfg where
  "broken_demo = runner_demo\<lparr>mr_providers := vertex_provider demo_env ''p'' (\<lambda>_ _ _ _ _. VertexChunks [] False) # mr_providers runner_demo\<rparr>"


section \<open>The assistant\<close>

interpretation assistant: stream_consumer keep_text "\<lambda>w v. cur v = cur w \<and> saved v = saved w \<and> sent v = sent w" "\<lambda>_. True"
  by unfold_locales (simp_all add: keep_text_def)

lemma call_llm_quiet: "cur (snd (call_llm cfg router prompt w)) = cur w \<and> saved (snd (call_llm cfg router prompt w)) = saved w \<and>
    sent (snd (call_llm cfg router prompt w)) = sent w"
  using assistant.router_keeps(1) by (simp add: call_llm_def split_def split: option.split)

lemma assistant_only_talks: "cur (snd (interpret_freeform cfg router text field w)) = cur w \<and>
    saved (snd (interpret_freeform cfg router text field w)) = saved w \<and> sent (snd (interpret_freeform cfg router text field w)) = sent w"
  using call_llm_quiet [of cfg router "assist_prompt text field" w]
  by (auto simp: interpret_freeform_def split: prod.split sum.split option.split json.split)

end
