(* ===== verification/AuthApi.thy ===== *)
theory AuthApi
  imports Auth
begin

text \<open>
  The endpoints of \<open>api/v1/auth.py\<close>: login and refresh pass credentials on to PriceFRAME and hand
  out the token it answers with, \<open>me\<close> shows the context of the caller.
\<close>

section \<open>Answers\<close>

record user_info =
  ui_id :: int
  ui_email :: "string option"
  ui_role :: "string option"
  ui_profile :: "string option"

record login_response =
  lr_token :: string
  lr_user :: user_info
  lr_role_code :: string
  lr_profile_code :: string
  lr_permissions :: "string list"
  lr_expires_at :: "int option"

record refresh_response =
  fr_token :: string
  fr_expires_at :: "int option"

record me_response =
  mi_user_id :: int
  mi_email :: "string option"
  mi_role_code :: string
  mi_profile_code :: string
  mi_permissions :: "string list"
  mi_session_id :: "int option"

section \<open>Tokens in replies\<close>

definition object_of :: "json \<Rightarrow> dict" where
  "object_of v = (case v of JObj d \<Rightarrow> d | _ \<Rightarrow> [])"

fun first_token :: "dict \<Rightarrow> string list \<Rightarrow> string option" where
  "first_token d [] = None"
| "first_token d (k # ks) = (case optional_str (d_get d k) of Some t \<Rightarrow> Some t | None \<Rightarrow> first_token d ks)"

definition extract_access_token :: "json \<Rightarrow> string option" where
  "extract_access_token payload = (let d = object_of payload; nested = object_of (d_get d ''data'') in
     case first_token d [''access_token'', ''token''] of
       Some t \<Rightarrow> Some t
     | None \<Rightarrow>
         (case first_token nested [''access_token'', ''token''] of
            Some t \<Rightarrow> Some t
          | None \<Rightarrow> optional_str (d_get (object_of (d_get nested ''session'')) ''token'')))"

text \<open>\<open>exc.status_code or 503\<close>.\<close>

definition upstream_status_code :: "int option \<Rightarrow> int" where
  "upstream_status_code st = (case st of None \<Rightarrow> 503 | Some s \<Rightarrow> if s = 0 then 503 else s)"

definition upstream_error :: "string \<Rightarrow> 'a res \<Rightarrow> 'a res" where
  "upstream_error refused r = (case r of
      Inl (PriceFrameError k m st) \<Rightarrow>
        (let s = upstream_status_code st in
         Inl (if s = 401 then HTTPException 401 refused
              else if s \<ge> 500 then HTTPException 502 ''PriceFRAME unavailable''
              else HTTPException s m))
    | _ \<Rightarrow> r)"

definition profile_error :: "'a res \<Rightarrow> 'a res" where
  "profile_error r = (case r of
      Inl (PriceFrameError k m st) \<Rightarrow> Inl (HTTPException 502 ''Failed to fetch PriceFRAME profile'') | _ \<Rightarrow> r)"

definition token_error :: "'a res \<Rightarrow> 'a res" where
  "token_error r = (case r of
      Inl (AuthTokenError m) \<Rightarrow> Inl (HTTPException 502 ''Failed to verify PriceFRAME token'') | _ \<Rightarrow> r)"

section \<open>Endpoints\<close>

definition login_answer :: "string \<Rightarrow> token_claims \<Rightarrow> auth_context \<Rightarrow> login_response" where
  "login_answer token claims ctx = \<lparr>lr_token = token,
     lr_user = \<lparr>ui_id = user_id ctx, ui_email = cl_email claims, ui_role = Some (role_code ctx), ui_profile = Some (profile_code ctx)\<rparr>,
     lr_role_code = role_code ctx, lr_profile_code = profile_code ctx, lr_permissions = permissions ctx,
     lr_expires_at = cl_expires_at claims\<rparr>"

definition login ::
    "env \<Rightarrow> int \<Rightarrow> string \<Rightarrow> string \<Rightarrow> profile_cache \<Rightarrow> world \<Rightarrow> login_response res \<times> profile_cache \<times> world" where
  "login e ttl email password cache w =
     (case post_public_json e (from_settings e []) ''/api/auth/login''
             (Some [(''email'', JStr email), (''password'', JStr password)]) [] w of
        (r, w1) \<Rightarrow>
          (case ebind (upstream_error ''Invalid email or password'' r) (\<lambda>v.
              case extract_access_token v of
                None \<Rightarrow> Inl (HTTPException 502 ''Invalid login response from PriceFRAME'')
              | Some token \<Rightarrow> ebind (token_error (verify_priceframe_jwt e token)) (\<lambda>claims. Inr (token, claims))) of
             Inl x \<Rightarrow> (Inl x, cache, w1)
           | Inr (token, claims) \<Rightarrow>
               (case get_context e (from_settings e []) token claims ttl cache w1 of
                  (ctx, cache1, w2) \<Rightarrow> (ebind (profile_error ctx) (\<lambda>ctx. Inr (login_answer token claims ctx)), cache1, w2))))"

definition refresh :: "env \<Rightarrow> string \<Rightarrow> world \<Rightarrow> refresh_response res \<times> world" where
  "refresh e refresh_token w =
     (case post_public_json e (from_settings e []) ''/api/auth/refresh'' (Some [(''refresh_token'', JStr refresh_token)]) [] w of
        (r, w1) \<Rightarrow>
          (ebind (upstream_error ''Invalid or expired refresh token'' r) (\<lambda>v.
             case extract_access_token v of
               None \<Rightarrow> Inl (HTTPException 502 ''Invalid refresh response from PriceFRAME'')
             | Some token \<Rightarrow> Inr \<lparr>fr_token = token, fr_expires_at = int_val (d_get (object_of v) ''expires_at'')\<rparr>), w1))"

definition me :: "auth_context \<Rightarrow> me_response" where
  "me auth = \<lparr>mi_user_id = user_id auth, mi_email = None, mi_role_code = role_code auth, mi_profile_code = profile_code auth,
     mi_permissions = permissions auth, mi_session_id = session_id auth\<rparr>"

section \<open>Laws\<close>

lemma optional_str_nonempty: "optional_str v = Some t \<Longrightarrow> t \<noteq> []"
  by (cases v) (auto simp: optional_str_def split: if_splits)

lemma first_token_nonempty: "first_token d ks = Some t \<Longrightarrow> t \<noteq> []"
  using optional_str_nonempty by (induction ks) (auto split: option.splits)

lemma access_token_nonempty: "extract_access_token v = Some t \<Longrightarrow> t \<noteq> []"
  unfolding extract_access_token_def Let_def
  using first_token_nonempty optional_str_nonempty by (auto simp del: first_token.simps split: option.splits)

text \<open>What login hands out has been verified, and its answer is the context the profile gave.\<close>

lemma login_verified:
  assumes "login e ttl email password cache w = (Inr ans, cache', w')"
  shows "\<exists>claims ctx. verify_priceframe_jwt e (lr_token ans) = Inr claims \<and> lr_token ans \<noteq> [] \<and>
    ans = login_answer (lr_token ans) claims ctx"
proof -
  obtain r w1 where p: "post_public_json e (from_settings e []) ''/api/auth/login''
      (Some [(''email'', JStr email), (''password'', JStr password)]) [] w = (r, w1)" by fastforce
  define q where "q = ebind (upstream_error ''Invalid email or password'' r) (\<lambda>v.
      case extract_access_token v of
        None \<Rightarrow> Inl (HTTPException 502 ''Invalid login response from PriceFRAME'')
      | Some token \<Rightarrow> ebind (token_error (verify_priceframe_jwt e token)) (\<lambda>claims. Inr (token, claims)))"
  obtain token claims where q: "q = Inr (token, claims)"
    using assms unfolding login_def p prod.case q_def [symmetric] by (cases q) auto
  have rest: "(case get_context e (from_settings e []) token claims ttl cache w1 of
        (ctx, cache1, w2) \<Rightarrow> (ebind (profile_error ctx) (\<lambda>ctx. Inr (login_answer token claims ctx)), cache1, w2)) = (Inr ans, cache', w')"
    using assms unfolding login_def p prod.case q_def [symmetric] by (simp add: q)
  obtain v where v: "extract_access_token v = Some token" "token_error (verify_priceframe_jwt e token) = Inr claims"
  proof -
    obtain v where f: "(case extract_access_token v of
        None \<Rightarrow> Inl (HTTPException 502 ''Invalid login response from PriceFRAME'')
      | Some token \<Rightarrow> ebind (token_error (verify_priceframe_jwt e token)) (\<lambda>claims. Inr (token, claims))) = Inr (token, claims)"
      using q unfolding q_def ebind_Inr_conv by blast
    show thesis
    proof (cases "extract_access_token v")
      case None
      with f show thesis by simp
    next
      case (Some t)
      then have "ebind (token_error (verify_priceframe_jwt e t)) (\<lambda>claims. Inr (t, claims)) = Inr (token, claims)" using f by simp
      then obtain c where "token_error (verify_priceframe_jwt e t) = Inr c" "(t, c) = (token, claims)"
        unfolding ebind_Inr_conv by blast
      with Some that show thesis by simp
    qed
  qed
  have "verify_priceframe_jwt e token = Inr claims"
    using v(2) by (auto simp: token_error_def split: sum.splits exc.splits)
  moreover obtain ctx where "ans = login_answer token claims ctx"
    using rest by (auto simp: ebind_Inr_conv split: prod.splits)
  moreover have "token \<noteq> []"
    using v(1) by (rule access_token_nonempty)
  ultimately show ?thesis by (auto simp: login_answer_def)
qed

end
