(* ===== verification/Attachments.thy ===== *)
theory Attachments
  imports Auth "HOL-Library.Word"
begin

text \<open>
  Attachments: \<open>api/v1/attachments.py\<close>, the blob stores of \<open>attachments/storage.py\<close>, the ClamAV client of
  \<open>attachments/scanning.py\<close> and the scan job of \<open>worker.py\<close>. The attachment table, the stored blobs
  and the queued scans are kept beside the \<open>world\<close> of the other handlers. What the disk, S3, the scanner
  and the queue answer is a parameter that may change with every call.
\<close>

section \<open>State\<close>

type_synonym byte = "8 word"

record agent_attachment =
  at_id :: string
  at_user_id :: int
  at_conversation_id :: "string option"
  at_message_id :: "string option"
  at_filename :: string
  at_content_type :: string
  at_size_bytes :: int
  at_checksum :: string
  at_bucket :: string
  at_key :: string
  at_status :: string
  at_scan_status :: string
  at_scan_result :: "string option"
  at_created_at :: int
  at_updated_at :: int

datatype blob_backend = LocalBlobStorage | S3BlobStorage

record stored_blob =
  sb_bucket :: string
  sb_key :: string

record attach_state =
  as_world :: world
  as_rows :: "agent_attachment list"
  as_saved :: "agent_attachment list"
  as_blobs :: "(string list \<times> byte list) list"
  as_jobs :: "string list"
  as_calls :: nat

text \<open>The answer of \<open>clamd\<close>: a socket error, or the text it sent.\<close>

datatype clam_answer = SocketError string | ClamText string

record attach_cfg =
  ac_env :: env
  ac_bucket :: string
  ac_backend :: blob_backend
  ac_max_bytes :: int
  ac_arq :: bool
  ac_clamav :: bool
  ac_host :: string
  ac_port :: int
  ac_digest :: "byte list \<Rightarrow> string"
  ac_put_ok :: "nat \<Rightarrow> string \<Rightarrow> bool"
  ac_get_ok :: "nat \<Rightarrow> string \<Rightarrow> bool"
  ac_presign :: "nat \<Rightarrow> string \<Rightarrow> string res"
  ac_clamd :: "nat \<Rightarrow> string \<Rightarrow> int \<Rightarrow> byte list \<Rightarrow> clam_answer"
  ac_enqueue :: "nat \<Rightarrow> string \<Rightarrow> unit res"

section \<open>Blob storage\<close>

text \<open>The segments \<open>pathlib\<close> keeps of a relative path, and the last of them (\<open>PurePath.name\<close>).\<close>

definition path_parts :: "string \<Rightarrow> string list" where
  "path_parts p = filter (\<lambda>x. x \<noteq> [] \<and> x \<noteq> ''.'') (split_char CHR ''/'' p)"

definition path_name :: "string \<Rightarrow> string" where
  "path_name p = (case path_parts p of [] \<Rightarrow> [] | x # xs \<Rightarrow> last (x # xs))"

definition blob_location :: "blob_backend \<Rightarrow> string \<Rightarrow> string list" where
  "blob_location b key = (case b of LocalBlobStorage \<Rightarrow> path_parts key | S3BlobStorage \<Rightarrow> [key])"

text \<open>A path that ends in a directory cannot be written as a file.\<close>

definition store_blob ::
    "blob_backend \<Rightarrow> string \<Rightarrow> byte list \<Rightarrow> (string list \<times> byte list) list \<Rightarrow> (string list \<times> byte list) list option" where
  "store_blob b key data blobs =
     (if b = LocalBlobStorage \<and> (path_parts key = [] \<or> last (path_parts key) = ''..'') then None
      else Some (AList.update (blob_location b key) data blobs))"

definition load_blob :: "blob_backend \<Rightarrow> string \<Rightarrow> (string list \<times> byte list) list \<Rightarrow> byte list option" where
  "load_blob b key blobs = map_of blobs (blob_location b key)"

text \<open>
  The protocol \<open>BlobStorage\<close>: what the router and the scan job rely on. A blob is read back as it was
  written, and writing one leaves those at other places alone.
\<close>

locale blob_storage =
  fixes place :: "'k \<Rightarrow> 'p"
    and put :: "'k \<Rightarrow> 'd \<Rightarrow> 's \<Rightarrow> 's option"
    and get :: "'k \<Rightarrow> 's \<Rightarrow> 'd option"
  assumes get_put: "put k d s = Some s' \<Longrightarrow> get k s' = Some d"
    and get_put_other: "put k d s = Some s' \<Longrightarrow> place k' \<noteq> place k \<Longrightarrow> get k' s' = get k' s"
begin

text \<open>A blob survives every sequence of writes to other places.\<close>

inductive writes :: "'k set \<Rightarrow> 's \<Rightarrow> 's \<Rightarrow> bool" where
  writes_none: "writes K s s"
| writes_put: "writes K s s1 \<Longrightarrow> k \<in> K \<Longrightarrow> put k d s1 = Some s2 \<Longrightarrow> writes K s s2"

lemma kept_by_writes: "writes K s s' \<Longrightarrow> place k \<notin> place ` K \<Longrightarrow> get k s' = get k s"
  by (induction rule: writes.induct) (auto dest: get_put_other)

lemma put_then_writes:
  "put k d s = Some s1 \<Longrightarrow> writes K s1 s2 \<Longrightarrow> place k \<notin> place ` K \<Longrightarrow> get k s2 = Some d"
  by (simp add: get_put kept_by_writes)

end

interpretation blobs: blob_storage "blob_location b" "store_blob b" "load_blob b" for b
  by unfold_locales (auto simp: store_blob_def load_blob_def update_conv split: if_splits)

text \<open>\<open>put_bytes\<close>, \<open>get_bytes\<close> and \<open>presigned_get_url\<close> of the configured store.\<close>

definition outside_call :: "attach_state \<Rightarrow> attach_state" where
  "outside_call s = s\<lparr>as_calls := Suc (as_calls s)\<rparr>"

definition put_bytes :: "attach_cfg \<Rightarrow> string \<Rightarrow> byte list \<Rightarrow> attach_state \<Rightarrow> stored_blob res \<times> attach_state" where
  "put_bytes cfg key data s =
     (if \<not> ac_put_ok cfg (as_calls s) key then (Inl PyError, outside_call s)
      else case store_blob (ac_backend cfg) key data (as_blobs s) of
        None \<Rightarrow> (Inl PyError, outside_call s)
      | Some bs \<Rightarrow>
          (Inr \<lparr>sb_bucket = (case ac_backend cfg of LocalBlobStorage \<Rightarrow> ''local'' | S3BlobStorage \<Rightarrow> ac_bucket cfg),
                sb_key = key\<rparr>, outside_call (s\<lparr>as_blobs := bs\<rparr>)))"

definition get_bytes :: "attach_cfg \<Rightarrow> string \<Rightarrow> attach_state \<Rightarrow> byte list res \<times> attach_state" where
  "get_bytes cfg key s =
     (if ac_get_ok cfg (as_calls s) key then of_opt (load_blob (ac_backend cfg) key (as_blobs s)) else Inl PyError,
      outside_call s)"

definition presigned_get_url :: "attach_cfg \<Rightarrow> string \<Rightarrow> attach_state \<Rightarrow> string option res \<times> attach_state" where
  "presigned_get_url cfg key s = (case ac_backend cfg of
      LocalBlobStorage \<Rightarrow> (Inr None, s)
    | S3BlobStorage \<Rightarrow> (map_sum id Some (ac_presign cfg (as_calls s) key), outside_call s))"

section \<open>Malware scan\<close>

record scan_result =
  sr_status :: string
  sr_detail :: "string option"

definition is_clean :: "scan_result \<Rightarrow> bool" where "is_clean r \<longleftrightarrow> sr_status r = ''clean''"

text \<open>\<open>n.to_bytes(4, 'big')\<close>; \<open>None\<close> is its OverflowError.\<close>

definition to_bytes4 :: "nat \<Rightarrow> byte list option" where
  "to_bytes4 n = (let z = int n in if z < 2 ^ 32
     then Some [word_of_int (z div 2 ^ 24), word_of_int (z div 2 ^ 16), word_of_int (z div 2 ^ 8), word_of_int z]
     else None)"

function chunk_starts :: "nat \<Rightarrow> nat \<Rightarrow> nat list" where
  "chunk_starts start n = (if start < n then start # chunk_starts (start + 8192) n else [])"
  by pat_completeness auto
termination by (relation "measure (\<lambda>(start, n). n - start)") auto

declare chunk_starts.simps [simp del]

definition send_chunk :: "byte list \<Rightarrow> byte list option" where
  "send_chunk c = map_option (\<lambda>n. n @ c) (to_bytes4 (length c))"

definition ascii_bytes :: "string \<Rightarrow> byte list" where "ascii_bytes s = map of_char s"

text \<open>Everything written to the socket.\<close>

definition instream :: "byte list \<Rightarrow> byte list option" where
  "instream data = do {
     frames \<leftarrow> omap (\<lambda>start. send_chunk (take 8192 (drop start data))) (chunk_starts 0 (length data));
     end_mark \<leftarrow> to_bytes4 0;
     Some (ascii_bytes ''zINSTREAM'' @ [0] @ concat frames @ end_mark) }"

definition read_answer :: "string \<Rightarrow> scan_result" where
  "read_answer response =
     (if str_contains response ''FOUND'' then \<lparr>sr_status = ''infected'', sr_detail = Some (str_strip response)\<rparr>
      else if str_contains response ''OK'' then \<lparr>sr_status = ''clean'', sr_detail = Some (str_strip response)\<rparr>
      else \<lparr>sr_status = ''failed'', sr_detail = Some
              (if str_strip response \<noteq> [] then str_strip response else ''unknown_clamav_response'')\<rparr>)"

definition scan_bytes_sync :: "attach_cfg \<Rightarrow> nat \<Rightarrow> byte list \<Rightarrow> scan_result option" where
  "scan_bytes_sync cfg n data = map_option
     (\<lambda>sent. case ac_clamd cfg n (ac_host cfg) (ac_port cfg) sent of
        SocketError m \<Rightarrow> \<lparr>sr_status = ''failed'', sr_detail = Some m\<rparr>
      | ClamText t \<Rightarrow> read_answer t) (instream data)"

definition scan_bytes :: "attach_cfg \<Rightarrow> byte list \<Rightarrow> attach_state \<Rightarrow> scan_result res \<times> attach_state" where
  "scan_bytes cfg data s =
     (if \<not> ac_clamav cfg then (Inr \<lparr>sr_status = ''clean'', sr_detail = Some ''clamav_disabled''\<rparr>, s)
      else (of_opt (scan_bytes_sync cfg (as_calls s) data), outside_call s))"

section \<open>Session\<close>

definition get_attachment_row :: "string \<Rightarrow> attach_state \<Rightarrow> agent_attachment option" where
  "get_attachment_row k s = row_find at_id k (as_rows s)"
definition upd_attachment :: "string \<Rightarrow> (agent_attachment \<Rightarrow> agent_attachment) \<Rightarrow> attach_state \<Rightarrow> attach_state" where
  "upd_attachment k f s = s\<lparr>as_rows := row_modify at_id k f (as_rows s)\<rparr>"

definition commit_attachments :: "attach_state \<Rightarrow> attach_state" where
  "commit_attachments s = s\<lparr>as_saved := as_rows s, as_world := commit (as_world s)\<rparr>"

definition close_attachments :: "'a \<times> attach_state \<Rightarrow> 'a \<times> attach_state" where
  "close_attachments rs = (fst rs, (snd rs)\<lparr>as_rows := as_saved (snd rs), as_world := close_session (as_world (snd rs))\<rparr>)"

definition abind :: "'a res \<times> attach_state \<Rightarrow> ('a \<Rightarrow> attach_state \<Rightarrow> 'b res \<times> attach_state) \<Rightarrow> 'b res \<times> attach_state" where
  "abind m f = (case m of (Inl e, s) \<Rightarrow> (Inl e, s) | (Inr x, s) \<Rightarrow> f x s)"

definition now :: "attach_cfg \<Rightarrow> attach_state \<Rightarrow> int \<times> attach_state" where
  "now cfg s = (let (t, w) = utc_now (ac_env cfg) (as_world s) in (t, s\<lparr>as_world := w\<rparr>))"

section \<open>Endpoints\<close>

record attachment_response =
  ar_id :: string
  ar_filename :: string
  ar_content_type :: string
  ar_size_bytes :: int
  ar_checksum :: string
  ar_status :: string
  ar_scan_status :: string
  ar_download_url :: "string option"
  ar_created_at :: int

record upload_file =
  uf_filename :: "string option"
  uf_content_type :: "string option"
  uf_data :: "byte list"

text \<open>Python's \<open>x or default\<close> on an optional text.\<close>

definition text_or :: "string option \<Rightarrow> string \<Rightarrow> string" where
  "text_or x d = (case x of None \<Rightarrow> d | Some t \<Rightarrow> if t = [] then d else t)"

definition safe_filename :: "string option \<Rightarrow> string" where
  "safe_filename filename =
     text_or (Some (str_strip (path_name (text_or filename ''attachment.bin'')))) ''attachment.bin''"

definition storage_key_of :: "int \<Rightarrow> string \<Rightarrow> string \<Rightarrow> string" where
  "storage_key_of uid k filename = ''users/'' @ show_int uid @ ''/attachments/'' @ k @ ''/'' @ filename"

definition respond_with :: "attach_cfg \<Rightarrow> agent_attachment \<Rightarrow> attach_state \<Rightarrow> attachment_response res \<times> attach_state" where
  "respond_with cfg a s = abind (presigned_get_url cfg (at_key a) s) (\<lambda>url s.
     (Inr \<lparr>ar_id = at_id a, ar_filename = at_filename a, ar_content_type = at_content_type a,
        ar_size_bytes = at_size_bytes a, ar_checksum = at_checksum a, ar_status = at_status a,
        ar_scan_status = at_scan_status a, ar_download_url = url, ar_created_at = at_created_at a\<rparr>, s))"

definition conversation_allows :: "auth_context \<Rightarrow> string option \<Rightarrow> attach_state \<Rightarrow> bool" where
  "conversation_allows auth conv s = (case conv of
      None \<Rightarrow> True
    | Some k \<Rightarrow> (case get_conversation k (as_world s) of None \<Rightarrow> False | Some c \<Rightarrow> cv_user_id c = user_id auth))"

text \<open>The new row as it is flushed: the primary key is the database's to check.\<close>

definition flush_attachment :: "attach_cfg \<Rightarrow> auth_context \<Rightarrow> upload_file \<Rightarrow> string option \<Rightarrow> attach_state \<Rightarrow>
    agent_attachment res \<times> attach_state" where
  "flush_attachment cfg auth f conv s =
     (let (k, w) = new_id (ac_env cfg) (as_world s);
          (t1, s1) = now cfg (s\<lparr>as_world := w\<rparr>);
          (t2, s2) = now cfg s1;
          a = \<lparr>at_id = k, at_user_id = user_id auth, at_conversation_id = conv, at_message_id = None,
               at_filename = safe_filename (uf_filename f),
               at_content_type = text_or (uf_content_type f) ''application/octet-stream'',
               at_size_bytes = int (length (uf_data f)), at_checksum = ac_digest cfg (uf_data f),
               at_bucket = ac_bucket cfg, at_key = ''pending'', at_status = ''pending_scan'',
               at_scan_status = ''pending'', at_scan_result = None, at_created_at = t1, at_updated_at = t2\<rparr>
      in if k \<in> at_id ` set (as_rows s2) then (Inl PyError, s2)
         else (Inr a, s2\<lparr>as_rows := as_rows s2 @ [a]\<rparr>))"

text \<open>What a scan leaves in the row.\<close>

definition apply_scan :: "scan_result \<Rightarrow> agent_attachment \<Rightarrow> agent_attachment" where
  "apply_scan r a = a\<lparr>at_scan_status := sr_status r, at_scan_result := sr_detail r,
     at_status := if is_clean r then ''ready'' else sr_status r\<rparr>"

definition scan_or_defer :: "attach_cfg \<Rightarrow> byte list \<Rightarrow> agent_attachment \<Rightarrow> attach_state \<Rightarrow> agent_attachment res \<times> attach_state" where
  "scan_or_defer cfg data a s =
     (if ac_arq cfg then (Inr (a\<lparr>at_scan_status := ''pending'', at_status := ''pending_scan''\<rparr>), s)
      else abind (scan_bytes cfg data s) (\<lambda>r s. (Inr (apply_scan r a), s)))"

definition touch_and_commit :: "attach_cfg \<Rightarrow> agent_attachment \<Rightarrow> attach_state \<Rightarrow> agent_attachment \<times> attach_state" where
  "touch_and_commit cfg a s = (let (t, s) = now cfg s; a = a\<lparr>at_updated_at := t\<rparr> in
     (a, commit_attachments (upd_attachment (at_id a) (\<lambda>_. a) s)))"

definition enqueue_attachment_scan :: "attach_cfg \<Rightarrow> string \<Rightarrow> attach_state \<Rightarrow> unit res \<times> attach_state" where
  "enqueue_attachment_scan cfg k s = (case ac_enqueue cfg (as_calls s) k of
      Inl e \<Rightarrow> (Inl e, outside_call s)
    | Inr _ \<Rightarrow> (Inr (), outside_call (s\<lparr>as_jobs := as_jobs s @ [k]\<rparr>)))"

definition finish_upload :: "attach_cfg \<Rightarrow> agent_attachment \<Rightarrow> attach_state \<Rightarrow> attachment_response res \<times> attach_state" where
  "finish_upload cfg a s = (let (a, s) = touch_and_commit cfg a s in
     abind (if ac_arq cfg then enqueue_attachment_scan cfg (at_id a) s else (Inr (), s)) (\<lambda>_ s.
       respond_with cfg a s))"

definition store_upload :: "attach_cfg \<Rightarrow> auth_context \<Rightarrow> byte list \<Rightarrow> agent_attachment \<Rightarrow> attach_state \<Rightarrow>
    attachment_response res \<times> attach_state" where
  "store_upload cfg auth data a s =
     abind (put_bytes cfg (storage_key_of (user_id auth) (at_id a) (at_filename a)) data s) (\<lambda>b s.
     abind (scan_or_defer cfg data (a\<lparr>at_bucket := sb_bucket b, at_key := sb_key b\<rparr>) s) (finish_upload cfg))"

definition upload_attachment :: "attach_cfg \<Rightarrow> auth_context \<Rightarrow> upload_file \<Rightarrow> string option \<Rightarrow> attach_state \<Rightarrow>
    attachment_response res \<times> attach_state" where
  "upload_attachment cfg auth f conv s = close_attachments
     (if \<not> conversation_allows auth conv s then (Inl (HTTPException 404 ''Conversation not found''), s)
      else if int (length (uf_data f)) > ac_max_bytes cfg then (Inl (HTTPException 413 ''Attachment is too large''), s)
      else abind (flush_attachment cfg auth f conv s) (store_upload cfg auth (uf_data f)))"

definition get_attachment :: "attach_cfg \<Rightarrow> auth_context \<Rightarrow> string \<Rightarrow> attach_state \<Rightarrow> attachment_response res \<times> attach_state" where
  "get_attachment cfg auth k s = close_attachments
     (case get_attachment_row k s of
        None \<Rightarrow> (Inl (HTTPException 404 ''Attachment not found''), s)
      | Some a \<Rightarrow> if at_user_id a \<noteq> user_id auth then (Inl (HTTPException 404 ''Attachment not found''), s)
                  else respond_with cfg a s)"

text \<open>The queued scan: a session of its own, the bytes read back from the store.\<close>

definition scan_attachment_job :: "attach_cfg \<Rightarrow> string \<Rightarrow> attach_state \<Rightarrow> unit res \<times> attach_state" where
  "scan_attachment_job cfg k s = close_attachments
     (case get_attachment_row k s of
        None \<Rightarrow> (Inr (), s)
      | Some a \<Rightarrow>
          abind (get_bytes cfg (at_key a) s) (\<lambda>data s.
          abind (scan_bytes cfg data s) (\<lambda>r s.
            (Inr (), snd (touch_and_commit cfg (apply_scan r a) s)))))"

end
