(* ===== verification/AttachmentLaws.thy ===== *)
theory AttachmentLaws
  imports Attachments
begin

text \<open>
  Laws of the attachments: the scanner receives exactly the uploaded bytes, and whatever requests and
  scan jobs are served, a committed attachment is \<open>ready\<close> only after a clean scan of the bytes stored
  under its own key.
\<close>

section \<open>The scanner's side of the protocol\<close>

text \<open>
  How \<open>clamd\<close> reads \<open>INSTREAM\<close>: chunks with their length in four bytes, most significant first, up to a chunk
  of length zero.
\<close>

definition from_bytes4 :: "byte list \<Rightarrow> nat" where
  "from_bytes4 bs = foldl (\<lambda>n b. 256 * n + unat b) 0 bs"

function clam_chunks :: "byte list \<Rightarrow> byte list option" where
  "clam_chunks bs = (let n = from_bytes4 (take 4 bs); rest = drop 4 bs in
     if length bs < 4 then None
     else if n = 0 then if rest = [] then Some [] else None
     else if length rest < n then None
     else map_option (\<lambda>d. take n rest @ d) (clam_chunks (drop n rest)))"
  by pat_completeness auto
termination by (relation "measure length") auto

declare clam_chunks.simps [simp del]

definition clam_reads :: "byte list \<Rightarrow> byte list option" where
  "clam_reads bs = (let command = ascii_bytes ''zINSTREAM'' @ [0] in
     if take (length command) bs = command then clam_chunks (drop (length command) bs) else None)"

lemma to_bytes4_nat:
  "to_bytes4 n = (if n < 2 ^ 32
     then Some [word_of_nat (n div 2 ^ 24), word_of_nat (n div 2 ^ 16), word_of_nat (n div 2 ^ 8), word_of_nat n]
     else None)"
proof -
  have "int n < 2 ^ 32 \<longleftrightarrow> n < 2 ^ 32" by simp
  moreover have "word_of_int (int n div 2 ^ k) = (word_of_nat (n div 2 ^ k) :: byte)" for k
  proof -
    have "int n div 2 ^ k = int (n div 2 ^ k)" by (simp add: zdiv_int)
    then show ?thesis by (simp only: of_int_of_nat_eq)
  qed
  ultimately show ?thesis by (simp only: to_bytes4_def Let_def of_int_of_nat_eq)
qed

lemma from_to_bytes4: "to_bytes4 n = Some bs \<Longrightarrow> length bs = 4 \<and> from_bytes4 bs = n"
proof -
  assume a: "to_bytes4 n = Some bs"
  then have n: "n < 2 ^ 32"
    and bs: "bs = [word_of_nat (n div 2 ^ 24), word_of_nat (n div 2 ^ 16), word_of_nat (n div 2 ^ 8), word_of_nat n]"
    by (auto simp: to_bytes4_nat split: if_splits)
  have d: "n div 65536 = n div 256 div 256" "n div 16777216 = n div 256 div 256 div 256"
    by (simp_all add: div_mult2_eq [symmetric])
  have top: "n div 256 div 256 div 256 < 256" using n by (simp add: div_mult2_eq [symmetric] less_mult_imp_div_less)
  have "from_bytes4 bs = 256 * (256 * (256 * (n div 256 div 256 div 256 mod 256) + n div 256 div 256 mod 256)
      + n div 256 mod 256) + n mod 256"
    by (simp add: bs from_bytes4_def unat_of_nat take_bit_eq_mod d)
  also have "\<dots> = n" using top by simp
  finally show ?thesis by (simp add: bs)
qed

lemma send_chunk_short:
  "length c < 2 ^ 32 \<Longrightarrow> \<exists>h. to_bytes4 (length c) = Some h \<and> send_chunk c = Some (h @ c)"
  by (simp add: send_chunk_def to_bytes4_nat)

lemma clam_chunks_frame:
  assumes "to_bytes4 (length c) = Some h" "c \<noteq> []"
  shows "clam_chunks (h @ c @ rest) = map_option (\<lambda>d. c @ d) (clam_chunks rest)"
  using from_to_bytes4 [OF assms(1)] assms(2) by (subst clam_chunks.simps) (simp add: Let_def)

lemma clam_chunks_end: "to_bytes4 0 = Some h \<Longrightarrow> clam_chunks h = Some []"
  using from_to_bytes4 [of 0 h] by (subst clam_chunks.simps) (simp add: Let_def)

lemma chunks_read_back:
  assumes "to_bytes4 0 = Some h"
  shows "\<exists>fs. omap (\<lambda>i. send_chunk (take 8192 (drop i data))) (chunk_starts i (length data)) = Some fs \<and>
     clam_chunks (concat fs @ h) = Some (drop i data)"
proof (induction i "length data" rule: chunk_starts.induct)
  case (1 i)
  show ?case
  proof (cases "i < length data")
    case True
    define c where "c = take 8192 (drop i data)"
    have c: "c \<noteq> []" "length c < 2 ^ 32" and rest: "c @ drop (i + 8192) data = drop i data"
      using True by (auto simp: c_def add.commute) (metis append_take_drop_id drop_drop add.commute)
    obtain b where b: "to_bytes4 (length c) = Some b" "send_chunk c = Some (b @ c)"
      using send_chunk_short [OF c(2)] by blast
    from "1"[OF True] obtain fs where
      "omap (\<lambda>i. send_chunk (take 8192 (drop i data))) (chunk_starts (i + 8192) (length data)) = Some fs"
      "clam_chunks (concat fs @ h) = Some (drop (i + 8192) data)" by blast
    with True b(2) clam_chunks_frame [OF b(1) c(1), of "concat fs @ h"] rest show ?thesis
      by (simp add: chunk_starts.simps [of i] c_def [symmetric])
  next
    case False
    with clam_chunks_end [OF assms] show ?thesis by (subst chunk_starts.simps) simp
  qed
qed

lemma instream_read_back: "\<exists>sent. instream data = Some sent \<and> clam_reads sent = Some data"
proof -
  obtain h where h: "to_bytes4 0 = Some h" by (simp add: to_bytes4_nat)
  from chunks_read_back [OF h, of data 0] h show ?thesis
    by (auto simp: instream_def clam_reads_def)
qed

section \<open>Places of the blobs\<close>

definition plain_id :: "string \<Rightarrow> bool" where
  "plain_id k \<longleftrightarrow> k \<noteq> [] \<and> k \<noteq> ''.'' \<and> CHR ''/'' \<notin> set k"

lemma split_char_piece:
  "c \<notin> set x \<Longrightarrow> split_char c (x @ c # y) = x # split_char c y"
  by (induction x) auto

lemma path_parts_append: "plain_id x \<Longrightarrow> path_parts (x @ CHR ''/'' # y) = x # path_parts y"
  by (simp add: path_parts_def plain_id_def split_char_piece)

lemma plain_show_int: "plain_id (show_int i)"
proof -
  have d: "show_nat n \<noteq> []" "\<And>c. c \<in> set (show_nat n) \<Longrightarrow> is_digit c" for n
    using show_nat_digits [of n] by (auto simp: list_all_iff)
  have "show_nat n \<noteq> ''.''" "CHR ''/'' \<notin> set (show_nat n)" for n
    using d(2) [of "CHR ''.''" n] d(2) [of "CHR ''/''" n] by (auto simp: is_digit_def)
  with d(1) show ?thesis by (simp add: plain_id_def show_int_def)
qed

lemma key_parts:
  assumes "plain_id k"
  shows "path_parts (storage_key_of u k f) = [''users'', show_int u, ''attachments'', k] @ path_parts f"
proof -
  have "storage_key_of u k f =
      ''users'' @ CHR ''/'' # show_int u @ CHR ''/'' # ''attachments'' @ CHR ''/'' # k @ CHR ''/'' # f"
    by (simp add: storage_key_of_def)
  moreover have "plain_id ''users''" "plain_id ''attachments''" by (simp_all add: plain_id_def)
  ultimately show ?thesis
    by (simp only: path_parts_append plain_show_int assms) simp
qed

lemma places_differ:
  assumes "plain_id k" "plain_id k'" "k \<noteq> k'"
  shows "blob_location b (storage_key_of u k f) \<noteq> blob_location b (storage_key_of u' k' f')"
proof
  assume "blob_location b (storage_key_of u k f) = blob_location b (storage_key_of u' k' f')"
  then have "path_parts (storage_key_of u k f) = path_parts (storage_key_of u' k' f')"
    by (cases b) (simp_all add: blob_location_def)
  with assms show False by (simp add: key_parts)
qed

lemma path_parts_no_slash: "x \<in> set (path_parts p) \<Longrightarrow> CHR ''/'' \<notin> set x \<and> x \<noteq> [] \<and> x \<noteq> ''.''"
proof -
  have "x \<in> set (split_char c p) \<Longrightarrow> c \<notin> set x" for c
    by (induction c p arbitrary: x rule: split_char.induct) (auto split: list.splits if_splits)
  then show "x \<in> set (path_parts p) \<Longrightarrow> ?thesis" by (auto simp: path_parts_def)
qed

lemma set_str_strip: "set (str_strip s) \<subseteq> set s"
proof -
  have "set (lstrip x) \<subseteq> set x" for x by (auto simp: lstrip_def dest: set_dropWhileD)
  from this [of "rev (lstrip s)"] this [of s] show ?thesis by (auto simp: str_strip_def)
qed

text \<open>A stored file name is not empty and names no other directory; it may be \<open>..\<close>.\<close>

lemma safe_filename_is_one_segment: "safe_filename n \<noteq> [] \<and> CHR ''/'' \<notin> set (safe_filename n)"
proof -
  have "CHR ''/'' \<notin> set (path_name p)" for p
  proof (cases "path_parts p = []")
    case False
    then have "path_name p = last (path_parts p)" by (cases "path_parts p") (simp_all add: path_name_def)
    with path_parts_no_slash [OF last_in_set [OF False]] show ?thesis by simp
  qed (simp add: path_name_def)
  then have "CHR ''/'' \<notin> set (str_strip (path_name p))" for p using set_str_strip by blast
  then show ?thesis by (simp add: safe_filename_def text_or_def)
qed

lemma parent_directory_passes: "safe_filename (Some ''..'') = ''..''"
  by code_simp

section \<open>Committed attachments\<close>

text \<open>The scanner, asked about exactly these bytes, has called them clean (or scanning is switched off).\<close>

definition scanned_clean :: "attach_cfg \<Rightarrow> byte list \<Rightarrow> bool" where
  "scanned_clean cfg data \<longleftrightarrow> \<not> ac_clamav cfg \<or>
     (\<exists>n sent t. clam_reads sent = Some data \<and> ac_clamd cfg n (ac_host cfg) (ac_port cfg) sent = ClamText t \<and>
        str_contains t ''OK'' \<and> \<not> str_contains t ''FOUND'')"

definition status_sound :: "attach_cfg \<Rightarrow> byte list \<Rightarrow> agent_attachment \<Rightarrow> bool" where
  "status_sound cfg d a \<longleftrightarrow>
     (at_status a, at_scan_status a) \<in> {(''pending_scan'', ''pending''), (''ready'', ''clean''),
       (''infected'', ''infected''), (''failed'', ''failed'')} \<and>
     (at_status a = ''ready'' \<longrightarrow> scanned_clean cfg d)"

definition row_sound :: "attach_cfg \<Rightarrow> (string list \<times> byte list) list \<Rightarrow> agent_attachment \<Rightarrow> bool" where
  "row_sound cfg blobs a \<longleftrightarrow> plain_id (at_id a) \<and>
     storage_key_of (at_user_id a) (at_id a) (at_filename a) = at_key a \<and>
     (case load_blob (ac_backend cfg) (at_key a) blobs of
        None \<Rightarrow> False
      | Some d \<Rightarrow> at_size_bytes a = int (length d) \<and> at_size_bytes a \<le> ac_max_bytes cfg \<and>
          at_checksum a = ac_digest cfg d \<and> status_sound cfg d a)"

definition saved_sound :: "attach_cfg \<Rightarrow> attach_state \<Rightarrow> bool" where
  "saved_sound cfg s \<longleftrightarrow> (\<forall>a \<in> set (as_saved s). row_sound cfg (as_blobs s) a)"

definition store_sound :: "attach_cfg \<Rightarrow> attach_state \<Rightarrow> bool" where
  "store_sound cfg s \<longleftrightarrow> as_rows s = as_saved s \<and> saved_sound cfg s"

lemma store_sound_closed [simp]: "store_sound cfg (snd (close_attachments m)) \<longleftrightarrow> saved_sound cfg (snd m)"
  by (simp add: store_sound_def close_attachments_def saved_sound_def)

text \<open>Calls that leave the rows and the blobs as they are.\<close>

definition same_store :: "attach_state \<Rightarrow> attach_state \<Rightarrow> bool" where
  "same_store s s' \<longleftrightarrow> as_rows s' = as_rows s \<and> as_saved s' = as_saved s \<and> as_blobs s' = as_blobs s"

lemma same_outside: "same_store s (outside_call s)"
  by (simp add: same_store_def outside_call_def)

lemma same_now: "same_store s (snd (now cfg s))"
  by (simp add: same_store_def now_def split: prod.split)

lemma same_get: "same_store s (snd (get_bytes cfg key s))"
  by (simp add: same_outside get_bytes_def)

lemma same_scan: "same_store s (snd (scan_bytes cfg d s))"
  by (simp add: scan_bytes_def same_outside) (simp add: same_store_def)

lemma same_presign: "same_store s (snd (presigned_get_url cfg key s))"
  by (simp add: presigned_get_url_def same_outside split: blob_backend.split) (simp add: same_store_def)

lemma same_enqueue: "same_store s (snd (enqueue_attachment_scan cfg k s))"
  by (simp add: enqueue_attachment_scan_def same_store_def outside_call_def split: sum.split)

lemma same_respond: "same_store s (snd (respond_with cfg a s))"
  using same_presign [of s cfg "at_key a"] by (auto simp: respond_with_def abind_def split: prod.splits sum.splits)

lemma same_trans: "same_store s s' \<Longrightarrow> same_store s' s'' \<Longrightarrow> same_store s s''"
  by (simp add: same_store_def)

lemma same_sound: "same_store s s' \<Longrightarrow> saved_sound cfg s' = saved_sound cfg s"
  by (simp add: same_store_def saved_sound_def)

lemmas same_calls = same_now same_get same_scan same_presign same_enqueue same_respond

lemma abind_sound:
  assumes "\<And>e s'. m = (Inl e, s') \<Longrightarrow> saved_sound cfg s'"
    and "\<And>x s'. m = (Inr x, s') \<Longrightarrow> saved_sound cfg (snd (f x s'))"
  shows "saved_sound cfg (snd (abind m f))"
  using assms by (cases m) (auto simp: abind_def split: sum.split)

text \<open>A scan that calls bytes clean has sent them.\<close>

lemma scan_says:
  assumes "scan_bytes cfg d s = (Inr r, s')"
  shows "status_sound cfg d (apply_scan r a)"
proof (cases "ac_clamav cfg")
  case False
  with assms show ?thesis
    by (auto simp: scan_bytes_def status_sound_def apply_scan_def is_clean_def scanned_clean_def)
next
  case True
  obtain sent where sent: "instream d = Some sent" "clam_reads sent = Some d" using instream_read_back by blast
  with True assms have r: "r = (case ac_clamd cfg (as_calls s) (ac_host cfg) (ac_port cfg) sent of
      SocketError m \<Rightarrow> \<lparr>sr_status = ''failed'', sr_detail = Some m\<rparr> | ClamText t \<Rightarrow> read_answer t)"
    by (simp add: scan_bytes_def scan_bytes_sync_def)
  show ?thesis
  proof (cases "ac_clamd cfg (as_calls s) (ac_host cfg) (ac_port cfg) sent")
    case (SocketError m)
    with r show ?thesis by (simp add: status_sound_def apply_scan_def is_clean_def)
  next
    case (ClamText t)
    with sent(2) have "str_contains t ''OK'' \<Longrightarrow> \<not> str_contains t ''FOUND'' \<Longrightarrow> scanned_clean cfg d"
      by (auto simp: scanned_clean_def)
    with r ClamText show ?thesis by (simp add: status_sound_def apply_scan_def is_clean_def read_answer_def)
  qed
qed

lemma scan_total: "\<exists>r s'. scan_bytes cfg d s = (Inr r, s')"
  using instream_read_back [of d] by (auto simp: scan_bytes_def scan_bytes_sync_def)

section \<open>Requests and jobs keep the store sound\<close>

text \<open>What an upload has in hand once the bytes are stored.\<close>

definition new_row_sound :: "attach_cfg \<Rightarrow> byte list \<Rightarrow> agent_attachment \<Rightarrow> attach_state \<Rightarrow> bool" where
  "new_row_sound cfg d a s \<longleftrightarrow> plain_id (at_id a) \<and>
     storage_key_of (at_user_id a) (at_id a) (at_filename a) = at_key a \<and>
     load_blob (ac_backend cfg) (at_key a) (as_blobs s) = Some d \<and>
     at_size_bytes a = int (length d) \<and> at_size_bytes a \<le> ac_max_bytes cfg \<and> at_checksum a = ac_digest cfg d \<and>
     (\<exists>a0. as_rows s = as_saved s @ [a0] \<and> at_id a0 = at_id a) \<and> at_id a \<notin> at_id ` set (as_saved s)"

lemma new_row_same: "same_store s s' \<Longrightarrow> new_row_sound cfg d a s \<Longrightarrow> new_row_sound cfg d a s'"
  unfolding same_store_def new_row_sound_def by (elim conjE) (intro conjI; simp)

definition plain_ids :: "attach_cfg \<Rightarrow> bool" where
  "plain_ids cfg \<longleftrightarrow> (\<forall>n. plain_id (fresh_id (ac_env cfg) n))"

lemma flush_adds:
  assumes "flush_attachment cfg auth f conv s = (r, s')" "plain_ids cfg" "as_rows s = as_saved s"
  shows "as_saved s' = as_saved s \<and> as_blobs s' = as_blobs s \<and>
     (case r of Inl e \<Rightarrow> True
      | Inr a \<Rightarrow> as_rows s' = as_saved s @ [a] \<and> plain_id (at_id a) \<and> at_id a \<notin> at_id ` set (as_saved s) \<and>
          at_size_bytes a = int (length (uf_data f)) \<and> at_checksum a = ac_digest cfg (uf_data f) \<and>
          at_user_id a = user_id auth \<and> at_status a = ''pending_scan'' \<and> at_scan_status a = ''pending'')"
  using assms
  by (auto simp: flush_attachment_def new_id_def now_def utc_now_def plain_ids_def Let_def split: if_splits)

lemma put_bytes_cases:
  assumes "put_bytes cfg key d s = (r, s')"
  shows "as_rows s' = as_rows s \<and> as_saved s' = as_saved s \<and>
     (case r of Inl e \<Rightarrow> as_blobs s' = as_blobs s
      | Inr b \<Rightarrow> sb_key b = key \<and> store_blob (ac_backend cfg) key d (as_blobs s) = Some (as_blobs s'))"
  using assms by (auto simp: put_bytes_def outside_call_def split: if_splits option.splits)

lemma saved_sound_put:
  assumes "saved_sound cfg s" "as_saved s' = as_saved s" "k \<notin> at_id ` set (as_saved s)" "plain_id k"
    and "store_blob (ac_backend cfg) (storage_key_of u k f) d (as_blobs s) = Some (as_blobs s')"
  shows "saved_sound cfg s'"
  unfolding saved_sound_def
proof
  fix a assume a: "a \<in> set (as_saved s')"
  with assms(1,2) have r: "row_sound cfg (as_blobs s) a" by (simp add: saved_sound_def)
  have ne: "at_id a \<noteq> k" using a assms(2,3) by auto
  from r have "blob_location (ac_backend cfg) (at_key a) \<noteq> blob_location (ac_backend cfg) (storage_key_of u k f)"
    using ne assms(4) places_differ [of "at_id a" k] unfolding row_sound_def by (metis (full_types))
  from blobs.get_put_other [OF assms(5) this] r show "row_sound cfg (as_blobs s') a"
    by (simp add: row_sound_def)
qed

lemma scan_or_defer_cases:
  assumes "scan_or_defer cfg d a s = (Inr a', s')" "new_row_sound cfg d a s"
    and "at_status a = ''pending_scan'' \<and> at_scan_status a = ''pending''"
  shows "new_row_sound cfg d a' s' \<and> status_sound cfg d a' \<and> same_store s s'"
proof -
  obtain r s1 where scan: "scan_bytes cfg d s = (Inr r, s1)" using scan_total by blast
  have same: "same_store s s1" using same_scan [of s cfg d] scan by simp
  have "new_row_sound cfg d (apply_scan r a) s"
    using assms(2) unfolding new_row_sound_def apply_scan_def by (elim conjE) (intro conjI; simp)
  with new_row_same [OF same] scan_says [OF scan] assms scan same show ?thesis
    by (auto simp: scan_or_defer_def abind_def status_sound_def new_row_sound_def same_store_def split: if_splits)
qed

lemma status_sound_touched: "status_sound cfg d (a\<lparr>at_updated_at := t\<rparr>) = status_sound cfg d a"
  by (simp add: status_sound_def)

lemma row_sound_touched: "row_sound cfg bs (a\<lparr>at_updated_at := t\<rparr>) = row_sound cfg bs a"
  by (simp add: row_sound_def status_sound_touched split: option.split)

lemma new_row_is_sound:
  "new_row_sound cfg d a s \<Longrightarrow> status_sound cfg d a \<Longrightarrow> row_sound cfg (as_blobs s) a"
  unfolding row_sound_def new_row_sound_def by (elim conjE) simp

text \<open>Both writers end by replacing their row and committing.\<close>

lemma touch_saves:
  assumes "row_sound cfg (as_blobs s) a"
    and "\<And>b. b \<in> set (as_rows s) \<Longrightarrow> at_id b \<noteq> at_id a \<Longrightarrow> row_sound cfg (as_blobs s) b"
    and "touch_and_commit cfg a s = (a', s')"
  shows "saved_sound cfg s'"
proof -
  obtain t s1 where now: "now cfg s = (t, s1)" by (cases "now cfg s")
  then have same: "as_rows s1 = as_rows s" "as_blobs s1 = as_blobs s"
    using same_now [of s cfg] by (simp_all add: same_store_def)
  have "as_saved s' = row_modify at_id (at_id a) (\<lambda>_. a\<lparr>at_updated_at := t\<rparr>) (as_rows s)" "as_blobs s' = as_blobs s"
    using assms(3) now same
    by (auto simp: touch_and_commit_def commit_attachments_def upd_attachment_def Let_def)
  with assms(1,2) show ?thesis
    by (auto simp: saved_sound_def set_row_modify row_sound_touched)
qed

lemma finish_keeps_sound:
  assumes "new_row_sound cfg d a s" "status_sound cfg d a" "saved_sound cfg s"
  shows "saved_sound cfg (snd (finish_upload cfg a s))"
proof -
  obtain a' s1 where t: "touch_and_commit cfg a s = (a', s1)" by (cases "touch_and_commit cfg a s")
  have "row_sound cfg (as_blobs s) b" if "b \<in> set (as_rows s)" "at_id b \<noteq> at_id a" for b
    using that assms(1,3) by (auto simp: new_row_sound_def saved_sound_def)
  from touch_saves [OF new_row_is_sound [OF assms(1,2)] this t] have s1: "saved_sound cfg s1" .
  have "saved_sound cfg (snd (abind (if ac_arq cfg then enqueue_attachment_scan cfg (at_id a') s1 else (Inr (), s1))
      (\<lambda>_ s. respond_with cfg a' s)))"
  proof (rule abind_sound)
    have enq: "saved_sound cfg s2"
      if "(if ac_arq cfg then enqueue_attachment_scan cfg (at_id a') s1 else (Inr (), s1)) = (r, s2)" for r s2
      using that s1 same_sound [OF same_enqueue [of s1 cfg "at_id a'"]] by (auto split: if_splits)
    show "saved_sound cfg s2"
      if "(if ac_arq cfg then enqueue_attachment_scan cfg (at_id a') s1 else (Inr (), s1)) = (Inl e, s2)" for e s2
      using that by (rule enq)
    show "saved_sound cfg (snd (respond_with cfg a' s2))"
      if "(if ac_arq cfg then enqueue_attachment_scan cfg (at_id a') s1 else (Inr (), s1)) = (Inr u, s2)" for u s2
      using enq [OF that] same_sound [OF same_respond] by simp
  qed
  with t show ?thesis by (simp add: finish_upload_def)
qed

lemma store_keeps_sound:
  assumes a: "at_user_id a = user_id auth" "plain_id (at_id a)" "at_id a \<notin> at_id ` set (as_saved s)"
      "at_size_bytes a = int (length d)" "at_size_bytes a \<le> ac_max_bytes cfg" "at_checksum a = ac_digest cfg d"
      "at_status a = ''pending_scan''" "at_scan_status a = ''pending''"
    and s: "as_rows s = as_saved s @ [a]" "saved_sound cfg s"
  shows "saved_sound cfg (snd (store_upload cfg auth d a s))"
  unfolding store_upload_def
proof (intro abind_sound)
  fix e s1 assume "put_bytes cfg (storage_key_of (user_id auth) (at_id a) (at_filename a)) d s = (Inl e, s1)"
  from put_bytes_cases [OF this] s(2) show "saved_sound cfg s1" by (simp add: saved_sound_def)
next
  fix b s1
  assume "put_bytes cfg (storage_key_of (user_id auth) (at_id a) (at_filename a)) d s = (Inr b, s1)"
  note put = put_bytes_cases [OF this, simplified]
  let ?a = "a\<lparr>at_bucket := sb_bucket b, at_key := sb_key b\<rparr>"
  have s1: "saved_sound cfg s1"
    using saved_sound_put [OF s(2) _ a(3) a(2)] put by blast
  have new: "new_row_sound cfg d ?a s1"
    using a s(1) put blobs.get_put [OF conjunct2 [OF conjunct2 [OF conjunct2 [OF put]]]]
    by (simp add: new_row_sound_def)
  show "saved_sound cfg s2" if "scan_or_defer cfg d ?a s1 = (Inl e, s2)" for e s2
    using that scan_total [of cfg d s1] by (auto simp: scan_or_defer_def abind_def split: if_splits)
  show "saved_sound cfg (snd (finish_upload cfg a' s2))" if "scan_or_defer cfg d ?a s1 = (Inr a', s2)" for a' s2
    using scan_or_defer_cases [OF that new] a(7,8) s1 same_sound [of s1 s2 cfg] finish_keeps_sound [of cfg d a' s2]
    by simp
qed

lemma upload_keeps_sound:
  assumes "plain_ids cfg" "store_sound cfg s"
  shows "store_sound cfg (snd (upload_attachment cfg auth f conv s))"
proof -
  have rows: "as_rows s = as_saved s" and sound: "saved_sound cfg s" using assms(2) by (simp_all add: store_sound_def)
  have "saved_sound cfg (snd (abind (flush_attachment cfg auth f conv s) (store_upload cfg auth (uf_data f))))"
    if "int (length (uf_data f)) \<le> ac_max_bytes cfg"
  proof (intro abind_sound)
    fix e s1 assume "flush_attachment cfg auth f conv s = (Inl e, s1)"
    from flush_adds [OF this assms(1) rows] sound show "saved_sound cfg s1" by (simp add: saved_sound_def)
  next
    fix a s1 assume "flush_attachment cfg auth f conv s = (Inr a, s1)"
    from flush_adds [OF this assms(1) rows] sound that
    show "saved_sound cfg (snd (store_upload cfg auth (uf_data f) a s1))"
      by (intro store_keeps_sound) (simp_all add: saved_sound_def)
  qed
  then show ?thesis using sound by (simp add: upload_attachment_def)
qed

lemma job_keeps_sound:
  assumes "store_sound cfg s"
  shows "store_sound cfg (snd (scan_attachment_job cfg k s))"
proof -
  have rows: "as_rows s = as_saved s" and sound: "saved_sound cfg s" using assms by (simp_all add: store_sound_def)
  show ?thesis
  proof (cases "get_attachment_row k s")
    case None
    with sound show ?thesis by (simp add: scan_attachment_job_def)
  next
    case (Some a)
    then have a: "row_sound cfg (as_blobs s) a"
      using sound rows by (auto simp: get_attachment_row_def saved_sound_def dest: row_find_SomeD)
    have "saved_sound cfg (snd (abind (get_bytes cfg (at_key a) s) (\<lambda>data s.
        abind (scan_bytes cfg data s) (\<lambda>r s. (Inr (), snd (touch_and_commit cfg (apply_scan r a) s))))))"
    proof (intro abind_sound)
      fix e s1 assume "get_bytes cfg (at_key a) s = (Inl e, s1)"
      with same_get [of s cfg "at_key a"] sound show "saved_sound cfg s1" by (simp add: same_sound)
    next
      fix d s1 e s2 assume "get_bytes cfg (at_key a) s = (Inr d, s1)" "scan_bytes cfg d s1 = (Inl e, s2)"
      with scan_total [of cfg d s1] show "saved_sound cfg s2" by simp
    next
      fix d s1 r s2 assume got: "get_bytes cfg (at_key a) s = (Inr d, s1)" and scan: "scan_bytes cfg d s1 = (Inr r, s2)"
      have same: "same_store s s2"
        using same_trans [OF same_get [of s cfg "at_key a"]] same_scan [of s1 cfg d] got scan by simp
      have "load_blob (ac_backend cfg) (at_key a) (as_blobs s) = Some d"
        using got by (simp add: get_bytes_def split: if_splits)
      with a scan_says [OF scan, of a] have "row_sound cfg (as_blobs s2) (apply_scan r a)"
        using same by (simp add: row_sound_def apply_scan_def same_store_def)
      moreover have "row_sound cfg (as_blobs s2) b" if "b \<in> set (as_rows s2)" for b
        using that sound rows same by (simp add: same_store_def saved_sound_def)
      ultimately show "saved_sound cfg (snd (Inr (), snd (touch_and_commit cfg (apply_scan r a) s2)))"
        by (simp add: touch_saves [OF _ _ surjective_pairing])
    qed
    with Some show ?thesis by (simp add: scan_attachment_job_def)
  qed
qed

lemma show_keeps_sound:
  assumes "store_sound cfg s"
  shows "store_sound cfg (snd (get_attachment cfg auth k s))"
  using assms same_sound [OF same_respond]
  by (simp add: get_attachment_def store_sound_def [of cfg s] split: option.split)

section \<open>Every history\<close>

text \<open>Uploads, reads and scan jobs in any order, with any other request to the service in between.\<close>

inductive attach_reach :: "attach_cfg \<Rightarrow> attach_state \<Rightarrow> bool" for cfg where
  reach_empty: "as_rows s = [] \<Longrightarrow> as_saved s = [] \<Longrightarrow> attach_reach cfg s"
| reach_upload: "attach_reach cfg s \<Longrightarrow> attach_reach cfg (snd (upload_attachment cfg auth f conv s))"
| reach_get: "attach_reach cfg s \<Longrightarrow> attach_reach cfg (snd (get_attachment cfg auth k s))"
| reach_job: "attach_reach cfg s \<Longrightarrow> attach_reach cfg (snd (scan_attachment_job cfg k s))"
| reach_other: "attach_reach cfg s \<Longrightarrow> attach_reach cfg (s\<lparr>as_world := w\<rparr>)"

lemma reach_sound: "attach_reach cfg s \<Longrightarrow> plain_ids cfg \<Longrightarrow> store_sound cfg s"
proof (induction rule: attach_reach.induct)
  case (reach_empty s)
  then show ?case by (simp add: store_sound_def saved_sound_def)
next
  case (reach_other s w)
  then show ?case by (simp add: store_sound_def saved_sound_def)
qed (simp_all add: upload_keeps_sound show_keeps_sound job_keeps_sound)


definition attach_demo :: attach_cfg where
  "attach_demo = \<lparr>ac_env = demo_env, ac_bucket = ''b'', ac_backend = S3BlobStorage, ac_max_bytes = 4, ac_arq = False,
     ac_clamav = True, ac_host = ''localhost'', ac_port = 3310, ac_digest = (\<lambda>d. show_nat (length d)),
     ac_put_ok = (\<lambda>_ _. True), ac_get_ok = (\<lambda>_ _. True), ac_presign = (\<lambda>_ k. Inr (''https://s3/'' @ k)),
     ac_clamd = (\<lambda>_ _ _ _. ClamText ''stream: OK''), ac_enqueue = (\<lambda>_ _. Inl (RuntimeError ''redis''))\<rparr>"

definition attach_empty :: attach_state where
  "attach_empty = \<lparr>as_world = session_on empty_db, as_rows = [], as_saved = [], as_blobs = [], as_jobs = [], as_calls = 0\<rparr>"

definition demo_file :: upload_file where
  "demo_file = \<lparr>uf_filename = Some ''../a.txt'', uf_content_type = None, uf_data = [72, 105]\<rparr>"

definition demo_uploaded :: attach_state where
  "demo_uploaded = snd (upload_attachment attach_demo demo_context demo_file None attach_empty)"

definition demo_row :: agent_attachment where
  "demo_row = \<lparr>at_id = ''0'', at_user_id = 7, at_conversation_id = None, at_message_id = None, at_filename = ''a.txt'',
     at_content_type = ''application/octet-stream'', at_size_bytes = 2, at_checksum = ''2'', at_bucket = ''b'',
     at_key = ''users/7/attachments/0/a.txt'', at_status = ''ready'', at_scan_status = ''clean'',
     at_scan_result = Some ''stream: OK'', at_created_at = 0, at_updated_at = 2\<rparr>"

lemma demo_saved: "as_saved demo_uploaded = [demo_row]"
  by code_simp


section \<open>Where the code stops short\<close>

text \<open>A queue that cannot take the scan leaves a committed attachment that no job will ever look at.\<close>

lemma lost_scan_stays_pending:
  "let (r, s) = upload_attachment (attach_demo\<lparr>ac_arq := True\<rparr>) demo_context demo_file None attach_empty in
     r = Inl (RuntimeError ''redis'') \<and> as_jobs s = [] \<and> map at_status (as_saved s) = [''pending_scan'']"
  by code_simp

text \<open>An infected file is offered for download like any other.\<close>

lemma infected_is_offered:
  "let s = snd (upload_attachment (attach_demo\<lparr>ac_clamd := \<lambda>_ _ _ _. ClamText ''stream: Eicar FOUND''\<rparr>)
        demo_context demo_file None attach_empty);
      r = fst (get_attachment attach_demo demo_context ''0'' s) in
    map_sum id ar_status r = Inr ''infected'' \<and>
    map_sum id ar_download_url r = Inr (Some ''https://s3/users/7/attachments/0/a.txt'')"
  by code_simp

text \<open>On the local disk a file named \<open>..\<close> cannot be stored: its path is a directory.\<close>

lemma parent_directory_is_refused:
  "map_sum id ar_id (fst (upload_attachment (attach_demo\<lparr>ac_backend := LocalBlobStorage\<rparr>) demo_context
     (demo_file\<lparr>uf_filename := Some ''..''\<rparr>) None attach_empty)) = Inl PyError"
  by code_simp

end
