(* ===== verification/Telemetry.thy ===== *)
theory Telemetry
  imports Redact RunEvents
begin

text \<open>
  What the service tells the outside about itself: the log processor of \<open>logging.py\<close> that takes secrets
  out of every event, the spans of \<open>observability/tracing.py\<close>, the step timer of
  \<open>observability/metrics.py\<close> and the request id of \<open>middleware/request_id.py\<close>.
\<close>

section \<open>Secrets in log events\<close>

text \<open>Literals under \<open>re.IGNORECASE\<close>, and \<open>\\s\<close> on the characters of Latin-1.\<close>

definition same_letter :: "char \<Rightarrow> char \<Rightarrow> bool" where
  "same_letter c x \<longleftrightarrow> lower_char x = lower_char c"

definition ci_lit :: "string \<Rightarrow> rx list" where "ci_lit s = map (\<lambda>c. One (same_letter c)) s"

definition re_space :: "char \<Rightarrow> bool" where "re_space c \<longleftrightarrow> is_ws c \<or> code c = 133 \<or> code c = 160"

definition token_char :: "char \<Rightarrow> bool" where
  "token_char c \<longleftrightarrow> is_digit c \<or> 65 \<le> code c \<and> code c \<le> 90 \<or> 97 \<le> code c \<and> code c \<le> 122 \<or> one_of ''._~+/=-'' c"

definition bearer_re :: rx where
  "bearer_re = Redact.seqs (ci_lit ''Bearer'' @ [Many1 re_space, Many1 token_char])"

text \<open>The alternatives of the pattern for secret keys.\<close>

definition secret_words :: "rx list" where
  "secret_words = map (\<lambda>w. Redact.seqs (ci_lit w)) [''secret'', ''token'', ''password''] @
     [Redact.seqs (ci_lit ''api'' @ [Opt (One (one_of ''_-''))] @ ci_lit ''key'')] @
     map (\<lambda>w. Redact.seqs (ci_lit w)) [''authorization'', ''cookie'']"

definition secret_key :: "string \<Rightarrow> bool" where
  "secret_key k \<longleftrightarrow> list_ex (\<lambda>r. search r k 0 \<noteq> None) secret_words"

definition redacted_mark :: string where "redacted_mark = ''<redacted>''"

definition hide_bearer :: "string \<Rightarrow> string" where
  "hide_bearer s = fst (sub_pass bearer_re ''Bearer <redacted>'' ''bearer'' s)"

fun redact_value :: "json \<Rightarrow> json" where
  "redact_value (JStr s) = JStr (hide_bearer s)"
| "redact_value (JObj d) =
     JObj (map (\<lambda>(k, v). (k, if secret_key k then JStr redacted_mark else redact_value v)) d)"
| "redact_value (JArr xs) = JArr (map redact_value xs)"
| "redact_value v = v"

definition redact_secrets :: "dict \<Rightarrow> dict" where
  "redact_secrets d = map (\<lambda>(k, v). (k, if secret_key k then JStr redacted_mark else redact_value v)) d"

section \<open>Spans\<close>

text \<open>
  A span is the no-op or one the Langfuse client has made. The log keeps what the client was told, with the
  keyword arguments of its calls; which of the calls fail is a parameter of the tracer.
\<close>

datatype span = NoOpSpan | LiveSpan nat

datatype trace_entry =
    SpanOpened nat "nat option" string dict
  | SpanEnded nat

record tracer =
  tr_configured :: bool
  tr_open_ok :: "nat \<Rightarrow> bool"
  tr_end_ok :: "nat \<Rightarrow> bool"

record 's traced =
  td_state :: 's
  td_next :: nat
  td_log :: "trace_entry list"

type_synonym ('s, 'a) body = "span \<Rightarrow> 's traced \<Rightarrow> 'a res \<times> 's traced"

text \<open>
  The common shape: the client makes the span or fails, which leaves the no-op; the body runs; the span is
  ended whether the body returns or raises, and a failing \<open>end\<close> is swallowed.
\<close>

definition open_span :: "tracer \<Rightarrow> nat option \<Rightarrow> string \<Rightarrow> dict \<Rightarrow> 's traced \<Rightarrow> span \<times> 's traced" where
  "open_span tr parent name meta s =
     (if tr_open_ok tr (td_next s)
      then (LiveSpan (td_next s), s\<lparr>td_next := Suc (td_next s), td_log := td_log s @ [SpanOpened (td_next s) parent name meta]\<rparr>)
      else (NoOpSpan, s\<lparr>td_next := Suc (td_next s)\<rparr>))"

definition end_span :: "tracer \<Rightarrow> span \<Rightarrow> 's traced \<Rightarrow> 's traced" where
  "end_span tr sp s = (case sp of
      NoOpSpan \<Rightarrow> s
    | LiveSpan n \<Rightarrow> if tr_end_ok tr n then s\<lparr>td_log := td_log s @ [SpanEnded n]\<rparr> else s)"

definition in_span :: "tracer \<Rightarrow> nat option \<Rightarrow> string \<Rightarrow> dict \<Rightarrow> ('s, 'a) body \<Rightarrow> 's traced \<Rightarrow> 'a res \<times> 's traced" where
  "in_span tr parent name meta body s =
     (case open_span tr parent name meta s of (sp, s1) \<Rightarrow>
      case body sp s1 of (r, s2) \<Rightarrow> (r, end_span tr sp s2))"

definition text_member :: "string \<Rightarrow> string option \<Rightarrow> dict" where
  "text_member k x = (case x of None \<Rightarrow> [] | Some t \<Rightarrow> [(k, JStr t)])"

definition text_or_null :: "string option \<Rightarrow> json" where
  "text_or_null x = (case x of None \<Rightarrow> JNull | Some t \<Rightarrow> JStr t)"

definition workflow_session_span ::
    "tracer \<Rightarrow> string \<Rightarrow> string option \<Rightarrow> string option \<Rightarrow> string option \<Rightarrow> string option \<Rightarrow> ('s, 'a) body \<Rightarrow> 's traced \<Rightarrow> 'a res \<times> 's traced" where
  "workflow_session_span tr run_id conversation_id user_id contract_id contract_version body s =
     (if \<not> tr_configured tr then body NoOpSpan s
      else in_span tr None ''agent.workflow_session''
        [(''user_id'', text_or_null user_id), (''session_id'', text_or_null conversation_id),
         (''metadata'', JObj ([(''run_id'', JStr run_id)] @ text_member ''conversation_id'' conversation_id @
            text_member ''contract_id'' contract_id @ text_member ''contract_version'' contract_version))] body s)"

text \<open>
  A child span: without a parent, or under the no-op, nothing is recorded (the no-op hands out
  itself as its children).
\<close>

definition child_span :: "tracer \<Rightarrow> span option \<Rightarrow> string \<Rightarrow> dict \<Rightarrow> ('s, 'a) body \<Rightarrow> 's traced \<Rightarrow> 'a res \<times> 's traced" where
  "child_span tr parent name meta body s = (case parent of
      None \<Rightarrow> body NoOpSpan s
    | Some NoOpSpan \<Rightarrow> body NoOpSpan s
    | Some (LiveSpan n) \<Rightarrow> in_span tr (Some n) name [(''metadata'', JObj meta)] body s)"

definition workflow_step_span ::
    "tracer \<Rightarrow> span option \<Rightarrow> string \<Rightarrow> string option \<Rightarrow> string option \<Rightarrow> dict \<Rightarrow> ('s, 'a) body \<Rightarrow> 's traced \<Rightarrow> 'a res \<times> 's traced" where
  "workflow_step_span tr parent step_id contract_id contract_version meta =
     child_span tr parent ''agent.workflow_step''
       (d_update ([(''step_id'', JStr step_id)] @ text_member ''contract_id'' contract_id @
          text_member ''contract_version'' contract_version) meta)"

definition suggestion_fanout_span ::
    "tracer \<Rightarrow> span option \<Rightarrow> string \<Rightarrow> int option \<Rightarrow> ('s, 'a) body \<Rightarrow> 's traced \<Rightarrow> 'a res \<times> 's traced" where
  "suggestion_fanout_span tr parent step_id field_count =
     child_span tr parent ''agent.suggestion_fanout''
       ([(''step_id'', JStr step_id)] @ (case field_count of None \<Rightarrow> [] | Some n \<Rightarrow> [(''field_count'', JInt n)]))"

definition tool_span ::
    "tracer \<Rightarrow> span option \<Rightarrow> string \<Rightarrow> string option \<Rightarrow> string option \<Rightarrow> dict option \<Rightarrow> ('s, 'a) body \<Rightarrow> 's traced \<Rightarrow> 'a res \<times> 's traced" where
  "tool_span tr parent tool_name step_id field_id input_summary =
     child_span tr parent ''agent.tool''
       ([(''tool_name'', JStr tool_name)] @ text_member ''step_id'' step_id @ text_member ''field_id'' field_id @
        (case input_summary of None \<Rightarrow> [] | Some d \<Rightarrow> [(''input'', JObj d)]))"

text \<open>\<open>ModelRunner.run\<close> opens the root span around the whole run; the contract is named for pricing requests.\<close>

definition traced_run ::
    "tracer \<Rightarrow> string \<Rightarrow> string \<Rightarrow> int \<Rightarrow> string option \<Rightarrow> ('s, 'a) body \<Rightarrow> 's traced \<Rightarrow> 'a res \<times> 's traced" where
  "traced_run tr run_id conversation_id user kind =
     workflow_session_span tr run_id (Some conversation_id) (Some (show_int user))
       (if kind = Some ''create_pricing_request'' then Some ''create_pricing_request'' else None) None"

section \<open>Step timer\<close>

record step_timer =
  sm_step_id :: string
  sm_started_at :: int
  sm_outcome :: string
  sm_recorded :: bool

definition new_timer :: "env \<Rightarrow> string \<Rightarrow> world \<Rightarrow> step_timer \<times> world" where
  "new_timer e step_id w = (let (t, w) = utc_now e w in
     (\<lparr>sm_step_id = step_id, sm_started_at = t, sm_outcome = ''abandoned'', sm_recorded = False\<rparr>, w))"

definition set_outcome :: "string \<Rightarrow> step_timer \<Rightarrow> step_timer" where
  "set_outcome x tm = tm\<lparr>sm_outcome := x\<rparr>"

definition record_timer :: "env \<Rightarrow> step_timer \<Rightarrow> world \<Rightarrow> step_timer \<times> world" where
  "record_timer e tm w =
     (if sm_recorded tm then (tm, w)
      else let (t, w) = utc_now e w in
        (tm\<lparr>sm_recorded := True\<rparr>,
         observe_workflow_step_duration (sm_step_id tm) (sm_outcome tm) (max 0 (t - sm_started_at tm)) w))"

section \<open>Request ids\<close>

definition request_id_of :: "(string \<times> string) list \<Rightarrow> string \<Rightarrow> string" where
  "request_id_of headers generated = (case map_of headers ''x-request-id'' of
      None \<Rightarrow> generated | Some v \<Rightarrow> if v = [] then generated else v)"

definition request_id_dispatch ::
    "(string \<times> string) list \<Rightarrow> string \<Rightarrow> (string \<Rightarrow> (string \<times> string) list res) \<Rightarrow> (string \<times> string) list res" where
  "request_id_dispatch headers generated call_next =
     (let rid = request_id_of headers generated in
      ebind (call_next rid) (\<lambda>response. Inr (AList.update ''x-request-id'' rid response)))"

end
