(* ===== verification/TelemetryLaws.thy ===== *)
theory TelemetryLaws
  imports Telemetry
begin

text \<open>
  Laws of the telemetry: a processed log event holds no secret and is not changed by a second pass, spans do
  not change what the traced code computes and are closed in the reverse order of their opening, a timer
  records once.
\<close>

section \<open>Bearer tokens\<close>

text \<open>Where a token starts: the word, white space, and the first character of the token itself.\<close>

definition starts_token :: "string \<Rightarrow> bool" where
  "starts_token v \<longleftrightarrow> takeWhile re_space v \<noteq> [] \<and>
     (case dropWhile re_space v of [] \<Rightarrow> False | c # r \<Rightarrow> token_char c)"

text \<open>A literal under \<open>re.IGNORECASE\<close> at the start of a text.\<close>

fun begins :: "string \<Rightarrow> string \<Rightarrow> bool" where
  "begins [] u = True"
| "begins (p # ps) [] = False"
| "begins (p # ps) (c # u) = (same_letter p c \<and> begins ps u)"

definition bearer_at :: "string \<Rightarrow> bool" where
  "bearer_at u \<longleftrightarrow> begins ''Bearer'' u \<and> starts_token (drop 6 u)"

lemma space_or_token: "re_space c \<Longrightarrow> \<not> token_char c"
  by (auto simp: re_space_def token_char_def is_ws_def is_digit_def one_of_def)

lemma runs_from_Nil: "runs_from p s i = [] \<longleftrightarrow> \<not> (i < length s \<and> p (s ! i))"
proof (cases "i < length s")
  case True
  then have "drop i s = s ! i # drop (Suc i) s" by (simp add: Cons_nth_drop_Suc)
  then show ?thesis using True by (simp add: runs_from_def)
qed (simp add: runs_from_def)

lemma set_runs_from: "x \<in> set (runs_from p s i) \<longleftrightarrow> i < x \<and> x \<le> i + length (takeWhile p (drop i s))"
  by (auto simp: runs_from_def)

lemma token_ends: "ends (Seq (Many1 re_space) (Many1 token_char)) s i \<noteq> [] \<longleftrightarrow> starts_token (drop i s)"
proof -
  let ?n = "length (takeWhile re_space (drop i s))"
  have "ends (Seq (Many1 re_space) (Many1 token_char)) s i \<noteq> [] \<longleftrightarrow>
      (\<exists>x. i < x \<and> x \<le> i + ?n \<and> x < length s \<and> token_char (s ! x))"
  proof -
    have "ends (Seq (Many1 re_space) (Many1 token_char)) s i \<noteq> [] \<longleftrightarrow>
        (\<exists>x \<in> set (runs_from re_space s i). runs_from token_char s x \<noteq> [])" by simp
    then show ?thesis by (simp only: Bex_def set_runs_from runs_from_Nil not_not conj_assoc)
  qed
  also have "\<dots> \<longleftrightarrow> ?n \<noteq> 0 \<and> i + ?n < length s \<and> token_char (s ! (i + ?n))"
  proof
    assume "\<exists>x. i < x \<and> x \<le> i + ?n \<and> x < length s \<and> token_char (s ! x)"
    then obtain x where x: "i < x" "x \<le> i + ?n" "x < length s" "token_char (s ! x)" by blast
    have "x = i + ?n"
    proof (rule ccontr)
      assume "x \<noteq> i + ?n"
      then have lt: "x - i < ?n" using x by simp
      then have "takeWhile re_space (drop i s) ! (x - i) = s ! x"
        using x by (simp add: takeWhile_nth)
      with nth_mem [OF lt] have "re_space (s ! x)" by (metis set_takeWhileD)
      with x(4) space_or_token show False by blast
    qed
    with x show "?n \<noteq> 0 \<and> i + ?n < length s \<and> token_char (s ! (i + ?n))" by simp
  next
    assume "?n \<noteq> 0 \<and> i + ?n < length s \<and> token_char (s ! (i + ?n))"
    then show "\<exists>x. i < x \<and> x \<le> i + ?n \<and> x < length s \<and> token_char (s ! x)"
      by (intro exI [of _ "i + ?n"]) simp
  qed
  also have "\<dots> \<longleftrightarrow> starts_token (drop i s)"
  proof -
    have d: "dropWhile re_space (drop i s) = drop (i + ?n) s"
      by (simp add: dropWhile_eq_drop add.commute)
    show ?thesis
    proof (cases "i + ?n < length s")
      case True
      then have "drop (i + ?n) s = s ! (i + ?n) # drop (Suc (i + ?n)) s" by (simp add: Cons_nth_drop_Suc)
      with True show ?thesis by (simp add: starts_token_def d)
    qed (simp add: starts_token_def d)
  qed
  finally show ?thesis .
qed

lemma literal_ends:
  "rest \<noteq> [] \<Longrightarrow> ends (Redact.seqs (ci_lit w @ rest)) s i \<noteq> [] \<longleftrightarrow>
     begins w (drop i s) \<and> ends (Redact.seqs rest) s (i + length w) \<noteq> []"
proof (induction w arbitrary: i)
  case (Cons c w)
  have "Redact.seqs (ci_lit (c # w) @ rest) = Seq (One (same_letter c)) (Redact.seqs (ci_lit w @ rest))"
    using Cons.prems by (cases "ci_lit w @ rest") (simp_all add: ci_lit_def)
  then have "ends (Redact.seqs (ci_lit (c # w) @ rest)) s i \<noteq> [] \<longleftrightarrow>
      i < length s \<and> same_letter c (s ! i) \<and> ends (Redact.seqs (ci_lit w @ rest)) s (i + 1) \<noteq> []"
    by simp
  also have "\<dots> \<longleftrightarrow> begins (c # w) (drop i s) \<and> ends (Redact.seqs rest) s (i + length (c # w)) \<noteq> []"
  proof (cases "i < length s")
    case True
    then have "drop i s = s ! i # drop (i + 1) s" by (simp add: Cons_nth_drop_Suc)
    with True Cons.IH [OF Cons.prems, of "i + 1"] show ?thesis by simp
  qed simp
  finally show ?case .
qed (simp add: ci_lit_def)

lemma bearer_match: "ends bearer_re s j \<noteq> [] \<longleftrightarrow> bearer_at (drop j s)"
proof -
  have "Redact.seqs [Many1 re_space, Many1 token_char] = Seq (Many1 re_space) (Many1 token_char)" by simp
  moreover have "length ''Bearer'' = 6" by simp
  ultimately show ?thesis
    using literal_ends [of "[Many1 re_space, Many1 token_char]" "''Bearer''" s j] token_ends [of s "j + 6"]
    by (simp only: bearer_re_def bearer_at_def drop_drop add.commute not_Cons_self2 list.distinct not_False_eq_True simp_thms)
qed

lemma bearer_consumes: "consumes bearer_re"
  by code_simp

text \<open>Letters are token characters, so the word can neither end white space nor be cut by it.\<close>

definition letter :: "char \<Rightarrow> bool" where
  "letter p \<longleftrightarrow> 97 \<le> code (lower_char p) \<and> code (lower_char p) \<le> 122"

lemma same_letter_token: "same_letter p x \<Longrightarrow> letter p \<Longrightarrow> token_char x"
  by (auto simp: same_letter_def lower_char_def letter_def token_char_def split: if_splits)

lemma begins_tokens:
  "begins w x \<Longrightarrow> list_all letter w \<Longrightarrow> \<exists>x1 x2. x = x1 @ x2 \<and> length x1 = length w \<and> list_all token_char x1"
proof (induction w x rule: begins.induct)
  case (3 p ps c u)
  then obtain x1 x2 where "u = x1 @ x2" "length x1 = length ps" "list_all token_char x1" by auto
  moreover have "token_char c" using "3.prems" by (auto intro: same_letter_token)
  ultimately have "c # u = (c # x1) @ x2 \<and> length (c # x1) = length (p # ps) \<and> list_all token_char (c # x1)" by simp
  then show ?case by blast
qed simp_all

lemma begins_append: "length w \<le> length p \<Longrightarrow> begins w (p @ x) = begins w p"
  by (induction w p rule: begins.induct) simp_all

lemma starts_token_same:
  assumes "token_char c" "token_char c'" "starts_token (q @ c # r)"
  shows "starts_token (q @ c' # r')"
proof (cases "list_all re_space q")
  case True
  have "\<not> re_space c" "\<not> re_space c'" using assms(1,2) space_or_token by blast+
  moreover from this have "q \<noteq> []" using assms(3) by (auto simp: starts_token_def)
  ultimately show ?thesis using True assms(2)
    by (simp add: starts_token_def list_all_iff takeWhile_append dropWhile_append)
next
  case False
  then obtain q1 z q2 where q: "q = q1 @ z # q2" "list_all re_space q1" "\<not> re_space z"
    using split_list_first_prop [of q "\<lambda>z. \<not> re_space z"] by (auto simp: list_all_iff)
  with assms(3) show ?thesis
    by (auto simp: starts_token_def list_all_iff takeWhile_append dropWhile_append)
qed

lemma starts_token_space: "starts_token v \<Longrightarrow> v \<noteq> [] \<and> re_space (hd v)"
  by (cases v) (auto simp: starts_token_def split: if_splits)

lemma bearer_before_word:
  assumes "begins ''Bearer'' x" "begins ''Bearer'' y" "p \<noteq> []" "bearer_at (p @ x)"
  shows "bearer_at (p @ y)"
proof -
  have l: "list_all letter ''Bearer''" by code_simp
  obtain x1 x2 where x: "x = x1 @ x2" "length x1 = 6" "list_all token_char x1" using begins_tokens [OF assms(1) l] by auto
  obtain y1 y2 where y: "y = y1 @ y2" "length y1 = 6" "list_all token_char y1" using begins_tokens [OF assms(2) l] by auto
  have t: "starts_token (drop 6 (p @ x))" using assms(4) by (simp add: bearer_at_def)
  have long: "6 \<le> length p"
  proof (rule ccontr)
    assume "\<not> 6 \<le> length p"
    then have n: "6 - length p < length x1" "drop 6 (p @ x) = drop (6 - length p) x1 @ x2"
      using assms(3) x(1,2) by auto
    then have "hd (drop 6 (p @ x)) = x1 ! (6 - length p)" by (simp add: hd_append hd_drop_conv_nth)
    then have "token_char (hd (drop 6 (p @ x)))" using n(1) x(3) by (simp add: list_all_length)
    with starts_token_space [OF t] space_or_token show False by blast
  qed
  obtain c r c' r' where c: "x = c # r" "y = c' # r'" "token_char c" "token_char c'"
    using x y by (cases x1; cases y1) auto
  have "starts_token (drop 6 p @ c # r)" using t long c(1) by simp
  from starts_token_same [OF c(3,4) this] long have "starts_token (drop 6 (p @ y))" by (simp add: c(2))
  with assms(4) long show ?thesis by (simp add: bearer_at_def begins_append)
qed

section \<open>Processed texts\<close>

definition no_bearer :: "string \<Rightarrow> bool" where
  "no_bearer s \<longleftrightarrow> (\<forall>u. suffix u s \<longrightarrow> \<not> bearer_at u)"

lemma no_bearer_search: "no_bearer s \<longleftrightarrow> search bearer_re s 0 = None"
proof -
  have "search bearer_re s 0 = None \<longleftrightarrow> (\<forall>j < Suc (length s). \<not> bearer_at (drop j s))"
  proof -
    have "search bearer_re s 0 = None \<longleftrightarrow> filter (\<lambda>j. ends bearer_re s j \<noteq> []) [0 ..< Suc (length s)] = []"
      by (simp add: search_def split: list.split)
    then show ?thesis by (auto simp: filter_empty_conv bearer_match simp del: upt_Suc)
  qed
  also have "\<dots> \<longleftrightarrow> no_bearer s"
  proof
    assume a: "\<forall>j < Suc (length s). \<not> bearer_at (drop j s)"
    show "no_bearer s"
      unfolding no_bearer_def
    proof (intro allI impI)
      fix u assume "suffix u s"
      then obtain p where "s = p @ u" by (auto simp: suffix_def)
      with a [rule_format, of "length p"] show "\<not> bearer_at u" by simp
    qed
  next
    assume "no_bearer s"
    then show "\<forall>j < Suc (length s). \<not> bearer_at (drop j s)" by (simp add: no_bearer_def suffix_drop)
  qed
  finally show ?thesis by simp
qed

lemma suffix_split: "suffix u (p @ x) \<Longrightarrow> suffix u x \<or> (\<exists>q. q \<noteq> [] \<and> suffix q p \<and> u = q @ x)"
  by (auto simp: suffix_append)

lemma suffix_head: "suffix q (a # as) \<Longrightarrow> q \<noteq> [] \<Longrightarrow> q = a # as \<or> hd q \<in> set as"
  by (simp add: suffix_Cons) (metis hd_in_set set_mono_suffix subsetD)

text \<open>What the replacement text contributes to the suffixes of a result.\<close>

lemma mark_holds_no_bearer:
  assumes "no_bearer rest"
  shows "no_bearer (''Bearer <redacted>'' @ rest)"
  unfolding no_bearer_def
proof (intro allI impI)
  fix u assume "suffix u (''Bearer <redacted>'' @ rest)"
  from suffix_split [OF this] consider "suffix u rest"
    | q where "q \<noteq> []" "suffix q ''Bearer <redacted>''" "u = q @ rest" by blast
  then show "\<not> bearer_at u"
  proof cases
    case 1
    with assms show ?thesis by (simp add: no_bearer_def)
  next
    case 2
    show ?thesis
    proof (cases "q = ''Bearer <redacted>''")
      case True
      with 2(3) show ?thesis
        by (simp add: bearer_at_def starts_token_def re_space_def token_char_def is_ws_def is_digit_def one_of_def)
    next
      case False
      have "list_all (\<lambda>c. \<not> same_letter (CHR ''B'') c) ''earer <redacted>''" by code_simp
      moreover have "hd q \<in> set ''earer <redacted>''" using suffix_head [OF 2(2,1)] False by blast
      ultimately have "\<not> same_letter (CHR ''B'') (hd q)" by (simp only: list_all_iff) blast
      with 2(1,3) show ?thesis by (cases q) (simp_all add: bearer_at_def)
    qed
  qed
qed

lemma bearer_begins: "bearer_at u \<Longrightarrow> begins ''Bearer'' u"
  by (simp add: bearer_at_def)

lemma first_match:
  assumes "search a s i = Some (j, e)" "i \<le> k" "k < j"
  shows "ends a s k = []"
proof (rule ccontr)
  assume k: "ends a s k \<noteq> []"
  let ?ms = "filter (\<lambda>j. ends a s j \<noteq> []) [i ..< Suc (length s)]"
  obtain js where f: "?ms = j # js"
    using assms(1) by (auto simp: search_def split: list.splits simp del: upt_Suc)
  have "j \<le> length s" using search_range [OF assms(1)] by simp
  with k assms(2,3) have "k \<in> set ?ms" by simp
  moreover have "sorted ?ms" by (simp add: sorted_wrt_filter del: upt_Suc)
  ultimately show False using assms(3) unfolding f by auto
qed

lemma sub_leaves_no_bearer:
  assumes "sub_from bearer_re ''Bearer <redacted>'' kind s i = (out, rs)" "i \<le> length s"
  shows "no_bearer out"
  using assms
proof (induction "Suc (length s) - i" arbitrary: i out rs rule: less_induct)
  case less
  show ?case
  proof (cases "search bearer_re s i")
    case None
    then have "filter (\<lambda>j. ends bearer_re s j \<noteq> []) [i ..< Suc (length s)] = []"
      by (simp add: search_def del: upt_Suc split: list.splits)
    then have "\<not> bearer_at (drop j s)" if "i \<le> j" "j \<le> length s" for j
      using that by (auto simp: filter_empty_conv bearer_match simp del: upt_Suc)
    then have "no_bearer (drop i s)"
      using less.prems(2) by (auto simp: no_bearer_search search_def bearer_match filter_empty_conv simp del: upt_Suc)
    with None less.prems show ?thesis by (simp add: sub_from.simps [of bearer_re _ _ s i])
  next
    case (Some je)
    then obtain j e where je: "search bearer_re s i = Some (j, e)" by (cases je) simp
    note adv = search_advances [OF je bearer_consumes]
    obtain rest rs' where r: "sub_from bearer_re ''Bearer <redacted>'' kind s e = (rest, rs')" by fastforce
    have out: "out = take (j - i) (drop i s) @ ''Bearer <redacted>'' @ rest"
      using less.prems(1) adv by (simp add: sub_from.simps [of bearer_re _ _ s i] je r)
    have "Suc (length s) - e < Suc (length s) - i" using adv by linarith
    with less.hyps [OF _ r] adv have "no_bearer rest" by blast
    then have mark: "no_bearer (''Bearer <redacted>'' @ rest)" by (rule mark_holds_no_bearer)
    show ?thesis
      unfolding no_bearer_def
    proof (intro allI impI)
      fix u assume "suffix u out"
      then consider "suffix u (''Bearer <redacted>'' @ rest)"
        | q where "q \<noteq> []" "suffix q (take (j - i) (drop i s))" "u = q @ ''Bearer <redacted>'' @ rest"
        using suffix_split [of u "take (j - i) (drop i s)"] out by blast
      then show "\<not> bearer_at u"
      proof cases
        case 1
        with mark show ?thesis by (simp add: no_bearer_def)
      next
        case 2
        then obtain p where p: "take (j - i) (drop i s) = p @ q" by (auto simp: suffix_def)
        have len: "length p + length q = j - i" using arg_cong [OF p, of length] adv by (simp add: min_def split: if_splits)
        have "drop (i + length p) s = q @ drop j s"
        proof -
          have "drop i s = take (j - i) (drop i s) @ drop (j - i) (drop i s)" by (simp only: append_take_drop_id)
          then have "drop i s = p @ q @ drop j s" using p adv by simp
          then have "drop (length p) (drop i s) = q @ drop j s" by simp
          then show ?thesis by (simp add: add.commute)
        qed
        moreover have "ends bearer_re s (i + length p) = []"
          using first_match [OF je, of "i + length p"] len 2(1) adv by (cases q) auto
        ultimately have no: "\<not> bearer_at (q @ drop j s)" by (metis bearer_match)
        have "begins ''Bearer'' (drop j s)"
          using search_range [OF je] bearer_match bearer_begins by blast
        then show ?thesis
          using no bearer_before_word [of "''Bearer <redacted>'' @ rest" "drop j s" q] 2(1,3)
          by (auto simp: same_letter_def)
      qed
    qed
  qed
qed

section \<open>Processed events\<close>

text \<open>No text holds a bearer token, and under a key that names a secret stands the mark.\<close>

fun log_clean :: "json \<Rightarrow> bool" where
  "log_clean (JStr s) = (search bearer_re s 0 = None)"
| "log_clean (JObj d) = list_all (\<lambda>(k, v). if secret_key k then v = JStr redacted_mark else log_clean v) d"
| "log_clean (JArr xs) = list_all log_clean xs"
| "log_clean v = True"

lemma hide_bearer_clean: "search bearer_re (hide_bearer s) 0 = None"
proof -
  obtain out rs where o: "sub_from bearer_re ''Bearer <redacted>'' ''bearer'' s 0 = (out, rs)" by fastforce
  from sub_leaves_no_bearer [OF this] show ?thesis
    by (simp add: hide_bearer_def sub_pass_def o no_bearer_search)
qed

lemma hide_bearer_id: "search bearer_re s 0 = None \<Longrightarrow> hide_bearer s = s"
  by (simp add: hide_bearer_def sub_pass_def sub_from.simps [of bearer_re _ _ s 0])

lemma redact_value_clean: "log_clean (redact_value v)"
  by (induction v rule: redact_value.induct) (auto simp: list_all_iff hide_bearer_clean)

lemma redact_value_id: "log_clean v \<Longrightarrow> redact_value v = v"
proof (induction v rule: redact_value.induct)
  case (2 d)
  have "(case kv of (k, v) \<Rightarrow> (k, if secret_key k then JStr redacted_mark else redact_value v)) = kv"
    if "kv \<in> set d" for kv
  proof -
    obtain k v where kv: "kv = (k, v)" by (cases kv)
    have "if secret_key k then v = JStr redacted_mark else log_clean v"
      using "2.prems" that by (auto simp: kv list_all_iff)
    with "2.IH" [OF that kv [symmetric]] show ?thesis by (auto simp: kv split: if_splits)
  qed
  then show ?case by (simp add: map_idI)
next
  case (3 xs)
  then show ?case by (simp add: list_all_iff map_idI)
qed (simp_all add: hide_bearer_id)

lemma redact_secrets_value: "JObj (redact_secrets d) = redact_value (JObj d)"
  by (simp add: redact_secrets_def)


text \<open>A log event with a token in a text and one under a key.\<close>

definition demo_event :: dict where
  "demo_event = [(''event'', JStr ''sent Bearer ab.c to''), (''API_Key'', JStr ''k''), (''n'', JInt 3)]"


text \<open>A token whose own text is the word is taken for the token: what follows it stays.\<close>

lemma doubled_bearer_leaks: "hide_bearer ''Bearer Bearer abc'' = ''Bearer <redacted> abc''"
  by code_simp

section \<open>Spans\<close>

text \<open>
  A body that does its work without looking at the span it is given: it is the same function of the state
  under every tracer.
\<close>

definition computes :: "('s, 'a) body \<Rightarrow> ('s \<Rightarrow> 'a res \<times> 's) \<Rightarrow> bool" where
  "computes b f \<longleftrightarrow> (\<forall>sp s. fst (b sp s) = fst (f (td_state s)) \<and> td_state (snd (b sp s)) = snd (f (td_state s)))"

lemma in_span_computes:
  fixes b :: "('s, 'a) body"
  assumes "computes b f"
  shows "computes (\<lambda>_. in_span tr p name meta b) f"
  unfolding computes_def
proof (intro allI)
  fix sp :: span and s :: "'s traced"
  have st: "td_state (snd (open_span tr p name meta s)) = td_state s"
    by (simp add: open_span_def)
  have en: "td_state (end_span tr x y) = td_state y" for x and y :: "'s traced"
    by (simp add: end_span_def split: span.split)
  show "fst (in_span tr p name meta b s) = fst (f (td_state s)) \<and>
      td_state (snd (in_span tr p name meta b s)) = snd (f (td_state s))"
    using assms by (simp add: in_span_def computes_def split_def st en)
qed

lemma child_span_computes:
  fixes b :: "('s, 'a) body"
  assumes "computes b f"
  shows "computes (\<lambda>sp. child_span tr (q sp) name meta b) f"
  unfolding computes_def
proof (intro allI)
  fix sp :: span and s :: "'s traced"
  have "\<forall>n m. fst (in_span tr (Some n) name m b s) = fst (f (td_state s)) \<and>
      td_state (snd (in_span tr (Some n) name m b s)) = snd (f (td_state s))"
    using in_span_computes [OF assms, of tr] by (simp add: computes_def)
  moreover have "\<forall>x. fst (b x s) = fst (f (td_state s)) \<and> td_state (snd (b x s)) = snd (f (td_state s))"
    using assms by (simp add: computes_def)
  ultimately show "fst (child_span tr (q sp) name meta b s) = fst (f (td_state s)) \<and>
      td_state (snd (child_span tr (q sp) name meta b s)) = snd (f (td_state s))"
    by (simp add: child_span_def split: option.split span.split)
qed

text \<open>Tracing is transparent: the root span around a run and the spans inside it change nothing.\<close>

lemma tracing_is_transparent:
  assumes "computes b f"
  shows "computes (\<lambda>_. traced_run tr run_id conv user kind b) f"
    and "computes (\<lambda>sp. workflow_step_span tr (q sp) step_id cid cv meta b) f"
    and "computes (\<lambda>sp. suggestion_fanout_span tr (q sp) step_id n b) f"
    and "computes (\<lambda>sp. tool_span tr (q sp) tool_name sid fid inp b) f"
proof -
  show "computes (\<lambda>_. traced_run tr run_id conv user kind b) f"
    using assms in_span_computes [OF assms, of tr None]
    by (simp add: computes_def traced_run_def workflow_session_span_def)
qed (simp_all add: workflow_step_span_def suggestion_fanout_span_def tool_span_def child_span_computes [OF assms])

text \<open>The log of the client is a bracket structure as long as it can end its spans.\<close>

inductive bracketed :: "trace_entry list \<Rightarrow> bool" where
  bracketed_none: "bracketed []"
| bracketed_join: "bracketed u \<Longrightarrow> bracketed v \<Longrightarrow> bracketed (u @ v)"
| bracketed_span: "bracketed u \<Longrightarrow> bracketed (SpanOpened n p name meta # u @ [SpanEnded n])"

definition logs_brackets :: "('s, 'a) body \<Rightarrow> bool" where
  "logs_brackets b \<longleftrightarrow> (\<forall>sp s. \<exists>u. bracketed u \<and> td_log (snd (b sp s)) = td_log s @ u)"

lemma in_span_brackets:
  fixes b :: "('s, 'a) body"
  assumes "logs_brackets b" "\<And>n. tr_end_ok tr n"
  shows "logs_brackets (\<lambda>_. in_span tr p name meta b)"
  unfolding logs_brackets_def
proof (intro allI)
  fix sp :: span and s :: "'s traced"
  obtain sp1 s1 where o: "open_span tr p name meta s = (sp1, s1)" by fastforce
  obtain r s2 where b: "b sp1 s1 = (r, s2)" by fastforce
  obtain u where u: "bracketed u" "td_log s2 = td_log s1 @ u"
    using assms(1) b by (metis logs_brackets_def snd_conv)
  show "\<exists>u. bracketed u \<and> td_log (snd (in_span tr p name meta b s)) = td_log s @ u"
  proof (cases "tr_open_ok tr (td_next s)")
    case True
    with o have s1: "sp1 = LiveSpan (td_next s)" "td_log s1 = td_log s @ [SpanOpened (td_next s) p name meta]"
      by (auto simp: open_span_def)
    have "td_log (snd (in_span tr p name meta b s)) =
        td_log s @ SpanOpened (td_next s) p name meta # u @ [SpanEnded (td_next s)]"
      using assms(2) u(2) s1 b [unfolded s1(1)] by (simp add: in_span_def o end_span_def)
    with bracketed_span [OF u(1)] show ?thesis by blast
  next
    case False
    with o have s1: "sp1 = NoOpSpan" "td_log s1 = td_log s" by (auto simp: open_span_def)
    then show ?thesis using u b [unfolded s1(1)] by (simp add: in_span_def o end_span_def)
  qed
qed

lemma child_span_brackets:
  assumes "logs_brackets b" "\<And>n. tr_end_ok tr n"
  shows "logs_brackets (\<lambda>sp. child_span tr (q sp) name meta b)"
  using assms(1) in_span_brackets [OF assms]
  by (simp add: logs_brackets_def child_span_def split: option.split span.split)

section \<open>Timer and request id\<close>

text \<open>A timer leaves one sample, however often it is asked; an exception leaves \<open>abandoned\<close>.\<close>

lemma timer_records_once:
  "record_timer e tm w = (tm', w') \<Longrightarrow> record_timer e tm' w' = (tm', w') \<and>
     (\<not> sm_recorded tm \<longrightarrow> (\<exists>d \<ge> 0. metrics w' = metrics w @
        [StepDuration (sm_step_id tm) (if sm_outcome tm \<in> set valid_step_outcomes then sm_outcome tm else ''abandoned'') d]))"
  by (auto simp: record_timer_def utc_now_def Let_def observe_workflow_step_duration_def record_metric_def split: if_splits)

lemma request_id_kept:
  "request_id_dispatch headers g call_next = Inr response \<Longrightarrow>
     map_of response ''x-request-id'' = Some (request_id_of headers g)"
  by (auto simp: request_id_dispatch_def Let_def ebind_Inr_conv update_conv)

end
