(* ===== verification/Shell.thy ===== *)
theory Shell
  imports Tools
begin

text \<open>
  The shell around the components: the derived settings of \<open>settings.py\<close>, the error envelope of \<open>main.py\<close>,
  the health report of \<open>api/v1/health.py\<close>, tool discovery of \<open>api/v1/tools.py\<close> and voice transcription of
  \<open>api/v1/voice.py\<close>. The probes, the transcription service and pydantic's JSON schemas are parameters.
\<close>

section \<open>Settings\<close>

definition rstrip_char :: "char \<Rightarrow> string \<Rightarrow> string" where
  "rstrip_char c s = rev (dropWhile (\<lambda>x. x = c) (rev s))"

definition normalize_api_prefix :: "string \<Rightarrow> string" where
  "normalize_api_prefix v = (let v = (if starts_with v ''/'' then v else ''/'' @ v) in rstrip_char (CHR ''/'') v)"

definition parse_cors_origins :: "string \<Rightarrow> string list" where
  "parse_cors_origins v = filter (\<lambda>o1. o1 \<noteq> []) (map str_strip (split_char (CHR '','') v))"

record provider_keys =
  ps_gemini_api_key :: "string option"
  ps_gemini_aistudio_api_key :: "string option"
  ps_gemini_vertex_project :: "string option"
  ps_anthropic_api_key :: "string option"
  ps_langfuse_public_key :: "string option"
  ps_langfuse_secret_key :: "string option"

text \<open>Python's truth and \<open>or\<close> on an optional text.\<close>

definition is_set :: "string option \<Rightarrow> bool" where
  "is_set x \<longleftrightarrow> (case x of None \<Rightarrow> False | Some t \<Rightarrow> t \<noteq> [])"

definition first_set :: "string option \<Rightarrow> string option \<Rightarrow> string option" where
  "first_set x y = (if is_set x then x else y)"

definition gemini_developer_api_key :: "provider_keys \<Rightarrow> string option" where
  "gemini_developer_api_key p = first_set (ps_gemini_api_key p) (ps_gemini_aistudio_api_key p)"

definition provider_configured :: "provider_keys \<Rightarrow> bool" where
  "provider_configured p \<longleftrightarrow>
     is_set (first_set (first_set (gemini_developer_api_key p) (ps_gemini_vertex_project p)) (ps_anthropic_api_key p))"

definition langfuse_configured :: "provider_keys \<Rightarrow> bool" where
  "langfuse_configured p \<longleftrightarrow> is_set (ps_langfuse_public_key p) \<and> is_set (ps_langfuse_secret_key p)"

section \<open>Error envelope\<close>

definition error_body :: "string \<Rightarrow> string \<Rightarrow> json \<Rightarrow> json" where
  "error_body kind message detail =
     JObj [(''error'', JObj [(''code'', JStr kind), (''message'', JStr message), (''detail'', detail)])]"

definition validation_exception_handler :: "string \<Rightarrow> int \<times> json" where
  "validation_exception_handler errors =
     (422, error_body ''validation_error'' ''Request validation failed'' (JStr errors))"

definition error_answer :: "exc \<Rightarrow> int \<times> json" where
  "error_answer e = (case e of
      HTTPException st d \<Rightarrow> (st, error_body (''http_'' @ show_int st) d JNull)
    | _ \<Rightarrow> (500, error_body ''internal_error'' ''An unexpected error occurred'' JNull))"

text \<open>What the client gets of a handler: its answer, or the envelope of the exception that left it.\<close>

definition http_answer :: "int \<Rightarrow> ('a \<Rightarrow> json) \<Rightarrow> 'a res \<Rightarrow> int \<times> json" where
  "http_answer st encode r = (case r of Inl e \<Rightarrow> error_answer e | Inr x \<Rightarrow> (st, encode x))"

section \<open>Health\<close>

datatype component_health = HealthOk | Degraded string | SkippedCheck string

text \<open>
  The probes: the database check may raise anything, and every exception is caught; of the others only
  \<open>RedisError\<close> and \<open>HTTPError\<close> are (\<open>Inl (Inl text)\<close>), and what else they raise leaves the handler
  (\<open>Inl (Inr exception)\<close>).
\<close>

record health_cfg =
  hc_providers :: provider_keys
  hc_externals :: bool
  hc_database :: "string + unit"
  hc_redis :: "(string + exc) + unit"
  hc_priceframe :: "(string + exc) + int"

definition skipped_externals :: component_health where
  "skipped_externals = SkippedCheck ''External health checks disabled''"

definition provider_health :: "health_cfg \<Rightarrow> component_health" where
  "provider_health cfg = (if provider_configured (hc_providers cfg) then HealthOk
     else SkippedCheck ''No production LLM provider configured'')"

definition database_health :: "health_cfg \<Rightarrow> component_health" where
  "database_health cfg =
     (if \<not> hc_externals cfg then skipped_externals
      else case hc_database cfg of Inl t \<Rightarrow> Degraded t | Inr _ \<Rightarrow> HealthOk)"

definition redis_health :: "health_cfg \<Rightarrow> component_health res" where
  "redis_health cfg =
     (if \<not> hc_externals cfg then Inr skipped_externals
      else case hc_redis cfg of
        Inl (Inl t) \<Rightarrow> Inr (Degraded t) | Inl (Inr e) \<Rightarrow> Inl e | Inr _ \<Rightarrow> Inr HealthOk)"

definition priceframe_health :: "health_cfg \<Rightarrow> component_health res" where
  "priceframe_health cfg =
     (if \<not> hc_externals cfg then Inr skipped_externals
      else case hc_priceframe cfg of
        Inl (Inl t) \<Rightarrow> Inr (Degraded t)
      | Inl (Inr e) \<Rightarrow> Inl e
      | Inr st \<Rightarrow> Inr (if st \<ge> 500 then Degraded (''PriceFRAME health returned HTTP '' @ show_int st) else HealthOk))"

definition is_degraded :: "component_health \<Rightarrow> bool" where
  "is_degraded c \<longleftrightarrow> (case c of Degraded _ \<Rightarrow> True | _ \<Rightarrow> False)"

definition health_check :: "health_cfg \<Rightarrow> (bool \<times> (string \<times> component_health) list) res" where
  "health_check cfg =
     ebind (redis_health cfg) (\<lambda>q. ebind (priceframe_health cfg) (\<lambda>p.
     let checks = [(''provider'', provider_health cfg), (''database'', database_health cfg), (''queue'', q), (''priceframe'', p)]
     in Inr (\<not> list_ex (is_degraded \<circ> snd) checks, checks)))"

text \<open>The status code with the report.\<close>

definition health_endpoint :: "health_cfg \<Rightarrow> (int \<times> (string \<times> component_health) list) res" where
  "health_endpoint cfg = ebind (health_check cfg) (\<lambda>(fine, checks). Inr (if fine then 200 else 503, checks))"

section \<open>Tool discovery\<close>

record tool_schema =
  ts_name :: string
  ts_description :: string
  ts_permission :: string
  ts_risk :: risk
  ts_cost_class :: string
  ts_input_schema :: dict

text \<open>Descriptions, cost classes and schemas are texts of the tool classes.\<close>

definition list_tools :: "(tool \<Rightarrow> string) \<Rightarrow> (tool \<Rightarrow> string) \<Rightarrow> (tool \<Rightarrow> dict) \<Rightarrow> auth_context \<Rightarrow> tool_schema list" where
  "list_tools description cost schema auth = map (\<lambda>t. \<lparr>ts_name = tl_name t, ts_description = description t,
     ts_permission = tl_permission t, ts_risk = tl_risk t, ts_cost_class = cost t, ts_input_schema = schema t\<rparr>)
     (available_for auth)"

section \<open>Voice\<close>

record voice_cfg =
  vc_groq_api_key :: "string option"
  vc_model :: string
  vc_max_bytes :: int
  vc_post :: "string \<Rightarrow> (string \<times> string) list \<Rightarrow> string \<Rightarrow> string \<Rightarrow> string \<Rightarrow> http_reply"

record voice_answer =
  va_text :: string
  va_model :: string

text \<open>The audio is a string of bytes; a transport error or a body that is not JSON leaves the handler as it is.\<close>

definition read_transcription :: "voice_cfg \<Rightarrow> http_reply \<Rightarrow> voice_answer res" where
  "read_transcription cfg r = (case r of
      TransportError _ \<Rightarrow> Inl PyError
    | Response st body _ \<Rightarrow>
        if st \<ge> 400 then Inl (HTTPException 502 ''Groq transcription request failed'')
        else (case body of
            None \<Rightarrow> Inl PyError
          | Some payload \<Rightarrow>
              (case payload of
                 JObj d \<Rightarrow> (case d_get d ''text'' of
                     JStr t \<Rightarrow> Inr \<lparr>va_text = t, va_model = vc_model cfg\<rparr>
                   | _ \<Rightarrow> Inl (HTTPException 502 ''Groq transcription response was malformed''))
               | _ \<Rightarrow> Inl (HTTPException 502 ''Groq transcription response was malformed''))))"

definition transcribe_voice ::
    "voice_cfg \<Rightarrow> auth_context \<Rightarrow> string option \<Rightarrow> string option \<Rightarrow> string \<Rightarrow> voice_answer res" where
  "transcribe_voice cfg auth filename content_type data =
     (if \<not> has_permission auth ''agent.enabled'' then Inl (HTTPException 403 ''Agent access required'')
      else if \<not> is_set (vc_groq_api_key cfg) then Inl (HTTPException 503 ''Voice transcription is not configured'')
      else if int (length data) > vc_max_bytes cfg then Inl (HTTPException 413 ''Audio file is too large'')
      else read_transcription cfg
        (vc_post cfg ''https://api.groq.com/openai/v1/audio/transcriptions''
          [(''Authorization'', ''Bearer '' @ (case vc_groq_api_key cfg of None \<Rightarrow> [] | Some k \<Rightarrow> k))]
          (case first_set filename (Some ''voice.webm'') of None \<Rightarrow> [] | Some n \<Rightarrow> n)
          (case first_set content_type (Some ''application/octet-stream'') of None \<Rightarrow> [] | Some c \<Rightarrow> c) data))"

section \<open>Laws\<close>

text \<open>Normalising is done once and for all, and the result never ends in a slash.\<close>

lemma normalize_api_prefix_form:
  "normalize_api_prefix v = [] \<or> starts_with (normalize_api_prefix v) ''/'' \<and> last (normalize_api_prefix v) \<noteq> CHR ''/''"
proof -
  define u where "u = (if starts_with v ''/'' then v else ''/'' @ v)"
  have n: "normalize_api_prefix v = rstrip_char (CHR ''/'') u" by (simp add: normalize_api_prefix_def u_def)
  obtain u' where u: "u = CHR ''/'' # u'" by (cases "starts_with v ''/''") (auto simp: u_def starts_with_def prefix_def)
  obtain t where t: "u = normalize_api_prefix v @ t"
    using takeWhile_dropWhile_id [of "\<lambda>x. x = CHR ''/''" "rev u"]
    by (metis n rev_append rev_rev_ident rstrip_char_def)
  show ?thesis
  proof (cases "normalize_api_prefix v = []")
    case False
    then have "starts_with (normalize_api_prefix v) ''/''"
      using t u by (cases "normalize_api_prefix v") (simp_all add: starts_with_def)
    moreover have "last (normalize_api_prefix v) \<noteq> CHR ''/''"
    proof -
      have "dropWhile (\<lambda>x. x = CHR ''/'') (rev u) \<noteq> []" using False by (simp add: n rstrip_char_def)
      from hd_dropWhile [OF this] show ?thesis by (simp add: n rstrip_char_def last_rev)
    qed
    ultimately show ?thesis by blast
  qed simp
qed

lemma parse_cors_origins_trimmed: "o1 \<in> set (parse_cors_origins v) \<Longrightarrow> o1 \<noteq> [] \<and> str_strip o1 = o1"
  by (auto simp: parse_cors_origins_def)

text \<open>Only an exception meant for the client says more than that there was one.\<close>

lemma internal_errors_say_nothing:
  "(\<forall>st d. e \<noteq> HTTPException st d) \<Longrightarrow>
     http_answer st encode (Inl e) = (500, error_body ''internal_error'' ''An unexpected error occurred'' JNull)"
  by (cases e) (auto simp: http_answer_def error_answer_def)

text \<open>The service is reported healthy exactly when no probe that was made failed.\<close>

lemma health_status:
  assumes "health_endpoint cfg = Inr (st, checks)"
  shows "map fst checks = [''provider'', ''database'', ''queue'', ''priceframe''] \<and>
     (st = 503 \<longleftrightarrow> (\<exists>k d. (k, Degraded d) \<in> set checks)) \<and> (st \<noteq> 503 \<longrightarrow> st = 200) \<and>
     (\<not> hc_externals cfg \<longrightarrow> st = 200)"
proof -
  obtain fine where hc: "health_check cfg = Inr (fine, checks)" and stf: "st = (if fine then 200 else 503)"
    using assms by (auto simp: health_endpoint_def ebind_Inr_conv)
  obtain q p where q: "redis_health cfg = Inr q" and p: "priceframe_health cfg = Inr p"
    and st: "checks = [(''provider'', provider_health cfg), (''database'', database_health cfg), (''queue'', q), (''priceframe'', p)]"
      "fine = (\<not> list_ex (is_degraded \<circ> snd) checks)"
    using hc by (simp only: health_check_def ebind_Inr_conv Let_def sum.inject prod.inject) blast
  have deg: "is_degraded c \<longleftrightarrow> (\<exists>d. c = Degraded d)" for c by (cases c) (simp_all add: is_degraded_def)
  have "list_ex (is_degraded \<circ> snd) checks \<longleftrightarrow> (\<exists>k d. (k, Degraded d) \<in> set checks)"
    by (simp only: list_ex_iff comp_def deg) (metis prod.collapse snd_conv)
  moreover have "\<not> hc_externals cfg \<Longrightarrow> \<not> list_ex (is_degraded \<circ> snd) checks"
    using q p by (auto simp: st(1) redis_health_def priceframe_health_def database_health_def provider_health_def
        skipped_externals_def is_degraded_def split: if_splits)
  moreover have "map fst checks = [''provider'', ''database'', ''queue'', ''priceframe'']" by (simp add: st(1))
  ultimately show ?thesis using st(2) stf by (cases fine) auto
qed

lemma listed_tools_are_permitted:
  "s \<in> set (list_tools d c sc auth) \<Longrightarrow> has_permission auth (ts_permission s) \<and>
     (\<exists>t \<in> set registered_tools. ts_name s = tl_name t \<and> ts_permission s = tl_permission t \<and> ts_risk s = tl_risk t)"
  by (auto simp: list_tools_def available_for_def)

text \<open>Without the permission nothing is sent: the answer does not depend on the service.\<close>

lemma voice_needs_permission:
  "\<not> has_permission auth ''agent.enabled'' \<Longrightarrow>
     transcribe_voice (cfg\<lparr>vc_post := f\<rparr>) auth fn ct data = Inl (HTTPException 403 ''Agent access required'')"
  by (simp add: transcribe_voice_def)

lemma voice_answers:
  "transcribe_voice cfg auth fn ct data = Inr a \<Longrightarrow>
     has_permission auth ''agent.enabled'' \<and> int (length data) \<le> vc_max_bytes cfg \<and> va_model a = vc_model cfg"
  by (auto simp: transcribe_voice_def read_transcription_def
      split: if_splits http_reply.splits option.splits json.splits)

end
