(* ===== verification/GeminiCalls.thy ===== *)
theory GeminiCalls
  imports Research
begin

text \<open>
  The two Gemini calls outside the model providers: the grounded search of \<open>tools/web_research.py\<close> and the
  arbitration of \<open>agent/suggestions_blend.py\<close>, from the request to the reply that \<open>research\<close> and \<open>reconcile\<close>
  take as their parameter. The transport, the text of a float and the wording of the search instruction (which
  is not ASCII) are parameters.
\<close>

section \<open>Requests\<close>

record gemini_api =
  ga_api_key :: "string option"
  ga_base_url :: string
  ga_model :: string
  ga_fallback_model :: string

record gemini_post =
  gh_url :: string
  gh_headers :: "(string \<times> string) list"
  gh_body :: dict

datatype post_outcome = PostTimedOut | PostFailed | PostAnswered int "json option"

definition api_configured :: "gemini_api \<Rightarrow> bool" where
  "api_configured api \<longleftrightarrow> (case ga_api_key api of None \<Rightarrow> False | Some k \<Rightarrow> k \<noteq> [])"

definition api_headers :: "gemini_api \<Rightarrow> (string \<times> string) list" where
  "api_headers api = [(''Content-Type'', ''application/json''),
     (''x-goog-api-key'', case ga_api_key api of None \<Rightarrow> [] | Some k \<Rightarrow> k)]"

definition rstrip_slash :: "string \<Rightarrow> string" where
  "rstrip_slash s = rev (dropWhile (\<lambda>c. c = CHR ''/'') (rev s))"

definition generate_url :: "gemini_api \<Rightarrow> string \<Rightarrow> string" where
  "generate_url api model = rstrip_slash (ga_base_url api) @ ''/models/'' @ model @ '':generateContent''"

definition one_prompt :: "string \<Rightarrow> json" where
  "one_prompt t = JArr [JObj [(''role'', JStr ''user''), (''parts'', JArr [JObj [(''text'', JStr t)]])]]"

definition build_grounding_payload :: "(string \<Rightarrow> string) \<Rightarrow> string \<Rightarrow> dict" where
  "build_grounding_payload wording query =
     [(''contents'', one_prompt (wording query)),
      (''tools'', JArr [JObj [(''google_search_retrieval'', JObj [])]]),
      (''generationConfig'', JObj [(''temperature'', JFlt (Fin 0)), (''maxOutputTokens'', JInt 512)])]"

definition flash_instruction :: "(pyfloat \<Rightarrow> string) \<Rightarrow> pyfloat \<Rightarrow> pyfloat \<Rightarrow> string" where
  "flash_instruction show_float historical market =
     (let nl = [CHR 0x0A]; q = [CHR 0x22] in
      ''Two estimates disagree by more than 25%. Pick one recommended value '' @
      ''(or a justified blend) and explain in one sentence which signal you '' @
      ''weighted more.'' @ nl @
      ''historical = '' @ show_float historical @ nl @
      ''market = '' @ show_float market @ nl @
      ''Respond with a single JSON object on the last line containing the '' @
      ''keys '' @ q @ ''recommended'' @ q @ '' (a number) and '' @ q @ ''rationale'' @ q @ '' (a string).'')"

definition flash_request_payload :: "(pyfloat \<Rightarrow> string) \<Rightarrow> pyfloat \<Rightarrow> pyfloat \<Rightarrow> dict" where
  "flash_request_payload show_float historical market =
     [(''contents'', one_prompt (flash_instruction show_float historical market)),
      (''generationConfig'', JObj [(''temperature'', JFlt (Fin 0)), (''maxOutputTokens'', JInt 128),
         (''responseMimeType'', JStr ''application/json''),
         (''responseSchema'', JObj [(''type'', JStr ''object''),
            (''properties'', JObj [(''recommended'', JObj [(''type'', JStr ''number'')]),
                                   (''rationale'', JObj [(''type'', JStr ''string'')])]),
            (''required'', JArr [JStr ''recommended'', JStr ''rationale''])])])]"

definition grounding_request :: "gemini_api \<Rightarrow> (string \<Rightarrow> string) \<Rightarrow> string \<Rightarrow> gemini_post" where
  "grounding_request api wording query =
     \<lparr>gh_url = generate_url api (ga_model api), gh_headers = api_headers api,
      gh_body = build_grounding_payload wording query\<rparr>"

definition flash_request :: "gemini_api \<Rightarrow> (pyfloat \<Rightarrow> string) \<Rightarrow> pyfloat \<Rightarrow> pyfloat \<Rightarrow> gemini_post" where
  "flash_request api show_float h m =
     \<lparr>gh_url = generate_url api (ga_fallback_model api), gh_headers = api_headers api,
      gh_body = flash_request_payload show_float h m\<rparr>"

section \<open>Replies\<close>

text \<open>\<open>raise_for_status\<close> lets only the 2xx replies pass; everything raised before the body is read is one failure.\<close>

definition reply_of :: "post_outcome \<Rightarrow> gemini_reply" where
  "reply_of out = (case out of
      PostTimedOut \<Rightarrow> GeminiFailed
    | PostFailed \<Rightarrow> GeminiFailed
    | PostAnswered st body \<Rightarrow> if 200 \<le> st \<and> st < 300 then GeminiBody body else GeminiFailed)"

definition grounded_search :: "gemini_api \<Rightarrow> (string \<Rightarrow> string) \<Rightarrow> (gemini_post \<Rightarrow> post_outcome) \<Rightarrow> string \<Rightarrow> gemini_reply" where
  "grounded_search api wording post query =
     (if \<not> api_configured api then GeminiFailed else reply_of (post (grounding_request api wording query)))"

definition research_over :: "gemini_api \<Rightarrow> (string \<Rightarrow> string) \<Rightarrow> (gemini_post \<Rightarrow> post_outcome) \<Rightarrow> research_cfg \<Rightarrow> research_cfg" where
  "research_over api wording post cfg =
     cfg\<lparr>rc_configured := api_configured api, rc_reply := grounded_search api wording post\<rparr>"

definition flash_over ::
    "gemini_api \<Rightarrow> (pyfloat \<Rightarrow> string) \<Rightarrow> (gemini_post \<Rightarrow> post_outcome) \<Rightarrow> pyfloat \<Rightarrow> flash_cfg" where
  "flash_over api show_float post cost =
     \<lparr>fc_configured = api_configured api, fc_estimated_cost = cost,
      fc_reply = (\<lambda>h m. reply_of (post (flash_request api show_float h m)))\<rparr>"

section \<open>Laws\<close>

text \<open>The key travels in its header only.\<close>

lemma key_in_header_only:
  "gh_url (grounding_request (api\<lparr>ga_api_key := k\<rparr>) w q) = gh_url (grounding_request api w q)"
  "gh_body (grounding_request (api\<lparr>ga_api_key := k\<rparr>) w q) = gh_body (grounding_request api w q)"
  "gh_url (flash_request (api\<lparr>ga_api_key := k\<rparr>) v h m) = gh_url (flash_request api v h m)"
  "gh_body (flash_request (api\<lparr>ga_api_key := k\<rparr>) v h m) = gh_body (flash_request api v h m)"
  by (simp_all add: grounding_request_def flash_request_def generate_url_def)

text \<open>Without a key nothing is asked of the transport.\<close>

lemma unconfigured_never_posts:
  assumes "\<not> api_configured api"
  shows "research e (research_over api w post cfg) q age rs wd = research e (research_over api w post' cfg) q age rs wd"
    and "reconcile (flash_over api v post cost) h m b = (Some None, b)"
proof -
  have "grounded_search api w post = grounded_search api w post'"
    using assms by (simp add: fun_eq_iff grounded_search_def)
  then show "research e (research_over api w post cfg) q age rs wd = research e (research_over api w post' cfg) q age rs wd"
    by (simp add: research_over_def)
qed (simp add: assms reconcile_def flash_over_def)

definition post_fails :: "post_outcome \<Rightarrow> bool" where
  "post_fails out \<longleftrightarrow> (case out of PostAnswered st body \<Rightarrow> \<not> (200 \<le> st \<and> st < 300) | _ \<Rightarrow> True)"

lemma reply_of_failed: "post_fails out \<Longrightarrow> reply_of out = GeminiFailed"
  by (auto simp: post_fails_def reply_of_def split: post_outcome.splits)

text \<open>A call that fails, by timeout, transport or status, is neither charged nor cached.\<close>

lemma failed_search_is_free:
  assumes "post_fails (post (grounding_request api w q))"
    and "research e (research_over api w post cfg) q age rs wd = (Some p, rs', wd')"
  shows "rs_budget rs' = rs_budget rs \<and> metrics wd' = metrics wd \<and> (p = empty_payload \<or> d_get p ''cache_hit'' = JBool True)"
proof -
  have "rc_reply (research_over api w post cfg) q = GeminiFailed"
    using reply_of_failed [OF assms(1)] by (simp add: research_over_def grounded_search_def)
  with assms(2) show ?thesis
    by (auto simp: research_def utc_now_def Let_def d_get_def d_set_def update_conv' split: prod.splits option.splits if_splits)
qed

lemma failed_arbitration_is_free:
  assumes "post_fails (post (flash_request api v h m))"
  shows "snd (reconcile (flash_over api v post cost) h m b) = b"
  using reply_of_failed [OF assms]
  by (auto simp: reconcile_def flash_over_def split: option.split)

end
