(* ===== verification/EvalQuality.thy ===== *)
theory EvalQuality
  imports Suggestions
begin

text \<open>
  The suggestion-quality evaluation, \<open>evals/suggestion_quality/eval.py\<close> of the repository: each field of each
  quote of a fixture is masked, the fan-out of \<open>Suggestions\<close> is asked for it over a stub that answers from the
  other quotes, and the answers are put into buckets. A quote of the fixture is a record; its numbers are
  finite. The stub stands behind the HTTP client here: a request is answered with status 200 and the stub's reply. The
  CSV and Markdown files are not modelled.
\<close>

section \<open>Fixture\<close>

record quote =
  qt_id :: json
  qt_corridor :: json
  qt_service :: json
  qt_segment :: json
  qt_fields :: dict

definition quote_get :: "quote \<Rightarrow> string \<Rightarrow> json" where
  "quote_get q k =
     (if k = ''quote_id'' then qt_id q else if k = ''corridor'' then qt_corridor q
      else if k = ''service'' then qt_service q else if k = ''customer_segment'' then qt_segment q
      else if k = ''fields'' then JObj (qt_fields q) else JNull)"

definition make_contract :: "string \<Rightarrow> json" where
  "make_contract field_id = JObj [(''id'', JStr ''create_pricing_request''), (''version'', JStr ''v1''),
     (''title'', JStr ''Create pricing request''),
     (''steps'', JArr [JObj [(''id'', JStr ''pricing''), (''title'', JStr ''Pricing''), (''description'', JStr ''eval''),
        (''approval_mode'', JStr ''batch_at_submit''),
        (''fields'', JArr [JObj [(''id'', JStr field_id), (''label'', JStr field_id), (''type'', JStr ''currency''),
           (''required'', JBool False),
           (''suggestion'', JObj [(''mode'', JStr ''proactive''), (''sources'', JArr [JStr ''historical'']),
              (''historical'', JObj [(''aggregation'', JStr ''median''),
                 (''filter_keys'', JArr [JStr ''corridor'', JStr ''service'']), (''min_sample_size'', JInt 3)])])]])]])]"

definition first_step :: "json \<Rightarrow> json" where
  "first_step contract = (case get_key contract ''steps'' of JArr (s # _) \<Rightarrow> s | _ \<Rightarrow> JNull)"

section \<open>Base64\<close>

text \<open>
  \<open>base64.b64decode\<close> without validation: characters outside the alphabet are skipped, a padding that
  completes a group ends the text. The state is the position in the group, its left-over bits and the padding
  seen; \<open>None\<close> is \<open>binascii.Error\<close>.
\<close>

definition b64_value :: "char \<Rightarrow> nat option" where
  "b64_value c =
     (let n = code c in
      if 65 \<le> n \<and> n \<le> 90 then Some (n - 65) else if 97 \<le> n \<and> n \<le> 122 then Some (n - 71)
      else if 48 \<le> n \<and> n \<le> 57 then Some (n + 4) else if n = 43 then Some 62 else if n = 47 then Some 63 else None)"

fun b64_go :: "nat \<Rightarrow> nat \<Rightarrow> nat \<Rightarrow> string \<Rightarrow> string option" where
  "b64_go quad left pads [] = (if quad = 0 then Some [] else None)"
| "b64_go quad left pads (c # cs) =
     (if c = CHR ''='' then
        (if quad \<ge> 2 \<and> quad + Suc pads \<ge> 4 then Some []
         else b64_go quad left (if quad \<ge> 2 then Suc pads else pads) cs)
      else (case b64_value c of
          None \<Rightarrow> b64_go quad left pads cs
        | Some v \<Rightarrow>
            if quad = 0 then b64_go 1 v 0 cs
            else if quad = 1 then map_option (\<lambda>bs. char_of (left * 4 + v div 16) # bs) (b64_go 2 (v mod 16) 0 cs)
            else if quad = 2 then map_option (\<lambda>bs. char_of (left * 16 + v div 4) # bs) (b64_go 3 (v mod 4) 0 cs)
            else map_option (\<lambda>bs. char_of (left * 64 + v) # bs) (b64_go 0 0 0 cs)))"

definition b64decode :: "string \<Rightarrow> string option" where "b64decode s = b64_go 0 0 0 s"

text \<open>UTF-8 as far as a text of Latin-1 characters needs it.\<close>

fun utf8_decode :: "string \<Rightarrow> string option" where
  "utf8_decode [] = Some []"
| "utf8_decode (b # bs) =
     (if code b < 128 then map_option (\<lambda>t. b # t) (utf8_decode bs)
      else case bs of
          [] \<Rightarrow> None
        | b2 # bs' \<Rightarrow>
            if (code b = 194 \<or> code b = 195) \<and> 128 \<le> code b2 \<and> code b2 < 192
            then map_option (\<lambda>t. char_of ((code b - 192) * 64 + (code b2 - 128)) # t) (utf8_decode bs')
            else None)"

definition decode_ctx :: "json \<Rightarrow> dict" where
  "decode_ctx ctx_raw = (case ctx_raw of
      JObj d \<Rightarrow> d
    | JStr s \<Rightarrow>
        if s = [] \<or> \<not> list_all (\<lambda>c. code c < 128) s then []
        else (case Option.bind (Option.bind (b64decode s) utf8_decode) json_loads of Some (JObj d) \<Rightarrow> d | _ \<Rightarrow> [])
    | _ \<Rightarrow> [])"

section \<open>The historical stub\<close>

text \<open>\<open>sorted\<close> on numbers: stable insertion by value.\<close>

definition number :: "json \<Rightarrow> pyfloat" where
  "number j = (case num_val j of None \<Rightarrow> NaN | Some x \<Rightarrow> x)"

fun insert_number :: "json \<Rightarrow> json list \<Rightarrow> json list" where
  "insert_number x [] = [x]"
| "insert_number x (y # ys) = (if flt (number y) (number x) then y # insert_number x ys else x # y # ys)"

definition sort_numbers :: "json list \<Rightarrow> json list" where "sort_numbers xs = foldr insert_number xs []"

text \<open>\<open>statistics.median\<close> of a sorted list that is not empty.\<close>

definition half_sum :: "pyfloat \<Rightarrow> pyfloat \<Rightarrow> pyfloat" where
  "half_sum a b = (case fdiv (fadd a b) (Fin 2) of Some x \<Rightarrow> x | None \<Rightarrow> NaN)"

definition median_of :: "json list \<Rightarrow> json" where
  "median_of xs = (let n = length xs in
     if odd n then xs ! (n div 2) else JFlt (half_sum (number (xs ! (n div 2 - 1))) (number (xs ! (n div 2)))))"

definition percentile :: "json list \<Rightarrow> pyfloat \<Rightarrow> json" where
  "percentile xs p =
     (if xs = [] then JFlt (Fin 0)
      else if length xs = 1 then hd xs
      else let top = int (length xs) - 1;
               idx = (case fmul p (Fin (of_int top)) of Fin x \<Rightarrow> rne x | _ \<Rightarrow> 0)
           in xs ! nat (max 0 (min top idx)))"

definition corpus_values :: "quote list \<Rightarrow> string \<Rightarrow> dict \<Rightarrow> json list" where
  "corpus_values corpus field_id ctx =
     filter (\<lambda>v. num_val v \<noteq> None)
       (map (\<lambda>q. d_get (qt_fields q) field_id)
         (filter (\<lambda>q. d_has (qt_fields q) field_id)
           (filter (\<lambda>q. list_all (\<lambda>(k, v). py_eq (quote_get q k) v) ctx) corpus)))"

definition stub_answer :: "quote list \<Rightarrow> string \<Rightarrow> dict \<Rightarrow> dict" where
  "stub_answer corpus field_id params =
     (if d_get params ''field'' \<noteq> JStr field_id then [(''value'', JNull), (''no_signal'', JBool True)]
      else let ctx = decode_ctx (py_or (d_get params ''ctx'') (JStr []));
               vals = corpus_values corpus field_id ctx;
               basis = (''basis'', JObj [(''aggregation'', JStr ''median''), (''filter_keys'', JArr (map (JStr \<circ> fst) ctx))]);
               used = (''context_used'', JObj ctx);
               as_of = (''as_of'', JStr ''2026-05-24T00:00:00Z'')
           in if length vals < 3
              then [(''value'', JNull), (''unit'', JStr ''PCT_AMOUNT''), (''sample_size'', JInt (int (length vals))),
                    (''range'', JNull), basis, used, as_of, (''no_signal'', JBool True)]
              else let s = sort_numbers vals in
                   [(''value'', median_of s), (''unit'', JStr ''PCT_AMOUNT''), (''sample_size'', JInt (int (length vals))),
                    (''range'', JObj [(''min'', hd s), (''max'', last s), (''p25'', percentile s (mk_float (1 / 4))),
                       (''p75'', percentile s (mk_float (3 / 4)))]), basis, used, as_of])"

definition stub_env :: "env \<Rightarrow> quote list \<Rightarrow> string \<Rightarrow> env" where
  "stub_env e corpus field_id =
     e\<lparr>respond := (\<lambda>sent rq. Response 200 (Some (JObj (stub_answer corpus field_id (rq_params rq)))) [])\<rparr>"

section \<open>One sample\<close>

record sample_result =
  sa_quote_id :: json
  sa_corridor :: json
  sa_service :: json
  sa_field_id :: string
  sa_actual :: pyfloat
  sa_predicted :: "pyfloat option"
  sa_sources_used :: "json list"
  sa_no_signal :: bool
  sa_bucket :: string

definition within_10 :: pyfloat where "within_10 = mk_float (1 / 10)"
definition within_25 :: pyfloat where "within_25 = mk_float (1 / 4)"

definition rel_error :: "pyfloat \<Rightarrow> pyfloat \<Rightarrow> pyfloat" where
  "rel_error actual predicted = (case fdiv (fabs (fsub actual predicted)) (fabs actual) of Some x \<Rightarrow> x | None \<Rightarrow> NaN)"

definition bucket_of :: "pyfloat \<Rightarrow> pyfloat option \<Rightarrow> string" where
  "bucket_of actual predicted = (case predicted of
      None \<Rightarrow> ''no_signal''
    | Some p \<Rightarrow>
        if feq actual (Fin 0) then ''outside_25''
        else if fle (rel_error actual p) within_10 then ''within_10''
        else if fle (rel_error actual p) within_25 then ''within_25'' else ''outside_25'')"

definition eval_auth :: auth_context where
  "eval_auth = \<lparr>user_id = 1, role_code = ''ROLE_AM_SALES'', profile_code = ''PROFILE_SALES'',
     permissions = [''agent.enabled'', ''agent.suggestions.read''], jwt_raw = ''eval-jwt'', session_id = Some 1\<rparr>"

definition masked_draft :: "quote \<Rightarrow> dict" where
  "masked_draft q = [(''summary'', JObj [(''corridor'', qt_corridor q), (''service'', qt_service q),
     (''customer_segment'', qt_segment q)])]"

definition hold_out :: "quote \<Rightarrow> quote list \<Rightarrow> quote list" where
  "hold_out q corpus = filter (\<lambda>q'. \<not> py_eq (qt_id q') (qt_id q)) corpus"

text \<open>What an event says: whether there was no signal, the prediction and its sources.\<close>

definition read_event :: "suggestion_event \<Rightarrow> (bool \<times> pyfloat option \<times> json list) option" where
  "read_event ev =
     (if fst ev = event_no_signal then Some (True, None, [])
      else case d_get (snd ev) ''proposed'' of
          JObj p \<Rightarrow> map_option (\<lambda>srcs. (False, num_val (d_get p ''value''), srcs))
            (py_iter (py_or (d_get p ''sources_used'') (JArr [])))
        | _ \<Rightarrow> let v = num_val (d_get (snd ev) ''value'')
               in Some (False, v, if v = None then [] else [JStr ''historical'']))"

text \<open>\<open>Inl ()\<close> is an exception, \<open>Inr None\<close> a sample that is skipped.\<close>

definition evaluate_one ::
    "env \<Rightarrow> pf_client \<Rightarrow> research_cfg \<Rightarrow> run_budget \<Rightarrow> quote \<Rightarrow> string \<Rightarrow> quote list \<Rightarrow> world \<Rightarrow>
     sample_result option option \<times> world" where
  "evaluate_one e c cfg b q field_id corpus w =
     (case num_val (d_get (qt_fields q) field_id) of
        None \<Rightarrow> (Some None, w)
      | Some actual \<Rightarrow>
          let contract = make_contract field_id in
          (case fan_out_suggestions (stub_env e (hold_out q corpus) field_id) c cfg eval_auth contract
                  (first_step contract) (masked_draft q) b w of
             (None, b', w') \<Rightarrow> (None, w')
           | (Some evs, b', w') \<Rightarrow>
               (case find (\<lambda>ev. d_get (snd ev) ''field_id'' = JStr field_id) evs of
                  None \<Rightarrow> (Some None, w')
                | Some ev \<Rightarrow>
                    (map_option (\<lambda>(no_signal, predicted, srcs). Some
                       \<lparr>sa_quote_id = qt_id q, sa_corridor = qt_corridor q, sa_service = qt_service q,
                        sa_field_id = field_id, sa_actual = actual, sa_predicted = predicted, sa_sources_used = srcs,
                        sa_no_signal = no_signal,
                        sa_bucket = (if no_signal then ''no_signal'' else bucket_of actual predicted)\<rparr>) (read_event ev),
                     w'))))"

section \<open>The report\<close>

record field_report =
  fe_samples :: nat
  fe_within_10 :: nat
  fe_within_25 :: nat
  fe_outside_25 :: nat
  fe_no_signal :: nat
  fe_abs_errors :: "pyfloat list"

definition empty_report :: field_report where
  "empty_report = \<lparr>fe_samples = 0, fe_within_10 = 0, fe_within_25 = 0, fe_outside_25 = 0, fe_no_signal = 0, fe_abs_errors = []\<rparr>"

definition tally_bucket :: "string \<Rightarrow> field_report \<Rightarrow> field_report" where
  "tally_bucket x r =
     (if x = ''within_10'' then r\<lparr>fe_within_10 := Suc (fe_within_10 r), fe_within_25 := Suc (fe_within_25 r)\<rparr>
      else if x = ''within_25'' then r\<lparr>fe_within_25 := Suc (fe_within_25 r)\<rparr>
      else if x = ''outside_25'' then r\<lparr>fe_outside_25 := Suc (fe_outside_25 r)\<rparr>
      else if x = ''no_signal'' then r\<lparr>fe_no_signal := Suc (fe_no_signal r)\<rparr> else r)"

definition tally_error :: "sample_result \<Rightarrow> field_report \<Rightarrow> field_report" where
  "tally_error s r = (case sa_predicted s of
      None \<Rightarrow> r
    | Some p \<Rightarrow> if feq (sa_actual s) (Fin 0) then r
                else r\<lparr>fe_abs_errors := fe_abs_errors r @ [rel_error (sa_actual s) p]\<rparr>)"

definition tally :: "sample_result \<Rightarrow> (string \<times> field_report) list \<Rightarrow> (string \<times> field_report) list" where
  "tally s report =
     (let r = (case map_of report (sa_field_id s) of None \<Rightarrow> empty_report | Some r \<Rightarrow> r);
          r = tally_error s (tally_bucket (sa_bucket s) (r\<lparr>fe_samples := Suc (fe_samples r)\<rparr>))
      in AList.update (sa_field_id s) r report)"

definition report_of :: "sample_result list \<Rightarrow> (string \<times> field_report) list" where
  "report_of samples = fold tally samples []"

fun run_samples ::
    "env \<Rightarrow> pf_client \<Rightarrow> research_cfg \<Rightarrow> run_budget \<Rightarrow> quote list \<Rightarrow> (quote \<times> string) list \<Rightarrow> world \<Rightarrow>
     sample_result list option \<times> world" where
  "run_samples e c cfg b corpus [] w = (Some [], w)"
| "run_samples e c cfg b corpus ((q, f) # qfs) w =
     (case evaluate_one e c cfg b q f corpus w of
        (None, w') \<Rightarrow> (None, w')
      | (Some s, w') \<Rightarrow>
          (case run_samples e c cfg b corpus qfs w' of
             (rs, w'') \<Rightarrow> (map_option (\<lambda>rs. (case s of None \<Rightarrow> [] | Some x \<Rightarrow> [x]) @ rs) rs, w'')))"

definition run_eval ::
    "env \<Rightarrow> pf_client \<Rightarrow> research_cfg \<Rightarrow> run_budget \<Rightarrow> quote list \<Rightarrow> string list \<Rightarrow> world \<Rightarrow>
     (sample_result list \<times> (string \<times> field_report) list) option \<times> world" where
  "run_eval e c cfg b quotes suggestable w =
     (case run_samples e c cfg b quotes (List.product quotes suggestable) w of
        (rs, w') \<Rightarrow> (map_option (\<lambda>rs. (rs, report_of rs)) rs, w'))"

definition overall_within_25 :: "(string \<times> field_report) list \<Rightarrow> nat \<Rightarrow> pyfloat" where
  "overall_within_25 report n =
     (if n = 0 then Fin 0
      else mk_float (of_nat (sum_list (map (fe_within_25 \<circ> snd) report)) / of_nat n))"

definition accuracy_within_25 :: "field_report \<Rightarrow> pyfloat" where
  "accuracy_within_25 r = (if fe_samples r = 0 then Fin 0 else mk_float (of_nat (fe_within_25 r) / of_nat (fe_samples r)))"

definition median_abs_error :: "field_report \<Rightarrow> json" where
  "median_abs_error r = (if fe_abs_errors r = [] then JFlt (Fin 0) else median_of (sort_numbers (map JFlt (fe_abs_errors r))))"

end
