(* ===== verification/EvalLaws.thy ===== *)
theory EvalLaws
  imports EvalQuality
begin

text \<open>
  Laws of the evaluation: the stub reads the context that the tool sends, a masked value has no influence on
  what is predicted for it, and the counts of the report add up.
\<close>

section \<open>Base64\<close>

lemma b64_digits: "map b64_value b64_alphabet = map Some [0..<64]" "CHR ''='' \<notin> set b64_alphabet"
  by (simp_all add: b64_alphabet_def b64_value_def Let_def upt_rec_numeral upt_rec [of 0] upt_rec [of "Suc 0"] numeral_2_eq_2 [symmetric])

lemma b64_length: "length b64_alphabet = 64"
  by (simp add: b64_alphabet_def)

lemma b64_value_c: "b64_value (b64c n) = Some (n mod 64)" "b64c n \<noteq> CHR ''=''" "code (b64c n) < 128"
proof -
  have n: "n mod 64 < length b64_alphabet" by (simp add: b64_length)
  have "b64_value (b64c n) = map b64_value b64_alphabet ! (n mod 64)" using n by (simp add: b64c_def)
  then show "b64_value (b64c n) = Some (n mod 64)" by (simp add: b64_digits)
  have m: "b64c n \<in> set b64_alphabet" using nth_mem [OF n] by (simp add: b64c_def)
  with b64_digits(2) show "b64c n \<noteq> CHR ''=''" by metis
  have "\<forall>c \<in> set b64_alphabet. code c < 128" by (simp add: b64_alphabet_def)
  with m show "code (b64c n) < 128" by blast
qed

text \<open>The bits of three bytes over four digits.\<close>

lemma group_bits:
  fixes a b c :: nat
  assumes "a < 256" "b < 256" "c < 256"
  shows "(a div 4) mod 64 * 4 + (a * 16 + b div 16) mod 64 div 16 = a"
    and "(a * 16 + b div 16) mod 64 mod 16 * 16 + (b * 4 + c div 64) mod 64 div 4 = b"
    and "(b * 4 + c div 64) mod 64 mod 4 * 64 + c mod 64 = c"
proof -
  have ab: "(a * 16 + b div 16) mod 64 = (a mod 4) * 16 + b div 16"
  proof -
    have "a * 16 + b div 16 = (a mod 4) * 16 + b div 16 + 64 * (a div 4)" using mult_div_mod_eq [of 4 a] by linarith
    moreover have "(a mod 4) * 16 + b div 16 < 64" using assms(2) less_mult_imp_div_less [of b 16 16] by simp
    ultimately show ?thesis by (metis mod_less mod_mult_self2)
  qed
  have bc: "(b * 4 + c div 64) mod 64 = (b mod 16) * 4 + c div 64"
  proof -
    have "b * 4 + c div 64 = (b mod 16) * 4 + c div 64 + 64 * (b div 16)" using mult_div_mod_eq [of 16 b] by linarith
    moreover have "(b mod 16) * 4 + c div 64 < 64" using assms(3) less_mult_imp_div_less [of c 4 64] by simp
    ultimately show ?thesis by (metis mod_less mod_mult_self2)
  qed
  have small: "b div 16 < 16" "c div 64 < 4" "a div 4 < 64" using assms by (simp_all add: less_mult_imp_div_less)
  show "(a div 4) mod 64 * 4 + (a * 16 + b div 16) mod 64 div 16 = a" using small by (simp add: ab)
  show "(a * 16 + b div 16) mod 64 mod 16 * 16 + (b * 4 + c div 64) mod 64 div 4 = b" using small by (simp add: ab bc)
  show "(b * 4 + c div 64) mod 64 mod 4 * 64 + c mod 64 = c" using small by (simp add: bc)
qed

lemma b64_go_digit [simp]:
  "b64_go 0 l p (b64c n # s) = b64_go (Suc 0) (n mod 64) 0 s"
  "b64_go (Suc 0) l p (b64c n # s) =
     map_option (\<lambda>bs. char_of (l * 4 + n mod 64 div 16) # bs) (b64_go 2 (n mod 64 mod 16) 0 s)"
  "b64_go 2 l p (b64c n # s) =
     map_option (\<lambda>bs. char_of (l * 16 + n mod 64 div 4) # bs) (b64_go 3 (n mod 64 mod 4) 0 s)"
  "b64_go 3 l p (b64c n # s) = map_option (\<lambda>bs. char_of (l * 64 + n mod 64) # bs) (b64_go 0 0 0 s)"
  by (simp_all add: b64_value_c)

lemma b64_go_pad [simp]:
  "b64_go 2 l 0 (CHR ''='' # CHR ''='' # s) = Some []" "b64_go 3 l 0 (CHR ''='' # s) = Some []"
  by simp_all

text \<open>Decoding gives back what was encoded.\<close>

lemma b64_roundtrip: "b64decode (b64encode s) = Some s"
proof -
  have "b64_go 0 l p (b64encode s) = Some s" for l p
  proof (induction s arbitrary: l p rule: b64encode.induct)
    case (2 a)
    have "code a div 4 mod 64 * 4 + code a * 16 mod 64 div 16 = code a"
      using group_bits(1) [of "code a" 0 0] by (simp only: div_0 add_0_right nat_of_char_less_256 zero_less_numeral)
    then show ?case by (simp only: b64encode.simps b64_go_digit b64_go_pad option.map char_of_char)
  next
    case (3 a b)
    have "code a div 4 mod 64 * 4 + (code a * 16 + code b div 16) mod 64 div 16 = code a"
        "(code a * 16 + code b div 16) mod 64 mod 16 * 16 + code b * 4 mod 64 div 4 = code b"
      using group_bits(1,2) [of "code a" "code b" 0]
      by (simp_all only: div_0 add_0_right nat_of_char_less_256 zero_less_numeral)
    then show ?case by (simp only: b64encode.simps b64_go_digit b64_go_pad option.map char_of_char)
  next
    case (4 a b c s)
    show ?case
      by (simp only: b64encode.simps b64_go_digit option.map char_of_char "4.IH"
          group_bits [of "code a" "code b" "code c"] nat_of_char_less_256)
  qed simp
  then show ?thesis by (simp add: b64decode_def)
qed

lemma utf8_ascii: "list_all (\<lambda>c. code c < 128) t \<Longrightarrow> utf8_decode t = Some t"
  by (induction t) simp_all

lemma b64_ascii: "list_all (\<lambda>c. code c < 128) (b64encode s)"
  by (induction s rule: b64encode.induct) (simp_all add: b64_value_c)

lemma b64_nonempty: "s \<noteq> [] \<Longrightarrow> b64encode s \<noteq> []"
  by (cases s rule: b64encode.cases) simp_all

text \<open>The stub reads the context that \<open>get_field_suggestions\<close> sends, as far as the JSON text reads back.\<close>

lemma stub_reads_context:
  assumes "json_loads t = Some (JObj d)" "t \<noteq> []" "list_all (\<lambda>c. code c < 128) t"
  shows "decode_ctx (JStr (b64encode t)) = d"
  using assms b64_ascii [of t] b64_nonempty [of t]
  by (simp add: decode_ctx_def b64_roundtrip utf8_ascii)

section \<open>Hold-out\<close>

text \<open>
  The stub of a quote never sees a quote of the same id, so its own numbers can neither be looked up nor
  averaged: exchanging the masked quote's numbers, in the fixture and in the quote, changes nothing but the
  value compared against.
\<close>

lemma hold_out_ignores:
  assumes "qt_id q' = qt_id q" "py_eq (qt_id q) (qt_id q)"
  shows "hold_out q' (map (\<lambda>x. if x = q then q' else x) corpus) = hold_out q corpus"
  using assms by (induction corpus) (auto simp: hold_out_def)

lemma masked_value_has_no_influence:
  assumes "py_eq (qt_id q) (qt_id q)"
    and "q' = q\<lparr>qt_fields := d\<rparr>" "num_val (d_get (qt_fields q) f) \<noteq> None" "num_val (d_get d f) \<noteq> None"
    and "evaluate_one e c cfg b q f corpus w = (Some (Some s), w1)"
  shows "\<exists>s'. evaluate_one e c cfg b q' f (map (\<lambda>x. if x = q then q' else x) corpus) w = (Some (Some s'), w1) \<and>
     sa_predicted s' = sa_predicted s \<and> sa_sources_used s' = sa_sources_used s \<and> sa_no_signal s' = sa_no_signal s"
proof -
  have h: "hold_out q' (map (\<lambda>x. if x = q then q' else x) corpus) = hold_out q corpus"
    using hold_out_ignores [of q' q corpus] assms(1,2) by simp
  have m: "masked_draft q' = masked_draft q" by (simp add: assms(2) masked_draft_def)
  obtain x evs b1 ev ns p srcs where
      run: "fan_out_suggestions (stub_env e (hold_out q corpus) f) c cfg eval_auth (make_contract f)
        (first_step (make_contract f)) (masked_draft q) b w = (Some evs, b1, w1)"
      "find (\<lambda>ev. d_get (snd ev) ''field_id'' = JStr f) evs = Some ev" "read_event ev = Some (ns, p, srcs)"
    and s: "sa_predicted s = p" "sa_sources_used s = srcs" "sa_no_signal s = ns"
    using assms(3,5) by (auto simp: evaluate_one_def Let_def split: option.splits prod.splits)
  obtain y where y: "num_val (d_get (qt_fields q') f) = Some y" using assms(2,4) by auto
  have "evaluate_one e c cfg b q' f (map (\<lambda>x. if x = q then q' else x) corpus) w =
      (Some (Some \<lparr>sa_quote_id = qt_id q', sa_corridor = qt_corridor q', sa_service = qt_service q', sa_field_id = f,
         sa_actual = y, sa_predicted = p, sa_sources_used = srcs, sa_no_signal = ns,
         sa_bucket = (if ns then ''no_signal'' else bucket_of y p)\<rparr>), w1)"
    by (simp add: evaluate_one_def Let_def h m y run)
  then show ?thesis using s by (intro exI conjI) (assumption, simp_all)
qed

section \<open>The counts\<close>

lemma bucket_of_cases: "bucket_of a p \<in> {''within_10'', ''within_25'', ''outside_25'', ''no_signal''}"
  by (simp add: bucket_of_def split: option.split)

definition counts_ok :: "field_report \<Rightarrow> bool" where
  "counts_ok r \<longleftrightarrow> fe_samples r = fe_within_25 r + fe_outside_25 r + fe_no_signal r \<and>
     fe_within_10 r \<le> fe_within_25 r \<and> length (fe_abs_errors r) \<le> fe_samples r"

definition sample_ok :: "sample_result \<Rightarrow> bool" where
  "sample_ok s \<longleftrightarrow> sa_bucket s \<in> {''within_10'', ''within_25'', ''outside_25'', ''no_signal''}"

lemma sample_ok_record [simp]:
  "sample_ok \<lparr>sa_quote_id = i, sa_corridor = c, sa_service = v, sa_field_id = f, sa_actual = a, sa_predicted = p,
     sa_sources_used = u, sa_no_signal = ns, sa_bucket = (if ns then ''no_signal'' else bucket_of a q)\<rparr>"
  using bucket_of_cases [of a q] by (cases ns) (simp_all add: sample_ok_def)

lemma evaluated_sample_ok: "evaluate_one e c cfg b q f corpus w = (Some (Some s), w') \<Longrightarrow> sample_ok s"
  unfolding evaluate_one_def Let_def
  by (auto simp del: if_split split: option.splits prod.splits)

lemma run_samples_ok: "run_samples e c cfg b corpus qfs w = (Some rs, w') \<Longrightarrow> list_all sample_ok rs"
proof (induction e c cfg b corpus qfs w arbitrary: rs w' rule: run_samples.induct)
  case (2 e c cfg b corpus q f qfs w)
  from "2.prems" obtain s w1 rs1 where
      s: "evaluate_one e c cfg b q f corpus w = (Some s, w1)"
    and rs: "run_samples e c cfg b corpus qfs w1 = (Some rs1, w')" "rs = (case s of None \<Rightarrow> [] | Some x \<Rightarrow> [x]) @ rs1"
    by (auto split: prod.splits option.splits)
  have "list_all sample_ok rs1" using "2.IH" [OF s [symmetric] refl rs(1)] .
  moreover have "list_all sample_ok (case s of None \<Rightarrow> [] | Some x \<Rightarrow> [x])"
    using s evaluated_sample_ok by (cases s) auto
  ultimately show ?case by (simp add: rs(2))
qed simp

lemma tally_counts:
  assumes "sample_ok s" "counts_ok r"
  shows "counts_ok (tally_error s (tally_bucket (sa_bucket s) (r\<lparr>fe_samples := Suc (fe_samples r)\<rparr>)))"
  using assms by (auto simp: counts_ok_def sample_ok_def tally_error_def tally_bucket_def split: option.split)

lemma report_counts: "list_all sample_ok ss \<Longrightarrow> list_all (counts_ok \<circ> snd) rep \<Longrightarrow> list_all (counts_ok \<circ> snd) (fold tally ss rep)"
proof (induction ss arbitrary: rep)
  case (Cons s ss)
  define r where "r = (case map_of rep (sa_field_id s) of None \<Rightarrow> empty_report | Some r \<Rightarrow> r)"
  have "counts_ok r"
  proof (cases "map_of rep (sa_field_id s)")
    case None
    then show ?thesis by (simp add: r_def counts_ok_def empty_report_def)
  next
    case (Some r0)
    with Cons.prems(2) map_of_SomeD [OF Some] show ?thesis by (force simp: r_def list_all_iff)
  qed
  then have "counts_ok (tally_error s (tally_bucket (sa_bucket s) (r\<lparr>fe_samples := Suc (fe_samples r)\<rparr>)))"
    using Cons.prems(1) tally_counts by simp
  then have t: "list_all (counts_ok \<circ> snd) (tally s rep)"
    using Cons.prems(2) by (auto simp: tally_def r_def [symmetric] Let_def list_all_iff dest: set_update_cases)
  have "list_all sample_ok ss" using Cons.prems(1) by simp
  from Cons.IH [OF this t] show ?case by simp
qed simp

text \<open>Every field of a report splits its samples into those within 25 percent, those outside and those without signal.\<close>

lemma report_adds_up:
  assumes "run_eval e c cfg b quotes fs w = (Some (samples, report), w')" "(f, r) \<in> set report"
  shows "fe_samples r = fe_within_25 r + fe_outside_25 r + fe_no_signal r \<and> fe_within_10 r \<le> fe_within_25 r"
proof -
  have "list_all sample_ok samples" "report = report_of samples"
    using assms(1) run_samples_ok [of e c cfg b quotes "List.product quotes fs" w samples w']
    by (auto simp: run_eval_def split: prod.splits)
  then have "list_all (counts_ok \<circ> snd) report" using report_counts [of samples "[]"] by (simp add: report_of_def)
  with assms(2) show ?thesis by (auto simp: list_all_iff counts_ok_def)
qed

end
