(* ===== verification/Spec2Isabelle.thy ===== *)
theory Spec2Isabelle
  imports Ids RunEvents Auth Conversation Tools Recap Blend Research Suggestions Runner WorkflowAdvance RunsApi
    RateLimit Guided Streaming RunnerBounds ConversationsLaws AdapterLaws AuthApi AttachmentLaws TelemetryLaws
    Shell GeminiCalls EvalLaws
begin

text \<open>
  A verification development for the XFrame AI agent, the service that guides a sales
  representative through a PriceFRAME pricing request. File names below are under
  \<open>src/src/xframe_agent/\<close>.

  \<^bold>\<open>The program.\<close> A client opens a conversation and posts a message; that queues a run. A run is
  answered by one of two loops: the deterministic one (\<open>agent/loop.py\<close>), or a model loop
  (\<open>agent/runner.py\<close>) when a provider is configured. A loop never writes to PriceFRAME on its own: it
  stores a tool call, which a decision of the user through the runs API (\<open>api/v1/runs.py\<close>) later executes
  with the user's own token. Everything a client sees of a run is its event log, numbered per run and replayed by a
  server-sent event stream. A pricing request is a wizard over a contract file: its fields are asked
  one by one (\<open>agent/conversation/\<close>), its steps are advanced, proposed and approved
  (\<open>agent/workflow_advance.py\<close>, \<open>agent/step_proposals.py\<close>), and its fields get suggestions blended from
  history and web research (\<open>agent/suggestions*.py\<close>, \<open>tools/web_research.py\<close>).

  \<^bold>\<open>How the code is rendered.\<close> Data whose shape is JSON stays JSON (\<open>PyJson\<close>), rows are records
  (\<open>Store\<close>). A handler is a function from a session to a result and a session: \<open>exc + 'a\<close> where the
  kind of exception matters, \<open>option\<close> where only its escape does. A session has a working view
  \<open>cur\<close> and the committed state \<open>saved\<close>; \<open>commit\<close> copies one to the other and \<open>close_session\<close>, with
  which every request ends, drops what was not committed. Requests to PriceFRAME are appended to
  \<open>sent\<close>, samples to \<open>metrics\<close>; the clock, fresh identifiers and row numbers are counters read
  through the environment \<open>env\<close>, whose functions may answer anything at any reading. Python floats are
  IEEE doubles as rounded rationals with infinities and NaN (\<open>PyFloat\<close>); ints are unbounded.
  Code outside the repository is a parameter: PriceFRAME's replies, pydantic's coercions
  (\<open>pydantic_ok\<close> states what is relied on), the text of floats, regular expressions of contract
  files, digests, the JWT library, the model's replies, the contract files.

  \<^bold>\<open>Theories, bottom up.\<close>
  \<^item> \<open>Prelude\<close>, \<open>PyText\<close>, \<open>PyFloat\<close>, \<open>PyTime\<close>, \<open>PyJson\<close>, \<open>JsonParse\<close>: exceptions and the option monad, the
    string operations used, doubles, timestamps, JSON values with \<open>json.dumps\<close> and \<open>json.loads\<close>.
  \<^item> \<open>Store\<close>: rows of \<open>models/agent.py\<close>, the session, and the locale \<open>row_store\<close>, what handlers rely on
    when they load, change and add keyed rows, interpreted on every table.
  \<^item> \<open>Ids\<close>: \<open>ids.py\<close>. \<open>RunEvents\<close>: \<open>agent/events.py\<close> and the stream of \<open>api/v1/runs.py\<close>, with the locale of
    numbered logs; the stream delivers a gapless prefix after the cursor.
  \<^item> \<open>PriceFrame\<close>: the client with its retries. \<open>Auth\<close>: \<open>auth/\<close>, claims, profile and its cache.
  \<^item> \<open>Tools\<close>: \<open>tools/\<close> without web research: registry, approval rule, input models, every tool.
    \<open>Effects\<close>: the relations \<open>quiet\<close> and \<open>logs\<close>, which bound what a piece of handler code may do.
  \<^item> \<open>Conversation\<close>, \<open>Runner\<close>, \<open>Recap\<close>: the guided conversation from its cursor to the commit of the quote.
  \<^item> \<open>Blend\<close>, \<open>Research\<close>, \<open>Suggestions\<close>, \<open>StepProposals\<close>: suggested values, the budget of paid research and
    its cache, the fan-out over the fields of a step, the proposal for a whole step.
  \<^item> \<open>WorkflowAdvance\<close>, \<open>Runs\<close>: advancing a wizard step, and every endpoint of the runs API.
    \<open>RunsLaws\<close> holds the locale \<open>handler_invariant\<close>, in which every endpoint is shown to keep a property
    of the database, and the abstract machine of a tool call that decisions refine; \<open>RunsApi\<close> has
    the properties of the API as a whole.
  \<^item> \<open>RateLimit\<close>: \<open>middleware/rate_limit.py\<close>, two limiters as interpretations of one sliding window.
    \<open>Redact\<close>: \<open>agent/redaction.py\<close> and \<open>agent/wrapping.py\<close> over a small backtracking matcher.
    \<open>Guided\<close>: \<open>agent/guided_workflows.py\<close>. \<open>Budget\<close>: \<open>agent/budget.py\<close>.
  \<^item> \<open>AgentLoop\<close>, \<open>AgentLoopLaws\<close>: the deterministic loop, what it may touch and where it ends.
  \<^item> \<open>Provider\<close>: the failover router of \<open>provider/base.py\<close> and \<open>provider/factory.py\<close>, with the locale
    \<open>stream_consumer\<close> of what its consumer may do. \<open>ModelRunner\<close>: \<open>agent/runner.py\<close>, \<open>agent/dispatch.py\<close> and
    \<open>agent/history.py\<close>, one turn of the model loop and its repetition. \<open>ModelRunnerLaws\<close>: what a run may
    touch and where it ends; \<open>RunnerBounds\<close>: what its budget allows it to store; \<open>Streaming\<close>: what a client is told of a reply while it arrives.
  \<^item> \<open>ConversationsApi\<close>: \<open>api/v1/conversations.py\<close>, \<open>api/v1/memory.py\<close>, \<open>agent/idempotency.py\<close> and the run and purge
    jobs of \<open>worker.py\<close>. \<open>ConversationsLaws\<close>: ownership, paging, replays, drafts, and what an answered
    message leaves behind, over both loops.
  \<^item> \<open>Adapters\<close>: \<open>provider/gemini_aistudio.py\<close>, \<open>provider/anthropic.py\<close>, \<open>provider/gemini_vertex.py\<close> and
    \<open>agent/conversation/assist.py\<close>, from the messages to the events; \<open>AdapterLaws\<close>: what the model loop gets
    from them. \<open>AuthApi\<close>: \<open>api/v1/auth.py\<close>.
  \<^item> \<open>Attachments\<close>: \<open>api/v1/attachments.py\<close>, \<open>attachments/storage.py\<close>, \<open>attachments/scanning.py\<close> and the scan job of
    \<open>worker.py\<close>, with the locale \<open>blob_storage\<close> for the protocol of the blob stores; its tables and blobs are
    kept beside the \<open>world\<close>. \<open>AttachmentLaws\<close>: the scanner's side of the protocol, and the invariant of the
    committed attachments.
  \<^item> \<open>Telemetry\<close>: \<open>logging.py\<close>, \<open>observability/tracing.py\<close>, the timer of \<open>observability/metrics.py\<close> and
    \<open>middleware/request_id.py\<close>; \<open>TelemetryLaws\<close>: no secret in a processed event, spans that change nothing
    and close in order. \<open>Shell\<close>: derived settings, error envelope, health report, tool discovery, voice.
  \<^item> \<open>GeminiCalls\<close>: the requests of the grounded search and of the arbitration, and which replies count as
    failures; it supplies the parameters of \<open>Research\<close> and \<open>Blend\<close>.
  \<^item> \<open>EvalQuality\<close>: \<open>evals/suggestion_quality/eval.py\<close>, the evaluation that masks the fields of known quotes and asks
    the fan-out for them; \<open>EvalLaws\<close>: its stub reads the context that the tool sends, a masked value has no
    influence on its prediction, and the counts of the report add up.

  \<^bold>\<open>Recursion and bounds.\<close> Retries of a request recurse on the retries left. The JSON reader is
  on fuel, the length of the text and two more, and every call consumes a character. The model loop ends by the
  measure of the steps its budget has left, of which every turn uses one. Substitution and
  \<open>str.replace\<close> recurse on the rest of the text. The fan-out of suggestions and of paid research
  are folds over the tasks; the concurrent reading of the budget is a step relation over their
  interleavings. The event stream is given the sequence of database states its polls see.

  \<^bold>\<open>Not modelled.\<close> Texts of pydantic's and the JSON decoder's error messages (empty here); the calls of tracing
  and logging inside the handlers, which change nothing (\<open>TelemetryLaws\<close>); Latin-1 stands for the full character set. SQL result orders
  that the query leaves open are resolved to the later row. Tasks under \<open>asyncio.gather\<close> run in
  order except where the budget race is the subject. The endpoints
  and SDKs behind the provider adapters, the disk, S3 and ClamAV behind the attachments, the defaults of the
  settings, the wiring of the application (\<open>main.py\<close>, \<open>db/session.py\<close>), the migrations and the generated
  contract models are I/O or declarations without decisions of their own. Of the evaluation harness
  (\<open>evals/\<close>) the report files, the replay of recorded conversations and the judge are not modelled.
\<close>

end
